(* ===== verification/Prelude.thy ===== *)
theory Prelude
  imports "HOL-Library.Word"
begin

unbundle bit_operations_syntax

text \<open>
  The integer types of \<^verbatim>\<open>config/types.h\<close>, byte-addressed memory as the packed structs of the
  program see it (little endian, as on the Cortex-M0), and the generic facts about both
  that every other theory of this development uses.

  A pointer into a buffer is an offset (a \<^typ>\<open>nat\<close>) into a \<open>mem\<close>, a total function
  from offsets to bytes: a read past the end of a message yields whatever byte lies
  there, as it does in the flat memory of the chip. That a routine stays inside its buffer
  is therefore a theorem (it leaves every other offset as it was), never an assumption.
\<close>

section \<open>Collections of simp rules\<close>

named_theorems layout_simps \<open>reading back the fields of a packed struct\<close>
named_theorems queue_simps \<open>the ring buffers\<close>
named_theorems frame_simps \<open>fields an operation leaves unchanged\<close>

section \<open>Integer types\<close>

type_synonym u8 = "8 word"
type_synonym u16 = "16 word"
type_synonym u32 = "32 word"
type_synonym u64 = "64 word"
type_synonym i8 = "8 word"
type_synonym i16 = "16 word"
type_synonym i32 = "32 word"

type_synonym networkID = u16
type_synonym nodeID = u16
type_synonym clusterID = u32
type_synonym clusterSIZE = i16

abbreviation bool_to_u8 :: "bool \<Rightarrow> u8" where
  "bool_to_u8 b \<equiv> (if b then 1 else 0)"

text \<open>The struct \<open>sizedData\<close>: a pointer with a length. The pointer of an empty result is never
  assigned by the code; \<^const>\<open>None\<close> stands for that indeterminate value.\<close>

record sizedData =
  sd_data :: "nat option"
  sd_length :: u16

section \<open>Words as numbers\<close>

lemma unat_bound: "unat (w :: 'a::len word) < 2 ^ LENGTH('a)"
  by (rule unsigned_less)

lemma unat_of_nat_small: "n < 2 ^ LENGTH('a) \<Longrightarrow> unat (of_nat n :: 'a::len word) = n"
  by (simp add: unsigned_of_nat take_bit_nat_eq_self)

lemma unat_add_small:
  "unat (a :: 'a::len word) + unat b < 2 ^ LENGTH('a) \<Longrightarrow> unat (a + b) = unat a + unat b"
  by (simp add: unat_word_ariths take_bit_nat_eq_self)

lemma unat_add1_small: "unat (a :: 'a::len word) + 1 < 2 ^ LENGTH('a) \<Longrightarrow> unat (a + 1) = unat a + 1"
  using unat_add_small [of a 1] by simp

lemma ucast_of_nat_small:
  "n < 2 ^ LENGTH('a) \<Longrightarrow> (ucast (of_nat n :: 'a::len word) :: 'b::len word) = of_nat n"
  by (metis unat_of_nat_small of_nat_unat)

lemma unat_0_iff: "unat (a :: 'a::len word) = 0 \<longleftrightarrow> a = 0"
  by (rule unsigned_eq_0_iff)

lemma sint_small: "unat (x :: 'a::len word) < 2 ^ (LENGTH('a) - 1) \<Longrightarrow> sint x = int (unat x)"
proof -
  assume u: "unat x < 2 ^ (LENGTH('a) - 1)"
  then have "int (unat x) < 2 ^ (LENGTH('a) - 1)" by (metis of_nat_less_iff of_nat_numeral of_nat_power)
  then have "signed_take_bit (LENGTH('a) - 1) (int (unat x)) = int (unat x)"
    by (intro signed_take_bit_int_eq_self) (rule order.trans [of _ 0], simp_all)
  then show ?thesis by (simp add: sint_uint)
qed

lemma unat_u8_bound: "unat (b :: u8) < 256"
  using unat_bound [of b] by simp

lemma unat_ucast_u8_u16 [simp]: "unat (ucast (b :: u8) :: u16) = unat b"
  by (simp add: unsigned_ucast_eq take_bit_nat_eq_self order.strict_trans2 [OF unat_u8_bound])

section \<open>Memory\<close>

type_synonym mem = "nat \<Rightarrow> u8"

text \<open>\<open>bytes_at m p n\<close> are the \<open>n\<close> bytes at \<open>p\<close>; \<open>store_bytes m p xs\<close> is \<^verbatim>\<open>memcpy\<close> of
  \<open>xs\<close> to \<open>p\<close>; \<open>shifted m p\<close> is the memory seen through the pointer \<open>p\<close>.\<close>

definition bytes_at :: "mem \<Rightarrow> nat \<Rightarrow> nat \<Rightarrow> u8 list" where
  "bytes_at m p n = map (\<lambda>i. m (p + i)) [0..<n]"

definition store_bytes :: "mem \<Rightarrow> nat \<Rightarrow> u8 list \<Rightarrow> mem" where
  "store_bytes m p xs = (\<lambda>i. if p \<le> i \<and> i < p + length xs then xs ! (i - p) else m i)"

definition shifted :: "mem \<Rightarrow> nat \<Rightarrow> mem" where
  "shifted m p = (\<lambda>i. m (p + i))"

definition mem_of :: "u8 list \<Rightarrow> mem \<Rightarrow> mem" where
  "mem_of xs rest = (\<lambda>i. if i < length xs then xs ! i else rest i)"

text \<open>Applying an update to the memory seen through a pointer.\<close>

definition at_off :: "nat \<Rightarrow> (mem \<Rightarrow> mem) \<Rightarrow> mem \<Rightarrow> mem" where
  "at_off p f m = (\<lambda>i. if i < p then m i else f (shifted m p) (i - p))"

lemma length_bytes_at [simp]: "length (bytes_at m p n) = n"
  by (simp add: bytes_at_def)

lemma nth_bytes_at [simp]: "i < n \<Longrightarrow> bytes_at m p n ! i = m (p + i)"
  by (simp add: bytes_at_def)

lemma bytes_at_0 [simp]: "bytes_at m p 0 = []"
  by (simp add: bytes_at_def)

lemma bytes_at_cong: "(\<And>i. i < n \<Longrightarrow> m (p + i) = m' (p' + i)) \<Longrightarrow> bytes_at m p n = bytes_at m' p' n"
  by (simp add: bytes_at_def)

lemma bytes_at_append: "bytes_at m p (a + b) = bytes_at m p a @ bytes_at m (p + a) b"
  by (rule nth_equalityI) (auto simp: nth_append)

lemma bytes_at_eq_iff: "bytes_at m p n = xs \<longleftrightarrow> length xs = n \<and> (\<forall>i<n. m (p + i) = xs ! i)"
  by (auto simp: list_eq_iff_nth_eq)

lemma store_bytes_inside [simp]: "p \<le> i \<Longrightarrow> i < p + length xs \<Longrightarrow> store_bytes m p xs i = xs ! (i - p)"
  by (simp add: store_bytes_def)

lemma store_bytes_below [simp]: "i < p \<Longrightarrow> store_bytes m p xs i = m i"
  by (simp add: store_bytes_def)

lemma store_bytes_above [simp]: "p + length xs \<le> i \<Longrightarrow> store_bytes m p xs i = m i"
  by (simp add: store_bytes_def)

lemma store_bytes_Nil [simp]: "store_bytes m p [] = m"
  by (rule ext) (auto simp: store_bytes_def)

lemma bytes_at_store_bytes [simp]: "bytes_at (store_bytes m p xs) p (length xs) = xs"
  by (rule nth_equalityI) simp_all

lemma shifted_apply [simp]: "shifted m p i = m (p + i)"
  by (simp add: shifted_def)

lemma bytes_at_shifted [simp]: "bytes_at (shifted m p) q n = bytes_at m (p + q) n"
  by (simp add: bytes_at_def add.assoc)

lemma at_off_below [simp]: "i < p \<Longrightarrow> at_off p f m i = m i"
  by (simp add: at_off_def)

lemma shifted_at_off [simp]: "shifted (at_off p f m) p = f (shifted m p)"
  by (rule ext) (simp add: at_off_def)

lemma at_off_apply: "p \<le> i \<Longrightarrow> at_off p f m i = f (shifted m p) (i - p)"
  by (simp add: at_off_def)

lemma mem_of_less [simp]: "i < length xs \<Longrightarrow> mem_of xs rest i = xs ! i"
  by (simp add: mem_of_def)

lemma mem_of_ge [simp]: "length xs \<le> i \<Longrightarrow> mem_of xs rest i = rest i"
  by (simp add: mem_of_def)

lemma bytes_at_mem_of [simp]: "bytes_at (mem_of xs rest) 0 (length xs) = xs"
  by (rule nth_equalityI) simp_all

section \<open>Multi-byte fields, little endian\<close>

definition get16 :: "nat \<Rightarrow> mem \<Rightarrow> u16" where
  "get16 p m = ucast (m p) OR push_bit 8 (ucast (m (p + 1)))"

definition put16 :: "nat \<Rightarrow> u16 \<Rightarrow> mem \<Rightarrow> mem" where
  "put16 p v m = m(p := ucast v, p + 1 := ucast (drop_bit 8 v))"

definition get32 :: "nat \<Rightarrow> mem \<Rightarrow> u32" where
  "get32 p m = ucast (m p) OR push_bit 8 (ucast (m (p + 1)))
     OR push_bit 16 (ucast (m (p + 2))) OR push_bit 24 (ucast (m (p + 3)))"

definition put32 :: "nat \<Rightarrow> u32 \<Rightarrow> mem \<Rightarrow> mem" where
  "put32 p v m = m(p := ucast v, p + 1 := ucast (drop_bit 8 v),
     p + 2 := ucast (drop_bit 16 v), p + 3 := ucast (drop_bit 24 v))"

definition get64 :: "nat \<Rightarrow> mem \<Rightarrow> u64" where
  "get64 p m = ucast (get32 p m) OR push_bit 32 (ucast (get32 (p + 4) m))"

definition put64 :: "nat \<Rightarrow> u64 \<Rightarrow> mem \<Rightarrow> mem" where
  "put64 p v m = put32 (p + 4) (ucast (drop_bit 32 v)) (put32 p (ucast v) m)"

lemma get16_put16 [simp, layout_simps]: "get16 p (put16 p v m) = v"
  by (rule bit_word_eqI)
    (auto simp: get16_def put16_def bit_simps)

lemma get32_put32 [simp, layout_simps]: "get32 p (put32 p v m) = v"
proof (rule bit_word_eqI)
  fix n assume "n < LENGTH(32)"
  then consider "n < 8" | "8 \<le> n \<and> n - 8 < 8" | "16 \<le> n \<and> n - 16 < 8" | "24 \<le> n \<and> n - 24 < 8"
    by fastforce
  then show "bit (get32 p (put32 p v m)) n \<longleftrightarrow> bit v n"
    by cases (auto simp: get32_def put32_def bit_simps)
qed

lemma get16_cong: "m p = m' q \<Longrightarrow> m (p + 1) = m' (q + 1) \<Longrightarrow> get16 p m = get16 q m'"
  by (simp add: get16_def)

lemma get32_cong:
  "m p = m' q \<Longrightarrow> m (p + 1) = m' (q + 1) \<Longrightarrow> m (p + 2) = m' (q + 2) \<Longrightarrow> m (p + 3) = m' (q + 3)
   \<Longrightarrow> get32 p m = get32 q m'"
  by (simp add: get32_def)

lemma put16_other [simp]: "i \<noteq> p \<Longrightarrow> i \<noteq> p + 1 \<Longrightarrow> put16 p v m i = m i"
  by (simp add: put16_def)

lemma put32_other [simp]: "i < p \<or> p + 4 \<le> i \<Longrightarrow> put32 p v m i = m i"
  by (auto simp: put32_def)

lemma get16_eq_0_iff: "get16 p m = 0 \<longleftrightarrow> m p = 0 \<and> m (p + 1) = 0"
proof -
  have "m p = 0 \<and> m (p + 1) = 0" if z: "get16 p m = 0"
  proof -
    have "bit (get16 p m) n = False" for n by (simp add: z)
    then have b: "bit (m p) n = False" "bit (m (p + 1)) n = False" if "n < 8" for n
      using that by (force simp: get16_def bit_simps dest: spec [of _ n], force simp: get16_def bit_simps dest: spec [of _ "n + 8"])
    then show ?thesis by (auto intro!: bit_word_eqI)
  qed
  then show ?thesis by (auto simp: get16_def)
qed

end
