(* ===== verification/Fifo.thy ===== *)
theory Fifo
  imports Prelude
begin

text \<open>
  The contract both ring buffers of the firmware (\<^verbatim>\<open>PacketQueue\<close>, \<^verbatim>\<open>SimpleQueue\<close>) are used
  under: a bounded FIFO of variable-length items. The locale \<open>bounded_fifo\<close> names the
  operations a client calls and the laws the provider owes; what every client gets from them
  (nothing lost, nothing duplicated, nothing reordered, no permanent refusal) is proved once
  inside it.
\<close>

section \<open>Histories of queue operations\<close>

text \<open>A history of calls: an attempt to enqueue an item, or the removal of the oldest one
  (which a client only does after it has seen one).\<close>

datatype 'a fifo_op = Enq 'a | Deq

text \<open>Runs a history, collecting the items that were accepted and those that were taken
  out, each in order.\<close>

fun fifo_run :: "('a \<Rightarrow> 's \<Rightarrow> 's \<times> bool) \<Rightarrow> ('s \<Rightarrow> 's \<times> 'a option) \<Rightarrow> ('s \<Rightarrow> 's) \<Rightarrow>
    'a fifo_op list \<Rightarrow> 's \<Rightarrow> 's \<times> 'a list \<times> 'a list" where
  "fifo_run put peek pop [] s = (s, [], [])"
| "fifo_run put peek pop (Enq x # ops) s =
     (let (s1, ok) = put x s; (s2, acc, out) = fifo_run put peek pop ops s1
      in (s2, (if ok then x # acc else acc), out))"
| "fifo_run put peek pop (Deq # ops) s =
     (case peek s of
        (s1, None) \<Rightarrow> fifo_run put peek pop ops s1
      | (s1, Some x) \<Rightarrow>
          let (s2, acc, out) = fifo_run put peek pop ops (pop s1) in (s2, acc, x # out))"

fun op_ok :: "('a \<Rightarrow> bool) \<Rightarrow> 'a fifo_op \<Rightarrow> bool" where
  "op_ok ok (Enq x) = ok x"
| "op_ok ok Deq = True"

section \<open>The contract\<close>

locale bounded_fifo =
  fixes rep :: "'s \<Rightarrow> 'a list \<Rightarrow> bool"
    and ok :: "'a \<Rightarrow> bool"
    and put :: "'a \<Rightarrow> 's \<Rightarrow> 's \<times> bool"
    and peek :: "'s \<Rightarrow> 's \<times> 'a option"
    and pop :: "'s \<Rightarrow> 's"
  assumes put_accept: "rep s xs \<Longrightarrow> ok x \<Longrightarrow> put x s = (s', True) \<Longrightarrow> rep s' (xs @ [x])"
    and put_reject: "rep s xs \<Longrightarrow> ok x \<Longrightarrow> put x s = (s', False) \<Longrightarrow> rep s' xs"
    and peek_empty: "rep s [] \<Longrightarrow> peek s = (s', r) \<Longrightarrow> r = None \<and> rep s' []"
    and peek_cons: "rep s (x # xs) \<Longrightarrow> peek s = (s', r) \<Longrightarrow>
      r = Some x \<and> rep s' (x # xs) \<and> rep (pop s') xs"
begin

lemma run_order:
  assumes "rep s xs" "list_all (op_ok ok) ops" "fifo_run put peek pop ops s = (s', acc, out)"
  shows "\<exists>ys. rep s' ys \<and> xs @ acc = out @ ys"
  using assms
proof (induction ops arbitrary: s xs s' acc out)
  case Nil
  then show ?case by auto
next
  case (Cons op ops)
  show ?case
  proof (cases op)
    case (Enq x)
    obtain s1 b where p: "put x s = (s1, b)" by fastforce
    obtain s2 acc2 out2 where r: "fifo_run put peek pop ops s1 = (s2, acc2, out2)"
      using prod_cases3 by blast
    from Cons.prems Enq p r
    have eq: "s' = s2" "out = out2" "acc = (if b then x # acc2 else acc2)" and "ok x"
      by auto
    have rp: "rep s1 (if b then xs @ [x] else xs)"
      using put_accept put_reject Cons.prems(1) \<open>ok x\<close> p by (cases b) auto
    from Cons.IH [OF rp _ r] Cons.prems(2) eq show ?thesis by (cases b) auto
  next
    case Deq
    obtain s1 r where p: "peek s = (s1, r)" by fastforce
    show ?thesis
    proof (cases xs)
      case Nil
      with p Cons.prems(1) peek_empty have "r = None" "rep s1 []" by auto
      with Cons.IH [of s1 "[]"] Cons.prems Deq p Nil show ?thesis by auto
    next
      case (Cons x zs)
      with p Cons.prems(1) peek_cons have r: "r = Some x" "rep (pop s1) zs" by auto
      obtain s2 acc2 out2 where f: "fifo_run put peek pop ops (pop s1) = (s2, acc2, out2)"
        using prod_cases3 by blast
      with Cons.prems Deq p r(1) have eq: "s' = s2" "acc = acc2" "out = x # out2" by auto
      from Cons.IH [OF r(2) _ f] Cons.prems(2) eq Cons show ?thesis by auto
    qed
  qed
qed

text \<open>Taking out as many items as are stored empties the queue and yields them in order.\<close>

lemma run_drain:
  assumes "rep s xs"
  shows "\<exists>s'. fifo_run put peek pop (replicate (length xs) Deq) s = (s', [], xs) \<and> rep s' []"
  using assms
proof (induction xs arbitrary: s)
  case Nil
  then show ?case by auto
next
  case (Cons x xs)
  obtain s1 r where p: "peek s = (s1, r)" by fastforce
  with Cons.prems peek_cons have r: "r = Some x" "rep (pop s1) xs" by auto
  from Cons.IH [OF r(2)] p r(1) show ?case by auto
qed

end

text \<open>A queue that never refuses an item of class \<open>small\<close> when it is empty.\<close>

locale live_fifo = bounded_fifo +
  fixes small :: "'b \<Rightarrow> bool"
  assumes small_ok: "small x \<Longrightarrow> ok x"
    and put_small: "rep s [] \<Longrightarrow> small x \<Longrightarrow> snd (put x s)"
begin

text \<open>No history wedges the queue: drained, it takes the next small item and hands it out.\<close>

lemma run_then_accepts:
  assumes "rep s xs" "list_all (op_ok ok) ops" "small x"
  shows "\<exists>n s' acc out. fifo_run put peek pop (ops @ replicate n Deq) s = (s', acc, out)
    \<and> xs @ acc = out \<and> snd (put x s') \<and> rep (fst (put x s')) [x]"
proof -
  have app: "fifo_run put peek pop (os @ os') t =
    (let (t1, a1, o1) = fifo_run put peek pop os t; (t2, a2, o2) = fifo_run put peek pop os' t1
     in (t2, a1 @ a2, o1 @ o2))" for os os' t
    by (induction os arbitrary: t rule: list.induct)
      (auto split: prod.splits option.splits, (case_tac x1; auto split: prod.splits option.splits)+)
  obtain s1 acc out where r: "fifo_run put peek pop ops s = (s1, acc, out)"
    using prod_cases3 by blast
  from run_order [OF assms(1,2) r] obtain ys where ys: "rep s1 ys" "xs @ acc = out @ ys" by auto
  from run_drain [OF ys(1)] obtain s2
    where d: "fifo_run put peek pop (replicate (length ys) Deq) s1 = (s2, [], ys)" "rep s2 []"
    by auto
  have "snd (put x s2)" by (rule put_small [OF d(2) assms(3)])
  moreover from this have "rep (fst (put x s2)) ([] @ [x])"
    by (intro put_accept [OF d(2) small_ok [OF assms(3)]]) (simp add: prod_eq_iff)
  moreover have "fifo_run put peek pop (ops @ replicate (length ys) Deq) s = (s2, acc, out @ ys)"
    using app r d(1) by simp
  ultimately show ?thesis using ys(2) by (intro exI conjI) (assumption | simp)+
qed

end

end
