(* ===== verification/Ring.thy ===== *)
theory Ring
  imports Fifo
begin

text \<open>
  The layout both ring buffers share: items of variable size behind each other, an end mark
  behind the newest one, and, once the writer has wrapped, an end mark behind the last item of
  the upper part. What one item and the end mark look like is the parameter of the locale.
\<close>

fun chain :: "(mem \<Rightarrow> nat \<Rightarrow> 'a \<Rightarrow> bool) \<Rightarrow> ('a \<Rightarrow> nat) \<Rightarrow> mem \<Rightarrow> nat \<Rightarrow> 'a list \<Rightarrow> nat \<Rightarrow> bool" where
  "chain item sz m p [] e \<longleftrightarrow> p = e"
| "chain item sz m p (x # xs) e \<longleftrightarrow> item m p x \<and> chain item sz m (p + sz x) xs e"

definition ring :: "(mem \<Rightarrow> nat \<Rightarrow> 'a \<Rightarrow> bool) \<Rightarrow> ('a \<Rightarrow> nat) \<Rightarrow> (mem \<Rightarrow> nat \<Rightarrow> bool) \<Rightarrow> nat \<Rightarrow>
    mem \<Rightarrow> nat \<Rightarrow> nat \<Rightarrow> nat \<Rightarrow> 'a list \<Rightarrow> bool" where
  "ring item sz mark k m L rp wp xs \<longleftrightarrow>
     mark m wp \<and> wp + k \<le> L \<and>
     (if rp \<le> wp then chain item sz m rp xs wp
      else \<exists>ys zs t. xs = ys @ zs \<and> zs \<noteq> [] \<and> t + k \<le> L \<and> mark m t \<and>
             chain item sz m rp ys t \<and> chain item sz m 0 zs wp)"

locale ring_layout =
  fixes item :: "mem \<Rightarrow> nat \<Rightarrow> 'a \<Rightarrow> bool"
    and sz :: "'a \<Rightarrow> nat"
    and mark :: "mem \<Rightarrow> nat \<Rightarrow> bool"
    and k :: nat
  assumes item_cong: "item m p x \<Longrightarrow> (\<And>i. p \<le> i \<Longrightarrow> i < p + sz x \<Longrightarrow> m' i = m i) \<Longrightarrow> item m' p x"
    and mark_cong: "mark m p \<Longrightarrow> (\<And>i. p \<le> i \<Longrightarrow> i < p + k \<Longrightarrow> m' i = m i) \<Longrightarrow> mark m' p"
    and item_not_mark: "item m p x \<Longrightarrow> \<not> mark m p"
    and sz_pos: "item m p x \<Longrightarrow> 2 \<le> sz x"
    and mark_pos: "1 \<le> k"
begin

lemma chain_le: "chain item sz m p xs e \<Longrightarrow> p + 2 * length xs \<le> e"
proof (induction xs arbitrary: p)
  case (Cons x xs)
  then have "2 \<le> sz x" "p + sz x + 2 * length xs \<le> e" using sz_pos by auto
  then show ?case by simp
qed simp

lemma chain_cong:
  "chain item sz m p xs e \<Longrightarrow> (\<And>i. p \<le> i \<Longrightarrow> i < e \<Longrightarrow> m' i = m i) \<Longrightarrow> chain item sz m' p xs e"
proof (induction xs arbitrary: p)
  case (Cons x xs)
  then have c: "chain item sz m (p + sz x) xs e" and i: "item m p x" by simp_all
  from chain_le [OF c] have le: "p + sz x \<le> e" by simp
  have "item m' p x"
    by (rule item_cong [OF i]) (use le Cons.prems(2) in simp)
  moreover have "chain item sz m' (p + sz x) xs e"
    by (rule Cons.IH [OF c]) (use Cons.prems(2) in simp)
  ultimately show ?case by simp
qed simp

lemma chain_append: "chain item sz m p (xs @ ys) e \<longleftrightarrow> (\<exists>t. chain item sz m p xs t \<and> chain item sz m t ys e)"
  by (induction xs arbitrary: p) auto

lemma chain_snoc:
  assumes "chain item sz m p xs e" "item m' e x" "\<And>i. p \<le> i \<Longrightarrow> i < e \<Longrightarrow> m' i = m i"
  shows "chain item sz m' p (xs @ [x]) (e + sz x)"
  using assms(2) chain_cong [OF assms(1,3)] by (auto simp: chain_append)

lemma ring_cases [consumes 1, case_names straight wrapped]:
  assumes "ring item sz mark k m L rp wp xs"
  obtains "rp \<le> wp" "chain item sz m rp xs wp" "mark m wp" "wp + k \<le> L"
  | ys zs t where "wp < rp" "xs = ys @ zs" "zs \<noteq> []" "t + k \<le> L" "mark m t"
      "chain item sz m rp ys t" "chain item sz m 0 zs wp" "mark m wp" "wp + k \<le> L"
  using assms unfolding ring_def by (metis not_le)

lemma ring_straightI:
  "rp \<le> wp \<Longrightarrow> chain item sz m rp xs wp \<Longrightarrow> mark m wp \<Longrightarrow> wp + k \<le> L \<Longrightarrow>
   ring item sz mark k m L rp wp xs"
  by (simp add: ring_def)

lemma ring_wrappedI:
  "wp < rp \<Longrightarrow> chain item sz m rp ys t \<Longrightarrow> chain item sz m 0 zs wp \<Longrightarrow> zs \<noteq> [] \<Longrightarrow>
   mark m t \<Longrightarrow> t + k \<le> L \<Longrightarrow> mark m wp \<Longrightarrow> ring item sz mark k m L rp wp (ys @ zs)"
  unfolding ring_def by (auto simp: not_le dest: chain_le)

lemma ring_length:
  assumes "ring item sz mark k m L rp wp xs" shows "2 * length xs < 2 * L"
  using assms mark_pos by (cases rule: ring_cases) (auto dest!: chain_le)

lemma ring_bounds:
  assumes "ring item sz mark k m L rp wp xs" shows "wp + k \<le> L" "rp + k \<le> L"
  using assms by (cases rule: ring_cases; auto dest!: chain_le)+

lemma chain_sum: "chain item sz m p xs e \<Longrightarrow> p + sum_list (map sz xs) = e"
  by (induction xs arbitrary: p) (auto simp: add.assoc [symmetric])

lemma ring_total:
  assumes "ring item sz mark k m L rp wp xs" shows "sum_list (map sz xs) + k \<le> L"
  using assms
proof (cases rule: ring_cases)
  case straight
  then show ?thesis using chain_sum [OF straight(2)] by simp
next
  case (wrapped ys zs t)
  then show ?thesis using chain_sum [OF wrapped(6)] chain_sum [OF wrapped(7)] by simp
qed

lemma ring_empty_pointers:
  assumes "ring item sz mark k m L rp wp []" shows "rp = wp"
  using assms by (cases rule: ring_cases) auto

text \<open>An item is written behind the newest one: nothing below the write pointer and nothing
  behind the new end mark changes, and the new mark ends before the reader (or the buffer's end).\<close>

lemma ring_append:
  assumes r: "ring item sz mark k m L rp wp xs" and it: "item m' wp x" and mk: "mark m' (wp + sz x)"
    and frame: "\<And>i. i < wp \<or> wp + sz x + k \<le> i \<Longrightarrow> m' i = m i"
    and room: "wp + sz x + k \<le> (if rp \<le> wp then L else rp)"
  shows "ring item sz mark k m' L rp (wp + sz x) (xs @ [x])"
  using r
proof (cases rule: ring_cases)
  case straight
  have "chain item sz m' rp (xs @ [x]) (wp + sz x)"
    by (rule chain_snoc [OF straight(2) it]) (simp add: frame)
  with straight mk room show ?thesis by (intro ring_straightI) auto
next
  case (wrapped ys zs t)
  have le: "rp \<le> t" using chain_le [OF wrapped(6)] by simp
  have lt: "wp + sz x + k \<le> rp" using room wrapped(1) by simp
  have "chain item sz m' 0 (zs @ [x]) (wp + sz x)"
    by (rule chain_snoc [OF wrapped(7) it]) (simp add: frame)
  moreover have "chain item sz m' rp ys t"
    using chain_cong [OF wrapped(6), of m'] frame lt by simp
  moreover have "mark m' t"
    by (rule mark_cong [OF wrapped(5)]) (use frame lt le in simp)
  ultimately have "ring item sz mark k m' L rp (wp + sz x) (ys @ (zs @ [x]))"
    using mk lt mark_pos wrapped(4) by (intro ring_wrappedI) auto
  then show ?thesis by (simp add: wrapped(2))
qed

text \<open>The writer wraps: the item goes to the start of the buffer, its mark ends before the
  reader.\<close>

lemma ring_wrap:
  assumes r: "ring item sz mark k m L rp wp xs" and le: "rp \<le> wp"
    and it: "item m' 0 x" and mk: "mark m' (sz x)"
    and frame: "\<And>i. sz x + k \<le> i \<Longrightarrow> m' i = m i" and room: "sz x + k \<le> rp"
  shows "ring item sz mark k m' L rp (sz x) (xs @ [x])"
  using r
proof (cases rule: ring_cases)
  case straight
  show ?thesis
  proof (rule ring_wrappedI [where t = wp])
    show "chain item sz m' rp xs wp"
      by (rule chain_cong [OF straight(2)]) (use room frame in simp)
    show "mark m' wp" by (rule mark_cong [OF straight(3)]) (use room frame le in simp)
  qed (use room mark_pos it mk straight in simp_all)
next
  case wrapped
  with le show ?thesis by simp
qed

text \<open>The reader stands on the oldest item, or on an end mark with the oldest item at the
  start of the buffer.\<close>

lemma ring_front:
  assumes "ring item sz mark k m L rp wp (x # xs)"
  defines "rp' \<equiv> (if mark m rp \<and> wp < rp then 0 else rp)"
  shows "item m rp' x \<and> ring item sz mark k m L rp' wp (x # xs)"
  using assms(1)
proof (cases rule: ring_cases)
  case straight
  then show ?thesis using assms(1) by (auto simp: rp'_def)
next
  case (wrapped ys zs t)
  show ?thesis
  proof (cases ys)
    case Nil
    with wrapped have "rp' = 0" "chain item sz m 0 (x # xs) wp" by (auto simp: rp'_def)
    moreover from this have "item m 0 x" by simp
    ultimately show ?thesis using wrapped by (simp add: ring_straightI)
  next
    case (Cons y ys')
    with wrapped have "item m rp x" by auto
    with item_not_mark have "rp' = rp" by (auto simp: rp'_def)
    with \<open>item m rp x\<close> assms(1) show ?thesis by simp
  qed
qed

lemma ring_pop:
  assumes "ring item sz mark k m L rp wp (x # xs)" "item m rp x"
  shows "ring item sz mark k m L (rp + sz x) wp xs"
  using assms(1)
proof (cases rule: ring_cases)
  case straight
  then show ?thesis by (auto intro!: ring_straightI dest: chain_le)
next
  case (wrapped ys zs t)
  have "ys \<noteq> []" using wrapped(5,6) item_not_mark [OF assms(2)] by (cases ys) auto
  then obtain ys' where ys: "ys = x # ys'" "xs = ys' @ zs" using wrapped(2) by (cases ys) auto
  with wrapped show ?thesis by (auto intro!: ring_wrappedI)
qed

text \<open>The oldest item is edited in place.\<close>

lemma ring_edit_front:
  assumes r: "ring item sz mark k m L rp wp (x # xs)" and it: "item m rp x" "item m' rp x'" "sz x' = sz x"
    and frame: "\<And>i. i < rp \<or> rp + sz x \<le> i \<Longrightarrow> m' i = m i"
    and apart: "wp < rp \<Longrightarrow> wp + k \<le> rp"
  shows "ring item sz mark k m' L rp wp (x' # xs)"
  using r
proof (cases rule: ring_cases)
  case straight
  then have c: "chain item sz m (rp + sz x) xs wp" by simp
  from chain_le [OF c] have "rp + sz x \<le> wp" by simp
  moreover have "mark m' wp"
    by (rule mark_cong [OF straight(3)]) (use calculation frame in simp)
  moreover have "chain item sz m' (rp + sz x) xs wp" by (rule chain_cong [OF c]) (simp add: frame)
  ultimately show ?thesis using it straight by (intro ring_straightI) simp_all
next
  case (wrapped ys zs t)
  have "ys \<noteq> []" using wrapped(5,6) item_not_mark [OF it(1)] by (cases ys) auto
  then obtain ys' where ys: "ys = x # ys'" "xs = ys' @ zs" using wrapped(2) by (cases ys) auto
  then have c: "chain item sz m (rp + sz x) ys' t" using wrapped(6) by simp
  from chain_le [OF c] have le: "rp + sz x \<le> t" by simp
  have "mark m' t" by (rule mark_cong [OF wrapped(5)]) (use le frame in simp)
  moreover have "mark m' wp"
    by (rule mark_cong [OF wrapped(8)]) (use frame apart wrapped(1) in simp)
  moreover have "chain item sz m' (rp + sz x) ys' t" by (rule chain_cong [OF c]) (simp add: frame)
  moreover have "chain item sz m' 0 zs wp"
    by (rule chain_cong [OF wrapped(7)]) (use frame wrapped(1) in simp)
  ultimately have "ring item sz mark k m' L rp wp ((x' # ys') @ zs)"
    using it wrapped by (intro ring_wrappedI) simp_all
  then show ?thesis by (simp add: ys)
qed

end

end
