(* ===== verification/PacketQueue.thy ===== *)
theory PacketQueue
  imports Ring
begin

text \<open>
  \<^verbatim>\<open>inc/PacketQueue.h\<close>, \<^verbatim>\<open>src/utility/PacketQueue.cpp\<close>: the ring buffer every connection keeps
  its outgoing packets in. An item is a length byte (payload plus one), a reliable flag and
  the payload; a zero length byte marks the point where the reader has to wrap.

  Pointers are offsets from \<open>bufferStart\<close> into \<open>pq_mem\<close>. The mutex calls are left out: their
  result is only logged, and the model runs one operation at a time.
\<close>

section \<open>The code\<close>

record PacketQueue =
  pq_mem :: mem
  pq_bufferEnd :: nat
  pq_bufferLength :: u16
  pq_readPointer :: nat
  pq_writePointer :: nat
  pq_numElements :: u16

definition pq_init :: "mem \<Rightarrow> u16 \<Rightarrow> PacketQueue" where
  "pq_init buffer len =
     \<lparr>pq_mem = buffer(0 := 0), pq_bufferEnd = unat len, pq_bufferLength = len,
      pq_readPointer = 0, pq_writePointer = 0, pq_numElements = 0\<rparr>"

text \<open>The tail of \<open>Put\<close>, once the place of the new item is settled.\<close>

definition pq_write :: "mem \<Rightarrow> u8 \<Rightarrow> bool \<Rightarrow> PacketQueue \<Rightarrow> PacketQueue" where
  "pq_write data dataLength reliable q =
     (let wp = pq_writePointer q; n = unat dataLength;
          m1 = (pq_mem q)(wp := dataLength + 1);
          m2 = m1(wp + 1 := bool_to_u8 reliable);
          m3 = store_bytes m2 (wp + 2) (bytes_at data 0 n);
          wp' = wp + n + 2
      in q\<lparr>pq_mem := m3(wp' := 0), pq_writePointer := wp', pq_numElements := pq_numElements q + 1\<rparr>)"

definition pq_Put :: "mem \<Rightarrow> u8 \<Rightarrow> bool \<Rightarrow> PacketQueue \<Rightarrow> PacketQueue \<times> bool" where
  "pq_Put data dataLength reliable q =
     (let elementSize = unat (dataLength + 1 + 1 + 1);
          rp = pq_readPointer q; wp = pq_writePointer q; be = pq_bufferEnd q
      in if rp \<le> wp \<and> int be - int wp \<le> int elementSize \<and> elementSize \<le> rp
         then (pq_write data dataLength reliable
                 (q\<lparr>pq_writePointer := 0, pq_mem := (pq_mem q)(0 := 0)\<rparr>), True)
         else if rp \<le> wp \<and> be \<le> wp + elementSize then (q, False)
         else if wp < rp \<and> rp \<le> wp + elementSize then (q, False)
         else (pq_write data dataLength reliable q, True))"

definition pq_PeekNext :: "PacketQueue \<Rightarrow> PacketQueue \<times> sizedData" where
  "pq_PeekNext q =
     (if pq_numElements q = 0 then (q, \<lparr>sd_data = None, sd_length = 0\<rparr>)
      else let q' = (if pq_mem q (pq_readPointer q) = 0 \<and> pq_writePointer q < pq_readPointer q
                     then q\<lparr>pq_readPointer := 0\<rparr> else q)
           in (q', \<lparr>sd_data = Some (pq_readPointer q' + 1),
                    sd_length = ucast (pq_mem q' (pq_readPointer q'))\<rparr>))"

definition pq_DiscardNext :: "PacketQueue \<Rightarrow> PacketQueue" where
  "pq_DiscardNext q =
     q\<lparr>pq_readPointer := pq_readPointer q + unat (pq_mem q (pq_readPointer q)) + 1,
       pq_numElements := pq_numElements q - 1\<rparr>"

definition pq_Clean :: "PacketQueue \<Rightarrow> PacketQueue" where
  "pq_Clean q = q\<lparr>pq_numElements := 0, pq_readPointer := 0, pq_writePointer := 0,
     pq_mem := (pq_mem q)(0 := 0)\<rparr>"

section \<open>What the buffer holds\<close>

text \<open>An item is the reliable flag with the payload, at most 252 bytes: the size computed in
  \<open>Put\<close> is a \<open>u8\<close> and wraps beyond that.\<close>

type_synonym packet = "bool \<times> u8 list"

definition pq_fits :: "packet \<Rightarrow> bool" where
  "pq_fits x \<longleftrightarrow> length (snd x) \<le> 252"

definition pq_item_at :: "mem \<Rightarrow> nat \<Rightarrow> packet \<Rightarrow> bool" where
  "pq_item_at m p x \<longleftrightarrow> pq_fits x \<and> m p = of_nat (length (snd x) + 1) \<and> m (p + 1) = bool_to_u8 (fst x)
     \<and> bytes_at m (p + 2) (length (snd x)) = snd x"

definition pq_size :: "packet \<Rightarrow> nat" where
  "pq_size x = length (snd x) + 2"

definition pq_mark :: "mem \<Rightarrow> nat \<Rightarrow> bool" where
  "pq_mark m p \<longleftrightarrow> m p = 0"

abbreviation pq_ring :: "mem \<Rightarrow> nat \<Rightarrow> nat \<Rightarrow> nat \<Rightarrow> packet list \<Rightarrow> bool" where
  "pq_ring \<equiv> ring pq_item_at pq_size pq_mark (Suc 0)"

definition pq_rep :: "PacketQueue \<Rightarrow> packet list \<Rightarrow> bool" where
  "pq_rep q xs \<longleftrightarrow>
     unat (pq_bufferLength q) = pq_bufferEnd q \<and> pq_numElements q = of_nat (length xs) \<and>
     pq_ring (pq_mem q) (pq_bufferEnd q) (pq_readPointer q) (pq_writePointer q) xs"

lemma pq_item_at_length:
  assumes "pq_item_at m p x"
  shows "m p \<noteq> 0" "unat (m p) = length (snd x) + 1"
proof -
  from assms have "length (snd x) + 1 < 256" and e: "m p = of_nat (length (snd x) + 1)"
    by (simp_all add: pq_item_at_def pq_fits_def)
  then show u: "unat (m p) = length (snd x) + 1" unfolding e by (subst unat_of_nat_small) simp_all
  then show "m p \<noteq> 0" by (metis unat_0 add_is_0 one_neq_zero)
qed

lemma pq_item_at_cong:
  assumes "pq_item_at m p x" "\<And>i. p \<le> i \<Longrightarrow> i < p + pq_size x \<Longrightarrow> m' i = m i"
  shows "pq_item_at m' p x"
proof -
  have "bytes_at m' (p + 2) (length (snd x)) = bytes_at m (p + 2) (length (snd x))"
    by (rule bytes_at_cong) (use assms(2) in \<open>simp add: pq_size_def\<close>)
  with assms show ?thesis by (simp add: pq_item_at_def pq_size_def)
qed

interpretation pq_layout: ring_layout pq_item_at pq_size pq_mark "Suc 0"
  by unfold_locales
    (auto simp: pq_mark_def pq_size_def pq_item_at_length intro: pq_item_at_cong)

lemma pq_repI:
  "unat (pq_bufferLength q) = pq_bufferEnd q \<Longrightarrow> pq_numElements q = of_nat (length xs) \<Longrightarrow>
   pq_ring (pq_mem q) (pq_bufferEnd q) (pq_readPointer q) (pq_writePointer q) xs \<Longrightarrow> pq_rep q xs"
  unfolding pq_rep_def by blast

lemma pq_repD:
  assumes "pq_rep q xs"
  shows "unat (pq_bufferLength q) = pq_bufferEnd q" "pq_numElements q = of_nat (length xs)"
    "pq_ring (pq_mem q) (pq_bufferEnd q) (pq_readPointer q) (pq_writePointer q) xs"
  using assms unfolding pq_rep_def by blast+

lemma pq_rep_length: "pq_rep q xs \<Longrightarrow> length xs < 2 ^ 16"
  using unat_bound [of "pq_bufferLength q"] pq_layout.ring_length [OF pq_repD(3), of q xs] pq_repD(1) [of q xs]
  by simp

lemma pq_rep_numElements_0: "pq_rep q xs \<Longrightarrow> pq_numElements q = 0 \<longleftrightarrow> xs = []"
proof -
  assume r: "pq_rep q xs"
  from pq_rep_length [OF r] have "unat (of_nat (length xs) :: u16) = length xs"
    by (intro unat_of_nat_small) simp
  with r show ?thesis by (auto simp: pq_rep_def unat_0_iff)
qed

lemma pq_rep_bounds:
  assumes "pq_rep q xs" shows "pq_readPointer q < pq_bufferEnd q" "pq_writePointer q < pq_bufferEnd q"
  using assms pq_layout.ring_bounds by (fastforce simp: pq_rep_def)+

section \<open>Writing an item\<close>

lemma pq_write_fields [simp]:
  "pq_bufferEnd (pq_write data d r q) = pq_bufferEnd q"
  "pq_bufferLength (pq_write data d r q) = pq_bufferLength q"
  "pq_readPointer (pq_write data d r q) = pq_readPointer q"
  "pq_writePointer (pq_write data d r q) = pq_writePointer q + unat d + 2"
  "pq_numElements (pq_write data d r q) = pq_numElements q + 1"
  by (simp_all add: pq_write_def Let_def)

lemma pq_write_frame:
  "i < pq_writePointer q \<or> pq_writePointer q + unat d + 2 < i \<Longrightarrow>
   pq_mem (pq_write data d r q) i = pq_mem q i"
  by (auto simp: pq_write_def Let_def)

lemma pq_write_end [simp]: "pq_mem (pq_write data d r q) (pq_writePointer q + unat d + 2) = 0"
  by (simp add: pq_write_def Let_def)

lemma pq_write_item:
  assumes "unat d \<le> 252"
  shows "pq_item_at (pq_mem (pq_write data d r q)) (pq_writePointer q) (r, bytes_at data 0 (unat d))"
proof -
  have "of_nat (unat d + 1) = d + 1" by simp
  then show ?thesis
    using assms by (auto simp: pq_item_at_def pq_fits_def pq_write_def Let_def bytes_at_eq_iff)
qed

lemma pq_element_size: "unat d \<le> 252 \<Longrightarrow> unat (d + 1 + 1 + 1 :: u8) = unat d + 3"
  using unat_add_small [of d 3] by (simp add: add.assoc)

lemma pq_Put_eq:
  assumes "unat d \<le> 252"
  shows "pq_Put data d r q =
    (if pq_readPointer q \<le> pq_writePointer q \<and> pq_bufferEnd q \<le> pq_writePointer q + (unat d + 3)
        \<and> unat d + 3 \<le> pq_readPointer q
     then (pq_write data d r (q\<lparr>pq_writePointer := 0, pq_mem := (pq_mem q)(0 := 0)\<rparr>), True)
     else if pq_readPointer q \<le> pq_writePointer q \<and> pq_bufferEnd q \<le> pq_writePointer q + (unat d + 3)
          \<or> pq_writePointer q < pq_readPointer q \<and> pq_readPointer q \<le> pq_writePointer q + (unat d + 3)
     then (q, False)
     else (pq_write data d r q, True))"
proof -
  have e: "int (pq_bufferEnd q) - int (pq_writePointer q) \<le> int (unat d + 3) \<longleftrightarrow>
      pq_bufferEnd q \<le> pq_writePointer q + (unat d + 3)"
    by linarith
  have m: "(if A then X else if B then Y else if C then Y else Z) =
      (if A then X else if B \<or> C then Y else Z)" for A B C and X Y Z :: "PacketQueue \<times> bool"
    by simp
  show ?thesis
    by (simp only: pq_Put_def pq_element_size [OF assms] Let_def e m)
qed

lemma pq_Put_cases [consumes 2, case_names wrap refuse append]:
  assumes d: "unat d \<le> 252" and put: "pq_Put data d r q = (q', b)"
  obtains "pq_readPointer q \<le> pq_writePointer q" "pq_bufferEnd q \<le> pq_writePointer q + (unat d + 3)"
      "unat d + 3 \<le> pq_readPointer q" "b"
      "q' = pq_write data d r (q\<lparr>pq_writePointer := 0, pq_mem := (pq_mem q)(0 := 0)\<rparr>)"
  | "\<not> b" "q' = q" "pq_readPointer q \<le> pq_writePointer q \<Longrightarrow>
        pq_readPointer q < unat d + 3 \<and> pq_bufferEnd q \<le> pq_writePointer q + (unat d + 3)"
  | "b" "q' = pq_write data d r q"
      "pq_readPointer q \<le> pq_writePointer q \<Longrightarrow> pq_writePointer q + (unat d + 3) < pq_bufferEnd q"
      "pq_writePointer q < pq_readPointer q \<Longrightarrow> pq_writePointer q + (unat d + 3) < pq_readPointer q"
proof -
  let ?A = "pq_readPointer q \<le> pq_writePointer q \<and> pq_bufferEnd q \<le> pq_writePointer q + (unat d + 3)"
  let ?B = "pq_writePointer q < pq_readPointer q \<and> pq_readPointer q \<le> pq_writePointer q + (unat d + 3)"
  note eq = put [unfolded pq_Put_eq [OF d]]
  show thesis
  proof (cases "?A \<and> unat d + 3 \<le> pq_readPointer q")
    case True
    with eq show ?thesis by (intro that(1)) simp_all
  next
    case no_wrap: False
    show ?thesis
    proof (cases "?A \<or> ?B")
      case True
      with eq no_wrap show ?thesis by (intro that(2)) auto
    next
      case False
      with eq no_wrap show ?thesis by (intro that(3)) auto
    qed
  qed
qed

section \<open>The laws of the contract\<close>

lemma pq_Put_accept:
  assumes rep: "pq_rep q xs" and d: "unat d \<le> 252" and put: "pq_Put data d r q = (q', True)"
  shows "pq_rep q' (xs @ [(r, bytes_at data 0 (unat d))])" (is "pq_rep q' (xs @ [?x])")
proof -
  note ring = pq_repD(3) [OF rep]
  note bd = pq_rep_bounds [OF rep]
  have sz: "pq_size ?x = unat d + 2" by (simp add: pq_size_def)
  from d put have "pq_ring (pq_mem q') (pq_bufferEnd q) (pq_readPointer q') (pq_writePointer q') (xs @ [?x])
      \<and> pq_bufferEnd q' = pq_bufferEnd q \<and> pq_bufferLength q' = pq_bufferLength q
      \<and> pq_numElements q' = pq_numElements q + 1"
  proof (cases rule: pq_Put_cases)
    case wrap
    let ?q = "q\<lparr>pq_writePointer := 0, pq_mem := (pq_mem q)(0 := 0)\<rparr>"
    have "pq_ring (pq_mem q') (pq_bufferEnd q) (pq_readPointer q) (pq_size ?x) (xs @ [?x])"
      using wrap pq_write_item [OF d, of data r ?q] pq_write_end [of data d r ?q]
        pq_write_frame [of _ ?q d data r]
      by (intro pq_layout.ring_wrap [OF ring]) (simp_all add: sz pq_mark_def)
    with wrap show ?thesis by (simp add: sz)
  next
    case append
    have "pq_ring (pq_mem q') (pq_bufferEnd q) (pq_readPointer q) (pq_writePointer q + pq_size ?x) (xs @ [?x])"
      using append pq_write_item [OF d, of data r q] pq_write_end [of data d r q]
        pq_write_frame [of _ q d data r]
      by (intro pq_layout.ring_append [OF ring]) (auto simp: sz pq_mark_def)
    with append show ?thesis by (simp add: sz)
  qed simp
  with pq_repD(1,2) [OF rep] show ?thesis by (intro pq_repI) simp_all
qed

lemma pq_Put_reject:
  "unat d \<le> 252 \<Longrightarrow> pq_Put data d r q = (q', False) \<Longrightarrow> q' = q"
  by (erule (1) pq_Put_cases) auto

lemma pq_PeekNext_empty: "pq_rep q [] \<Longrightarrow> pq_PeekNext q = (q, \<lparr>sd_data = None, sd_length = 0\<rparr>)"
  by (simp add: pq_PeekNext_def pq_rep_numElements_0)

text \<open>After \<open>PeekNext\<close> on a non-empty queue the reader stands on the oldest item.\<close>

lemma pq_PeekNext_front:
  assumes "pq_rep q (x # xs)" "pq_PeekNext q = (q', s)"
  shows "pq_rep q' (x # xs)" "pq_item_at (pq_mem q') (pq_readPointer q') x"
    "s = \<lparr>sd_data = Some (pq_readPointer q' + 1), sd_length = of_nat (length (snd x) + 1)\<rparr>"
proof -
  have ne: "pq_numElements q \<noteq> 0" using assms(1) pq_rep_numElements_0 by blast
  let ?rp = "if pq_mark (pq_mem q) (pq_readPointer q) \<and> pq_writePointer q < pq_readPointer q
    then 0 else pq_readPointer q"
  have q': "q' = q\<lparr>pq_readPointer := ?rp\<rparr>"
    "s = \<lparr>sd_data = Some (pq_readPointer q' + 1), sd_length = ucast (pq_mem q' (pq_readPointer q'))\<rparr>"
    using assms(2) ne by (auto simp: pq_PeekNext_def Let_def pq_mark_def)
  note front = pq_layout.ring_front [OF pq_repD(3) [OF assms(1)]]
  show "pq_rep q' (x # xs)"
    using front pq_repD(1,2) [OF assms(1)] unfolding q'(1) by (intro pq_repI) simp_all
  have item: "pq_item_at (pq_mem q') (pq_readPointer q') x" using front unfolding q'(1) by simp
  then show "pq_item_at (pq_mem q') (pq_readPointer q') x" .
  have "ucast (pq_mem q' (pq_readPointer q')) = (of_nat (length (snd x) + 1) :: u16)"
    using item by (simp only: pq_item_at_def pq_fits_def) (rule ucast_of_nat_small, simp)
  with q'(2) show "s = \<lparr>sd_data = Some (pq_readPointer q' + 1),
      sd_length = of_nat (length (snd x) + 1)\<rparr>" by simp
qed

lemma pq_DiscardNext_fields [simp]:
  "pq_mem (pq_DiscardNext q) = pq_mem q"
  "pq_bufferEnd (pq_DiscardNext q) = pq_bufferEnd q"
  "pq_bufferLength (pq_DiscardNext q) = pq_bufferLength q"
  "pq_writePointer (pq_DiscardNext q) = pq_writePointer q"
  by (simp_all add: pq_DiscardNext_def)

lemma pq_DiscardNext_rep:
  assumes "pq_rep q (x # xs)" "pq_item_at (pq_mem q) (pq_readPointer q) x"
  shows "pq_rep (pq_DiscardNext q) xs"
proof -
  have "pq_readPointer (pq_DiscardNext q) = pq_readPointer q + pq_size x"
    using pq_item_at_length(2) [OF assms(2)] by (simp add: pq_DiscardNext_def pq_size_def)
  moreover have "pq_numElements (pq_DiscardNext q) = of_nat (length xs)"
    using assms(1) by (simp add: pq_DiscardNext_def pq_rep_def)
  ultimately show ?thesis
    using pq_layout.ring_pop [OF pq_repD(3) [OF assms(1)] assms(2)] pq_repD(1) [OF assms(1)]
    by (intro pq_repI) simp_all
qed

text \<open>The sender edits the payload of the oldest item where it lies.\<close>

lemma pq_edit_front:
  assumes rep: "pq_rep q ((r, bs) # xs)" and it: "pq_item_at (pq_mem q) (pq_readPointer q) (r, bs)"
    and len: "length bs' = length bs" and bs': "bytes_at m' (pq_readPointer q + 2) (length bs) = bs'"
    and frame: "\<And>i. i < pq_readPointer q + 2 \<or> pq_readPointer q + 2 + length bs \<le> i \<Longrightarrow> m' i = pq_mem q i"
  shows "pq_rep (q\<lparr>pq_mem := m'\<rparr>) ((r, bs') # xs)"
    and "pq_item_at m' (pq_readPointer q) (r, bs')"
proof -
  show it': "pq_item_at m' (pq_readPointer q) (r, bs')"
    using it len bs' frame [of "pq_readPointer q"] frame [of "pq_readPointer q + 1"]
    by (simp add: pq_item_at_def pq_fits_def)
  have "pq_ring m' (pq_bufferEnd q) (pq_readPointer q) (pq_writePointer q) ((r, bs') # xs)"
    by (rule pq_layout.ring_edit_front [OF pq_repD(3) [OF rep] it it'])
      (use len frame in \<open>auto simp: pq_size_def\<close>)
  then show "pq_rep (q\<lparr>pq_mem := m'\<rparr>) ((r, bs') # xs)"
    using pq_repD(1,2) [OF rep] by (intro pq_repI) simp_all
qed

section \<open>The interface the connections use\<close>

text \<open>\<open>pq_put\<close> is \<open>Put\<close> on a list of bytes, \<open>pq_peek\<close> is \<open>PeekNext\<close> with the item it points
  to decoded (the flag byte, then \<open>length - 1\<close> bytes), \<open>pq_DiscardNext\<close> removes it.\<close>

definition pq_put :: "packet \<Rightarrow> PacketQueue \<Rightarrow> PacketQueue \<times> bool" where
  "pq_put x q = pq_Put (mem_of (snd x) (\<lambda>_. 0)) (of_nat (length (snd x))) (fst x) q"

definition pq_item :: "PacketQueue \<Rightarrow> sizedData \<Rightarrow> packet option" where
  "pq_item q s =
     (case sd_data s of None \<Rightarrow> None
      | Some p \<Rightarrow> Some (pq_mem q p \<noteq> 0, bytes_at (pq_mem q) (p + 1) (unat (sd_length s) - 1)))"

definition pq_peek :: "PacketQueue \<Rightarrow> PacketQueue \<times> packet option" where
  "pq_peek q = (let (q', s) = pq_PeekNext q in (q', pq_item q' s))"

definition pq_small :: "packet \<Rightarrow> bool" where
  "pq_small x \<longleftrightarrow> length (snd x) \<le> 252"

text \<open>The buffers the connections hand out have 600 bytes (\<^verbatim>\<open>PACKET_SEND_BUFFER_SIZE\<close>).\<close>

definition pq_live_rep :: "PacketQueue \<Rightarrow> packet list \<Rightarrow> bool" where
  "pq_live_rep q xs \<longleftrightarrow> pq_rep q xs \<and> 510 \<le> pq_bufferEnd q"

lemma pq_put_data:
  "pq_fits x \<Longrightarrow> unat (of_nat (length (snd x)) :: u8) = length (snd x)"
  by (simp add: pq_fits_def unat_of_nat_small)

lemma pq_put_accept: "pq_rep q xs \<Longrightarrow> pq_fits x \<Longrightarrow> pq_put x q = (q', True) \<Longrightarrow> pq_rep q' (xs @ [x])"
  unfolding pq_put_def by (drule (1) pq_Put_accept [rotated 2]) (auto simp: pq_put_data pq_fits_def)

lemma pq_put_reject: "pq_fits x \<Longrightarrow> pq_put x q = (q', False) \<Longrightarrow> q' = q"
  unfolding pq_put_def by (rule pq_Put_reject [rotated]) (auto simp: pq_put_data pq_fits_def)

lemma pq_item_at:
  assumes "pq_item_at (pq_mem q) p x"
  shows "pq_item q \<lparr>sd_data = Some (p + 1), sd_length = of_nat (length (snd x) + 1)\<rparr> = Some x"
proof -
  have "unat (of_nat (length (snd x) + 1) :: u16) = length (snd x) + 1"
    using assms by (intro unat_of_nat_small) (simp add: pq_item_at_def pq_fits_def)
  with assms show ?thesis by (cases x) (auto simp: pq_item_def pq_item_at_def)
qed

lemma pq_bufferEnd_Put: "pq_put x q = (q', b) \<Longrightarrow> pq_bufferEnd q' = pq_bufferEnd q"
  by (auto simp: pq_put_def pq_Put_def Let_def split: if_splits)

lemma pq_bufferEnd_Peek: "pq_PeekNext q = (q', s) \<Longrightarrow> pq_bufferEnd q' = pq_bufferEnd q"
  by (auto simp: pq_PeekNext_def Let_def split: if_splits)

lemma pq_put_small:
  assumes "pq_rep q []" "510 \<le> pq_bufferEnd q" "pq_fits x"
  shows "snd (pq_put x q)"
proof (rule ccontr)
  assume "\<not> snd (pq_put x q)"
  then obtain q' where p: "pq_put x q = (q', False)" by (metis prod.collapse)
  have u: "unat (of_nat (length (snd x)) :: u8) \<le> 252"
    using pq_put_data [OF assms(3)] assms(3) by (simp add: pq_fits_def)
  from assms(1) have eq: "pq_readPointer q = pq_writePointer q"
    by (rule pq_layout.ring_empty_pointers [OF pq_repD(3)])
  from u p show False unfolding pq_put_def
    by (cases rule: pq_Put_cases) (use eq u assms(2) in auto)
qed

interpretation pq: live_fifo pq_live_rep pq_fits pq_put pq_peek pq_DiscardNext pq_small
proof unfold_locales
  fix q q' :: PacketQueue and x :: packet and xs s
  show "pq_live_rep q xs \<Longrightarrow> pq_fits x \<Longrightarrow> pq_put x q = (q', True) \<Longrightarrow> pq_live_rep q' (xs @ [x])"
    by (auto simp: pq_live_rep_def pq_bufferEnd_Put intro: pq_put_accept)
  show "pq_live_rep q xs \<Longrightarrow> pq_fits x \<Longrightarrow> pq_put x q = (q', False) \<Longrightarrow> pq_live_rep q' xs"
    by (drule (1) pq_put_reject) simp
  show "pq_live_rep q [] \<Longrightarrow> pq_peek q = (q', s) \<Longrightarrow> s = None \<and> pq_live_rep q' []"
    by (auto simp: pq_live_rep_def pq_peek_def pq_PeekNext_empty pq_item_def)
  show "pq_small x \<Longrightarrow> pq_fits x" by (simp add: pq_small_def pq_fits_def)
  show "pq_live_rep q [] \<Longrightarrow> pq_small x \<Longrightarrow> snd (pq_put x q)"
    by (auto simp: pq_live_rep_def pq_small_def pq_fits_def intro: pq_put_small)
  assume r: "pq_live_rep q (x # xs)" and p: "pq_peek q = (q', s)"
  then obtain sd where sd: "pq_PeekNext q = (q', sd)" "s = pq_item q' sd"
    by (auto simp: pq_peek_def split: prod.splits)
  from r have r': "pq_rep q (x # xs)" by (simp add: pq_live_rep_def)
  note f = pq_PeekNext_front [OF r' sd(1)]
  from f pq_item_at [OF f(2)] pq_DiscardNext_rep [OF f(1,2)] pq_bufferEnd_Peek [OF sd(1)] r sd
  show "s = Some x \<and> pq_live_rep q' (x # xs) \<and> pq_live_rep (pq_DiscardNext q') xs"
    by (auto simp: pq_live_rep_def pq_DiscardNext_def)
qed

lemma pq_empty_rep:
  "unat (pq_bufferLength q) = pq_bufferEnd q \<Longrightarrow> 0 < pq_bufferEnd q \<Longrightarrow> pq_numElements q = 0 \<Longrightarrow>
   pq_readPointer q = 0 \<Longrightarrow> pq_writePointer q = 0 \<Longrightarrow> pq_mem q 0 = 0 \<Longrightarrow> pq_rep q []"
  by (simp add: pq_rep_def ring_def pq_mark_def)

lemma pq_init_rep: "0 < len \<Longrightarrow> pq_rep (pq_init buffer len) []"
  by (rule pq_empty_rep) (simp_all add: pq_init_def word_less_nat_alt)

lemma pq_Clean_rep:
  "unat (pq_bufferLength q) = pq_bufferEnd q \<Longrightarrow> 0 < pq_bufferEnd q \<Longrightarrow> pq_rep (pq_Clean q) []"
  by (rule pq_empty_rep) (simp_all add: pq_Clean_def)

section \<open>Properties\<close>

text \<open>C1: The packet queue is a FIFO. Whatever is put into a fresh queue and taken out of it,
  in any interleaving of \<open>Put\<close>s (of payloads up to 252 bytes, accepted or refused) and
  \<open>PeekNext\<close>/\<open>DiscardNext\<close> pairs, the packets taken out followed by those still stored are
  exactly the accepted ones, flag and payload, in the order they were accepted.\<close>

theorem packet_queue_fifo:
  assumes "510 \<le> len" "list_all (op_ok pq_fits) ops"
    "fifo_run pq_put pq_peek pq_DiscardNext ops (pq_init buffer len) = (q, acc, out)"
  shows "\<exists>ys. pq_rep q ys \<and> acc = out @ ys"
proof -
  have "pq_live_rep (pq_init buffer len) []"
    using assms(1) pq_init_rep [of len buffer]
    by (auto simp: pq_live_rep_def pq_init_def word_less_nat_alt word_le_nat_alt)
  from pq.run_order [OF this assms(2,3)] show ?thesis by (auto simp: pq_live_rep_def)
qed

text \<open>The hypotheses of C1 hold on a concrete run: two packets in, one out.\<close>

lemma packet_queue_fifo_witness:
  "\<exists>q ys. fifo_run pq_put pq_peek pq_DiscardNext [Enq (True, [7, 8]), Enq (False, [9]), Deq]
      (pq_init (\<lambda>_. 0) 600) = (q, [(True, [7, 8]), (False, [9])], [(True, [7, 8])])
    \<and> pq_rep q ys \<and> [(True, [7, 8]), (False, [9])] = [(True, [7, 8])] @ ys"
proof -
  let ?ops = "[Enq (True, [7, 8]), Enq (False, [9]), Deq] :: packet fifo_op list"
  let ?r = "fifo_run pq_put pq_peek pq_DiscardNext ?ops (pq_init (\<lambda>_. 0) 600)"
  have r: "snd ?r = ([(True, [7, 8]), (False, [9])], [(True, [7, 8])])"
    by code_simp
  then obtain q where q: "?r = (q, [(True, [7, 8]), (False, [9])], [(True, [7, 8])])"
    by (metis prod.collapse)
  from packet_queue_fifo [OF _ _ q] have "\<exists>ys. pq_rep q ys \<and> [(True, [7, 8]), (False, [9])] = [(True, [7, 8])] @ ys"
    by (simp add: pq_fits_def)
  with q show ?thesis by blast
qed

text \<open>Every byte \<open>Put\<close> touches lies inside the buffer the queue was given.\<close>

lemma pq_Put_frame:
  assumes "pq_rep q xs" "unat d \<le> 252" "pq_bufferEnd q \<le> i"
  shows "pq_mem (fst (pq_Put data d r q)) i = pq_mem q i"
proof -
  obtain q' b where p: "pq_Put data d r q = (q', b)" by fastforce
  note bd = pq_rep_bounds [OF assms(1)]
  from assms(2) p have "pq_mem q' i = pq_mem q i"
  proof (cases rule: pq_Put_cases)
    case wrap
    then show ?thesis
      using pq_write_frame [of i "q\<lparr>pq_writePointer := 0, pq_mem := (pq_mem q)(0 := 0)\<rparr>" d data r]
        bd assms(3) by simp
  next
    case append
    then have "pq_writePointer q + unat d + 2 < i"
      using bd assms(3) by (cases "pq_readPointer q \<le> pq_writePointer q") auto
    with append show ?thesis using pq_write_frame [of i q d data r] by simp
  qed simp
  with p show ?thesis by simp
qed



text \<open>C24: The queue never wedges: after any history, taking out what is stored empties it,
  and then every packet up to 252 bytes is accepted and is the only one stored.\<close>

theorem packet_queue_never_wedges:
  assumes "510 \<le> len" "list_all (op_ok pq_fits) ops" "pq_small x"
  shows "\<exists>n q acc. fifo_run pq_put pq_peek pq_DiscardNext (ops @ replicate n Deq)
      (pq_init buffer len) = (q, acc, acc) \<and> snd (pq_put x q) \<and> pq_rep (fst (pq_put x q)) [x]"
proof -
  have "pq_live_rep (pq_init buffer len) []"
    using assms(1) pq_init_rep [of len buffer]
    by (auto simp: pq_live_rep_def pq_init_def word_less_nat_alt word_le_nat_alt)
  from pq.run_then_accepts [OF this assms(2,3)] show ?thesis
    unfolding pq_live_rep_def by fastforce
qed

lemma packet_queue_never_wedges_witness:
  "\<exists>n q acc. fifo_run pq_put pq_peek pq_DiscardNext ([Enq (True, [1])] @ replicate n Deq)
      (pq_init (\<lambda>_. 0) 600) = (q, acc, acc) \<and> snd (pq_put (True, replicate 200 3) q)
      \<and> pq_rep (fst (pq_put (True, replicate 200 3) q)) [(True, replicate 200 3)]"
  by (rule packet_queue_never_wedges) (simp_all add: pq_fits_def pq_small_def)

text \<open>\<open>Put\<close> keeps the size of an element in a \<open>u8\<close>. For a payload of 253 bytes it wraps to
  zero, the capacity test compares with zero, and a queue of 100 bytes accepts the packet and
  writes 255 bytes, behind the end of its buffer.\<close>

lemma packet_queue_oversized_overflow:
  "\<exists>q. pq_Put (\<lambda>_. 5) 253 True (pq_init (\<lambda>_. 0) 100) = (q, True) \<and> pq_mem q 200 = 5
     \<and> pq_bufferEnd q < pq_writePointer q"
proof -
  let ?r = "pq_Put (\<lambda>_. 5) 253 True (pq_init (\<lambda>_. 0) 100)"
  have "snd ?r \<and> pq_mem (fst ?r) 200 = 5 \<and> pq_bufferEnd (fst ?r) < pq_writePointer (fst ?r)"
    by code_simp
  then show ?thesis by (metis prod.collapse)
qed

end
