(* ===== verification/SimpleQueue.thy ===== *)
theory SimpleQueue
  imports Ring
begin

text \<open>
  \<^verbatim>\<open>inc/SimpleQueue.h\<close>, \<^verbatim>\<open>src/utility/SimpleQueue.cpp\<close>: the ring buffer the flash storage keeps
  its pending operations in. An item is a four byte size and the payload; a zero size marks
  the point where the reader has to wrap.

  Pointers are offsets from \<open>bufferStart\<close>. The model reads and writes sizes at any offset; the
  Cortex-M0 faults on an unaligned one, which the alignment invariant below excludes.
\<close>

section \<open>The code\<close>

record SimpleQueue =
  sq_mem :: mem
  sq_bufferEnd :: nat
  sq_bufferLength :: u16
  sq_readPointer :: nat
  sq_writePointer :: nat
  sq_numElements :: u16

definition sq_init :: "mem \<Rightarrow> u32 \<Rightarrow> SimpleQueue" where
  "sq_init buffer len =
     \<lparr>sq_mem = put32 0 0 buffer, sq_bufferEnd = unat len, sq_bufferLength = ucast len,
      sq_readPointer = 0, sq_writePointer = 0, sq_numElements = 0\<rparr>"

definition sq_write :: "mem \<Rightarrow> u32 \<Rightarrow> SimpleQueue \<Rightarrow> SimpleQueue" where
  "sq_write data dataLength q =
     (let wp = sq_writePointer q; n = unat dataLength;
          m1 = put32 wp dataLength (sq_mem q);
          m2 = store_bytes m1 (wp + 4) (bytes_at data 0 n);
          wp' = wp + n + 4
      in q\<lparr>sq_mem := put32 wp' 0 m2, sq_writePointer := wp', sq_numElements := sq_numElements q + 1\<rparr>)"

definition sq_Put :: "mem \<Rightarrow> u32 \<Rightarrow> SimpleQueue \<Rightarrow> SimpleQueue \<times> bool" where
  "sq_Put data dataLength q =
     (let elementSize = dataLength + 4 + 1; n = unat elementSize;
          rp = sq_readPointer q; wp = sq_writePointer q; be = sq_bufferEnd q
      in if rp \<le> wp \<and> word_of_int (int be - int wp) \<le> elementSize \<and> elementSize \<le> of_nat rp
         then (sq_write data dataLength
                 (q\<lparr>sq_writePointer := 0, sq_mem := put32 0 0 (sq_mem q)\<rparr>), True)
         else if rp \<le> wp \<and> be \<le> wp + n then (q, False)
         else if wp < rp \<and> rp \<le> wp + n then (q, False)
         else (sq_write data dataLength q, True))"

text \<open>Whether the reader stands on the wrap mark.\<close>

definition sq_wraps :: "SimpleQueue \<Rightarrow> bool" where
  "sq_wraps q \<longleftrightarrow> get32 (sq_readPointer q) (sq_mem q) = 0 \<and> sq_writePointer q < sq_readPointer q"

definition sq_PeekNext :: "SimpleQueue \<Rightarrow> sizedData" where
  "sq_PeekNext q =
     (if sq_numElements q = 0 then \<lparr>sd_data = None, sd_length = 0\<rparr>
      else if sq_wraps q
      then \<lparr>sd_data = Some 4, sd_length = ucast (get32 0 (sq_mem q))\<rparr>
      else \<lparr>sd_data = Some (sq_readPointer q + 4), sd_length = ucast (get32 (sq_readPointer q) (sq_mem q))\<rparr>)"

definition sq_GetNext :: "SimpleQueue \<Rightarrow> SimpleQueue \<times> sizedData" where
  "sq_GetNext q =
     (if sq_numElements q = 0 then (q, \<lparr>sd_data = None, sd_length = 0\<rparr>)
      else let rp = (if sq_wraps q then 0 else sq_readPointer q);
               len = (ucast (get32 rp (sq_mem q)) :: u16)
           in (q\<lparr>sq_readPointer := rp + unat len + 4, sq_numElements := sq_numElements q - 1\<rparr>,
               \<lparr>sd_data = Some (rp + 4), sd_length = len\<rparr>))"

definition sq_DiscardNext :: "SimpleQueue \<Rightarrow> SimpleQueue" where
  "sq_DiscardNext q =
     (if sq_numElements q = 0 then q
      else let rp = (if sq_wraps q then 0 else sq_readPointer q)
           in q\<lparr>sq_readPointer := rp + unat (get32 rp (sq_mem q) + 4),
                sq_numElements := sq_numElements q - 1\<rparr>)"

definition sq_Clean :: "SimpleQueue \<Rightarrow> SimpleQueue" where
  "sq_Clean q = q\<lparr>sq_numElements := 0, sq_readPointer := 0, sq_writePointer := 0,
     sq_mem := put32 0 0 (sq_mem q)\<rparr>"

section \<open>What the buffer holds\<close>

text \<open>The items the queue handles: word-aligned, not empty (a zero size is the wrap mark), and
  short enough for the 16-bit length it hands out.\<close>

definition sq_fits :: "u8 list \<Rightarrow> bool" where
  "sq_fits x \<longleftrightarrow> 0 < length x \<and> 4 dvd length x \<and> length x \<le> 65532"

definition sq_item_at :: "mem \<Rightarrow> nat \<Rightarrow> u8 list \<Rightarrow> bool" where
  "sq_item_at m p x \<longleftrightarrow> sq_fits x \<and> get32 p m = of_nat (length x) \<and> bytes_at m (p + 4) (length x) = x"

definition sq_size :: "u8 list \<Rightarrow> nat" where
  "sq_size x = length x + 4"

definition sq_mark :: "mem \<Rightarrow> nat \<Rightarrow> bool" where
  "sq_mark m p \<longleftrightarrow> get32 p m = 0"

abbreviation sq_ring :: "mem \<Rightarrow> nat \<Rightarrow> nat \<Rightarrow> nat \<Rightarrow> u8 list list \<Rightarrow> bool" where
  "sq_ring \<equiv> ring sq_item_at sq_size sq_mark 4"

definition sq_rep :: "SimpleQueue \<Rightarrow> u8 list list \<Rightarrow> bool" where
  "sq_rep q xs \<longleftrightarrow>
     unat (sq_bufferLength q) = sq_bufferEnd q \<and> 4 dvd sq_bufferEnd q \<and>
     4 dvd sq_readPointer q \<and> 4 dvd sq_writePointer q \<and> sq_numElements q = of_nat (length xs) \<and>
     sq_ring (sq_mem q) (sq_bufferEnd q) (sq_readPointer q) (sq_writePointer q) xs"

lemma sq_rep_intro:
  "unat (sq_bufferLength q) = sq_bufferEnd q \<Longrightarrow> 4 dvd sq_bufferEnd q \<Longrightarrow>
   4 dvd sq_readPointer q \<Longrightarrow> 4 dvd sq_writePointer q \<Longrightarrow> sq_numElements q = of_nat (length xs) \<Longrightarrow>
   sq_ring (sq_mem q) (sq_bufferEnd q) (sq_readPointer q) (sq_writePointer q) xs \<Longrightarrow> sq_rep q xs"
  unfolding sq_rep_def by blast

lemma sq_repD:
  assumes "sq_rep q xs"
  shows "unat (sq_bufferLength q) = sq_bufferEnd q" "4 dvd sq_bufferEnd q"
    "4 dvd sq_readPointer q" "4 dvd sq_writePointer q" "sq_numElements q = of_nat (length xs)"
    "sq_ring (sq_mem q) (sq_bufferEnd q) (sq_readPointer q) (sq_writePointer q) xs"
  using assms unfolding sq_rep_def by blast+

lemma sq_item_at_length:
  assumes "sq_item_at m p x"
  shows "get32 p m \<noteq> 0" "unat (get32 p m) = length x" "ucast (get32 p m) = (of_nat (length x) :: u16)"
proof -
  from assms have l: "0 < length x" "length x \<le> 65532" and e: "get32 p m = of_nat (length x)"
    by (simp_all add: sq_item_at_def sq_fits_def)
  then show u: "unat (get32 p m) = length x" unfolding e by (subst unat_of_nat_small) simp_all
  then show "get32 p m \<noteq> 0" using l by auto
  show "ucast (get32 p m) = (of_nat (length x) :: u16)"
    unfolding e using l by (intro ucast_of_nat_small) simp
qed

lemma sq_item_at_cong:
  assumes "sq_item_at m p x" "\<And>i. p \<le> i \<Longrightarrow> i < p + sq_size x \<Longrightarrow> m' i = m i"
  shows "sq_item_at m' p x"
proof -
  have "bytes_at m' (p + 4) (length x) = bytes_at m (p + 4) (length x)"
    by (rule bytes_at_cong) (use assms(2) in \<open>simp add: sq_size_def\<close>)
  moreover have "get32 p m' = get32 p m"
    by (rule get32_cong) (use assms(2) in \<open>simp_all add: sq_size_def\<close>)
  ultimately show ?thesis using assms(1) by (simp add: sq_item_at_def)
qed

interpretation sq_layout: ring_layout sq_item_at sq_size sq_mark 4
proof unfold_locales
  fix m m' :: mem and p x
  show "sq_mark m p \<Longrightarrow> (\<And>i. p \<le> i \<Longrightarrow> i < p + 4 \<Longrightarrow> m' i = m i) \<Longrightarrow> sq_mark m' p"
    unfolding sq_mark_def by (subst get32_cong [of m' p m p]) simp_all
  show "sq_item_at m p x \<Longrightarrow> \<not> sq_mark m p" by (simp add: sq_mark_def sq_item_at_length)
  show "sq_item_at m p x \<Longrightarrow> 2 \<le> sq_size x" by (simp add: sq_size_def)
qed (auto intro: sq_item_at_cong)

lemma sq_rep_numElements_0: "sq_rep q xs \<Longrightarrow> sq_numElements q = 0 \<longleftrightarrow> xs = []"
proof -
  assume r: "sq_rep q xs"
  from sq_layout.ring_length [OF sq_repD(6) [OF r]] sq_repD(1) [OF r]
  have "length xs < 2 ^ 16" using unat_bound [of "sq_bufferLength q"] by simp
  then have "unat (of_nat (length xs) :: u16) = length xs" by (intro unat_of_nat_small) simp
  with sq_repD(5) [OF r] show ?thesis by (auto simp: unat_0_iff)
qed

section \<open>Writing an item\<close>

lemma sq_write_fields [simp]:
  "sq_bufferEnd (sq_write data d q) = sq_bufferEnd q"
  "sq_bufferLength (sq_write data d q) = sq_bufferLength q"
  "sq_readPointer (sq_write data d q) = sq_readPointer q"
  "sq_writePointer (sq_write data d q) = sq_writePointer q + unat d + 4"
  "sq_numElements (sq_write data d q) = sq_numElements q + 1"
  by (simp_all add: sq_write_def Let_def)

lemma sq_write_frame:
  "i < sq_writePointer q \<or> sq_writePointer q + unat d + 8 \<le> i \<Longrightarrow>
   sq_mem (sq_write data d q) i = sq_mem q i"
  by (auto simp: sq_write_def Let_def)

lemma sq_write_mark: "sq_mark (sq_mem (sq_write data d q)) (sq_writePointer q + unat d + 4)"
  by (simp add: sq_write_def Let_def sq_mark_def)

lemma sq_write_item:
  assumes "sq_fits (bytes_at data 0 (unat d))"
  shows "sq_item_at (sq_mem (sq_write data d q)) (sq_writePointer q) (bytes_at data 0 (unat d))"
proof -
  let ?wp = "sq_writePointer q"
  let ?m = "store_bytes (put32 ?wp d (sq_mem q)) (?wp + 4) (bytes_at data 0 (unat d))"
  let ?m' = "put32 (?wp + unat d + 4) 0 ?m"
  have "get32 ?wp ?m' = get32 ?wp (put32 ?wp d (sq_mem q))"
    by (rule get32_cong) simp_all
  moreover have "bytes_at ?m' (?wp + 4) (unat d) = bytes_at data 0 (unat d)"
    by (simp add: bytes_at_eq_iff)
  ultimately show ?thesis
    using assms by (simp add: sq_item_at_def sq_write_def Let_def)
qed

section \<open>The laws of the contract\<close>

lemma sq_element_size: "unat d \<le> 65532 \<Longrightarrow> unat (d + 4 + 1 :: u32) = unat d + 5"
  using unat_add_small [of d 5] by (simp add: add.assoc)

text \<open>The capacity tests, with everything aligned: the five bytes the code reserves beyond the
  payload are then as good as the eight it uses.\<close>

lemma aligned_room: "4 dvd a \<Longrightarrow> 4 dvd b \<Longrightarrow> a \<le> b + 5 \<longleftrightarrow> a < b + (8 :: nat)"
  by presburger

lemma aligned_room': "4 dvd a \<Longrightarrow> 4 dvd b \<Longrightarrow> b + 5 \<le> a \<longleftrightarrow> b + 8 \<le> (a :: nat)"
  by presburger

lemma sq_Put_eq:
  assumes r: "sq_rep q xs" and d: "sq_fits (bytes_at data 0 (unat d))"
  shows "sq_Put data d q =
    (if sq_readPointer q \<le> sq_writePointer q \<and> sq_bufferEnd q < sq_writePointer q + unat d + 8
        \<and> unat d + 8 \<le> sq_readPointer q
     then (sq_write data d (q\<lparr>sq_writePointer := 0, sq_mem := put32 0 0 (sq_mem q)\<rparr>), True)
     else if sq_writePointer q + unat d + 8
             \<le> (if sq_readPointer q \<le> sq_writePointer q then sq_bufferEnd q else sq_readPointer q)
     then (sq_write data d q, True)
     else (q, False))"
proof -
  note bd = sq_layout.ring_bounds [OF sq_repD(6) [OF r]] and al = sq_repD(2,3,4) [OF r]
  have dl: "0 < unat d" "4 dvd unat d" "unat d \<le> 65532" using d by (simp_all add: sq_fits_def)
  let ?e = "d + 4 + 1 :: u32"
  let ?rp = "sq_readPointer q" and ?wp = "sq_writePointer q" and ?be = "sq_bufferEnd q"
  note e = sq_element_size [OF dl(3)]
  have lim: "?be < 2 ^ 16" using unat_bound [of "sq_bufferLength q"] sq_repD(1) [OF r] by simp
  have "unat (word_of_int (int ?be - int ?wp) :: u32) = ?be - ?wp"
  proof -
    have "int ?be - int ?wp = int (?be - ?wp)" using bd by simp
    then have "(word_of_int (int ?be - int ?wp) :: u32) = of_nat (?be - ?wp)"
      by (simp only: of_int_of_nat_eq)
    moreover have "unat (of_nat (?be - ?wp) :: u32) = ?be - ?wp"
      using lim by (intro unat_of_nat_small) simp
    ultimately show ?thesis by (simp only:)
  qed
  then have "(word_of_int (int ?be - int ?wp) :: u32) \<le> ?e \<longleftrightarrow> ?be - ?wp \<le> unat d + 5"
    by (simp only: word_le_nat_alt e)
  also have "\<dots> \<longleftrightarrow> ?be \<le> (?wp + unat d) + 5" using bd by linarith
  also have "\<dots> \<longleftrightarrow> ?be < (?wp + unat d) + 8" using al dl(2) by (intro aligned_room) simp_all
  finally have c1: "(word_of_int (int ?be - int ?wp) :: u32) \<le> ?e \<longleftrightarrow> ?be < ?wp + unat d + 8" .
  have "unat (of_nat ?rp :: u32) = ?rp" using lim bd by (intro unat_of_nat_small) simp
  then have "?e \<le> of_nat ?rp \<longleftrightarrow> unat d + 5 \<le> ?rp" by (simp only: word_le_nat_alt e)
  also have "\<dots> \<longleftrightarrow> unat d + 8 \<le> ?rp" using al dl(2) by (intro aligned_room')
  finally have c2: "?e \<le> of_nat ?rp \<longleftrightarrow> unat d + 8 \<le> ?rp" .
  have c3: "?be \<le> ?wp + (unat d + 5) \<longleftrightarrow> ?be < ?wp + unat d + 8"
    using aligned_room [of ?be "?wp + unat d"] al dl(2) by (simp add: add.assoc)
  have c4: "?rp \<le> ?wp + (unat d + 5) \<longleftrightarrow> ?rp < ?wp + unat d + 8"
    using aligned_room [of ?rp "?wp + unat d"] al dl(2) by (simp add: add.assoc)
  have c5: "?wp < ?rp \<longleftrightarrow> \<not> ?rp \<le> ?wp" by auto
  have c6: "?wp + unat d + 8 \<le> (if ?rp \<le> ?wp then ?be else ?rp) \<longleftrightarrow>
      (if ?rp \<le> ?wp then \<not> ?be < ?wp + unat d + 8 else \<not> ?rp < ?wp + unat d + 8)"
    by auto
  have m: "(if A \<and> B \<and> Y then W else if A \<and> B then R else if \<not> A \<and> C then R else P) =
      (if A \<and> B \<and> Y then W else if (if A then \<not> B else \<not> C) then P else R)"
    for A B C Y and W R P :: "SimpleQueue \<times> bool"
    by simp
  show ?thesis
    by (simp only: sq_Put_def Let_def e c1 c2 c3 c4 c5 c6 m)
qed

lemma sq_Put_accept:
  assumes rep: "sq_rep q xs" and d: "sq_fits (bytes_at data 0 (unat d))"
    and put: "sq_Put data d q = (q', True)"
  shows "sq_rep q' (xs @ [bytes_at data 0 (unat d)])" (is "sq_rep q' (xs @ [?x])")
proof -
  note ring = sq_repD(6) [OF rep]
  have sz: "sq_size ?x = unat d + 4" by (simp add: sq_size_def)
  have dl: "4 dvd unat d" using d by (simp add: sq_fits_def)
  let ?rp = "sq_readPointer q" and ?wp = "sq_writePointer q" and ?be = "sq_bufferEnd q"
  let ?q = "q\<lparr>sq_writePointer := 0, sq_mem := put32 0 0 (sq_mem q)\<rparr>"
  consider (wrap) "?rp \<le> ?wp" "unat d + 8 \<le> ?rp" "q' = sq_write data d ?q"
    | (append) "?wp + unat d + 8 \<le> (if ?rp \<le> ?wp then ?be else ?rp)" "q' = sq_write data d q"
    using put sq_Put_eq [OF rep d] by (auto split: if_splits)
  then have "sq_ring (sq_mem q') ?be ?rp (sq_writePointer q') (xs @ [?x])
      \<and> 4 dvd sq_writePointer q' \<and> sq_readPointer q' = ?rp \<and> sq_bufferEnd q' = ?be
      \<and> sq_bufferLength q' = sq_bufferLength q \<and> sq_numElements q' = sq_numElements q + 1"
  proof cases
    case wrap
    have "sq_ring (sq_mem q') ?be ?rp (sq_size ?x) (xs @ [?x])"
      using wrap sq_write_item [OF d, of ?q] sq_write_mark [of data d ?q] sq_write_frame [of _ ?q d data]
      by (intro sq_layout.ring_wrap [OF ring]) (simp_all add: sz)
    with wrap dl show ?thesis by (simp add: sz)
  next
    case append
    have "sq_ring (sq_mem q') ?be ?rp (?wp + sq_size ?x) (xs @ [?x])"
      using append sq_write_item [OF d, of q] sq_write_mark [of data d q] sq_write_frame [of _ q d data]
      by (intro sq_layout.ring_append [OF ring]) (auto simp: sz add.assoc)
    with append dl sq_repD(4) [OF rep] show ?thesis by (simp add: sz add.assoc)
  qed
  with sq_repD(1,2,3,5) [OF rep] show ?thesis by (intro sq_rep_intro) simp_all
qed

lemma sq_Put_reject:
  "sq_rep q xs \<Longrightarrow> sq_fits (bytes_at data 0 (unat d)) \<Longrightarrow> sq_Put data d q = (q', False) \<Longrightarrow> q' = q"
  by (simp add: sq_Put_eq split: if_splits)

text \<open>Where the oldest item lies.\<close>

lemma sq_front:
  assumes "sq_rep q (x # xs)"
  defines "rp \<equiv> (if sq_wraps q then 0 else sq_readPointer q)"
  shows "sq_item_at (sq_mem q) rp x" "sq_rep (q\<lparr>sq_readPointer := rp\<rparr>) (x # xs)" "4 dvd rp"
proof -
  note r = sq_repD [OF assms(1)]
  show "4 dvd rp" using r(3) by (simp add: rp_def)
  have "rp = (if sq_mark (sq_mem q) (sq_readPointer q) \<and> sq_writePointer q < sq_readPointer q
    then 0 else sq_readPointer q)"
    by (simp add: rp_def sq_wraps_def sq_mark_def)
  with sq_layout.ring_front [OF r(6)]
  have f: "sq_item_at (sq_mem q) rp x" "sq_ring (sq_mem q) (sq_bufferEnd q) rp (sq_writePointer q) (x # xs)"
    by simp_all
  show "sq_item_at (sq_mem q) rp x" by (rule f)
  show "sq_rep (q\<lparr>sq_readPointer := rp\<rparr>) (x # xs)"
    using f(2) r \<open>4 dvd rp\<close> by (intro sq_rep_intro) simp_all
qed

lemma sq_PeekNext_front:
  assumes "sq_rep q (x # xs)"
  defines "rp \<equiv> (if sq_wraps q then 0 else sq_readPointer q)"
  shows "sq_PeekNext q = \<lparr>sd_data = Some (rp + 4), sd_length = of_nat (length x)\<rparr>"
    "sq_GetNext q = (sq_DiscardNext q, sq_PeekNext q)"
    "sq_rep (sq_DiscardNext q) xs"
proof -
  have ne: "sq_numElements q \<noteq> 0" using sq_rep_numElements_0 [OF assms(1)] by simp
  note f = sq_front [OF assms(1), folded rp_def]
  note len = sq_item_at_length [OF f(1)]
  have l: "length x \<le> 65532" using f(1) by (simp add: sq_item_at_def sq_fits_def)
  show p: "sq_PeekNext q = \<lparr>sd_data = Some (rp + 4), sd_length = of_nat (length x)\<rparr>"
    using ne len(3) by (auto simp: sq_PeekNext_def rp_def)
  have u: "unat (of_nat (length x) :: u16) = length x" using l by (intro unat_of_nat_small) simp
  have g: "unat (get32 rp (sq_mem q) + 4) = length x + 4"
    using len(2) l unat_add_small [of "get32 rp (sq_mem q)" 4] by simp
  then have d: "sq_DiscardNext q = q\<lparr>sq_readPointer := rp + sq_size x, sq_numElements := sq_numElements q - 1\<rparr>"
    using ne by (simp add: sq_DiscardNext_def rp_def [symmetric] Let_def sq_size_def)
  show "sq_GetNext q = (sq_DiscardNext q, sq_PeekNext q)"
    unfolding p d using ne len(3) u by (simp add: sq_GetNext_def rp_def [symmetric] Let_def sq_size_def)
  have dv: "4 dvd sq_size x" using f(1) by (simp add: sq_item_at_def sq_fits_def sq_size_def)
  from sq_layout.ring_pop [OF sq_repD(6) [OF f(2)]] f(1)
  have "sq_ring (sq_mem q) (sq_bufferEnd q) (rp + sq_size x) (sq_writePointer q) xs" by simp
  then show "sq_rep (sq_DiscardNext q) xs"
    unfolding d using sq_repD(1,2,4,5) [OF assms(1)] f(3) dv by (intro sq_rep_intro) simp_all
qed

section \<open>The interface the storage uses\<close>

definition sq_put :: "u8 list \<Rightarrow> SimpleQueue \<Rightarrow> SimpleQueue \<times> bool" where
  "sq_put x q = sq_Put (mem_of x (\<lambda>_. 0)) (of_nat (length x)) q"

definition sq_peek :: "SimpleQueue \<Rightarrow> SimpleQueue \<times> u8 list option" where
  "sq_peek q = (q, (let s = sq_PeekNext q
     in map_option (\<lambda>p. bytes_at (sq_mem q) p (unat (sd_length s))) (sd_data s)))"

lemma sq_put_data: "sq_fits x \<Longrightarrow> unat (of_nat (length x) :: u32) = length x"
  by (intro unat_of_nat_small) (simp add: sq_fits_def)

lemma sq_peek_front: "sq_rep q (x # xs) \<Longrightarrow> sq_peek q = (q, Some x)"
proof -
  assume r: "sq_rep q (x # xs)"
  note f = sq_front(1) [OF r]
  then have "length x \<le> 65532" by (simp add: sq_item_at_def sq_fits_def)
  then have "unat (of_nat (length x) :: u16) = length x" by (intro unat_of_nat_small) simp
  with sq_PeekNext_front(1) [OF r] f show ?thesis
    by (simp add: sq_peek_def Let_def sq_item_at_def)
qed

interpretation sq: bounded_fifo sq_rep sq_fits sq_put sq_peek sq_DiscardNext
proof unfold_locales
  fix q q' :: SimpleQueue and x :: "u8 list" and xs r
  show "sq_rep q xs \<Longrightarrow> sq_fits x \<Longrightarrow> sq_put x q = (q', True) \<Longrightarrow> sq_rep q' (xs @ [x])"
    using sq_Put_accept [of q xs "mem_of x (\<lambda>_. 0)" "of_nat (length x)" q']
    by (simp add: sq_put_def sq_put_data)
  show "sq_rep q xs \<Longrightarrow> sq_fits x \<Longrightarrow> sq_put x q = (q', False) \<Longrightarrow> sq_rep q' xs"
    using sq_Put_reject [of q xs "mem_of x (\<lambda>_. 0)" "of_nat (length x)" q']
    by (simp add: sq_put_def sq_put_data)
  show "sq_rep q [] \<Longrightarrow> sq_peek q = (q', r) \<Longrightarrow> r = None \<and> sq_rep q' []"
    using sq_rep_numElements_0 [of q "[]"] by (auto simp: sq_peek_def sq_PeekNext_def)
  show "sq_rep q (x # xs) \<Longrightarrow> sq_peek q = (q', r) \<Longrightarrow>
      r = Some x \<and> sq_rep q' (x # xs) \<and> sq_rep (sq_DiscardNext q') xs"
    using sq_peek_front [of q x xs] sq_PeekNext_front(3) [of q x xs] by auto
qed

lemma sq_init_rep:
  assumes "4 \<le> len" "len < 2 ^ 16" "4 dvd unat len"
  shows "sq_rep (sq_init buffer len) []"
proof -
  have "unat (ucast len :: u16) = unat len"
    using assms(2) by (simp add: unsigned_ucast_eq take_bit_nat_eq_self word_less_nat_alt)
  with assms show ?thesis
    by (intro sq_rep_intro) (auto simp: sq_init_def ring_def sq_mark_def word_le_nat_alt)
qed

section \<open>Properties\<close>

text \<open>C22: The storage's queue is a FIFO for word-aligned items: in any interleaving of \<open>Put\<close>s
  and removals on a fresh queue, what came out followed by what is stored is what was accepted,
  in order.\<close>

theorem simple_queue_fifo:
  assumes "4 \<le> len" "len < 2 ^ 16" "4 dvd unat len" "list_all (op_ok sq_fits) ops"
    "fifo_run sq_put sq_peek sq_DiscardNext ops (sq_init buffer len) = (q, acc, out)"
  shows "\<exists>ys. sq_rep q ys \<and> acc = out @ ys"
  using sq.run_order [OF sq_init_rep [OF assms(1-3)] assms(4,5)] by auto

lemma simple_queue_fifo_witness:
  "\<exists>q ys. fifo_run sq_put sq_peek sq_DiscardNext
      [Enq [1, 2, 3, 4], Enq [5, 6, 7, 8], Deq] (sq_init (\<lambda>_. 0) 160) =
        (q, [[1, 2, 3, 4], [5, 6, 7, 8]], [[1, 2, 3, 4]])
    \<and> sq_rep q ys \<and> [[1, 2, 3, 4], [5, 6, 7, 8]] = [[1, 2, 3, 4]] @ ys"
proof -
  let ?ops = "[Enq [1, 2, 3, 4], Enq [5, 6, 7, 8], Deq] :: u8 list fifo_op list"
  let ?r = "fifo_run sq_put sq_peek sq_DiscardNext ?ops (sq_init (\<lambda>_. 0) 160)"
  have "snd ?r = ([[1, 2, 3, 4], [5, 6, 7, 8]], [[1, 2, 3, 4]])"
    by code_simp
  then obtain q where q: "?r = (q, [[1, 2, 3, 4], [5, 6, 7, 8]], [[1, 2, 3, 4]])"
    by (metis prod.collapse)
  have "\<exists>ys. sq_rep q ys \<and> [[1, 2, 3, 4], [5, 6, 7, 8]] = [[1, 2, 3, 4]] @ ys"
    by (rule simple_queue_fifo [OF _ _ _ _ q]) (simp_all add: sq_fits_def dvd_def, presburger)
  with q show ?thesis by blast
qed

text \<open>The size of the next item is cleared with a four byte store, but \<open>Put\<close> reserves one
  byte for it. An item whose length is not a multiple of four is accepted although the store
  then reaches behind the buffer: a queue of 12 bytes takes a 6 byte item and zeroes bytes 12
  and 13.\<close>

lemma simple_queue_unaligned_overrun:
  "snd (sq_Put (\<lambda>_. 5) 6 (sq_init (\<lambda>_. 9) 12)) \<and>
   sq_mem (fst (sq_Put (\<lambda>_. 5) 6 (sq_init (\<lambda>_. 9) 12))) 12 = 0 \<and>
   sq_mem (fst (sq_Put (\<lambda>_. 5) 6 (sq_init (\<lambda>_. 9) 12))) 13 = 0 \<and>
   sq_mem (sq_init (\<lambda>_. 9) 12) 12 = 9 \<and> sq_bufferEnd (sq_init (\<lambda>_. 9) 12) = 12"
  by code_simp

end
