(* ===== verification/SimpleBuffer.thy ===== *)
theory SimpleBuffer
  imports Prelude
begin

text \<open>
  \<^verbatim>\<open>SimpleBuffer\<close> (fixed-size items, used for the received JOIN_ME packets) and
  \<^verbatim>\<open>SimplePushStack\<close> (a list of pointers). Pointers are offsets from the start of the buffer.
\<close>

section \<open>SimpleBuffer\<close>

record SimpleBuffer =
  sb_mem :: mem
  sb_bufferLength :: u16
  sb_itemLength :: u16
  sb_readPointer :: nat
  sb_writePointer :: nat
  sb_numElements :: u16

definition sb_init :: "mem \<Rightarrow> u16 \<Rightarrow> u16 \<Rightarrow> SimpleBuffer" where
  "sb_init buffer len item =
     \<lparr>sb_mem = buffer, sb_bufferLength = len, sb_itemLength = item,
      sb_readPointer = 0, sb_writePointer = 0, sb_numElements = 0\<rparr>"

text \<open>The capacity test all writers start with.\<close>

definition sb_full :: "SimpleBuffer \<Rightarrow> bool" where
  "sb_full b \<longleftrightarrow> int (unat (sb_bufferLength b)) - int (sb_writePointer b) < int (unat (sb_itemLength b))"

definition sb_Put :: "mem \<Rightarrow> SimpleBuffer \<Rightarrow> SimpleBuffer \<times> bool" where
  "sb_Put data b =
     (if sb_full b then (b, False)
      else let n = unat (sb_itemLength b) in
        (b\<lparr>sb_mem := store_bytes (sb_mem b) (sb_writePointer b) (bytes_at data 0 n),
           sb_writePointer := sb_writePointer b + n, sb_numElements := sb_numElements b + 1\<rparr>, True))"

definition sb_Reserve :: "SimpleBuffer \<Rightarrow> SimpleBuffer \<times> nat option" where
  "sb_Reserve b =
     (if sb_full b then (b, None)
      else let b' = b\<lparr>sb_writePointer := sb_writePointer b + unat (sb_itemLength b),
                     sb_numElements := sb_numElements b + 1\<rparr>
           in (b', Some (sb_writePointer b' - unat (sb_itemLength b))))"

definition sb_GetNext :: "SimpleBuffer \<Rightarrow> SimpleBuffer \<times> nat option" where
  "sb_GetNext b =
     (if sb_writePointer b \<le> sb_readPointer b then (b, None)
      else let b' = b\<lparr>sb_readPointer := sb_readPointer b + unat (sb_itemLength b),
                     sb_numElements := sb_numElements b - 1\<rparr>
           in (b', Some (sb_readPointer b')))"

definition sb_PeekItemAt :: "u16 \<Rightarrow> SimpleBuffer \<Rightarrow> nat option" where
  "sb_PeekItemAt position b =
     (if sb_numElements b \<le> position then None
      else Some (unat (sb_itemLength b) * unat position))"

definition sb_Clean :: "SimpleBuffer \<Rightarrow> SimpleBuffer" where
  "sb_Clean b = b\<lparr>sb_numElements := 0, sb_readPointer := 0, sb_writePointer := 0\<rparr>"

text \<open>The state the buffer is in while nobody calls \<open>GetNext\<close> (which nobody does).\<close>

definition sb_wf :: "SimpleBuffer \<Rightarrow> bool" where
  "sb_wf b \<longleftrightarrow> 0 < unat (sb_itemLength b) \<and> sb_readPointer b = 0 \<and>
     sb_writePointer b = unat (sb_numElements b) * unat (sb_itemLength b) \<and>
     sb_writePointer b \<le> unat (sb_bufferLength b)"

lemma not_sb_full: "\<not> sb_full b \<longleftrightarrow> sb_writePointer b + unat (sb_itemLength b) \<le> unat (sb_bufferLength b)"
  unfolding sb_full_def by linarith

lemma sb_wf_bound:
  assumes "sb_wf b"
  shows "unat (sb_numElements b) * unat (sb_itemLength b) \<le> unat (sb_bufferLength b)"
    "unat (sb_numElements b) \<le> unat (sb_bufferLength b)"
proof -
  from assms show le: "unat (sb_numElements b) * unat (sb_itemLength b) \<le> unat (sb_bufferLength b)"
    by (simp add: sb_wf_def)
  have "unat (sb_numElements b) \<le> unat (sb_numElements b) * unat (sb_itemLength b)"
    using assms by (simp add: sb_wf_def)
  with le show "unat (sb_numElements b) \<le> unat (sb_bufferLength b)" by linarith
qed

lemma sb_numElements_Suc:
  assumes "sb_wf b" "\<not> sb_full b"
  shows "unat (sb_numElements b + 1) = unat (sb_numElements b) + 1"
proof (rule unat_add1_small)
  have "sb_writePointer b + unat (sb_itemLength b) \<le> unat (sb_bufferLength b)"
    using assms(2) by (simp add: not_sb_full)
  moreover have "unat (sb_numElements b) \<le> sb_writePointer b"
    using assms(1) by (simp add: sb_wf_def)
  moreover have "0 < unat (sb_itemLength b)" using assms(1) by (simp add: sb_wf_def)
  ultimately show "unat (sb_numElements b) + 1 < 2 ^ LENGTH(16)"
    using unat_bound [of "sb_bufferLength b"] by simp
qed

lemma sb_init_wf: "0 < item \<Longrightarrow> sb_wf (sb_init m len item)"
  by (simp add: sb_wf_def sb_init_def word_less_nat_alt)

lemma sb_Clean_wf: "sb_wf b \<Longrightarrow> sb_wf (sb_Clean b)"
  by (simp add: sb_wf_def sb_Clean_def)

lemma sb_Reserve_wf:
  assumes "sb_wf b"
  shows "sb_wf (fst (sb_Reserve b))"
proof (cases "sb_full b")
  case True
  then show ?thesis using assms by (simp add: sb_Reserve_def)
next
  case False
  have "sb_writePointer b + unat (sb_itemLength b) \<le> unat (sb_bufferLength b)"
    using False by (simp add: not_sb_full)
  then show ?thesis
    using assms False sb_numElements_Suc [OF assms False]
    by (simp add: sb_Reserve_def sb_wf_def Let_def)
qed

text \<open>\<open>Reserve\<close> hands out the slot behind the ones in use; \<open>PeekItemAt\<close> finds it again.\<close>

lemma sb_Reserve_slot:
  assumes "sb_wf b" "sb_Reserve b = (b', Some p)"
  shows "p = unat (sb_numElements b) * unat (sb_itemLength b)"
    "unat (sb_numElements b') = unat (sb_numElements b) + 1"
    "sb_PeekItemAt (sb_numElements b) b' = Some p"
    "sb_itemLength b' = sb_itemLength b"
proof -
  from assms(2) have f: "\<not> sb_full b" by (auto simp: sb_Reserve_def)
  note s = sb_numElements_Suc [OF assms(1) f]
  from assms f have b': "b' = b\<lparr>sb_writePointer := sb_writePointer b + unat (sb_itemLength b),
      sb_numElements := sb_numElements b + 1\<rparr>" and p: "p = sb_writePointer b"
    by (auto simp: sb_Reserve_def Let_def)
  show "p = unat (sb_numElements b) * unat (sb_itemLength b)"
    using p assms(1) by (simp add: sb_wf_def)
  show "unat (sb_numElements b') = unat (sb_numElements b) + 1" using s b' by simp
  have "\<not> sb_numElements b + 1 \<le> sb_numElements b"
    using s by (simp add: word_le_nat_alt)
  then show "sb_PeekItemAt (sb_numElements b) b' = Some p"
    using p assms(1) b' by (simp add: sb_PeekItemAt_def sb_wf_def mult.commute)
  show "sb_itemLength b' = sb_itemLength b" using b' by simp
qed

section \<open>SimplePushStack\<close>

text \<open>The pointers are natural numbers; \<open>malloc\<close> is assumed to succeed or fail as the flag
  \<open>ps_allocated\<close> says.\<close>

record SimplePushStack =
  ps_buffer :: "nat \<Rightarrow> nat"
  ps_allocated :: bool
  ps_maxSize :: u16
  ps_numItems :: u16

definition ps_init :: "bool \<Rightarrow> (nat \<Rightarrow> nat) \<Rightarrow> u16 \<Rightarrow> SimplePushStack" where
  "ps_init allocated buffer maxSize =
     \<lparr>ps_buffer = buffer, ps_allocated = allocated, ps_maxSize = maxSize, ps_numItems = 0\<rparr>"

definition ps_Push :: "nat \<Rightarrow> SimplePushStack \<Rightarrow> SimplePushStack \<times> bool" where
  "ps_Push element s =
     (if ps_maxSize s \<le> ps_numItems s \<or> \<not> ps_allocated s then (s, False)
      else (s\<lparr>ps_buffer := (ps_buffer s)(unat (ps_numItems s) := element),
              ps_numItems := ps_numItems s + 1\<rparr>, True))"

definition ps_GetItemAt :: "u16 \<Rightarrow> SimplePushStack \<Rightarrow> nat option" where
  "ps_GetItemAt position s =
     (if ps_numItems s \<le> position \<or> \<not> ps_allocated s then None
      else Some (ps_buffer s (unat position)))"

definition ps_size :: "SimplePushStack \<Rightarrow> u16" where
  "ps_size s = ps_numItems s"

text \<open>The stack as a list.\<close>

definition ps_items :: "SimplePushStack \<Rightarrow> nat list" where
  "ps_items s = map (ps_buffer s) [0..<unat (ps_numItems s)]"

section \<open>Properties\<close>

text \<open>The push stack is a bounded list: a push that is accepted appends its element, a
  refused one (stack full) changes nothing, and \<open>GetItemAt\<close> reads exactly the elements pushed.\<close>

lemma push_stack_list:
  assumes "ps_allocated s" "ps_numItems s \<le> ps_maxSize s"
  shows "ps_items (fst (ps_Push x s)) = (if ps_numItems s < ps_maxSize s then ps_items s @ [x] else ps_items s)
    \<and> ps_GetItemAt p s = (if unat p < length (ps_items s) then Some (ps_items s ! unat p) else None)"
proof
  show "ps_items (fst (ps_Push x s)) = (if ps_numItems s < ps_maxSize s then ps_items s @ [x] else ps_items s)"
  proof (cases "ps_numItems s < ps_maxSize s")
    case True
    have "unat (ps_numItems s + 1) = unat (ps_numItems s) + 1"
      using True unat_bound [of "ps_maxSize s"] by (intro unat_add1_small) (simp add: word_less_nat_alt)
    with True assms(1) show ?thesis by (simp add: ps_Push_def ps_items_def not_le)
  next
    case False
    then show ?thesis by (simp add: ps_Push_def not_less)
  qed
  show "ps_GetItemAt p s = (if unat p < length (ps_items s) then Some (ps_items s ! unat p) else None)"
    using assms(1) by (simp add: ps_GetItemAt_def ps_items_def word_le_nat_alt not_le)
qed

lemma push_stack_list_witness:
  "ps_items (fst (ps_Push 7 (ps_init True (\<lambda>_. 0) 2))) = [7] \<and>
   ps_GetItemAt 0 (ps_init True (\<lambda>_. 0) 2) = None"
  using push_stack_list [of "ps_init True (\<lambda>_. 0) 2" 7 0]
  by (simp add: ps_init_def ps_items_def)

text \<open>\<open>GetNext\<close> advances the read pointer before it returns it: it skips the first item,
  and for the last item it returns a pointer to the slot behind the ones in use.\<close>

lemma simple_buffer_GetNext_off_by_one:
  assumes "sb_GetNext b = (b', Some p)"
  shows "p = sb_readPointer b + unat (sb_itemLength b) \<and>
    (sb_writePointer b = sb_readPointer b + unat (sb_itemLength b) \<longrightarrow> p = sb_writePointer b)"
  using assms by (auto simp: sb_GetNext_def Let_def split: if_splits)

lemma simple_buffer_GetNext_off_by_one_witness:
  "snd (sb_GetNext (fst (sb_Put (\<lambda>_. 1) (sb_init (\<lambda>_. 0) 8 4)))) = Some 4"
proof -
  let ?b = "fst (sb_Put (\<lambda>_. 1) (sb_init (\<lambda>_. 0) 8 4))"
  have "sb_GetNext ?b = (fst (sb_GetNext ?b), Some (the (snd (sb_GetNext ?b))))"
    and "sb_readPointer ?b = 0" "sb_itemLength ?b = 4" "snd (sb_GetNext ?b) \<noteq> None"
    by (simp_all add: sb_GetNext_def sb_Put_def sb_init_def sb_full_def Let_def)
  with simple_buffer_GetNext_off_by_one [of ?b "fst (sb_GetNext ?b)" "the (snd (sb_GetNext ?b))"]
  show ?thesis by auto
qed

end
