(* ===== verification/Wire.thy ===== *)
theory Wire
  imports Prelude
begin

text \<open>
  The packed structs that go over the air, \<^verbatim>\<open>config/conn_packets.h\<close> (messages inside the
  mesh) and \<^verbatim>\<open>config/adv_packets.h\<close> (the JOIN_ME advertising packet): one record per struct with
  a reader and a writer at the byte offsets the packing gives, the size macros, and what of a
  struct survives when the number of bytes the macro names is sent.
\<close>

section \<open>Message types\<close>

definition MESSAGE_TYPE_JOIN_ME :: u8 where "MESSAGE_TYPE_JOIN_ME = 1"
definition MESSAGE_TYPE_CLUSTER_WELCOME :: u8 where "MESSAGE_TYPE_CLUSTER_WELCOME = 20"
definition MESSAGE_TYPE_CLUSTER_ACK_1 :: u8 where "MESSAGE_TYPE_CLUSTER_ACK_1 = 21"
definition MESSAGE_TYPE_CLUSTER_ACK_2 :: u8 where "MESSAGE_TYPE_CLUSTER_ACK_2 = 22"
definition MESSAGE_TYPE_CLUSTER_INFO_UPDATE :: u8 where "MESSAGE_TYPE_CLUSTER_INFO_UPDATE = 23"
definition MESSAGE_TYPE_UPDATE_TIMESTAMP :: u8 where "MESSAGE_TYPE_UPDATE_TIMESTAMP = 30"
definition MESSAGE_TYPE_UART_WRITE :: u8 where "MESSAGE_TYPE_UART_WRITE = 39"
definition MESSAGE_TYPE_MODULE_CONFIG :: u8 where "MESSAGE_TYPE_MODULE_CONFIG = 50"
definition MESSAGE_TYPE_MODULE_TRIGGER_ACTION :: u8 where "MESSAGE_TYPE_MODULE_TRIGGER_ACTION = 51"
definition MESSAGE_TYPE_MODULE_ACTION_RESPONSE :: u8 where "MESSAGE_TYPE_MODULE_ACTION_RESPONSE = 52"
definition MESSAGE_TYPE_MODULE_GENERAL :: u8 where "MESSAGE_TYPE_MODULE_GENERAL = 53"
definition MESSAGE_TYPE_MODULES_GET_LIST :: u8 where "MESSAGE_TYPE_MODULES_GET_LIST = 56"
definition MESSAGE_TYPE_MODULES_LIST :: u8 where "MESSAGE_TYPE_MODULES_LIST = 57"
definition MESSAGE_TYPE_ADVINFO :: u8 where "MESSAGE_TYPE_ADVINFO = 60"
definition MESSAGE_TYPE_QOS_CONNECTION_DATA :: u8 where "MESSAGE_TYPE_QOS_CONNECTION_DATA = 61"
definition MESSAGE_TYPE_QOS_REQUEST :: u8 where "MESSAGE_TYPE_QOS_REQUEST = 62"
definition MESSAGE_TYPE_DATA_1 :: u8 where "MESSAGE_TYPE_DATA_1 = 80"
definition MESSAGE_TYPE_DATA_2 :: u8 where "MESSAGE_TYPE_DATA_2 = 81"
definition MESSAGE_TYPE_HEARTBEAT :: u8 where "MESSAGE_TYPE_HEARTBEAT = 90"
definition MESSAGE_TYPE_LIGHT_TOGGLE :: u8 where "MESSAGE_TYPE_LIGHT_TOGGLE = 91"

lemmas message_type_defs =
  MESSAGE_TYPE_JOIN_ME_def MESSAGE_TYPE_CLUSTER_WELCOME_def MESSAGE_TYPE_CLUSTER_ACK_1_def
  MESSAGE_TYPE_CLUSTER_ACK_2_def MESSAGE_TYPE_CLUSTER_INFO_UPDATE_def MESSAGE_TYPE_UPDATE_TIMESTAMP_def
  MESSAGE_TYPE_UART_WRITE_def MESSAGE_TYPE_MODULE_CONFIG_def MESSAGE_TYPE_MODULE_TRIGGER_ACTION_def
  MESSAGE_TYPE_MODULE_ACTION_RESPONSE_def MESSAGE_TYPE_MODULE_GENERAL_def
  MESSAGE_TYPE_MODULES_GET_LIST_def MESSAGE_TYPE_MODULES_LIST_def MESSAGE_TYPE_ADVINFO_def
  MESSAGE_TYPE_QOS_CONNECTION_DATA_def MESSAGE_TYPE_QOS_REQUEST_def MESSAGE_TYPE_DATA_1_def
  MESSAGE_TYPE_DATA_2_def MESSAGE_TYPE_HEARTBEAT_def MESSAGE_TYPE_LIGHT_TOGGLE_def

section \<open>Size macros\<close>

definition MAX_DATA_SIZE_PER_WRITE :: nat where "MAX_DATA_SIZE_PER_WRITE = 20"
definition SIZEOF_CONN_PACKET_HEADER :: nat where "SIZEOF_CONN_PACKET_HEADER = 6"
definition SIZEOF_CONN_PACKET_SPLIT_HEADER :: nat where "SIZEOF_CONN_PACKET_SPLIT_HEADER = 1"
definition SIZEOF_CONN_PACKET_CLUSTER_WELCOME :: nat where
  "SIZEOF_CONN_PACKET_CLUSTER_WELCOME = SIZEOF_CONN_PACKET_HEADER + 10"
definition SIZEOF_CONN_PACKET_CLUSTER_ACK_1 :: nat where
  "SIZEOF_CONN_PACKET_CLUSTER_ACK_1 = SIZEOF_CONN_PACKET_HEADER + 3"
definition SIZEOF_CONN_PACKET_CLUSTER_ACK_2 :: nat where
  "SIZEOF_CONN_PACKET_CLUSTER_ACK_2 = SIZEOF_CONN_PACKET_HEADER + 6"
definition SIZEOF_CONN_PACKET_CLUSTER_INFO_UPDATE :: nat where
  "SIZEOF_CONN_PACKET_CLUSTER_INFO_UPDATE = SIZEOF_CONN_PACKET_HEADER + 12"
definition SIZEOF_CONN_PACKET_PAYLOAD_DATA_1 :: nat where
  "SIZEOF_CONN_PACKET_PAYLOAD_DATA_1 = MAX_DATA_SIZE_PER_WRITE - SIZEOF_CONN_PACKET_HEADER"
definition SIZEOF_CONN_PACKET_DATA_1 :: nat where
  "SIZEOF_CONN_PACKET_DATA_1 = SIZEOF_CONN_PACKET_HEADER + SIZEOF_CONN_PACKET_PAYLOAD_DATA_1"
definition SIZEOF_CONN_PACKET_UPDATE_TIMESTAMP :: nat where
  "SIZEOF_CONN_PACKET_UPDATE_TIMESTAMP = SIZEOF_CONN_PACKET_HEADER + 8"
definition SIZEOF_CONN_PACKET_MODULE :: nat where
  "SIZEOF_CONN_PACKET_MODULE = SIZEOF_CONN_PACKET_HEADER + 4"
definition SIZEOF_CONN_PACKET_ADV_INFO :: nat where
  "SIZEOF_CONN_PACKET_ADV_INFO = SIZEOF_CONN_PACKET_HEADER + 9"
definition SIZEOF_ADV_PACKET_HEADER :: nat where "SIZEOF_ADV_PACKET_HEADER = 3 + 4 + 1 + 2 + 1"
definition SIZEOF_ADV_PACKET_PAYLOAD_JOIN_ME_V0 :: nat where
  "SIZEOF_ADV_PACKET_PAYLOAD_JOIN_ME_V0 = 19"
definition SIZEOF_ADV_PACKET_JOIN_ME :: nat where
  "SIZEOF_ADV_PACKET_JOIN_ME = SIZEOF_ADV_PACKET_HEADER + SIZEOF_ADV_PACKET_PAYLOAD_JOIN_ME_V0"

lemmas sizeof_defs =
  MAX_DATA_SIZE_PER_WRITE_def SIZEOF_CONN_PACKET_HEADER_def SIZEOF_CONN_PACKET_SPLIT_HEADER_def
  SIZEOF_CONN_PACKET_CLUSTER_WELCOME_def SIZEOF_CONN_PACKET_CLUSTER_ACK_1_def
  SIZEOF_CONN_PACKET_CLUSTER_ACK_2_def SIZEOF_CONN_PACKET_CLUSTER_INFO_UPDATE_def
  SIZEOF_CONN_PACKET_PAYLOAD_DATA_1_def SIZEOF_CONN_PACKET_DATA_1_def
  SIZEOF_CONN_PACKET_UPDATE_TIMESTAMP_def SIZEOF_CONN_PACKET_MODULE_def
  SIZEOF_CONN_PACKET_ADV_INFO_def SIZEOF_ADV_PACKET_HEADER_def
  SIZEOF_ADV_PACKET_PAYLOAD_JOIN_ME_V0_def SIZEOF_ADV_PACKET_JOIN_ME_def

section \<open>The header of every message\<close>

text \<open>The first byte holds the one-bit flag \<open>hasMoreParts\<close> (bit 0) and the seven-bit message
  type; assigning to one of the two bit fields leaves the other.\<close>

record connPacketHeader =
  h_hasMoreParts :: bool
  h_messageType :: u8
  h_sender :: nodeID
  h_receiver :: nodeID
  h_remoteReceiver :: nodeID

definition get_hasMoreParts :: "mem \<Rightarrow> bool" where
  "get_hasMoreParts m = bit (m 0) 0"

definition get_messageType :: "mem \<Rightarrow> u8" where
  "get_messageType m = drop_bit 1 (m 0)"

definition put_hasMoreParts :: "bool \<Rightarrow> mem \<Rightarrow> mem" where
  "put_hasMoreParts b m = m(0 := (m 0 AND 0xFE) OR bool_to_u8 b)"

definition put_messageType :: "u8 \<Rightarrow> mem \<Rightarrow> mem" where
  "put_messageType t m = m(0 := (m 0 AND 1) OR push_bit 1 t)"

abbreviation "get_sender \<equiv> get16 1"
abbreviation "get_receiver \<equiv> get16 3"
abbreviation "get_remoteReceiver \<equiv> get16 5"
abbreviation "put_sender \<equiv> put16 1"
abbreviation "put_receiver \<equiv> put16 3"
abbreviation "put_remoteReceiver \<equiv> put16 5"

definition read_header :: "mem \<Rightarrow> connPacketHeader" where
  "read_header m = \<lparr>h_hasMoreParts = get_hasMoreParts m, h_messageType = get_messageType m,
     h_sender = get_sender m, h_receiver = get_receiver m, h_remoteReceiver = get_remoteReceiver m\<rparr>"

definition write_header :: "connPacketHeader \<Rightarrow> mem \<Rightarrow> mem" where
  "write_header h m = put_remoteReceiver (h_remoteReceiver h) (put_receiver (h_receiver h)
     (put_sender (h_sender h) (put_messageType (h_messageType h) (put_hasMoreParts (h_hasMoreParts h) m))))"

section \<open>Payloads of the handshake\<close>

record connPacketPayloadClusterWelcome =
  cw_clusterId :: clusterID
  cw_clusterSize :: clusterSIZE
  cw_meshWriteHandle :: u16
  cw_hopsToSink :: clusterSIZE

definition read_clusterWelcome :: "mem \<Rightarrow> connPacketPayloadClusterWelcome" where
  "read_clusterWelcome m = \<lparr>cw_clusterId = get32 7 m, cw_clusterSize = get16 11 m,
     cw_meshWriteHandle = get16 13 m, cw_hopsToSink = get16 15 m\<rparr>"

definition write_clusterWelcome :: "connPacketPayloadClusterWelcome \<Rightarrow> mem \<Rightarrow> mem" where
  "write_clusterWelcome p m = put16 15 (cw_hopsToSink p) (put16 13 (cw_meshWriteHandle p)
     (put16 11 (cw_clusterSize p) (put32 7 (cw_clusterId p) m)))"

record connPacketPayloadClusterAck1 =
  a1_hopsToSink :: clusterSIZE
  a1_reserved :: u8

definition read_clusterAck1 :: "mem \<Rightarrow> connPacketPayloadClusterAck1" where
  "read_clusterAck1 m = \<lparr>a1_hopsToSink = get16 7 m, a1_reserved = m 9\<rparr>"

definition write_clusterAck1 :: "connPacketPayloadClusterAck1 \<Rightarrow> mem \<Rightarrow> mem" where
  "write_clusterAck1 p m = (put16 7 (a1_hopsToSink p) m)(9 := a1_reserved p)"

record connPacketPayloadClusterAck2 =
  a2_clusterId :: clusterID
  a2_clusterSize :: clusterSIZE

definition read_clusterAck2 :: "mem \<Rightarrow> connPacketPayloadClusterAck2" where
  "read_clusterAck2 m = \<lparr>a2_clusterId = get32 7 m, a2_clusterSize = get16 11 m\<rparr>"

definition write_clusterAck2 :: "connPacketPayloadClusterAck2 \<Rightarrow> mem \<Rightarrow> mem" where
  "write_clusterAck2 p m = put16 11 (a2_clusterSize p) (put32 7 (a2_clusterId p) m)"

record connPacketPayloadClusterInfoUpdate =
  iu_currentClusterId :: clusterID
  iu_newClusterId :: clusterID
  iu_clusterSizeChange :: clusterSIZE
  iu_hopsToSink :: clusterSIZE

definition read_clusterInfoUpdate :: "mem \<Rightarrow> connPacketPayloadClusterInfoUpdate" where
  "read_clusterInfoUpdate m = \<lparr>iu_currentClusterId = get32 7 m, iu_newClusterId = get32 11 m,
     iu_clusterSizeChange = get16 15 m, iu_hopsToSink = get16 17 m\<rparr>"

definition write_clusterInfoUpdate :: "connPacketPayloadClusterInfoUpdate \<Rightarrow> mem \<Rightarrow> mem" where
  "write_clusterInfoUpdate p m = put16 17 (iu_hopsToSink p) (put16 15 (iu_clusterSizeChange p)
     (put32 11 (iu_newClusterId p) (put32 7 (iu_currentClusterId p) m)))"

section \<open>Other messages\<close>

text \<open>\<open>connPacketData1\<close> and \<open>connPacketData2\<close>: a length and its data.\<close>

definition data1_length :: "mem \<Rightarrow> u8" where "data1_length m = m 7"
definition data1_data :: "mem \<Rightarrow> mem" where "data1_data m = shifted m 8"

definition read_timestamp :: "mem \<Rightarrow> u64" where "read_timestamp m = get64 7 m"
definition write_timestamp :: "u64 \<Rightarrow> mem \<Rightarrow> mem" where "write_timestamp t m = put64 7 t m"

text \<open>\<open>connPacketModule\<close>: the data region follows the four fields.\<close>

record connPacketModule =
  mp_moduleId :: u16
  mp_requestHandle :: u8
  mp_actionType :: u8

definition read_module :: "mem \<Rightarrow> connPacketModule" where
  "read_module m = \<lparr>mp_moduleId = get16 7 m, mp_requestHandle = m 9, mp_actionType = m 10\<rparr>"

definition write_module :: "connPacketModule \<Rightarrow> mem \<Rightarrow> mem" where
  "write_module p m = (put16 7 (mp_moduleId p) m)(9 := mp_requestHandle p, 10 := mp_actionType p)"

definition module_data :: nat where "module_data = 11"

record connPacketPayloadAdvInfo =
  ai_peerAddress :: "u8 list"
  ai_inverseRssiSum :: u16
  ai_packetCount :: u8

definition read_advInfo :: "mem \<Rightarrow> connPacketPayloadAdvInfo" where
  "read_advInfo m = \<lparr>ai_peerAddress = bytes_at m 7 6, ai_inverseRssiSum = get16 13 m,
     ai_packetCount = m 15\<rparr>"

definition write_advInfo :: "connPacketPayloadAdvInfo \<Rightarrow> mem \<Rightarrow> mem" where
  "write_advInfo p m = (put16 13 (ai_inverseRssiSum p) (store_bytes m 7 (ai_peerAddress p)))
     (15 := ai_packetCount p)"

section \<open>Advertising packets\<close>

record advPacketHeader =
  ah_flags :: "u8 \<times> u8 \<times> u8"
  ah_manufacturer :: "u8 \<times> u8 \<times> u16"
  ah_meshIdentifier :: u8
  ah_networkId :: networkID
  ah_messageType :: u8

definition read_advHeader :: "mem \<Rightarrow> advPacketHeader" where
  "read_advHeader m = \<lparr>ah_flags = (m 0, m 1, m 2), ah_manufacturer = (m 3, m 4, get16 5 m),
     ah_meshIdentifier = m 7, ah_networkId = get16 8 m, ah_messageType = m 10\<rparr>"

definition write_advHeader :: "advPacketHeader \<Rightarrow> mem \<Rightarrow> mem" where
  "write_advHeader h m =
     (case (ah_flags h, ah_manufacturer h) of ((l, t, f), (ml, mt, c)) \<Rightarrow>
       (put16 8 (ah_networkId h) (put16 5 c (m(0 := l, 1 := t, 2 := f, 3 := ml, 4 := mt))))
         (7 := ah_meshIdentifier h, 10 := ah_messageType h))"

text \<open>The two counters of free connections share a byte: three bits and five bits.\<close>

record advPacketPayloadJoinMeV0 =
  jm_sender :: nodeID
  jm_clusterId :: clusterID
  jm_clusterSize :: clusterSIZE
  jm_freeInConnections :: u8
  jm_freeOutConnections :: u8
  jm_version :: u8
  jm_batteryRuntime :: u8
  jm_txPower :: u8
  jm_deviceType :: u8
  jm_hopsToSink :: u16
  jm_meshWriteHandle :: u16
  jm_ackField :: nodeID

definition read_joinMe :: "mem \<Rightarrow> advPacketPayloadJoinMeV0" where
  "read_joinMe m = \<lparr>jm_sender = get16 11 m, jm_clusterId = get32 13 m, jm_clusterSize = get16 17 m,
     jm_freeInConnections = m 19 AND 7, jm_freeOutConnections = drop_bit 3 (m 19),
     jm_version = m 20, jm_batteryRuntime = m 21, jm_txPower = m 22, jm_deviceType = m 23,
     jm_hopsToSink = get16 24 m, jm_meshWriteHandle = get16 26 m, jm_ackField = get16 28 m\<rparr>"

definition write_joinMe :: "advPacketPayloadJoinMeV0 \<Rightarrow> mem \<Rightarrow> mem" where
  "write_joinMe p m = put16 28 (jm_ackField p) (put16 26 (jm_meshWriteHandle p)
     (put16 24 (jm_hopsToSink p) ((put16 17 (jm_clusterSize p) (put32 13 (jm_clusterId p)
       (put16 11 (jm_sender p) m)))
      (19 := (jm_freeInConnections p AND 7) OR push_bit 3 (jm_freeOutConnections p),
       20 := jm_version p, 21 := jm_batteryRuntime p, 22 := jm_txPower p, 23 := jm_deviceType p))))"

section \<open>Reading back what was written\<close>

lemma get16_put16_other [simp, layout_simps]: "q + 1 < p \<or> p + 1 < q \<Longrightarrow> get16 q (put16 p v m) = get16 q m"
  by (rule get16_cong) auto

lemma get16_put32_other [simp, layout_simps]: "q + 1 < p \<or> p + 3 < q \<Longrightarrow> get16 q (put32 p v m) = get16 q m"
  by (rule get16_cong) auto

lemma get32_put16_other [simp, layout_simps]: "q + 3 < p \<or> p + 1 < q \<Longrightarrow> get32 q (put16 p v m) = get32 q m"
  by (rule get32_cong) auto

lemma get32_put32_other [simp, layout_simps]: "q + 3 < p \<or> p + 3 < q \<Longrightarrow> get32 q (put32 p v m) = get32 q m"
  by (rule get32_cong) auto

lemma get16_upd_other [simp, layout_simps]: "p \<noteq> q \<Longrightarrow> p \<noteq> q + 1 \<Longrightarrow> get16 q (m(p := v)) = get16 q m"
  by (rule get16_cong) auto

lemma get32_upd_other [simp, layout_simps]: "p < q \<or> q + 3 < p \<Longrightarrow> get32 q (m(p := v)) = get32 q m"
  by (rule get32_cong) auto

lemma put_messageType_other [simp]: "i \<noteq> 0 \<Longrightarrow> put_messageType t m i = m i"
  by (simp add: put_messageType_def)

lemma put_hasMoreParts_other [simp]: "i \<noteq> 0 \<Longrightarrow> put_hasMoreParts b m i = m i"
  by (simp add: put_hasMoreParts_def)

lemma get_messageType_put [simp]: "t < 128 \<Longrightarrow> get_messageType (put_messageType t m) = t"
proof -
  assume t: "t < 128"
  have "bit (drop_bit 1 (push_bit 1 t)) n = bit t n" if "n < 8" for n
  proof (cases "n = 7")
    case True
    have "t div 128 = 0"
      using t by (simp add: word_unat_eq_iff unat_div_distrib word_less_nat_alt)
    then have "\<not> bit t 7" by (simp add: bit_iff_odd)
    with True show ?thesis
      using bit_imp_le_length [of "push_bit 1 t" 8] by (auto simp: bit_drop_bit_eq)
  next
    case False
    with that have "bit (push_bit 1 t) (n + 1) = bit t n"
      by (simp only: bit_push_bit_iff) simp
    then show ?thesis by (simp only: bit_drop_bit_eq comp_apply add.commute)
  qed
  then show ?thesis
    unfolding get_messageType_def put_messageType_def
    by (intro bit_word_eqI) (auto simp: bit_simps)
qed

lemma get_hasMoreParts_put_messageType [simp]: "get_hasMoreParts (put_messageType t m) = get_hasMoreParts m"
  by (simp add: get_hasMoreParts_def put_messageType_def bit_0 even_or_iff even_and_iff)

lemma get_hasMoreParts_put [simp]: "get_hasMoreParts (put_hasMoreParts b m) = b"
  by (simp add: get_hasMoreParts_def put_hasMoreParts_def bit_simps)

lemma get_messageType_put_hasMoreParts [simp]: "get_messageType (put_hasMoreParts b m) = get_messageType m"
proof -
  have "(mask 7 :: u8) = 127" by (simp add: mask_eq_exp_minus_1)
  then have "bit (127 :: u8) n" if "n < 7" for n
    using bit_mask_iff [of 7 n, where 'a = u8] that by simp
  then show ?thesis
    unfolding get_messageType_def put_hasMoreParts_def
    by (intro bit_word_eqI) (auto simp: bit_simps dest: bit_imp_le_length)
qed

lemma get_put_type_other [simp]:
  "0 < p \<Longrightarrow> get16 p (put_messageType t m) = get16 p m"
  "0 < p \<Longrightarrow> get16 p (put_hasMoreParts b m) = get16 p m"
  "0 < p \<Longrightarrow> get32 p (put_messageType t m) = get32 p m"
  "0 < p \<Longrightarrow> get32 p (put_hasMoreParts b m) = get32 p m"
  by (rule get16_cong get32_cong; simp)+

lemma get_type_put_other [simp]:
  "0 < p \<Longrightarrow> get_messageType (put16 p v m) = get_messageType m"
  "0 < p \<Longrightarrow> get_messageType (put32 p w m) = get_messageType m"
  "0 < p \<Longrightarrow> get_hasMoreParts (put16 p v m) = get_hasMoreParts m"
  "0 < p \<Longrightarrow> get_hasMoreParts (put32 p w m) = get_hasMoreParts m"
  by (simp_all add: get_messageType_def get_hasMoreParts_def)

section \<open>Properties\<close>

text \<open>Writing a message header and reading it back gives the header, for every message type
  the seven-bit field can hold.\<close>

lemma header_roundtrip:
  "h_messageType h < 128 \<Longrightarrow> read_header (write_header h m) = h"
  by (simp add: read_header_def write_header_def)

lemma header_roundtrip_witness:
  "read_header (write_header \<lparr>h_hasMoreParts = True, h_messageType = 51, h_sender = 258,
      h_receiver = 0, h_remoteReceiver = 65535\<rparr> (\<lambda>_. 9)) =
   \<lparr>h_hasMoreParts = True, h_messageType = 51, h_sender = 258, h_receiver = 0, h_remoteReceiver = 65535\<rparr>"
  by (rule header_roundtrip) simp

text \<open>The structs themselves lose nothing.\<close>

lemma payload_roundtrips:
  "read_clusterWelcome (write_clusterWelcome w m) = w"
  "read_clusterAck1 (write_clusterAck1 a m) = a"
  "read_clusterAck2 (write_clusterAck2 b m) = b"
  "read_clusterInfoUpdate (write_clusterInfoUpdate u m) = u"
  "read_module (write_module p m) = p"
  by (simp_all add: read_clusterWelcome_def write_clusterWelcome_def read_clusterAck1_def
      write_clusterAck1_def read_clusterAck2_def write_clusterAck2_def
      read_clusterInfoUpdate_def write_clusterInfoUpdate_def read_module_def write_module_def)

text \<open>What arrives of a struct sent with \<open>n\<close> bytes, over memory \<open>rest\<close> at the receiver.\<close>

definition received :: "mem \<Rightarrow> nat \<Rightarrow> mem \<Rightarrow> mem" where
  "received m n rest = mem_of (bytes_at m 0 n) rest"

lemma received_apply [simp]:
  "i < n \<Longrightarrow> received m n rest i = m i"
  "n \<le> i \<Longrightarrow> received m n rest i = rest i"
  by (simp_all add: received_def)

lemma get_received [simp]:
  "p + 2 \<le> n \<Longrightarrow> get16 p (received m n rest) = get16 p m"
  "p + 4 \<le> n \<Longrightarrow> get32 p (received m n rest) = get32 p m"
  by (rule get16_cong get32_cong; simp)+

lemma get_type_other [simp]:
  "0 < i \<Longrightarrow> get_messageType (m(i := v)) = get_messageType m"
  "0 < i \<Longrightarrow> get_messageType (store_bytes m i xs) = get_messageType m"
  "0 < n \<Longrightarrow> get_messageType (received m n rest) = get_messageType m"
  by (simp_all add: get_messageType_def)

lemma get_store_other [simp]:
  "p + 1 < q \<Longrightarrow> get16 p (store_bytes m q xs) = get16 p m"
  "p + 3 < q \<Longrightarrow> get32 p (store_bytes m q xs) = get32 p m"
  by (rule get16_cong get32_cong; simp)+

lemma bytes_at_received:
  assumes "bytes_at m p (length xs) = xs" "xs \<noteq> []"
  shows "bytes_at (received m (p + length xs - 1) rest) p (length xs) = butlast xs @ [rest (p + length xs - 1)]"
proof (cases xs rule: rev_cases)
  case (snoc ys y)
  then show ?thesis using assms by (auto simp: bytes_at_eq_iff nth_append less_Suc_eq)
qed (use assms in simp)

text \<open>C38: The size macros count six header bytes, the packed header has seven
  (\<open>remoteReceiver\<close>). A handshake message sent with the size its macro gives therefore
  loses its last byte: at the receiver the high byte of the last field (hops to the sink in
  CLUSTER_WELCOME and CLUSTER_INFO_UPDATE, the cluster size in CLUSTER_ACK_2) is whatever lies
  behind the message, every other field arrives.\<close>

theorem handshake_messages_truncated:
  "read_clusterWelcome (received m SIZEOF_CONN_PACKET_CLUSTER_WELCOME rest) =
     (read_clusterWelcome m)\<lparr>cw_hopsToSink := get16 15 (m(16 := rest 16))\<rparr> \<and>
   read_clusterAck2 (received m SIZEOF_CONN_PACKET_CLUSTER_ACK_2 rest) =
     (read_clusterAck2 m)\<lparr>a2_clusterSize := get16 11 (m(12 := rest 12))\<rparr> \<and>
   read_clusterInfoUpdate (received m SIZEOF_CONN_PACKET_CLUSTER_INFO_UPDATE rest) =
     (read_clusterInfoUpdate m)\<lparr>iu_hopsToSink := get16 17 (m(18 := rest 18))\<rparr> \<and>
   read_clusterAck1 (received m SIZEOF_CONN_PACKET_CLUSTER_ACK_1 rest) =
     (read_clusterAck1 m)\<lparr>a1_reserved := rest 9\<rparr>"
  by (simp_all add: sizeof_defs read_clusterWelcome_def read_clusterAck2_def
      read_clusterInfoUpdate_def read_clusterAck1_def get16_def)

end
