(* ===== verification/World.thy ===== *)
theory World
  imports PacketQueue SimpleQueue SimpleBuffer Wire "HOL-Library.Monad_Syntax"
begin

text \<open>
  The state of one node: the build configuration (\<^verbatim>\<open>config/Config.h\<close>), the classes of
  \<^verbatim>\<open>inc/*.h\<close> as records, and the boundary to the SoftDevice.

  Every object of the firmware is a singleton or a member of a fixed array, so a pointer to one
  is its name or its index: the four connections are numbered as in \<open>cm->connections\<close> (0 is
  \<open>inConnection\<close>, \<open>i + 1\<close> is \<open>outConnections[i]\<close>), a \<open>NULL\<close> pointer is \<^const>\<open>None\<close>.

  \<open>APP_ERROR_CHECK\<close> on a status other than success always ends in \<^verbatim>\<open>NVIC_SystemReset\<close>
  (\<^verbatim>\<open>Main.cpp\<close>, \<open>app_error_handler\<close>), so an operation is a function into \<open>world option\<close>,
  where \<^const>\<open>None\<close> is the reset.
\<close>

section \<open>config/types.h\<close>

datatype advState = ADV_STATE_OFF | ADV_STATE_LOW | ADV_STATE_MEDIUM | ADV_STATE_HIGH
datatype scanState = SCAN_STATE_OFF | SCAN_STATE_LOW | SCAN_STATE_MEDIUM | SCAN_STATE_HIGH

datatype discoveryState =
  INVALID_STATE | BOOTUP | DISCOVERY | DISCOVERY_HIGH | DISCOVERY_LOW | DECIDING | HANDSHAKE
| CONNECTING | BACK_OFF | DISCOVERY_OFF

datatype deviceTypes = DEVICE_TYPE_STATIC | DEVICE_TYPE_ROAMING | DEVICE_TYPE_SINK

section \<open>config/Config.h\<close>

text \<open>Intervals are given to the SoftDevice in its units, \<open>MSEC_TO_UNITS(ms, unit)\<close>; that macro
  belongs to the SDK and stays symbolic.\<close>

datatype sdk_unit = UNIT_0_625_MS | UNIT_1_25_MS | UNIT_10_MS
datatype interval = MSEC_TO_UNITS nat sdk_unit | RAW u16

record Conf =
  mainTimerTickMs :: u32
  meshMinConnectionInterval :: interval
  meshMaxConnectionInterval :: interval
  meshPeripheralSlaveLatency :: u16
  meshConnectionSupervisionTimeout :: interval
  meshAdvertisingIntervalHigh :: interval
  meshScanIntervalHigh :: interval
  meshScanWindowHigh :: interval
  meshAdvertisingIntervalLow :: interval
  meshScanIntervalLow :: interval
  meshScanWindowLow :: interval
  meshConnectingScanInterval :: interval
  meshConnectingScanWindow :: interval
  meshConnectingScanTimeout :: u16
  meshStateTimeoutHigh :: u16
  meshStateTimeoutLow :: u16
  meshStateTimeoutBackOff :: u16
  meshStateTimeoutBackOffVariance :: u16
  discoveryHighToLowTransitionDuration :: u16
  advertiseOnChannel37 :: u8
  advertiseOnChannel38 :: u8
  advertiseOnChannel39 :: u8
  meshNetworkIdentifier :: u16
  meshMaxInConnections :: u8
  meshMaxOutConnections :: u8
  meshNetworkKey :: "u8 list"
  ignorePersistentNodeConfigurationOnBoot :: bool
  ignorePersistentModuleConfigurationOnBoot :: bool
  encryptionEnabled :: bool
  enableConnectionRSSIMeasurement :: bool
  firmwareVersion :: u32

definition Config :: Conf where
  "Config = \<lparr>mainTimerTickMs = 200,
     meshMinConnectionInterval = MSEC_TO_UNITS 100 UNIT_1_25_MS,
     meshMaxConnectionInterval = MSEC_TO_UNITS 100 UNIT_1_25_MS,
     meshPeripheralSlaveLatency = 0,
     meshConnectionSupervisionTimeout = MSEC_TO_UNITS 6000 UNIT_10_MS,
     meshAdvertisingIntervalHigh = MSEC_TO_UNITS 100 UNIT_0_625_MS,
     meshScanIntervalHigh = MSEC_TO_UNITS 100 UNIT_0_625_MS,
     meshScanWindowHigh = MSEC_TO_UNITS 40 UNIT_0_625_MS,
     meshAdvertisingIntervalLow = MSEC_TO_UNITS 5000 UNIT_0_625_MS,
     meshScanIntervalLow = MSEC_TO_UNITS 1000 UNIT_0_625_MS,
     meshScanWindowLow = MSEC_TO_UNITS 5 UNIT_0_625_MS,
     meshConnectingScanInterval = MSEC_TO_UNITS 100 UNIT_0_625_MS,
     meshConnectingScanWindow = MSEC_TO_UNITS 80 UNIT_0_625_MS,
     meshConnectingScanTimeout = 5,
     meshStateTimeoutHigh = 3000, meshStateTimeoutLow = 10000,
     meshStateTimeoutBackOff = 1000, meshStateTimeoutBackOffVariance = 1000,
     discoveryHighToLowTransitionDuration = 10,
     advertiseOnChannel37 = 1, advertiseOnChannel38 = 0, advertiseOnChannel39 = 0,
     meshNetworkIdentifier = 3, meshMaxInConnections = 1, meshMaxOutConnections = 3,
     meshNetworkKey = [1, 2, 3, 4, 5, 6, 7, 8, 9, 0, 1, 2, 3, 4, 5, 6],
     ignorePersistentNodeConfigurationOnBoot = False,
     ignorePersistentModuleConfigurationOnBoot = True,
     encryptionEnabled = False, enableConnectionRSSIMeasurement = False,
     firmwareVersion = 10000000 * 0 + 10000 * 1 + 9\<rparr>"

definition PACKET_SEND_BUFFER_SIZE :: u16 where "PACKET_SEND_BUFFER_SIZE = 600"
definition PACKET_REASSEMBLY_BUFFER_SIZE :: nat where "PACKET_REASSEMBLY_BUFFER_SIZE = 200"
definition MAX_MODULE_COUNT :: nat where "MAX_MODULE_COUNT = 10"
definition MAXIMUM_CONNECTIONS :: nat where "MAXIMUM_CONNECTIONS = 4"
definition COMPANY_IDENTIFIER :: u16 where "COMPANY_IDENTIFIER = 0x024D"
definition MESH_IDENTIFIER :: u8 where "MESH_IDENTIFIER = 0xF0"
definition SERIAL_NUMBER_LENGTH :: nat where "SERIAL_NUMBER_LENGTH = 5"
definition NODE_ID_BROADCAST :: nodeID where "NODE_ID_BROADCAST = 0"
definition NODE_ID_HOPS_BASE :: nodeID where "NODE_ID_HOPS_BASE = 30000"
definition NODE_ID_SHORTEST_SINK :: nodeID where "NODE_ID_SHORTEST_SINK = 31001"
definition MAX_RETRY_STORAGE_SIZE :: nat where "MAX_RETRY_STORAGE_SIZE = 96"
definition BLE_NODE_ID :: nodeID where "BLE_NODE_ID = 57000"
definition IS_GATEWAY_DEVICE :: bool where "IS_GATEWAY_DEVICE = False"

lemmas config_defs = PACKET_SEND_BUFFER_SIZE_def PACKET_REASSEMBLY_BUFFER_SIZE_def
  MAX_MODULE_COUNT_def MAXIMUM_CONNECTIONS_def COMPANY_IDENTIFIER_def MESH_IDENTIFIER_def
  SERIAL_NUMBER_LENGTH_def NODE_ID_BROADCAST_def NODE_ID_HOPS_BASE_def NODE_ID_SHORTEST_SINK_def
  MAX_RETRY_STORAGE_SIZE_def BLE_NODE_ID_def IS_GATEWAY_DEVICE_def

text \<open>The module ids (\<open>enum moduleID\<close>).\<close>

definition ADVERTISING_MODULE_ID :: u16 where "ADVERTISING_MODULE_ID = 10"
definition SCANNING_MODULE_ID :: u16 where "SCANNING_MODULE_ID = 20"
definition STATUS_REPORTER_MODULE_ID :: u16 where "STATUS_REPORTER_MODULE_ID = 30"
definition ENROLLMENT_MODULE_ID :: u16 where "ENROLLMENT_MODULE_ID = 50"
definition DEBUG_MODULE_ID :: u16 where "DEBUG_MODULE_ID = 30000"
definition LIGHT_TOGGLE_MODULE_ID :: u16 where "LIGHT_TOGGLE_MODULE_ID = 30023"

lemmas module_id_defs = ADVERTISING_MODULE_ID_def SCANNING_MODULE_ID_def
  STATUS_REPORTER_MODULE_ID_def ENROLLMENT_MODULE_ID_def DEBUG_MODULE_ID_def LIGHT_TOGGLE_MODULE_ID_def

section \<open>Connections and their manager\<close>

record ble_gap_addr =
  addr_type :: u8
  addr :: "u8 list"

datatype ConnectionDirection = CONNECTION_DIRECTION_IN | CONNECTION_DIRECTION_OUT

record Connection =
  c_isConnected :: bool
  c_handshakeDone :: bool
  c_connectionId :: u8
  c_direction :: ConnectionDirection
  c_rssiSamplesSum :: u16
  c_rssiSamplesNum :: u16
  c_rssiAverage :: i8
  c_unreliableBuffersFree :: u8
  c_reliableBuffersFree :: u8
  c_packetSendQueue :: PacketQueue
  c_packetSendPosition :: u8
  c_packetReassemblyBuffer :: mem
  c_packetReassemblyPosition :: u8
  c_partnerId :: nodeID
  c_connectionHandle :: u16
  c_partnerAddress :: ble_gap_addr
  c_writeCharacteristicHandle :: u16
  c_connectedClusterId :: clusterID
  c_connectedClusterSize :: clusterSIZE
  c_hopsToSink :: clusterSIZE
  c_handshakeStarted :: u32

record ConnectionManager =
  cm_connections :: "nat \<Rightarrow> Connection"
  cm_pendingConnection :: "nat option"
  cm_doHandshake :: bool
  cm_pendingPackets :: u16
  cm_queueOverflowCount :: u8
  cm_txBuffersPerLink :: u8
  cm_freeInConnections :: u8
  cm_freeOutConnections :: u8

section \<open>The controllers\<close>

text \<open>The advertising types of the SoftDevice; only their being different matters.\<close>

datatype advType = ADV_IND | ADV_SCAN_IND | ADV_NONCONN_IND

record AdvertisingController =
  ac_advertisingState :: advState
  ac_type :: advType
  ac_interval :: interval
  ac_currentAdvertisementPacket :: mem
  ac_currentScanResponsePacket :: mem
  ac_currentAdvertisementPacketLength :: u8
  ac_advertisingPacketAwaitingUpdate :: bool

record ScanController =
  sc_scanningState :: scanState
  sc_interval :: interval
  sc_window :: interval

record meshServiceStruct =
  ms_sendMessageCharacteristicHandle :: u16
  ms_serviceUuidType :: u8
  ms_connectionHandle :: u16

section \<open>The node\<close>

record LedWrapper =
  m_io_msk :: u32
  m_active_high :: bool
  led_active :: bool
  lastStateChangeMs :: u32

record joinMeBufferPacket =
  jb_bleAddressType :: u8
  jb_bleAddress :: "u8 list"
  jb_connectable :: u8
  jb_rssi :: i8
  jb_receivedTime :: u32
  jb_payload :: advPacketPayloadJoinMeV0

record NodeConfiguration =
  pc_version :: u32
  pc_nodeAddress :: ble_gap_addr
  pc_networkId :: networkID
  pc_nodeId :: nodeID
  pc_manufacturerId :: u16
  pc_serialNumber :: "u8 list"
  pc_networkKey :: "u8 list"
  pc_connectionLossCounter :: u16
  pc_deviceType :: deviceTypes
  pc_dBmTX :: u8
  pc_dBmRX :: u8
  pc_retryStorage :: "u16 list"
  pc_timeStorage :: "u32 list"

datatype ledMode = LED_MODE_OFF | LED_MODE_CONNECTIONS | LED_MODE_RADIO

datatype decisionResult =
  DECISION_CONNECT_AS_SLAVE | DECISION_CONNECT_AS_MASTER | DECISION_NO_NODES_FOUND

text \<open>\<open>raw_joinMePacketBuffer\<close> is an array of ten structs of 36 bytes that \<open>joinMePacketBuffer\<close>
  manages by byte offset; \<open>n_joinMeSlots\<close> holds its elements by index.\<close>

record Node =
  n_ackFieldDebugCopy :: nodeID
  n_stateMachineDisabled :: bool
  n_persistentConfig :: NodeConfiguration
  n_isGatewayDevice :: bool
  n_inFeignHandshakeMode :: bool
  n_LedRed :: LedWrapper
  n_LedGreen :: LedWrapper
  n_LedBlue :: LedWrapper
  n_Buzzer :: LedWrapper
  n_Relay :: LedWrapper
  n_joinMePacketBuffer :: SimpleBuffer
  n_joinMeSlots :: "nat \<Rightarrow> joinMeBufferPacket"
  n_currentDiscoveryState :: discoveryState
  n_nextDiscoveryState :: discoveryState
  n_globalTime :: u64
  n_globalTimeSetAt :: u32
  n_passsedTimeSinceLastTimerHandler :: u16
  n_currentStateTimeoutMs :: i32
  n_appTimerMs :: u32
  n_noNodesFoundCounter :: u8
  n_clusterSize :: clusterSIZE
  n_clusterId :: clusterID
  n_ledBlinkPosition :: u8
  n_currentLedMode :: ledMode

section \<open>Modules\<close>

text \<open>The modules this build creates. A module's configuration struct is a block of bytes: the
  common header (module id, version, active flag), then the fields of the module.\<close>

datatype moduleKind = DebugModule | StatusReporterModule | AdvertisingModule | ScanningModule
  | EnrollmentModule | LightToggleModule

record Module =
  m_kind :: moduleKind
  m_moduleId :: u16
  m_configuration :: mem
  m_configurationLength :: u16
  m_storageSlot :: u16

text \<open>The state of single modules outside their configuration.\<close>

record scanFilterEntry =
  sf_active :: u8
  sf_grouping :: u8
  sf_address :: ble_gap_addr
  sf_minRSSI :: i8
  sf_maxRSSI :: i8
  sf_advertisingType :: u8

record ModuleState =
  dm_flood :: u8
  dm_packetsOut :: u32
  dm_packetsIn :: u32
  sr_lastConnectionReportingTimer :: u32
  sr_lastStatusReportingTimer :: u32
  am_broadcastDebugPackets :: bool
  sm_lastReportingTimerMs :: u32
  sm_totalMessages :: u32
  sm_totalRSSI :: i32
  sm_scanFilter :: scanFilterEntry
  lt_relayToggle :: bool

section \<open>The boundary\<close>

text \<open>What a queued storage task points at (\<open>taskitem.data\<close>).\<close>

datatype storage_ref = NODE_CONFIG | MODULE_CONFIG nat

text \<open>The calls that leave the program. A run records them; what they return may depend on
  everything called before (\<open>env\<close>).\<close>

datatype sd_call =
  Adv_data_set "u8 list option" "u8 list option"
| Adv_start advType interval
| Adv_stop
| Scan_start interval interval
| Scan_stop
| Gap_connect ble_gap_addr
| Gap_disconnect u16
| Gap_address_set ble_gap_addr
| Gap_address_get
| Sec_info_reply u16 "u8 list"
| Gap_encrypt u16 "u8 list"
| Rssi_start u16
| Rssi_stop u16
| Gattc_write u16 u16 "u8 list" bool
| Services_discover u16
| Characteristics_discover u16
| Sys_attr_set u16
| Rand_get
| Cnt_get
| Pstorage_load u32 u32
| Pstorage_clear u32
| Pstorage_store u32 u32

record env =
  e_status :: "sd_call list \<Rightarrow> sd_call \<Rightarrow> u32"
  e_rtc :: "sd_call list \<Rightarrow> u32"
  e_cnt_diff :: "u32 \<Rightarrow> u32 \<Rightarrow> u32"
  e_random :: "sd_call list \<Rightarrow> u32"
  e_stack :: "sd_call list \<Rightarrow> mem"
  e_address :: "sd_call list \<Rightarrow> ble_gap_addr"
  e_chipId :: "u32 \<times> u32"
  e_deviceAddr :: "u8 list"
  e_clock_freq :: u32
  e_conn_handle_invalid :: u16
  e_error_invalid_conn_handle :: u16
  e_error_invalid_attr_handle :: u16
  e_ad_type_flags :: u8
  e_adv_flags :: u8
  e_ad_type_manufacturer :: u8
  e_ad_type_name :: u8
  e_sizeof_NodeConfiguration :: u16

section \<open>The world\<close>

record world =
  w_cm :: ConnectionManager
  w_node :: Node
  w_adv :: AdvertisingController
  w_scan :: ScanController
  w_currentlyConnecting :: bool
  w_meshService :: meshServiceStruct
  w_modules :: "nat \<Rightarrow> Module option"
  w_mstate :: ModuleState
  w_taskQueue :: SimpleQueue
  w_bufferedOperationInProgress :: bool
  w_gpio :: u32
  w_trace :: "sd_call list"

text \<open>A packet handed to the handlers (\<open>connectionPacket\<close>).\<close>

record connectionPacket =
  cp_connectionHandle :: u16
  cp_reliable :: bool
  cp_data :: mem
  cp_dataLength :: u16

abbreviation conns :: "world \<Rightarrow> nat \<Rightarrow> Connection" where
  "conns w \<equiv> cm_connections (w_cm w)"

abbreviation pconf :: "world \<Rightarrow> NodeConfiguration" where
  "pconf w \<equiv> n_persistentConfig (w_node w)"

abbreviation nodeId :: "world \<Rightarrow> nodeID" where
  "nodeId w \<equiv> pc_nodeId (pconf w)"

definition upd_conn :: "nat \<Rightarrow> (Connection \<Rightarrow> Connection) \<Rightarrow> world \<Rightarrow> world" where
  "upd_conn i f = w_cm_update (cm_connections_update (\<lambda>cs. cs(i := f (cs i))))"

abbreviation upd_node :: "(Node \<Rightarrow> Node) \<Rightarrow> world \<Rightarrow> world" where
  "upd_node \<equiv> w_node_update"

abbreviation upd_cm :: "(ConnectionManager \<Rightarrow> ConnectionManager) \<Rightarrow> world \<Rightarrow> world" where
  "upd_cm \<equiv> w_cm_update"

lemma upd_conn_simps [simp, frame_simps]:
  "conns (upd_conn i f w) = (conns w)(i := f (conns w i))"
  "cm_pendingConnection (w_cm (upd_conn i f w)) = cm_pendingConnection (w_cm w)"
  "cm_doHandshake (w_cm (upd_conn i f w)) = cm_doHandshake (w_cm w)"
  "cm_pendingPackets (w_cm (upd_conn i f w)) = cm_pendingPackets (w_cm w)"
  "cm_queueOverflowCount (w_cm (upd_conn i f w)) = cm_queueOverflowCount (w_cm w)"
  "cm_txBuffersPerLink (w_cm (upd_conn i f w)) = cm_txBuffersPerLink (w_cm w)"
  "cm_freeInConnections (w_cm (upd_conn i f w)) = cm_freeInConnections (w_cm w)"
  "cm_freeOutConnections (w_cm (upd_conn i f w)) = cm_freeOutConnections (w_cm w)"
  "w_node (upd_conn i f w) = w_node w"
  "w_adv (upd_conn i f w) = w_adv w"
  "w_scan (upd_conn i f w) = w_scan w"
  "w_currentlyConnecting (upd_conn i f w) = w_currentlyConnecting w"
  "w_meshService (upd_conn i f w) = w_meshService w"
  "w_modules (upd_conn i f w) = w_modules w"
  "w_mstate (upd_conn i f w) = w_mstate w"
  "w_gpio (upd_conn i f w) = w_gpio w"
  "w_trace (upd_conn i f w) = w_trace w"
  by (simp_all add: upd_conn_def)

section \<open>Calling out\<close>

text \<open>A call returns the status the environment gives; \<open>checked\<close> is a call followed by
  \<open>APP_ERROR_CHECK\<close>.\<close>

definition app_error_handler :: "u32 \<Rightarrow> world \<Rightarrow> world option" where
  "app_error_handler err w = None"

definition app_error_check :: "u32 \<Rightarrow> world \<Rightarrow> world option" where
  "app_error_check err w = (if err = 0 then Some w else app_error_handler err w)"

definition call :: "env \<Rightarrow> sd_call \<Rightarrow> world \<Rightarrow> world \<times> u32" where
  "call E c w = (w\<lparr>w_trace := w_trace w @ [c]\<rparr>, e_status E (w_trace w) c)"

definition checked :: "env \<Rightarrow> sd_call \<Rightarrow> world \<Rightarrow> world option" where
  "checked E c w = (let (w', err) = call E c w in app_error_check err w')"

definition cnt_get :: "env \<Rightarrow> world \<Rightarrow> world \<times> u32" where
  "cnt_get E w = (w\<lparr>w_trace := w_trace w @ [Cnt_get]\<rparr>, e_rtc E (w_trace w))"

lemma checked_Some: "checked E c w = Some w' \<longleftrightarrow>
    e_status E (w_trace w) c = 0 \<and> w' = w\<lparr>w_trace := w_trace w @ [c]\<rparr>"
  by (auto simp: checked_def call_def app_error_check_def app_error_handler_def)

lemma checked_eq: "checked E c w =
    (if e_status E (w_trace w) c = 0 then Some (w\<lparr>w_trace := w_trace w @ [c]\<rparr>) else None)"
  by (auto simp: checked_def call_def app_error_check_def app_error_handler_def)

text \<open>Running a fallible step over a list, in order.\<close>

fun each :: "('a \<Rightarrow> 'w \<Rightarrow> 'w option) \<Rightarrow> 'a list \<Rightarrow> 'w \<Rightarrow> 'w option" where
  "each f [] w = Some w"
| "each f (x # xs) w = (case f x w of None \<Rightarrow> None | Some w' \<Rightarrow> each f xs w')"

text \<open>A step that keeps a relation to the starting state keeps it when iterated.\<close>

lemma each_invariant:
  assumes "each f xs w = Some w'" "P w" "\<And>x v v'. x \<in> set xs \<Longrightarrow> P v \<Longrightarrow> f x v = Some v' \<Longrightarrow> P v'"
  shows "P w'"
  using assms
proof (induction xs arbitrary: w)
  case (Cons x xs)
  then obtain v where v: "f x w = Some v" "each f xs v = Some w'"
    by (auto split: option.splits)
  have "P v" using Cons.prems(2) v(1) by (rule Cons.prems(3) [rotated]) simp
  from Cons.IH [OF v(2) this] Cons.prems(3) show ?case by auto
qed simp

lemma each_idle: "(\<And>x v. f x v = Some v) \<Longrightarrow> each f xs w = Some w"
  by (induction xs) simp_all

lemma bind_eq_Some_conv [simp]: "Option.bind x f = Some y \<longleftrightarrow> (\<exists>z. x = Some z \<and> f z = Some y)"
  by (cases x) auto

text \<open>An environment in which every call succeeds, for concrete runs.\<close>

definition quiet_env :: env where
  "quiet_env = \<lparr>e_status = \<lambda>_ _. 0, e_rtc = \<lambda>_. 0, e_cnt_diff = \<lambda>a b. a - b, e_random = \<lambda>_. 7,
     e_stack = \<lambda>_ _. 0, e_address = \<lambda>_. \<lparr>addr_type = 1, addr = [1, 2, 3, 4, 5, 6]\<rparr>,
     e_chipId = (1, 2), e_deviceAddr = [1, 2, 3, 4, 5, 6, 7, 8], e_clock_freq = 32768,
     e_conn_handle_invalid = 0xFFFF, e_error_invalid_conn_handle = 0x3002,
     e_error_invalid_attr_handle = 0x3003, e_ad_type_flags = 1, e_adv_flags = 6,
     e_ad_type_manufacturer = 0xFF, e_ad_type_name = 9,
     e_sizeof_NodeConfiguration = 632\<rparr>"

section \<open>Objects when they are created\<close>

text \<open>Zero-initialised objects: the static members, and a stand-in for raw memory in examples.\<close>

definition zero_connection :: Connection where
  "zero_connection = \<lparr>c_isConnected = False, c_handshakeDone = False, c_connectionId = 0,
     c_direction = CONNECTION_DIRECTION_IN, c_rssiSamplesSum = 0, c_rssiSamplesNum = 0,
     c_rssiAverage = 0, c_unreliableBuffersFree = 0, c_reliableBuffersFree = 0,
     c_packetSendQueue = pq_init (\<lambda>_. 0) PACKET_SEND_BUFFER_SIZE, c_packetSendPosition = 0,
     c_packetReassemblyBuffer = \<lambda>_. 0, c_packetReassemblyPosition = 0, c_partnerId = 0,
     c_connectionHandle = 0, c_partnerAddress = \<lparr>addr_type = 0, addr = []\<rparr>,
     c_writeCharacteristicHandle = 0, c_connectedClusterId = 0, c_connectedClusterSize = 0,
     c_hopsToSink = 0, c_handshakeStarted = 0\<rparr>"

definition Connection_Init :: "env \<Rightarrow> u8 \<Rightarrow> Connection \<Rightarrow> Connection" where
  "Connection_Init E txBuffersPerLink c =
     c\<lparr>c_connectedClusterId := 0, c_unreliableBuffersFree := txBuffersPerLink,
       c_reliableBuffersFree := 1, c_partnerId := 0,
       c_connectionHandle := e_conn_handle_invalid E, c_isConnected := False,
       c_handshakeDone := False, c_handshakeStarted := 0, c_writeCharacteristicHandle := 0,
       c_packetReassemblyPosition := 0, c_packetSendPosition := 0, c_rssiSamplesNum := 0,
       c_rssiSamplesSum := 0, c_rssiAverage := 0, c_hopsToSink := - 1,
       c_packetSendQueue := pq_Clean (c_packetSendQueue c)\<rparr>"

definition new_Connection :: "env \<Rightarrow> u8 \<Rightarrow> nat \<Rightarrow> ConnectionDirection \<Rightarrow> Connection \<Rightarrow> Connection" where
  "new_Connection E txBuffersPerLink i dir c =
     Connection_Init E txBuffersPerLink
       (c\<lparr>c_connectionId := of_nat i, c_direction := dir,
          c_packetSendQueue := pq_init (pq_mem (c_packetSendQueue c)) PACKET_SEND_BUFFER_SIZE,
          c_connectedClusterSize := 0, c_packetReassemblyPosition := 0, c_packetSendPosition := 0\<rparr>)"

definition new_ConnectionManager :: "env \<Rightarrow> u8 \<Rightarrow> (nat \<Rightarrow> Connection) \<Rightarrow> ConnectionManager" where
  "new_ConnectionManager E txBuffersPerLink raw =
     \<lparr>cm_connections = \<lambda>i. new_Connection E txBuffersPerLink i
        (if i = 0 then CONNECTION_DIRECTION_IN else CONNECTION_DIRECTION_OUT) (raw i),
      cm_pendingConnection = None, cm_doHandshake = True, cm_pendingPackets = 0,
      cm_queueOverflowCount = 0, cm_txBuffersPerLink = txBuffersPerLink,
      cm_freeInConnections = meshMaxInConnections Config,
      cm_freeOutConnections = meshMaxOutConnections Config\<rparr>"

definition zero_nodeConfiguration :: NodeConfiguration where
  "zero_nodeConfiguration = \<lparr>pc_version = 0, pc_nodeAddress = \<lparr>addr_type = 0, addr = []\<rparr>,
     pc_networkId = 3, pc_nodeId = 1, pc_manufacturerId = 0xFFFF, pc_serialNumber = replicate 6 0,
     pc_networkKey = meshNetworkKey Config, pc_connectionLossCounter = 0,
     pc_deviceType = DEVICE_TYPE_STATIC, pc_dBmTX = 10, pc_dBmRX = 10,
     pc_retryStorage = replicate MAX_RETRY_STORAGE_SIZE 0,
     pc_timeStorage = replicate MAX_RETRY_STORAGE_SIZE 0\<rparr>"

definition zero_joinMe :: joinMeBufferPacket where
  "zero_joinMe = \<lparr>jb_bleAddressType = 0, jb_bleAddress = [], jb_connectable = 0, jb_rssi = 0,
     jb_receivedTime = 0, jb_payload = read_joinMe (\<lambda>_. 0)\<rparr>"

definition zero_led :: LedWrapper where
  "zero_led = \<lparr>m_io_msk = 0, m_active_high = False, led_active = True, lastStateChangeMs = 0\<rparr>"

definition zero_node :: Node where
  "zero_node = \<lparr>n_ackFieldDebugCopy = 0, n_stateMachineDisabled = False,
     n_persistentConfig = zero_nodeConfiguration, n_isGatewayDevice = IS_GATEWAY_DEVICE,
     n_inFeignHandshakeMode = False, n_LedRed = zero_led, n_LedGreen = zero_led,
     n_LedBlue = zero_led, n_Buzzer = zero_led, n_Relay = zero_led,
     n_joinMePacketBuffer = sb_init (\<lambda>_. 0) 360 36, n_joinMeSlots = \<lambda>_. zero_joinMe,
     n_currentDiscoveryState = BOOTUP, n_nextDiscoveryState = INVALID_STATE,
     n_globalTime = 0, n_globalTimeSetAt = 0, n_passsedTimeSinceLastTimerHandler = 0,
     n_currentStateTimeoutMs = 0, n_appTimerMs = 0, n_noNodesFoundCounter = 0,
     n_clusterSize = 1, n_clusterId = 65536, n_ledBlinkPosition = 0,
     n_currentLedMode = LED_MODE_CONNECTIONS\<rparr>"

definition zero_scanFilter :: scanFilterEntry where
  "zero_scanFilter = \<lparr>sf_active = 0, sf_grouping = 0, sf_address = \<lparr>addr_type = 0, addr = []\<rparr>,
     sf_minRSSI = 0, sf_maxRSSI = 0, sf_advertisingType = 0\<rparr>"

definition zero_world :: world where
  "zero_world = \<lparr>w_cm = new_ConnectionManager quiet_env 6 (\<lambda>_. zero_connection), w_node = zero_node,
     w_adv = \<lparr>ac_advertisingState = ADV_STATE_OFF, ac_type = ADV_SCAN_IND, ac_interval = RAW 0,
       ac_currentAdvertisementPacket = \<lambda>_. 0, ac_currentScanResponsePacket = \<lambda>_. 0,
       ac_currentAdvertisementPacketLength = 0, ac_advertisingPacketAwaitingUpdate = False\<rparr>,
     w_scan = \<lparr>sc_scanningState = SCAN_STATE_OFF, sc_interval = RAW 0, sc_window = RAW 0\<rparr>,
     w_currentlyConnecting = False,
     w_meshService = \<lparr>ms_sendMessageCharacteristicHandle = 14, ms_serviceUuidType = 2,
       ms_connectionHandle = 0xFFFF\<rparr>,
     w_modules = \<lambda>_. None,
     w_mstate = \<lparr>dm_flood = 0, dm_packetsOut = 0, dm_packetsIn = 0,
       sr_lastConnectionReportingTimer = 0, sr_lastStatusReportingTimer = 0,
       am_broadcastDebugPackets = False, sm_lastReportingTimerMs = 0, sm_totalMessages = 0,
       sm_totalRSSI = 0, sm_scanFilter = zero_scanFilter, lt_relayToggle = False\<rparr>,
     w_taskQueue = sq_init (\<lambda>_. 0) 160, w_bufferedOperationInProgress = False, w_gpio = 0,
     w_trace = []\<rparr>"

end
