(* ===== verification/Controllers.thy ===== *)
theory Controllers
  imports World
begin

text \<open>
  The layer between the mesh and the SoftDevice: LEDs (\<^verbatim>\<open>LedWrapper.cpp\<close>), the random number
  source (\<^verbatim>\<open>Utility.cpp\<close>), \<^verbatim>\<open>AdvertisingController.cpp\<close>, \<^verbatim>\<open>ScanController.cpp\<close>, \<^verbatim>\<open>GAPController.cpp\<close>
  and \<^verbatim>\<open>GATTController.cpp\<close>, each operation with the SoftDevice calls it makes.
\<close>

section \<open>LedWrapper\<close>

definition led_init :: "nat \<Rightarrow> bool \<Rightarrow> LedWrapper" where
  "led_init io_num active_high = \<lparr>m_io_msk = push_bit io_num 1, m_active_high = active_high,
     led_active = True, lastStateChangeMs = 0\<rparr>"

definition led_On :: "LedWrapper \<Rightarrow> u32 \<Rightarrow> u32" where
  "led_On l out = (if \<not> led_active l then out
     else if m_active_high l then out OR m_io_msk l else out AND NOT (m_io_msk l))"

definition led_Off :: "LedWrapper \<Rightarrow> u32 \<Rightarrow> u32" where
  "led_Off l out = (if \<not> led_active l then out
     else if m_active_high l then out AND NOT (m_io_msk l) else out OR m_io_msk l)"

definition led_Toggle :: "LedWrapper \<Rightarrow> u32 \<Rightarrow> u32" where
  "led_Toggle l out = (if \<not> led_active l then out else out XOR m_io_msk l)"

definition led_lit :: "LedWrapper \<Rightarrow> u32 \<Rightarrow> bool" where
  "led_lit l out \<longleftrightarrow> (if m_active_high l then out AND m_io_msk l = m_io_msk l else out AND m_io_msk l = 0)"

lemma led_On_lit: "led_active l \<Longrightarrow> led_lit l (led_On l out)"
  by (auto simp: led_lit_def led_On_def ac_simps bit_eq_iff bit_simps)

lemma led_other: "m_io_msk l AND m_io_msk l' = 0 \<Longrightarrow>
    led_lit l' (led_On l out) = led_lit l' out \<and> led_lit l' (led_Off l out) = led_lit l' out"
  by (auto simp: led_lit_def led_On_def led_Off_def bit_eq_iff bit_simps)

section \<open>Utility\<close>

text \<open>The random number generator is asked until it delivers, at most 100001 times.\<close>

function random_loop :: "env \<Rightarrow> nat \<Rightarrow> world \<Rightarrow> world \<times> u32" where
  "random_loop E counter w =
     (if counter > 100000 then (w, 5)
      else let (w', err) = call E Rand_get w
           in if counter + 1 > 100000 then (w', 5)
              else if err = 0 then (w', e_random E (w_trace w))
              else random_loop E (counter + 1) w')"
  by auto
termination by (relation "measure (\<lambda>(E, counter, w). 100001 - counter)") auto

declare random_loop.simps [simp del]

definition GetRandomInteger :: "env \<Rightarrow> world \<Rightarrow> world \<times> u32" where
  "GetRandomInteger E w = random_loop E 0 w"

definition GetVersionStringFromInt :: "u32 \<Rightarrow> u16 \<times> u16 \<times> u16" where
  "GetVersionStringFromInt version =
     (let major = (ucast (version div 10000000) :: u16);
          minor = (ucast ((version - 10000000 * ucast major) div 10000) :: u16);
          patch = (ucast (version - 10000000 * ucast major - 10000 * ucast minor) :: u16)
      in (major, minor, patch))"

section \<open>AdvertisingController\<close>

definition adv_Initialize :: "env \<Rightarrow> u16 \<Rightarrow> world \<Rightarrow> world" where
  "adv_Initialize E networkIdentifier w =
     (let a = w_adv w;
          m1 = (ac_currentAdvertisementPacket a)(0 := 2, 1 := e_ad_type_flags E, 2 := e_adv_flags E,
                 4 := e_ad_type_manufacturer E);
          m2 = put16 8 networkIdentifier ((put16 5 COMPANY_IDENTIFIER m1)(7 := MESH_IDENTIFIER));
          r = put16 6 COMPANY_IDENTIFIER ((ac_currentScanResponsePacket a)(0 := 3, 1 := e_ad_type_name E,
                2 := 70, 3 := 77, 4 := 3, 5 := e_ad_type_manufacturer E))
      in w\<lparr>w_adv := a\<lparr>ac_advertisingPacketAwaitingUpdate := False,
             ac_currentAdvertisementPacketLength := 0, ac_type := ADV_SCAN_IND,
             ac_interval := RAW 0x0200, ac_advertisingState := ADV_STATE_OFF,
             ac_currentAdvertisementPacket := m2, ac_currentScanResponsePacket := r\<rparr>\<rparr>)"

definition adv_SetNonConnectable :: "world \<Rightarrow> world" where
  "adv_SetNonConnectable w = w_adv_update (\<lambda>a. a\<lparr>ac_type := ADV_NONCONN_IND\<rparr>) w"

definition SetAdvertisingState :: "env \<Rightarrow> advState \<Rightarrow> world \<Rightarrow> world option" where
  "SetAdvertisingState E newState w =
     (if newState = ac_advertisingState (w_adv w) then Some w
      else do {
        w \<leftarrow> (if ac_advertisingState (w_adv w) \<noteq> ADV_STATE_OFF then checked E Adv_stop w else Some w);
        w \<leftarrow> Some (if newState = ADV_STATE_HIGH
              then w_adv_update (\<lambda>a. a\<lparr>ac_interval := meshAdvertisingIntervalHigh Config\<rparr>) w
              else if newState = ADV_STATE_LOW
              then w_adv_update (\<lambda>a. a\<lparr>ac_interval := meshAdvertisingIntervalLow Config\<rparr>) w
              else w);
        w \<leftarrow> (if ac_advertisingPacketAwaitingUpdate (w_adv w)
              then map_option (w_adv_update (\<lambda>a. a\<lparr>ac_advertisingPacketAwaitingUpdate := False\<rparr>))
                (checked E (Adv_data_set (Some (bytes_at (ac_currentAdvertisementPacket (w_adv w)) 0
                   (unat (ac_currentAdvertisementPacketLength (w_adv w))))) None) w)
              else Some w);
        w \<leftarrow> (if newState \<noteq> ADV_STATE_OFF
              then checked E (Adv_start (ac_type (w_adv w)) (ac_interval (w_adv w))) w else Some w);
        Some (w_adv_update (\<lambda>a. a\<lparr>ac_advertisingState := newState\<rparr>) w)
      })"

definition UpdateAdvertisingData :: "env \<Rightarrow> u8 \<Rightarrow> u8 list \<Rightarrow> bool \<Rightarrow> world \<Rightarrow> world option" where
  "UpdateAdvertisingData E messageType payload connectable w =
     (let t = (if connectable then ADV_IND else ADV_SCAN_IND);
          mustRestartAdvertising = (ac_type (w_adv w) \<noteq> t);
          n = length payload;
          pkt = store_bytes ((ac_currentAdvertisementPacket (w_adv w))(10 := messageType,
                  3 := of_nat n + 7)) SIZEOF_ADV_PACKET_HEADER payload;
          w = w_adv_update (\<lambda>a. a\<lparr>ac_type := t,
                ac_currentAdvertisementPacketLength := of_nat (SIZEOF_ADV_PACKET_HEADER + n),
                ac_currentAdvertisementPacket := pkt\<rparr>) w;
          (w, err) = call E (Adv_data_set (Some (bytes_at pkt 0 (SIZEOF_ADV_PACKET_HEADER + n))) None) w
      in do {
        w \<leftarrow> app_error_check err w;
        w \<leftarrow> (if mustRestartAdvertising then
                let backup = ac_advertisingState (w_adv w)
                in do { w \<leftarrow> SetAdvertisingState E ADV_STATE_OFF w; SetAdvertisingState E backup w }
              else Some w);
        Some (if err \<noteq> 0 then w_adv_update (\<lambda>a. a\<lparr>ac_advertisingPacketAwaitingUpdate := True\<rparr>) w else w)
      })"

definition SetScanResponse :: "env \<Rightarrow> u8 list \<Rightarrow> world \<Rightarrow> world option" where
  "SetScanResponse E payload w =
     (let n = length payload;
          r = store_bytes ((ac_currentScanResponsePacket (w_adv w))(4 := 3 + of_nat n)) 8 payload;
          w = w_adv_update (\<lambda>a. a\<lparr>ac_currentScanResponsePacket := r\<rparr>) w
      in checked E (Adv_data_set None (Some (bytes_at r 0 (8 + n)))) w)"

definition AdvertisingInterruptedBecauseOfIncomingConnectionHandler :: "world \<Rightarrow> world" where
  "AdvertisingInterruptedBecauseOfIncomingConnectionHandler w =
     w_adv_update (\<lambda>a. a\<lparr>ac_advertisingState := ADV_STATE_OFF, ac_type := ADV_SCAN_IND\<rparr>) w"

section \<open>ScanController\<close>

definition scan_Initialize :: "world \<Rightarrow> world" where
  "scan_Initialize w = w_scan_update (\<lambda>s. s\<lparr>sc_interval := meshScanIntervalHigh Config,
     sc_window := meshScanWindowHigh Config, sc_scanningState := SCAN_STATE_OFF\<rparr>) w"

definition SetScanState :: "env \<Rightarrow> scanState \<Rightarrow> world \<Rightarrow> world option" where
  "SetScanState E newState w =
     (if newState = sc_scanningState (w_scan w) then Some w
      else do {
        w \<leftarrow> (if sc_scanningState (w_scan w) \<noteq> SCAN_STATE_OFF then checked E Scan_stop w else Some w);
        w \<leftarrow> Some (if newState = SCAN_STATE_HIGH
              then w_scan_update (\<lambda>s. s\<lparr>sc_interval := meshScanIntervalHigh Config,
                     sc_window := meshScanWindowHigh Config\<rparr>) w
              else if newState = SCAN_STATE_LOW
              then w_scan_update (\<lambda>s. s\<lparr>sc_interval := meshScanIntervalLow Config,
                     sc_window := meshScanWindowLow Config\<rparr>) w
              else w);
        w \<leftarrow> (if newState \<noteq> SCAN_STATE_OFF
              then checked E (Scan_start (sc_interval (w_scan w)) (sc_window (w_scan w))) w else Some w);
        Some (w_scan_update (\<lambda>s. s\<lparr>sc_scanningState := newState\<rparr>) w)
      })"

definition SetScanDutyCycle :: "env \<Rightarrow> u16 \<Rightarrow> u16 \<Rightarrow> world \<Rightarrow> world option" where
  "SetScanDutyCycle E interval window w = do {
     w \<leftarrow> (if sc_scanningState (w_scan w) \<noteq> SCAN_STATE_OFF then checked E Scan_stop w else Some w);
     if interval \<noteq> 0
     then checked E (Scan_start (RAW interval) (RAW window))
            (w_scan_update (\<lambda>s. s\<lparr>sc_interval := RAW interval, sc_window := RAW window\<rparr>) w)
     else Some w
   }"

section \<open>GAPController\<close>

definition connectToPeripheral :: "env \<Rightarrow> ble_gap_addr \<Rightarrow> world \<Rightarrow> (world \<times> bool) option" where
  "connectToPeripheral E address w =
     (if w_currentlyConnecting w then Some (w, False)
      else do {
        w \<leftarrow> checked E (Gap_connect address) (w\<lparr>w_currentlyConnecting := True\<rparr>);
        Some (w_scan_update (\<lambda>s. s\<lparr>sc_scanningState := SCAN_STATE_OFF\<rparr>) w, True)
      })"

definition disconnectFromPeripheral :: "env \<Rightarrow> u16 \<Rightarrow> world \<Rightarrow> world option" where
  "disconnectFromPeripheral E connectionHandle w = checked E (Gap_disconnect connectionHandle) w"

definition startEncryptingConnection :: "env \<Rightarrow> u16 \<Rightarrow> world \<Rightarrow> world option" where
  "startEncryptingConnection E connectionHandle w =
     checked E (Gap_encrypt connectionHandle (pc_networkKey (pconf w))) w"

section \<open>GATTController\<close>

definition getMeshWriteHandle :: "world \<Rightarrow> u16" where
  "getMeshWriteHandle w = ms_sendMessageCharacteristicHandle (w_meshService w)"

definition bleWriteCharacteristic ::
    "env \<Rightarrow> u16 \<Rightarrow> u16 \<Rightarrow> u8 list \<Rightarrow> bool \<Rightarrow> world \<Rightarrow> (world \<times> u32) option" where
  "bleWriteCharacteristic E connectionHandle characteristicHandle data reliable w =
     (if connectionHandle = e_error_invalid_conn_handle E
         \<or> characteristicHandle = e_error_invalid_attr_handle E \<or> data = []
      then Some (w, 0)
      else let (w, err) = call E (Gattc_write connectionHandle characteristicHandle data reliable) w
           in do { w \<leftarrow> app_error_check err w; Some (w, err) })"

definition bleDiscoverHandles :: "env \<Rightarrow> u16 \<Rightarrow> world \<Rightarrow> world option" where
  "bleDiscoverHandles E connectionHandle w = checked E (Services_discover connectionHandle) w"

definition bleServiceDiscoveryFinishedHandler :: "env \<Rightarrow> u16 \<Rightarrow> u16 \<Rightarrow> world \<Rightarrow> world option" where
  "bleServiceDiscoveryFinishedHandler E connectionHandle count w =
     (if count > 0 then checked E (Characteristics_discover connectionHandle) w else Some w)"

definition attributeMissingHandler :: "env \<Rightarrow> u16 \<Rightarrow> world \<Rightarrow> world option" where
  "attributeMissingHandler E connectionHandle w = checked E (Sys_attr_set connectionHandle) w"

definition meshServiceConnectHandler :: "u16 \<Rightarrow> world \<Rightarrow> world" where
  "meshServiceConnectHandler connectionHandle w =
     w_meshService_update (\<lambda>m. m\<lparr>ms_connectionHandle := connectionHandle\<rparr>) w"

definition meshServiceDisconnectHandler :: "env \<Rightarrow> world \<Rightarrow> world" where
  "meshServiceDisconnectHandler E w =
     w_meshService_update (\<lambda>m. m\<lparr>ms_connectionHandle := e_conn_handle_invalid E\<rparr>) w"

section \<open>What the calls add up to\<close>

lemma checked_frame:
  assumes "checked E c w = Some w'"
  shows "w_cm w' = w_cm w" "w_node w' = w_node w" "w_adv w' = w_adv w" "w_scan w' = w_scan w"
    "w_modules w' = w_modules w" "w_mstate w' = w_mstate w" "w_gpio w' = w_gpio w"
    "w_trace w' = w_trace w @ [c]"
  using assms by (auto simp: checked_Some)

text \<open>What is on the air after a sequence of calls: the parameters advertising was last started
  with, if it was not stopped since.\<close>

definition on_air_step :: "sd_call \<Rightarrow> (advType \<times> interval) option \<Rightarrow> (advType \<times> interval) option" where
  "on_air_step c s = (case c of Adv_start t i \<Rightarrow> Some (t, i) | Adv_stop \<Rightarrow> None | _ \<Rightarrow> s)"

definition on_air :: "sd_call list \<Rightarrow> (advType \<times> interval) option" where
  "on_air cs = fold on_air_step cs None"

lemma on_air_append [simp]: "on_air (cs @ ds) = fold on_air_step ds (on_air cs)"
  by (simp add: on_air_def)

lemma on_air_step_simps [simp]:
  "on_air_step (Adv_start t i) s = Some (t, i)"
  "on_air_step Adv_stop s = None"
  "on_air_step (Adv_data_set a b) s = s"
  by (simp_all add: on_air_step_def)

definition adv_in_effect :: "world \<Rightarrow> bool" where
  "adv_in_effect w \<longleftrightarrow> (ac_advertisingState (w_adv w) \<noteq> ADV_STATE_OFF \<longrightarrow>
     on_air (w_trace w) = Some (ac_type (w_adv w), ac_interval (w_adv w)))"

lemma SetAdvertisingState_result:
  assumes "SetAdvertisingState E s w = Some w'"
  shows "ac_advertisingState (w_adv w') = s \<and> ac_type (w_adv w') = ac_type (w_adv w)
    \<and> (s \<noteq> ac_advertisingState (w_adv w) \<longrightarrow> s \<noteq> ADV_STATE_OFF \<longrightarrow>
         on_air (w_trace w') = Some (ac_type (w_adv w'), ac_interval (w_adv w')))
    \<and> (s = ac_advertisingState (w_adv w) \<longrightarrow> w' = w)"
  using assms
  by (auto simp: SetAdvertisingState_def checked_Some split: if_splits)

text \<open>The radio operations change nothing but the radio: everything the mesh keeps stays.\<close>

definition radio_only :: "world \<Rightarrow> world \<Rightarrow> bool" where
  "radio_only w w' \<longleftrightarrow> w_cm w' = w_cm w \<and> w_node w' = w_node w \<and> w_meshService w' = w_meshService w \<and>
     w_modules w' = w_modules w \<and> w_mstate w' = w_mstate w \<and> w_gpio w' = w_gpio w \<and>
     w_taskQueue w' = w_taskQueue w \<and> w_bufferedOperationInProgress w' = w_bufferedOperationInProgress w"

lemma radio_only_refl [simp]: "radio_only w w" by (simp add: radio_only_def)

lemma radio_only_trans [trans]: "radio_only u v \<Longrightarrow> radio_only v w \<Longrightarrow> radio_only u w"
  by (simp add: radio_only_def)

lemma radio_only_upd [simp]:
  "radio_only w (w_adv_update f w')  \<longleftrightarrow> radio_only w w'"
  "radio_only w (w_scan_update g w') \<longleftrightarrow> radio_only w w'"
  "radio_only w (w'\<lparr>w_trace := t\<rparr>) \<longleftrightarrow> radio_only w w'"
  "radio_only w (w'\<lparr>w_currentlyConnecting := b\<rparr>) \<longleftrightarrow> radio_only w w'"
  by (simp_all add: radio_only_def)

lemma radio_only_upd_left [simp]: "radio_only (w\<lparr>w_trace := t\<rparr>) w' \<longleftrightarrow> radio_only w w'"
  by (simp add: radio_only_def)

lemma radio_onlyD:
  assumes "radio_only w w'"
  shows "w_cm w' = w_cm w" "w_node w' = w_node w" "w_meshService w' = w_meshService w"
    "w_modules w' = w_modules w" "w_mstate w' = w_mstate w" "w_gpio w' = w_gpio w"
  using assms by (simp_all add: radio_only_def)

lemma radio_only_checked: "checked E c w = Some w' \<Longrightarrow> radio_only w w'"
  by (auto simp: checked_Some)

lemma radio_only_SetAdvertisingState: "SetAdvertisingState E s w = Some w' \<Longrightarrow> radio_only w w'"
  by (auto simp: SetAdvertisingState_def checked_Some split: if_splits)

lemma radio_only_UpdateAdvertisingData:
  assumes "UpdateAdvertisingData E t p c w = Some w'" shows "radio_only w w'"
  using assms
  by (auto simp: UpdateAdvertisingData_def call_def app_error_check_def app_error_handler_def Let_def
      split: if_splits dest!: radio_only_SetAdvertisingState) (auto simp: radio_only_def)

lemma radio_only_SetScanState: "SetScanState E s w = Some w' \<Longrightarrow> radio_only w w'"
  by (auto simp: SetScanState_def checked_Some split: if_splits)

lemma radio_only_SetScanResponse: "SetScanResponse E p w = Some w' \<Longrightarrow> radio_only w w'"
  by (auto simp: SetScanResponse_def checked_Some Let_def)

lemma radio_only_connectToPeripheral: "connectToPeripheral E a w = Some (w', b) \<Longrightarrow> radio_only w w'"
  by (auto simp: connectToPeripheral_def checked_Some split: if_splits)

lemma radio_only_disconnectFromPeripheral: "disconnectFromPeripheral E h w = Some w' \<Longrightarrow> radio_only w w'"
  by (auto simp: disconnectFromPeripheral_def checked_Some)

lemma radio_only_bleWriteCharacteristic:
  "bleWriteCharacteristic E h c d r w = Some (w', err) \<Longrightarrow> radio_only w w' \<and> err = 0"
  by (auto simp: bleWriteCharacteristic_def call_def app_error_check_def app_error_handler_def
      Let_def split: if_splits)

lemma radio_only_random_loop: "radio_only w (fst (random_loop E k w))"
proof (induction E k w rule: random_loop.induct)
  case (1 E k w)
  show ?case
    by (subst random_loop.simps) (use 1 in \<open>auto simp: call_def Let_def\<close>)
qed

lemmas radio_only_rules = radio_only_checked radio_only_SetAdvertisingState
  radio_only_UpdateAdvertisingData radio_only_SetScanState radio_only_SetScanResponse
  radio_only_disconnectFromPeripheral

section \<open>Properties\<close>



lemma random_loop_result:
  "\<exists>n \<le> 100001 - k. w_trace (fst (random_loop E k w)) = w_trace w @ replicate n Rand_get \<and>
     (snd (random_loop E k w) = 5 \<or>
      (\<exists>m. n = Suc m \<and> e_status E (w_trace w @ replicate m Rand_get) Rand_get = 0 \<and>
        snd (random_loop E k w) = e_random E (w_trace w @ replicate m Rand_get)))"
proof (induction E k w rule: random_loop.induct)
  case (1 E k w)
  let ?w' = "w\<lparr>w_trace := w_trace w @ [Rand_get]\<rparr>"
  let ?err = "e_status E (w_trace w) Rand_get"
  note unfold = random_loop.simps [of E k w]
  consider "k > 100000" | "\<not> k > 100000" "k + 1 > 100000"
    | "\<not> k > 100000" "\<not> k + 1 > 100000" "?err = 0"
    | "\<not> k > 100000" "\<not> k + 1 > 100000" "?err \<noteq> 0"
    by blast
  then show ?case
  proof cases
    case 1
    then show ?thesis unfolding unfold by (intro exI [of _ 0]) simp
  next
    case 2
    then show ?thesis unfolding unfold by (intro exI [of _ 1]) (simp add: call_def Let_def)
  next
    case 3
    then show ?thesis unfolding unfold by (intro exI [of _ 1]) (simp add: call_def Let_def)
  next
    case 4
    have step: "random_loop E k w = random_loop E (k + 1) ?w'"
      unfolding unfold using 4 by (simp add: call_def Let_def)
    from "1.IH" [OF 4(1) refl, of ?w' ?err] 4 obtain n where n: "n \<le> 100001 - (k + 1)"
      "w_trace (fst (random_loop E (k + 1) ?w')) = w_trace ?w' @ replicate n Rand_get"
      "snd (random_loop E (k + 1) ?w') = 5 \<or>
       (\<exists>m. n = Suc m \<and> e_status E (w_trace ?w' @ replicate m Rand_get) Rand_get = 0 \<and>
        snd (random_loop E (k + 1) ?w') = e_random E (w_trace ?w' @ replicate m Rand_get))"
      by (auto simp: call_def)
    have "snd (random_loop E (k + 1) ?w') = 5 \<or>
       (\<exists>m. Suc n = Suc m \<and> e_status E (w_trace w @ replicate m Rand_get) Rand_get = 0 \<and>
        snd (random_loop E (k + 1) ?w') = e_random E (w_trace w @ replicate m Rand_get))"
      using n(3) by auto
    then show ?thesis
      unfolding step using n(1,2) 4 by (intro exI [of _ "Suc n"]) simp
  qed
qed

text \<open>The random number source is asked at most 100001 times and nothing else is called; the
  result is the number the last, successful request delivered, or the fallback 5.\<close>

lemma random_bounded:
  "\<exists>n. n \<le> 100001 \<and> w_trace (fst (GetRandomInteger E w)) = w_trace w @ replicate n Rand_get \<and>
     (snd (GetRandomInteger E w) = 5 \<or>
      (\<exists>m. n = Suc m \<and> e_status E (w_trace w @ replicate m Rand_get) Rand_get = 0 \<and>
        snd (GetRandomInteger E w) = e_random E (w_trace w @ replicate m Rand_get)))"
  using random_loop_result [of 0 E w] by (simp add: GetRandomInteger_def)

text \<open>The version number is unpacked into the three parts it was packed from.\<close>

lemma version_roundtrip:
  assumes "major \<le> 400" "minor \<le> 999" "patch \<le> 9999"
  shows "GetVersionStringFromInt (of_nat (10000000 * major + 10000 * minor + patch)) =
    (of_nat major, of_nat minor, of_nat patch)"
proof -
  let ?N = "10000000 * major + 10000 * minor + patch"
  have dv: "(of_nat n :: u32) div of_nat d = of_nat (n div d)" if "n < 2 ^ 32" "d < 2 ^ 32" for n d
    using that by (simp add: word_unat_eq_iff unat_div_distrib unat_of_nat_small
        order.strict_trans1 [OF div_le_dividend])
  have N: "(of_nat ?N :: u32) = 10000000 * of_nat major + of_nat (10000 * minor + patch)" by simp
  have m: "(of_nat (10000 * minor + patch) :: u32) = 10000 * of_nat minor + of_nat patch" by simp
  have d: "?N div 10000000 = major" "(10000 * minor + patch) div 10000 = minor"
    using assms by (simp_all add: div_nat_eqI)
  have 1: "(of_nat ?N :: u32) div 10000000 = of_nat major"
    using dv [of ?N 10000000] assms unfolding d by (simp del: of_nat_add of_nat_mult)
  have 2: "(of_nat (10000 * minor + patch) :: u32) div 10000 = of_nat minor"
    using dv [of "10000 * minor + patch" 10000] assms unfolding d by (simp del: of_nat_add of_nat_mult)
  have c: "(ucast (of_nat n :: u32) :: u16) = of_nat n" "(ucast (of_nat n :: u16) :: u32) = of_nat n"
    if "n \<le> 9999" for n
    using that by (simp_all add: ucast_of_nat_small)
  have 3: "(of_nat ?N :: u32) - 10000000 * of_nat major = of_nat (10000 * minor + patch)"
    unfolding N by simp
  have 4: "(of_nat (10000 * minor + patch) :: u32) - 10000 * of_nat minor = of_nat patch"
    unfolding m by simp
  show ?thesis
    unfolding GetVersionStringFromInt_def Let_def
    using assms by (simp only: 1 2 3 4 c le_trans [of _ _ 9999])
qed

lemma version_roundtrip_witness:
  "GetVersionStringFromInt (of_nat (10000000 * 0 + 10000 * 1 + 9)) = (of_nat 0, of_nat 1, of_nat 9)"
  by (rule version_roundtrip) simp_all

end
