(* ===== verification/Transport.thy ===== *)
theory Transport
  imports Controllers
begin

text \<open>
  The sending half of \<^verbatim>\<open>src/mesh/ConnectionManager.cpp\<close>: choosing connections, queueing packets,
  filling the transmit buffers of the SoftDevice (with message splitting), and what happens when
  the SoftDevice reports data as transmitted; and the reassembly of split messages on the
  receiving side.
\<close>

section \<open>Choosing a connection\<close>

definition getFreeConnection :: "world \<Rightarrow> nat option" where
  "getFreeConnection w = find (\<lambda>i. \<not> c_isConnected (conns w i)) [0, 1, 2, 3]"

definition GetFreeOutConnection :: "world \<Rightarrow> nat option" where
  "GetFreeOutConnection w = find (\<lambda>i. \<not> c_isConnected (conns w i)) [1, 2, 3]"

definition GetConnectionFromHandle :: "u16 \<Rightarrow> world \<Rightarrow> nat option" where
  "GetConnectionFromHandle h w = find (\<lambda>i. c_connectionHandle (conns w i) = h) [0, 1, 2, 3]"

text \<open>The loop both sink searches run: the first connection with the least number of hops.\<close>

definition sink_step :: "(nat \<Rightarrow> bool) \<Rightarrow> (nat \<Rightarrow> clusterSIZE) \<Rightarrow> nat \<Rightarrow>
    clusterSIZE \<times> nat option \<Rightarrow> clusterSIZE \<times> nat option" where
  "sink_step eligible hops i s =
     (if eligible i \<and> sint (hops i) > -1 \<and> sint (hops i) < sint (fst s) then (hops i, Some i) else s)"

definition GetConnectionToShortestSink :: "nat option \<Rightarrow> world \<Rightarrow> nat option" where
  "GetConnectionToShortestSink exclude w =
     snd (fold (sink_step (\<lambda>i. exclude \<noteq> Some i \<and> c_handshakeDone (conns w i))
       (\<lambda>i. c_hopsToSink (conns w i))) [0, 1, 2, 3] (0x7FFF, None))"

definition GetHopsToShortestSink :: "nat option \<Rightarrow> world \<Rightarrow> clusterSIZE" where
  "GetHopsToShortestSink exclude w =
     (if pc_deviceType (pconf w) = DEVICE_TYPE_SINK then 0
      else case snd (fold (sink_step (\<lambda>i. exclude \<noteq> Some i)
             (\<lambda>i. c_hopsToSink (conns w i))) [0, 1, 2, 3] (0x7FFF, None)) of
        None \<Rightarrow> - 1
      | Some i \<Rightarrow> c_hopsToSink (conns w i))"

section \<open>Splitting a message\<close>

text \<open>What is handed to the SoftDevice next for the packet at \<open>data\<close>: a packet of more than 20
  bytes goes out in parts. Every part but the first starts with a split header that is written
  over the last byte already sent. Returns the memory, the start and the size of the part.\<close>

definition split_packet :: "mem \<Rightarrow> nat \<Rightarrow> u16 \<Rightarrow> u8 \<Rightarrow> mem \<times> nat \<times> u16" where
  "split_packet m data dataSize sendPosition =
     (if unat dataSize > MAX_DATA_SIZE_PER_WRITE then
        if sendPosition \<noteq> 0 then
          let newHeader = data + unat sendPosition;
              more = int (unat dataSize) - int (unat sendPosition) > int MAX_DATA_SIZE_PER_WRITE;
              m' = at_off newHeader (put_hasMoreParts more) m;
              m'' = at_off newHeader (put_messageType (get_messageType (shifted m' data))) m'
          in (m'', newHeader, if more then of_nat MAX_DATA_SIZE_PER_WRITE else dataSize - ucast sendPosition)
        else (at_off data (put_hasMoreParts True) m, data, of_nat MAX_DATA_SIZE_PER_WRITE)
      else (m, data, dataSize))"

section \<open>Sending\<close>

definition QueuePacket :: "nat \<Rightarrow> mem \<Rightarrow> u16 \<Rightarrow> bool \<Rightarrow> world \<Rightarrow> world" where
  "QueuePacket i data dataLength reliable w =
     (let (q, putResult) = pq_Put data (ucast dataLength) reliable (c_packetSendQueue (conns w i));
          w = upd_conn i (\<lambda>c. c\<lparr>c_packetSendQueue := q\<rparr>) w
      in if putResult then upd_cm (\<lambda>m. m\<lparr>cm_pendingPackets := cm_pendingPackets m + 1\<rparr>) w else w)"

text \<open>The timestamp of an UPDATE_TIMESTAMP packet is set as late as possible.\<close>

definition stamp_packet :: "env \<Rightarrow> nat \<Rightarrow> mem \<Rightarrow> world \<Rightarrow> world \<times> mem" where
  "stamp_packet E data m w =
     (if get_messageType (shifted m data) = MESSAGE_TYPE_UPDATE_TIMESTAMP then
        let (w, rtc1) = cnt_get E w;
            additionalTime = e_cnt_diff E rtc1 (n_globalTimeSetAt (w_node w))
        in (w, at_off data (write_timestamp (n_globalTime (w_node w) + ucast additionalTime)) m)
      else (w, m))"

text \<open>One round of the inner loop of \<open>fillTransmitBuffers\<close> for connection \<open>i\<close>; the result says
  whether the packet could not be sent. The loop is only entered with a packet in the queue.\<close>

definition set_queue_mem :: "nat \<Rightarrow> mem \<Rightarrow> world \<Rightarrow> world" where
  "set_queue_mem i m = upd_conn i (\<lambda>c. c\<lparr>c_packetSendQueue := (c_packetSendQueue c)\<lparr>pq_mem := m\<rparr>\<rparr>)"

definition send_reliable :: "env \<Rightarrow> nat \<Rightarrow> nat \<Rightarrow> u16 \<Rightarrow> world \<Rightarrow> (world \<times> bool) option" where
  "send_reliable E i data dataSize w =
     (if c_reliableBuffersFree (conns w i) > 0 then
        let (m, part, size) = split_packet (pq_mem (c_packetSendQueue (conns w i))) data dataSize
                                (c_packetSendPosition (conns w i));
            (w, m) = stamp_packet E part m w;
            w = set_queue_mem i m w
        in do {
          (w, err) \<leftarrow> bleWriteCharacteristic E (c_connectionHandle (conns w i))
             (c_writeCharacteristicHandle (conns w i)) (bytes_at m part (unat size)) True w;
          w \<leftarrow> app_error_check err w;
          Some (if err = 0
                then upd_conn i (\<lambda>c. c\<lparr>c_reliableBuffersFree := c_reliableBuffersFree c - 1\<rparr>) w
                else w, False)
        }
      else Some (w, True))"

definition send_unreliable :: "env \<Rightarrow> nat \<Rightarrow> nat \<Rightarrow> u16 \<Rightarrow> world \<Rightarrow> (world \<times> bool) option" where
  "send_unreliable E i data dataSize w =
     (if c_unreliableBuffersFree (conns w i) > 0 then do {
        (w, err) \<leftarrow> bleWriteCharacteristic E (c_connectionHandle (conns w i))
           (c_writeCharacteristicHandle (conns w i))
           (bytes_at (pq_mem (c_packetSendQueue (conns w i))) data (unat dataSize)) False w;
        Some (if err = 0
              then upd_conn i (\<lambda>c. c\<lparr>c_unreliableBuffersFree := c_unreliableBuffersFree c - 1,
                     c_packetSendQueue := pq_DiscardNext (c_packetSendQueue c)\<rparr>) w
              else w, False)
      } else Some (w, True))"

definition fill_step :: "env \<Rightarrow> nat \<Rightarrow> world \<Rightarrow> (world \<times> bool) option" where
  "fill_step E i w =
     (let (q, packet) = pq_PeekNext (c_packetSendQueue (conns w i));
          w = upd_conn i (\<lambda>c. c\<lparr>c_packetSendQueue := q\<rparr>) w
      in case sd_data packet of
        None \<Rightarrow> Some (w, True)
      | Some p \<Rightarrow>
          let reliable = (pq_mem q p \<noteq> 0); data = p + 1; dataSize = sd_length packet - 1;
              reliable = (if unat dataSize > MAX_DATA_SIZE_PER_WRITE then True else reliable);
              w = (if unat dataSize > MAX_DATA_SIZE_PER_WRITE then w
                   else set_queue_mem i (at_off data (put_hasMoreParts False) (pq_mem q)) w)
          in if reliable then send_reliable E i data dataSize w
             else send_unreliable E i data dataSize w)"

lemma set_queue_mem_simps [simp]:
  "w_node (set_queue_mem i m w) = w_node w"
  "conns (set_queue_mem i m w) =
     (conns w)(i := (conns w i)\<lparr>c_packetSendQueue := (c_packetSendQueue (conns w i))\<lparr>pq_mem := m\<rparr>\<rparr>)"
  "w_trace (set_queue_mem i m w) = w_trace w"
  by (simp_all add: set_queue_mem_def)

lemma radio_only_stamp_packet: "stamp_packet E p m w = (w', m') \<Longrightarrow> radio_only w w'"
  by (auto simp: stamp_packet_def cnt_get_def Let_def split: if_splits)

lemma unat_pred: "(a :: u8) > 0 \<Longrightarrow> unat (a - 1) < unat a"
  by (metis measure_unat word_greater_zero_iff)

text \<open>A round that sends uses up one transmit buffer of its kind.\<close>

lemma send_reliable_result:
  assumes "send_reliable E i data n w = Some (w', b)"
  shows "if b then w' = w \<and> c_reliableBuffersFree (conns w i) = 0
    else c_reliableBuffersFree (conns w i) > 0 \<and>
      c_reliableBuffersFree (conns w' i) = c_reliableBuffersFree (conns w i) - 1 \<and>
      c_unreliableBuffersFree (conns w' i) = c_unreliableBuffersFree (conns w i)"
proof (cases "c_reliableBuffersFree (conns w i) > 0")
  case True
  obtain m part size where sp: "split_packet (pq_mem (c_packetSendQueue (conns w i))) data n
      (c_packetSendPosition (conns w i)) = (m, part, size)" using prod_cases3 by blast
  obtain w1 m1 where st: "stamp_packet E part m w = (w1, m1)" by fastforce
  let ?w2 = "set_queue_mem i m1 w1"
  let ?ble = "bleWriteCharacteristic E (c_connectionHandle (conns ?w2 i))
     (c_writeCharacteristicHandle (conns ?w2 i)) (bytes_at m1 part (unat size)) True ?w2"
  from assms True sp st obtain w3 err where ble: "?ble = Some (w3, err)"
    by (auto simp: send_reliable_def Let_def)
  note r = radio_only_bleWriteCharacteristic [OF ble]
  have w': "w' = upd_conn i (\<lambda>c. c\<lparr>c_reliableBuffersFree := c_reliableBuffersFree c - 1\<rparr>) w3" "\<not> b"
    using assms True sp st ble r
    by (auto simp: send_reliable_def Let_def app_error_check_def)
  have "conns w3 i = conns ?w2 i" using r by (simp add: radio_only_def)
  moreover have "conns w1 = conns w" using radio_only_stamp_packet [OF st] by (simp add: radio_only_def)
  ultimately show ?thesis using True w' by simp
qed (use assms in \<open>auto simp: send_reliable_def word_greater_zero_iff\<close>)

lemma send_unreliable_result:
  assumes "send_unreliable E i data n w = Some (w', b)"
  shows "if b then w' = w \<and> c_unreliableBuffersFree (conns w i) = 0
    else c_unreliableBuffersFree (conns w i) > 0 \<and>
      c_unreliableBuffersFree (conns w' i) = c_unreliableBuffersFree (conns w i) - 1 \<and>
      c_reliableBuffersFree (conns w' i) = c_reliableBuffersFree (conns w i)"
proof (cases "c_unreliableBuffersFree (conns w i) > 0")
  case True
  let ?ble = "bleWriteCharacteristic E (c_connectionHandle (conns w i))
     (c_writeCharacteristicHandle (conns w i))
     (bytes_at (pq_mem (c_packetSendQueue (conns w i))) data (unat n)) False w"
  from assms True obtain w1 err where ble: "?ble = Some (w1, err)"
    by (auto simp: send_unreliable_def)
  note r = radio_only_bleWriteCharacteristic [OF ble]
  with assms True ble show ?thesis
    by (auto simp: send_unreliable_def radio_only_def)
qed (use assms in \<open>auto simp: send_unreliable_def word_greater_zero_iff\<close>)

lemma fill_step_decreases:
  assumes "fill_step E i w = Some (w', False)"
  shows "unat (c_reliableBuffersFree (conns w' i)) + unat (c_unreliableBuffersFree (conns w' i))
    < unat (c_reliableBuffersFree (conns w i)) + unat (c_unreliableBuffersFree (conns w i))"
  using assms unat_pred
  by (auto simp: fill_step_def Let_def split: prod.splits option.splits if_splits
      dest!: send_reliable_result send_unreliable_result)

function fill_loop :: "env \<Rightarrow> nat \<Rightarrow> world \<Rightarrow> world option" where
  "fill_loop E i w =
     (if pq_numElements (c_packetSendQueue (conns w i)) > 0 then
        (case fill_step E i w of
           None \<Rightarrow> None
         | Some (w', packetCouldNotBeSent) \<Rightarrow>
             if packetCouldNotBeSent then Some w' else fill_loop E i w')
      else Some w)"
  by auto
termination
  by (relation "measure (\<lambda>(E, i, w). unat (c_reliableBuffersFree (conns w i))
      + unat (c_unreliableBuffersFree (conns w i)))") (auto dest: fill_step_decreases)

declare fill_loop.simps [simp del]

definition fill_connection :: "env \<Rightarrow> nat \<Rightarrow> world \<Rightarrow> world option" where
  "fill_connection E i w = (if c_isConnected (conns w i) then fill_loop E i w else Some w)"

definition fillTransmitBuffers :: "env \<Rightarrow> world \<Rightarrow> world option" where
  "fillTransmitBuffers E w = each (fill_connection E) [0, 1, 2, 3] w"

definition SendMessage :: "env \<Rightarrow> nat \<Rightarrow> mem \<Rightarrow> u16 \<Rightarrow> bool \<Rightarrow> world \<Rightarrow> world option" where
  "SendMessage E i data dataLength reliable w =
     fillTransmitBuffers E (QueuePacket i data dataLength reliable w)"

definition QueueOverConnections :: "nat option \<Rightarrow> mem \<Rightarrow> u16 \<Rightarrow> bool \<Rightarrow> world \<Rightarrow> world" where
  "QueueOverConnections ignoreConnection data dataLength reliable w =
     fold (\<lambda>i w. if ignoreConnection \<noteq> Some i \<and> c_handshakeDone (conns w i)
                  then QueuePacket i data dataLength reliable w else w) [0, 1, 2, 3] w"

definition SendMessageOverConnections ::
    "env \<Rightarrow> nat option \<Rightarrow> mem \<Rightarrow> u16 \<Rightarrow> bool \<Rightarrow> world \<Rightarrow> world option" where
  "SendMessageOverConnections E ignoreConnection data dataLength reliable w =
     fillTransmitBuffers E (QueueOverConnections ignoreConnection data dataLength reliable w)"

text \<open>\<open>deliver\<close> is \<open>Node::messageReceivedCallback\<close>; the modules it calls may send in turn.\<close>

definition SendMessageToReceiver ::
    "(connectionPacket \<Rightarrow> world \<Rightarrow> world option) \<Rightarrow> env \<Rightarrow> nat option \<Rightarrow> mem \<Rightarrow> u16 \<Rightarrow> bool \<Rightarrow>
     world \<Rightarrow> world option" where
  "SendMessageToReceiver deliver E originConnection data dataLength reliable w = do {
     w \<leftarrow> (if get_receiver data = nodeId w \<or>
              (originConnection = None \<and> get_receiver data = NODE_ID_BROADCAST)
           then deliver \<lparr>cp_connectionHandle = 0, cp_reliable = reliable, cp_data = data,
                  cp_dataLength = dataLength\<rparr> w
           else Some w);
     if get_receiver data = NODE_ID_SHORTEST_SINK then
       (case GetConnectionToShortestSink None w of
          None \<Rightarrow> Some w
        | Some dest \<Rightarrow> SendMessage E dest data dataLength reliable w)
     else if get_receiver data \<noteq> nodeId w
       then SendMessageOverConnections E originConnection data dataLength reliable w
     else Some w
   }"

section \<open>Data transmitted\<close>

text \<open>\<open>None\<close> for a handle without connection is the null pointer the code then follows.\<close>

definition dataTransmitted_TX_COMPLETE :: "env \<Rightarrow> u16 \<Rightarrow> u8 \<Rightarrow> world \<Rightarrow> world option" where
  "dataTransmitted_TX_COMPLETE E handle count w =
     (case GetConnectionFromHandle handle w of
        None \<Rightarrow> None
      | Some i \<Rightarrow>
          let w = upd_conn i (\<lambda>c. c\<lparr>c_unreliableBuffersFree := c_unreliableBuffersFree c + count\<rparr>) w;
              w = upd_cm (\<lambda>m. m\<lparr>cm_pendingPackets := cm_pendingPackets m - ucast count\<rparr>) w
          in if cm_pendingPackets (w_cm w) \<noteq> 0 then fillTransmitBuffers E w else Some w)"

definition dataTransmitted_WRITE_RSP :: "env \<Rightarrow> u16 \<Rightarrow> bool \<Rightarrow> world \<Rightarrow> world option" where
  "dataTransmitted_WRITE_RSP E handle success w =
     (if \<not> success then Some w
      else case GetConnectionFromHandle handle w of
        None \<Rightarrow> None
      | Some i \<Rightarrow>
          let (q, packet) = pq_PeekNext (c_packetSendQueue (conns w i));
              w = upd_conn i (\<lambda>c. c\<lparr>c_packetSendQueue := q\<rparr>) w
          in case sd_data packet of
            None \<Rightarrow> None
          | Some p \<Rightarrow>
              let header = shifted (pq_mem q) (p + 1 + unat (c_packetSendPosition (conns w i)));
                  w = (if \<not> get_hasMoreParts header
                       then upd_cm (\<lambda>m. m\<lparr>cm_pendingPackets := cm_pendingPackets m - 1\<rparr>)
                         (upd_conn i (\<lambda>c. c\<lparr>c_packetSendPosition := 0,
                            c_packetSendQueue := pq_DiscardNext (c_packetSendQueue c)\<rparr>) w)
                       else upd_conn i (\<lambda>c. c\<lparr>c_packetSendPosition := c_packetSendPosition c
                              + of_nat (MAX_DATA_SIZE_PER_WRITE - SIZEOF_CONN_PACKET_SPLIT_HEADER)\<rparr>) w);
                  w = upd_conn i (\<lambda>c. c\<lparr>c_reliableBuffersFree := c_reliableBuffersFree c + 1\<rparr>) w
              in if cm_pendingPackets (w_cm w) \<noteq> 0 then fillTransmitBuffers E w else Some w)"

section \<open>Reassembly\<close>

text \<open>The part of \<open>messageReceivedCallback\<close> that puts split messages together: given the buffer
  and position of the connection and an incoming part, the new buffer and position, and the
  complete message with its length if there is one now.\<close>

definition reassemble :: "mem \<Rightarrow> u8 \<Rightarrow> mem \<Rightarrow> u16 \<Rightarrow> mem \<times> u8 \<times> (mem \<times> u16) option" where
  "reassemble buffer position data len =
     (if position = 0 \<and> \<not> get_hasMoreParts data then (buffer, position, Some (data, len))
      else if position = 0 then
        (store_bytes buffer 0 (bytes_at data 0 (unat len)), position + ucast len, None)
      else
        let buffer' = store_bytes buffer (unat position)
              (bytes_at data SIZEOF_CONN_PACKET_SPLIT_HEADER (unat (ucast len - of_nat SIZEOF_CONN_PACKET_SPLIT_HEADER :: u32)))
        in if get_hasMoreParts data
           then (buffer', position + (ucast len - of_nat SIZEOF_CONN_PACKET_SPLIT_HEADER), None)
           else (buffer', 0, Some (buffer', len + ucast position - of_nat SIZEOF_CONN_PACKET_SPLIT_HEADER)))"

section \<open>Lemmas on the sending path\<close>

lemma QueuePacket_conns:
  "conns (QueuePacket i data n r w) = (conns w)(i := (conns w i)
     \<lparr>c_packetSendQueue := fst (pq_Put data (ucast n) r (c_packetSendQueue (conns w i)))\<rparr>)"
  by (simp add: QueuePacket_def Let_def split: prod.split)

lemma QueuePacket_frame [simp]:
  "w_node (QueuePacket i data n r w) = w_node w"
  "w_trace (QueuePacket i data n r w) = w_trace w"
  "w_modules (QueuePacket i data n r w) = w_modules w"
  by (simp_all add: QueuePacket_def Let_def split: prod.split)

lemma fold_QueuePacket:
  assumes "distinct is"
  shows "conns (fold (\<lambda>i w. if ignore \<noteq> Some i \<and> c_handshakeDone (conns w i)
      then QueuePacket i data n r w else w) is w) j =
    (if j \<in> set is \<and> ignore \<noteq> Some j \<and> c_handshakeDone (conns w j)
     then (conns w j)\<lparr>c_packetSendQueue := fst (pq_Put data (ucast n) r (c_packetSendQueue (conns w j)))\<rparr>
     else conns w j)"
  using assms
proof (induction "is" arbitrary: w)
  case (Cons x xs)
  let ?step = "\<lambda>i w. if ignore \<noteq> Some i \<and> c_handshakeDone (conns w i) then QueuePacket i data n r w else w"
  have other: "conns (?step x w) j = conns w j" if "j \<noteq> x"
    using that by (simp add: QueuePacket_conns)
  have own: "conns (?step x w) x = (if ignore \<noteq> Some x \<and> c_handshakeDone (conns w x)
     then (conns w x)\<lparr>c_packetSendQueue := fst (pq_Put data (ucast n) r (c_packetSendQueue (conns w x)))\<rparr>
     else conns w x)"
    by (simp add: QueuePacket_conns)
  note IH = Cons.IH [of "?step x w"]
  have d: "x \<notin> set xs" "distinct xs" using Cons.prems by simp_all
  show ?case
  proof (cases "j = x")
    case True
    then show ?thesis using IH [OF d(2)] d(1) own by simp
  next
    case False
    then show ?thesis using IH [OF d(2)] other by simp
  qed
qed simp

lemma QueueOverConnections_conns:
  "conns (QueueOverConnections ignore data n r w) j =
    (if j < 4 \<and> ignore \<noteq> Some j \<and> c_handshakeDone (conns w j)
     then (conns w j)\<lparr>c_packetSendQueue := fst (pq_Put data (ucast n) r (c_packetSendQueue (conns w j)))\<rparr>
     else conns w j)"
proof -
  have j: "j \<in> set [0, 1, 2, 3] \<longleftrightarrow> j < (4 :: nat)"
    by (simp add: numeral_eq_Suc less_Suc_eq)
  have d: "distinct [0, 1, 2, 3 :: nat]" by simp
  show ?thesis
    using fold_QueuePacket [OF d, of ignore data n r w j] unfolding QueueOverConnections_def j .
qed

text \<open>Sending on one connection leaves the others, the node and the modules alone.\<close>

definition only_conn :: "nat \<Rightarrow> world \<Rightarrow> world \<Rightarrow> bool" where
  "only_conn i w w' \<longleftrightarrow> (\<forall>j. j \<noteq> i \<longrightarrow> conns w' j = conns w j) \<and> w_node w' = w_node w \<and>
     w_modules w' = w_modules w \<and> w_mstate w' = w_mstate w \<and> w_gpio w' = w_gpio w \<and>
     cm_pendingConnection (w_cm w') = cm_pendingConnection (w_cm w) \<and>
     cm_freeInConnections (w_cm w') = cm_freeInConnections (w_cm w) \<and>
     cm_freeOutConnections (w_cm w') = cm_freeOutConnections (w_cm w)"

lemma only_conn_refl [simp]: "only_conn i w w" by (simp add: only_conn_def)

lemma only_conn_trans: "only_conn i u v \<Longrightarrow> only_conn i v w \<Longrightarrow> only_conn i u w"
  by (simp add: only_conn_def)

lemma only_conn_upd [simp]: "only_conn i w (upd_conn i f w') \<longleftrightarrow> only_conn i w w'"
  by (auto simp: only_conn_def)

lemma only_conn_set_queue_mem [simp]: "only_conn i w (set_queue_mem i m w') \<longleftrightarrow> only_conn i w w'"
  by (simp add: set_queue_mem_def)

lemma radio_only_only_conn: "radio_only w w' \<Longrightarrow> only_conn i w w'"
  by (simp add: only_conn_def radio_only_def)

lemma only_conn_send_reliable:
  assumes "send_reliable E i data n w = Some (w', b)" shows "only_conn i w w'"
proof (cases "c_reliableBuffersFree (conns w i) > 0")
  case True
  obtain m part size where sp: "split_packet (pq_mem (c_packetSendQueue (conns w i))) data n
      (c_packetSendPosition (conns w i)) = (m, part, size)" using prod_cases3 by blast
  obtain w1 m1 where st: "stamp_packet E part m w = (w1, m1)" by fastforce
  let ?w2 = "set_queue_mem i m1 w1"
  let ?ble = "bleWriteCharacteristic E (c_connectionHandle (conns ?w2 i))
     (c_writeCharacteristicHandle (conns ?w2 i)) (bytes_at m1 part (unat size)) True ?w2"
  from assms True sp st obtain w3 err where ble: "?ble = Some (w3, err)"
    by (auto simp: send_reliable_def Let_def)
  have "only_conn i w ?w2" using radio_only_only_conn [OF radio_only_stamp_packet [OF st]] by simp
  then have "only_conn i w w3"
    using radio_only_only_conn [OF conjunct1 [OF radio_only_bleWriteCharacteristic [OF ble]]] by (rule only_conn_trans)
  then show ?thesis
    using assms True sp st ble by (auto simp: send_reliable_def Let_def app_error_check_def app_error_handler_def split: if_splits)
qed (use assms in \<open>auto simp: send_reliable_def\<close>)

lemma only_conn_send_unreliable:
  assumes "send_unreliable E i data n w = Some (w', b)" shows "only_conn i w w'"
  using assms
  by (auto simp: send_unreliable_def split: if_splits prod.splits
      dest!: radio_only_bleWriteCharacteristic radio_only_only_conn)

lemma only_conn_fill_step:
  assumes "fill_step E i w = Some (w', b)" shows "only_conn i w w'"
proof -
  note d = only_conn_send_reliable only_conn_send_unreliable
  show ?thesis
    using assms
    by (auto simp: fill_step_def Let_def split: prod.splits option.splits if_splits
        dest!: d intro: only_conn_trans [rotated])
qed

lemma only_conn_fill_loop:
  "fill_loop E i w = Some w' \<Longrightarrow> only_conn i w w'"
proof (induction E i w arbitrary: w' rule: fill_loop.induct)
  case (1 E i w)
  show ?case
    using "1.prems" "1.IH" only_conn_fill_step [of E i w]
    by (subst (asm) fill_loop.simps)
      (auto split: if_splits option.splits prod.splits intro: only_conn_trans)
qed

end
