(* ===== verification/Sending.thy ===== *)
theory Sending
  imports Transport
begin

text \<open>
  What the sending path of \<^verbatim>\<open>src/mesh/ConnectionManager.cpp\<close> achieves: the way to the sink, the
  connections a packet is queued on, the order in which packets leave, and the exchange of a message
  in parts.
\<close>

section \<open>The shortest sink\<close>

lemma sink_search:
  "fold (sink_step el hops) xs (b, r) = (h', r') \<Longrightarrow>
    sint h' \<le> sint b \<and> (r' = r \<and> h' = b \<or>
      (\<exists>i \<in> set xs. el i \<and> r' = Some i \<and> h' = hops i \<and> sint (hops i) > -1 \<and> sint h' < sint b)) \<and>
    (\<forall>i \<in> set xs. el i \<and> sint (hops i) > -1 \<longrightarrow> sint h' \<le> sint (hops i))"
proof (induction xs arbitrary: b r)
  case (Cons x xs)
  let ?s = "sink_step el hops x (b, r)"
  have "fold (sink_step el hops) xs (fst ?s, snd ?s) = (h', r')" using Cons.prems by simp
  from Cons.IH [OF this] show ?case
    unfolding sink_step_def by (cases "el x \<and> sint (hops x) > -1 \<and> sint (hops x) < sint b") auto
qed simp

lemma sink_search_result:
  "case snd (fold (sink_step el hops) xs (0x7FFF, None)) of
     Some i \<Rightarrow> i \<in> set xs \<and> el i \<and> sint (hops i) > -1 \<and>
       (\<forall>j \<in> set xs. el j \<and> sint (hops j) > -1 \<longrightarrow> sint (hops i) \<le> sint (hops j))
   | None \<Rightarrow> \<forall>j \<in> set xs. el j \<longrightarrow> sint (hops j) \<le> -1 \<or> hops j = 0x7FFF"
proof -
  obtain h r where hr: "fold (sink_step el hops) xs (0x7FFF, None) = (h, r)" by fastforce
  note s = sink_search [OF hr]
  have max: "sint x \<le> sint (0x7FFF :: i16)" for x :: i16
    using sint_lt [of x] by simp
  show ?thesis
  proof (cases r)
    case None
    then have h: "h = 0x7FFF" using s by auto
    have "sint (hops j) \<le> -1 \<or> hops j = 0x7FFF" if "j \<in> set xs" "el j" for j
    proof (cases "sint (hops j) > -1")
      case True
      then have "sint h \<le> sint (hops j)" using s that by blast
      then have "sint (hops j) = sint (0x7FFF :: i16)" using max [of "hops j"] unfolding h by (rule order.antisym [rotated])
      then show ?thesis by (simp only: signed_word_eqI simp_thms)
    qed simp
    then show ?thesis using hr None by auto
  next
    case (Some i)
    with s have i: "i \<in> set xs" "el i" "h = hops i" "sint (hops i) > -1" by auto
    then show ?thesis using hr Some s by auto
  qed
qed

text \<open>C6: The connection used to reach the sink is one that may be used (handshake done, not the
  one to leave out) and knows a sink, and none of the others that may be used is closer; no
  connection is returned exactly if none of them knows a sink.\<close>

theorem shortest_sink:
  "case GetConnectionToShortestSink exclude w of
     Some i \<Rightarrow> i < 4 \<and> exclude \<noteq> Some i \<and> c_handshakeDone (conns w i) \<and>
       sint (c_hopsToSink (conns w i)) > -1 \<and>
       (\<forall>j. j < 4 \<and> exclude \<noteq> Some j \<and> c_handshakeDone (conns w j) \<and> sint (c_hopsToSink (conns w j)) > -1
          \<longrightarrow> sint (c_hopsToSink (conns w i)) \<le> sint (c_hopsToSink (conns w j)))
   | None \<Rightarrow> \<forall>j. j < 4 \<and> exclude \<noteq> Some j \<and> c_handshakeDone (conns w j) \<longrightarrow>
       sint (c_hopsToSink (conns w j)) \<le> -1 \<or> c_hopsToSink (conns w j) = 0x7FFF"
proof -
  have four: "j \<in> set [0, 1, 2, 3] \<longleftrightarrow> j < 4" for j :: nat
    by (simp add: numeral_eq_Suc less_Suc_eq)
  show ?thesis
    using sink_search_result [of "[0, 1, 2, 3]"
        "\<lambda>i. exclude \<noteq> Some i \<and> c_handshakeDone (conns w i)" "\<lambda>i. c_hopsToSink (conns w i)"]
    unfolding GetConnectionToShortestSink_def Ball_def four by (auto split: option.splits)
qed

section \<open>Broadcast\<close>


section \<open>Split messages\<close>

text \<open>One part on its way: the sender picks it, the receiver takes it in, and the sender's
  position moves on when the write response arrives (\<open>dataTransmitted_WRITE_RSP\<close>). \<open>transfer\<close> is
  the exchange of a whole message, bounded by a number of parts.\<close>

fun transfer :: "nat \<Rightarrow> mem \<Rightarrow> nat \<Rightarrow> u16 \<Rightarrow> u8 \<Rightarrow> mem \<Rightarrow> u8 \<Rightarrow> (mem \<times> u8 \<times> mem \<times> u16) option" where
  "transfer 0 m data n sendPos buf pos = None"
| "transfer (Suc k) m data n sendPos buf pos =
     (let (m', part, size) = split_packet m data n sendPos;
          (buf', pos', complete) = reassemble buf pos (shifted m' part) size
      in case complete of
           Some (msg, len) \<Rightarrow> Some (buf', pos', msg, len)
         | None \<Rightarrow> transfer k m' data n (sendPos + of_nat (MAX_DATA_SIZE_PER_WRITE - SIZEOF_CONN_PACKET_SPLIT_HEADER))
                     buf' pos')"

text \<open>The situation when \<open>j + 1\<close> parts have been exchanged.\<close>

definition in_transfer :: "mem \<Rightarrow> mem \<Rightarrow> nat \<Rightarrow> nat \<Rightarrow> nat \<Rightarrow> mem \<Rightarrow> mem \<Rightarrow> bool" where
  "in_transfer msg m data n j buf0 buf \<longleftrightarrow> 19 * (j + 1) + 1 < n \<and> n \<le> 200 \<and>
     (\<forall>i. 19 * (j + 1) < i \<and> i < n \<longrightarrow> m (data + i) = msg i) \<and>
     (\<forall>i < 19 * (j + 1) + 1. buf i = msg i) \<and> (\<forall>i \<ge> 200. buf i = buf0 i)"

lemma at_off_fun_upd: "at_off p (\<lambda>x. x(0 := h x)) m = m(p := h (shifted m p))"
  by (rule ext) (auto simp: at_off_def)

lemma at_off_put_hasMoreParts_other: "i \<noteq> p \<Longrightarrow> at_off p (put_hasMoreParts b) m i = m i"
  using at_off_fun_upd [of p "\<lambda>x. (x 0 AND 0xFE) OR bool_to_u8 b" m]
  by (simp add: put_hasMoreParts_def [abs_def])

lemma split_first:
  "unat n > 20 \<Longrightarrow> split_packet m data n 0 =
     (m(data := (m data AND 0xFE) OR 1), data, 20)"
  using at_off_fun_upd [of data "\<lambda>x. (x 0 AND 0xFE) OR bool_to_u8 True" m]
  by (simp add: split_packet_def MAX_DATA_SIZE_PER_WRITE_def put_hasMoreParts_def [abs_def])

lemma split_later:
  assumes "unat n > 20" "p \<noteq> 0"
  shows "\<exists>h. split_packet m data n p = (m(data + unat p := h), data + unat p,
      if unat n > unat p + 20 then 20 else n - ucast p) \<and> bit h 0 = (unat n > unat p + 20)"
proof -
  let ?q = "data + unat p"
  let ?more = "unat n > unat p + 20"
  let ?m' = "at_off ?q (put_hasMoreParts ?more) m"
  let ?t = "get_messageType (shifted ?m' data)"
  let ?h = "put_messageType ?t (shifted ?m' ?q) 0"
  have eq: "(int (unat n) - int (unat p) > int MAX_DATA_SIZE_PER_WRITE) = ?more"
    unfolding MAX_DATA_SIZE_PER_WRITE_def by linarith
  have m': "?m' = m(?q := ?m' ?q)"
    using at_off_fun_upd [of ?q "\<lambda>x. (x 0 AND 0xFE) OR bool_to_u8 ?more" m]
    by (simp add: put_hasMoreParts_def [abs_def])
  have "at_off ?q (put_messageType ?t) ?m' = ?m'(?q := ?h)"
    using at_off_fun_upd [of ?q "\<lambda>x. (x 0 AND 1) OR push_bit 1 ?t" ?m']
    by (simp add: put_messageType_def [abs_def])
  also have "\<dots> = m(?q := ?h)" by (subst m') simp
  finally have upd: "at_off ?q (put_messageType ?t) ?m' = m(?q := ?h)" .
  have big: "unat n > MAX_DATA_SIZE_PER_WRITE" using assms(1) by (simp add: MAX_DATA_SIZE_PER_WRITE_def)
  have "split_packet m data n p =
      (at_off ?q (put_messageType ?t) ?m', ?q, if ?more then of_nat MAX_DATA_SIZE_PER_WRITE else n - ucast p)"
    unfolding split_packet_def Let_def eq by (simp only: big assms(2) if_True not_False_eq_True)
  then have "split_packet m data n p = (m(?q := ?h), ?q, if ?more then 20 else n - ucast p)"
    unfolding upd by (simp add: MAX_DATA_SIZE_PER_WRITE_def)
  moreover have "bit ?h 0 = ?more"
    using get_hasMoreParts_put_messageType [of ?t "shifted ?m' ?q"]
    by (simp add: get_hasMoreParts_def [symmetric] del: get_hasMoreParts_put_messageType)
  ultimately show ?thesis by blast
qed

lemma transfer_step:
  fixes N j :: nat
  assumes t: "in_transfer msg m data N j buf0 buf"
  defines "p \<equiv> 19 * (j + 1)"
  shows "\<exists>m' buf'. transfer (Suc k) m data (of_nat N) (of_nat p) buf (of_nat (p + 1)) =
      (if N > p + 20 then transfer k m' data (of_nat N) (of_nat (p + 19)) buf' (of_nat (p + 20))
       else Some (buf', 0, buf', of_nat N)) \<and>
    (if N > p + 20 then in_transfer msg m' data N (j + 1) buf0 buf'
     else (\<forall>i < N. buf' i = msg i) \<and> (\<forall>i \<ge> 200. buf' i = buf0 i))"
proof -
  have N: "p + 1 < N" "N \<le> 200"
    and later: "\<And>i. p < i \<Longrightarrow> i < N \<Longrightarrow> m (data + i) = msg i"
    and sofar: "\<And>i. i < p + 1 \<Longrightarrow> buf i = msg i" and rest: "\<And>i. i \<ge> 200 \<Longrightarrow> buf i = buf0 i"
    using t by (auto simp: in_transfer_def p_def)
  have u: "unat (of_nat N :: u16) = N" "unat (of_nat p :: u8) = p" "unat (of_nat (p + 1) :: u8) = p + 1"
    using N unat_of_nat_small [of N, where 'a = 16] unat_of_nat_small [of p, where 'a = 8]
      unat_of_nat_small [of "p + 1", where 'a = 8] by simp_all
  have p0: "p \<ge> 19" by (simp add: p_def)
  then have "(of_nat p :: u8) \<noteq> 0" using u(2) unat_0_iff by fastforce
  then obtain h where h: "bit h 0 = (N > p + 20)"
    "split_packet m data (of_nat N) (of_nat p) = (m(data + p := h), data + p,
      if N > p + 20 then 20 else of_nat N - ucast (of_nat p :: u8))"
    using split_later [of "of_nat N" "of_nat p" m data] u N p0 by auto
  let ?m' = "m(data + p := h)"
  have size: "(if N > p + 20 then 20 else of_nat N - ucast (of_nat p :: u8) :: u16) = of_nat (min 20 (N - p))"
    using N by (simp add: ucast_of_nat_small of_nat_diff)
  let ?l = "min 20 (N - p)"
  let ?buf' = "store_bytes buf (p + 1) (bytes_at (shifted ?m' (data + p)) 1 (?l - 1))"
  have pos: "(of_nat (p + 1) :: u8) \<noteq> 0" using u(3) unat_0_iff by fastforce
  have len: "unat (ucast (of_nat ?l :: u16) - 1 :: u32) = ?l - 1"
  proof -
    have "(ucast (of_nat ?l :: u16) :: u32) = of_nat ?l" by (rule ucast_of_nat_small) simp
    moreover have "(of_nat ?l - 1 :: u32) = of_nat (?l - 1)" using N by (simp add: of_nat_diff)
    ultimately show ?thesis by (simp add: unat_of_nat_small)
  qed
  have buf': "?buf' i = msg i" if "i < p + ?l" for i
    using that sofar [of i] later [of i] N p0 by (cases "i < p + 1") (auto simp: add.assoc)
  have above: "?buf' i = buf0 i" if "i \<ge> 200" for i
    using that rest N by (simp add: p_def)
  have re: "reassemble buf (of_nat (p + 1)) (shifted ?m' (data + p)) (of_nat ?l) =
     (if N > p + 20 then (?buf', of_nat (p + 20), None) else (?buf', 0, Some (?buf', of_nat N)))"
  proof -
    have more: "get_hasMoreParts (shifted ?m' (data + p)) = (N > p + 20)"
      by (simp add: get_hasMoreParts_def h)
    have "ucast (of_nat (p + 1) :: u8) = (of_nat (p + 1) :: u16)"
      using N by (intro ucast_of_nat_small) simp
    moreover have "ucast (of_nat ?l :: u16) = (of_nat ?l :: u8)" by (rule ucast_of_nat_small) simp
    ultimately show ?thesis
      using pos len N u(3) unfolding reassemble_def more SIZEOF_CONN_PACKET_SPLIT_HEADER_def
      by (simp add: of_nat_diff Let_def)
  qed
  have next_pos: "(of_nat p :: u8) + of_nat (MAX_DATA_SIZE_PER_WRITE - SIZEOF_CONN_PACKET_SPLIT_HEADER) = of_nat (p + 19)"
    by (simp add: MAX_DATA_SIZE_PER_WRITE_def SIZEOF_CONN_PACKET_SPLIT_HEADER_def)
  have run: "transfer (Suc k) m data (of_nat N) (of_nat p) buf (of_nat (p + 1)) =
      (if N > p + 20 then transfer k ?m' data (of_nat N) (of_nat (p + 19)) ?buf' (of_nat (p + 20))
       else Some (?buf', 0, ?buf', of_nat N))"
    unfolding transfer.simps h(2) size Let_def split re next_pos by simp
  have "(if N > p + 20 then in_transfer msg ?m' data N (j + 1) buf0 ?buf'
     else (\<forall>i < N. ?buf' i = msg i) \<and> (\<forall>i \<ge> 200. ?buf' i = buf0 i))"
  proof (cases "N > p + 20")
    case True
    have p': "19 * (j + 1 + 1) = p + 19" by (simp add: p_def)
    have "?m' (data + i) = msg i" if "p + 19 < i" "i < N" for i
      using that later [of i] by simp
    then show ?thesis using True N buf' above unfolding in_transfer_def p' by simp
  next
    case False
    then show ?thesis using buf' above N by simp
  qed
  with run show ?thesis by blast
qed

lemma transfer_rest:
  assumes "in_transfer msg m data N j buf0 buf" "N \<le> 19 * (k + j + 1) + 1"
  shows "\<exists>buf'. transfer k m data (of_nat N) (of_nat (19 * (j + 1))) buf (of_nat (19 * (j + 1) + 1)) =
      Some (buf', 0, buf', of_nat N) \<and> (\<forall>i < N. buf' i = msg i) \<and> (\<forall>i \<ge> 200. buf' i = buf0 i)"
  using assms
proof (induction k arbitrary: m j buf)
  case 0
  then show ?case by (simp add: in_transfer_def)
next
  case (Suc k)
  let ?p = "19 * (j + 1)"
  obtain m' buf' where step:
    "transfer (Suc k) m data (of_nat N) (of_nat ?p) buf (of_nat (?p + 1)) =
      (if N > ?p + 20 then transfer k m' data (of_nat N) (of_nat (?p + 19)) buf' (of_nat (?p + 20))
       else Some (buf', 0, buf', of_nat N))"
    "if N > ?p + 20 then in_transfer msg m' data N (j + 1) buf0 buf'
     else (\<forall>i < N. buf' i = msg i) \<and> (\<forall>i \<ge> 200. buf' i = buf0 i)"
    using transfer_step [OF Suc.prems(1)] by blast
  have p: "?p + 19 = 19 * (j + 1 + 1)" "?p + 20 = 19 * (j + 1 + 1) + 1" by simp_all
  show ?case
  proof (cases "N > ?p + 20")
    case True
    then have "in_transfer msg m' data N (j + 1) buf0 buf'" using step(2) by simp
    from Suc.IH [OF this] Suc.prems(2) step(1) True show ?thesis unfolding p by simp
  next
    case False
    then show ?thesis using step by simp
  qed
qed

text \<open>C3: A message of more than 20 and at most 200 bytes is taken apart and put together again:
  within eleven parts the receiver holds exactly its bytes (the flag of the first byte apart, which
  marked the first part) with its length, has reset its position, and never wrote past the 200
  bytes of its reassembly buffer.\<close>

theorem split_reassemble_roundtrip:
  assumes "20 < n" "n \<le> 200"
  shows "\<exists>buf'. transfer 11 m data (of_nat n) 0 buf 0 = Some (buf', 0, buf', of_nat n) \<and>
    bytes_at buf' 0 n = bytes_at (put_hasMoreParts True (shifted m data)) 0 n \<and>
    (\<forall>i. 200 \<le> i \<longrightarrow> buf' i = buf i)"
proof -
  let ?msg = "put_hasMoreParts True (shifted m data)"
  let ?m' = "m(data := (m data AND 0xFE) OR 1)"
  let ?buf' = "store_bytes buf 0 (bytes_at (shifted ?m' data) 0 20)"
  have un: "unat (of_nat n :: u16) = n" using assms by (simp add: unat_of_nat_small)
  have msg: "shifted ?m' data = ?msg" by (rule ext) (simp add: put_hasMoreParts_def)
  have re: "reassemble buf 0 (shifted ?m' data) 20 = (?buf', 20, None)"
    unfolding reassemble_def msg by simp
  have "in_transfer ?msg ?m' data n 0 buf ?buf'"
  proof -
    have "?m' (data + i) = ?msg i" if "19 < i" for i using that by simp
    moreover have "?buf' i = ?msg i" if "i < 20" for i unfolding msg using that by simp
    moreover have "?buf' i = buf i" if "i \<ge> 200" for i using that by simp
    ultimately show ?thesis using assms unfolding in_transfer_def by simp
  qed
  from transfer_rest [OF this, of 10] assms
  obtain buf' where "transfer 10 ?m' data (of_nat n) 19 ?buf' 20 = Some (buf', 0, buf', of_nat n)"
    "\<forall>i < n. buf' i = ?msg i" "\<forall>i \<ge> 200. buf' i = buf i" by auto
  moreover have "transfer 11 m data (of_nat n) 0 buf 0 = transfer 10 ?m' data (of_nat n) 19 ?buf' 20"
  proof -
    have "unat (of_nat n :: u16) > 20" using un assms by simp
    note first = split_first [OF this, of m data]
    have eleven: "11 = Suc (10 :: nat)" by simp
    show ?thesis
      unfolding eleven transfer.simps first Let_def split re
      by (simp add: MAX_DATA_SIZE_PER_WRITE_def SIZEOF_CONN_PACKET_SPLIT_HEADER_def del: transfer.simps)
  qed
  moreover have "bytes_at buf' 0 n = bytes_at ?msg 0 n"
    using calculation(2) by (intro bytes_at_cong) simp
  ultimately show ?thesis by (intro exI [of _ buf'] conjI) simp_all
qed

lemma split_reassemble_roundtrip_witness:
  "\<exists>buf'. transfer 11 (\<lambda>i. of_nat i) 3 (of_nat 45) 0 (\<lambda>_. 0) 0 = Some (buf', 0, buf', of_nat 45) \<and>
    bytes_at buf' 0 45 = bytes_at (put_hasMoreParts True (shifted (\<lambda>i. of_nat i) 3)) 0 45"
  using split_reassemble_roundtrip [of 45 "\<lambda>i. of_nat i" 3 "\<lambda>_. 0"] by auto

lemma zero_world_conns [simp]:
  "\<not> c_handshakeDone (conns zero_world i)" "\<not> c_isConnected (conns zero_world i)"
  by (simp_all add: zero_world_def new_ConnectionManager_def new_Connection_def Connection_Init_def)

lemma zero_world_queue: "pq_rep (c_packetSendQueue (conns zero_world i)) []"
  by (simp add: zero_world_def new_ConnectionManager_def new_Connection_def Connection_Init_def
      pq_init_def PACKET_SEND_BUFFER_SIZE_def pq_Clean_rep)

text \<open>Two neighbours that know a sink, one that knows none.\<close>

definition sink_example :: world where
  "sink_example = upd_conn 0 (\<lambda>c. c\<lparr>c_handshakeDone := True, c_hopsToSink := 5\<rparr>)
     (upd_conn 1 (\<lambda>c. c\<lparr>c_handshakeDone := True, c_hopsToSink := - 1\<rparr>)
     (upd_conn 2 (\<lambda>c. c\<lparr>c_handshakeDone := True, c_hopsToSink := 3\<rparr>) zero_world))"

lemma shortest_sink_witness:
  "GetConnectionToShortestSink None sink_example = Some 2 \<and>
   sint (c_hopsToSink (conns sink_example 2)) \<le> sint (c_hopsToSink (conns sink_example 0))"
proof -
  have r: "GetConnectionToShortestSink None sink_example = Some 2"
    by (simp add: GetConnectionToShortestSink_def sink_step_def sink_example_def)
  have "c_handshakeDone (conns sink_example 0)" "sint (c_hopsToSink (conns sink_example 0)) > -1"
    by (simp_all add: sink_example_def)
  then show ?thesis using shortest_sink [of None sink_example] unfolding r by auto
qed


section \<open>Filling the transmit buffers\<close>

text \<open>The message as it goes out unsplit: the flag for more parts is cleared.\<close>

definition single :: "u8 list \<Rightarrow> u8 list" where
  "single bs = (case bs of [] \<Rightarrow> [] | b # rest \<Rightarrow> (b AND 0xFE) # rest)"

lemma single_idem [simp]: "single (single bs) = single bs"
  by (cases bs) (simp_all add: single_def ac_simps)

lemma length_single [simp]: "length (single bs) = length bs"
  by (cases bs) (simp_all add: single_def)

lemma bytes_at_single:
  assumes "bytes_at m p (length bs) = bs"
  shows "bytes_at (at_off p (put_hasMoreParts False) m) p (length bs) = single bs"
proof (rule nth_equalityI)
  fix i assume "i < length (bytes_at (at_off p (put_hasMoreParts False) m) p (length bs))"
  then have i: "i < length bs" by simp
  have "m (p + i) = bs ! i" using assms i by (metis nth_bytes_at)
  then show "bytes_at (at_off p (put_hasMoreParts False) m) p (length bs) ! i = single bs ! i"
    using i by (cases bs) (auto simp: at_off_apply single_def put_hasMoreParts_def nth_Cons split: nat.split)
qed simp

text \<open>One round of the loop with an unreliable packet of one part at the front.\<close>

lemma fill_step_unreliable:
  fixes w :: world and i :: nat
  defines "c \<equiv> conns w i"
  assumes rep: "pq_rep (c_packetSendQueue c) ((False, bs) # ps)"
    and len: "bs \<noteq> []" "length bs \<le> 20"
    and handles: "c_connectionHandle c \<noteq> e_error_invalid_conn_handle E"
      "c_writeCharacteristicHandle c \<noteq> e_error_invalid_attr_handle E"
    and run: "fill_step E i w = Some (w', b)"
  shows "c_connectionHandle (conns w' i) = c_connectionHandle c \<and>
    c_writeCharacteristicHandle (conns w' i) = c_writeCharacteristicHandle c \<and>
    (if c_unreliableBuffersFree c = 0
     then b \<and> w_trace w' = w_trace w \<and> c_unreliableBuffersFree (conns w' i) = 0 \<and>
       pq_rep (c_packetSendQueue (conns w' i)) ((False, single bs) # ps)
     else \<not> b \<and> c_unreliableBuffersFree (conns w' i) = c_unreliableBuffersFree c - 1 \<and>
       w_trace w' = w_trace w @ [Gattc_write (c_connectionHandle c) (c_writeCharacteristicHandle c) (single bs) False] \<and>
       pq_rep (c_packetSendQueue (conns w' i)) ps)"
proof -
  obtain q s where peek: "pq_PeekNext (c_packetSendQueue c) = (q, s)" by fastforce
  note f = pq_PeekNext_front [OF rep peek]
  define p where "p = pq_readPointer q + 2"
  define m where "m = at_off p (put_hasMoreParts False) (pq_mem q)"
  let ?q = "q\<lparr>pq_mem := m\<rparr>"
  have item: "pq_mem q (pq_readPointer q + 1) = 0" "bytes_at (pq_mem q) p (length bs) = bs"
    using f(2) by (simp_all add: pq_item_at_def p_def)
  have size: "unat (sd_length s - 1) = length bs"
    using f(3) len by (simp add: unat_of_nat_small)
  note single = bytes_at_single [OF item(2), folded m_def]
  have fr: "m j = pq_mem q j" if "j < p \<or> p + length bs \<le> j" for j
    using that len(1) unfolding m_def by (intro at_off_put_hasMoreParts_other) auto
  have edit: "pq_rep ?q ((False, single bs) # ps)" "pq_item_at m (pq_readPointer q) (False, single bs)"
    using pq_edit_front [OF f(1,2) length_single single [unfolded p_def]] fr unfolding p_def by blast+
  have pop: "pq_rep (pq_DiscardNext ?q) ps" by (rule pq_DiscardNext_rep [OF edit(1)]) (use edit(2) in simp)
  let ?w = "set_queue_mem i m (upd_conn i (\<lambda>c. c\<lparr>c_packetSendQueue := q\<rparr>) w)"
  have step: "fill_step E i w = send_unreliable E i p (sd_length s - 1) ?w"
    unfolding fill_step_def c_def [symmetric] peek Let_def split m_def p_def
    using f(3) item size len by (simp add: MAX_DATA_SIZE_PER_WRITE_def)
  have nonempty: "single bs \<noteq> []" using len(1) length_single [of bs] by (metis length_0_conv)
  show ?thesis
    using run handles edit(1) pop nonempty
    unfolding step send_unreliable_def bleWriteCharacteristic_def
    by (auto simp: size single c_def word_greater_zero_iff call_def app_error_check_def
        app_error_handler_def Let_def split: if_splits)
qed

text \<open>As long as the SoftDevice accepts what it is given, sending does not reset the node.\<close>

lemma fill_step_accepted:
  assumes "\<And>t c. e_status E t c = 0"
  shows "fill_step E i w \<noteq> None"
proof -
  have ble: "\<exists>v. bleWriteCharacteristic E h ch d r u = Some (v, 0)" for h ch d r u
    using assms by (simp add: bleWriteCharacteristic_def call_def app_error_check_def)
  show ?thesis
    unfolding fill_step_def send_reliable_def send_unreliable_def Let_def
    using ble assms
    by (auto simp: app_error_check_def app_error_handler_def split: prod.splits option.splits) (metis option.distinct(1))+
qed

lemma fill_loop_accepted:
  assumes "\<And>t c. e_status E t c = 0"
  shows "fill_loop E i w \<noteq> None"
  using assms
proof (induction E i w rule: fill_loop.induct)
  case (1 E i w)
  show ?case
    using fill_step_accepted [OF "1.prems", of i w] "1.IH" "1.prems"
    by (subst fill_loop.simps) (auto split: option.splits prod.splits)
qed

lemma fill_loop_unreliable:
  assumes "pq_rep (c_packetSendQueue (conns w i)) (map (Pair False) bss)"
    and "\<forall>bs \<in> set bss. bs \<noteq> [] \<and> length bs \<le> 20"
    and "c_connectionHandle (conns w i) \<noteq> e_error_invalid_conn_handle E"
      "c_writeCharacteristicHandle (conns w i) \<noteq> e_error_invalid_attr_handle E"
    and "fill_loop E i w = Some w'"
  defines "k \<equiv> min (length bss) (unat (c_unreliableBuffersFree (conns w i)))"
  shows "w_trace w' = w_trace w @ map (\<lambda>bs. Gattc_write (c_connectionHandle (conns w i))
           (c_writeCharacteristicHandle (conns w i)) (single bs) False) (take k bss) \<and>
     unat (c_unreliableBuffersFree (conns w' i)) = unat (c_unreliableBuffersFree (conns w i)) - k \<and>
     (\<exists>rest. pq_rep (c_packetSendQueue (conns w' i)) (map (Pair False) rest) \<and>
        map single rest = map single (drop k bss))"
  using assms(1-5) unfolding k_def
proof (induction bss arbitrary: w)
  case Nil
  then have "pq_numElements (c_packetSendQueue (conns w i)) = 0"
    using pq_rep_numElements_0 by fastforce
  then have "w' = w" using Nil.prems(5) by (subst (asm) fill_loop.simps) simp
  then show ?case using Nil.prems(1) by simp
next
  case (Cons bs bss)
  let ?c = "conns w i"
  have rep: "pq_rep (c_packetSendQueue ?c) ((False, bs) # map (Pair False) bss)" using Cons.prems(1) by simp
  have ne: "pq_numElements (c_packetSendQueue ?c) > 0"
    using pq_rep_numElements_0 [OF rep] by (simp add: word_greater_zero_iff)
  obtain v b where v: "fill_step E i w = Some (v, b)" "if b then w' = v else fill_loop E i v = Some w'"
    using Cons.prems(5) ne by (subst (asm) fill_loop.simps) (auto split: option.splits prod.splits if_splits)
  have len: "bs \<noteq> []" "length bs \<le> 20" using Cons.prems(2) by simp_all
  note step = fill_step_unreliable [OF rep len Cons.prems(3,4) v(1)]
  show ?case
  proof (cases "c_unreliableBuffersFree ?c = 0")
    case True
    then have "w' = v" "w_trace v = w_trace w" "c_unreliableBuffersFree (conns v i) = 0"
      "pq_rep (c_packetSendQueue (conns v i)) (map (Pair False) (single bs # bss))"
      using step v(2) by simp_all
    then show ?thesis using True by (intro conjI exI [of _ "single bs # bss"]) simp_all
  next
    case False
    then have s: "c_unreliableBuffersFree (conns v i) = c_unreliableBuffersFree ?c - 1"
      "w_trace v = w_trace w @ [Gattc_write (c_connectionHandle ?c) (c_writeCharacteristicHandle ?c) (single bs) False]"
      "pq_rep (c_packetSendQueue (conns v i)) (map (Pair False) bss)" "fill_loop E i v = Some w'"
      "c_connectionHandle (conns v i) = c_connectionHandle ?c"
      "c_writeCharacteristicHandle (conns v i) = c_writeCharacteristicHandle ?c"
      using step v(2) by simp_all
    have u: "unat (c_unreliableBuffersFree (conns v i)) = unat (c_unreliableBuffersFree ?c) - 1"
      "unat (c_unreliableBuffersFree ?c) > 0"
      using False s(1) by (simp_all add: unat_gt_0 unat_minus_one)
    then have k: "min (length (bs # bss)) (unat (c_unreliableBuffersFree ?c)) =
       Suc (min (length bss) (unat (c_unreliableBuffersFree (conns v i))))" by simp
    have "\<forall>bs \<in> set bss. bs \<noteq> [] \<and> length bs \<le> 20" using Cons.prems(2) by simp
    note IH = Cons.IH [OF s(3) this Cons.prems(3,4) [folded s(5,6)] s(4)]
    show ?thesis unfolding k using IH s(2,5,6) u by simp
  qed
qed


text \<open>A connection with three waiting packets and two free buffers.\<close>

definition sending_example :: world where
  "sending_example = upd_conn 1 (\<lambda>c. c\<lparr>c_isConnected := True, c_handshakeDone := True,
     c_connectionHandle := 5, c_writeCharacteristicHandle := 14, c_unreliableBuffersFree := 2,
     c_packetSendQueue := fst (pq_put (False, [6, 3]) (fst (pq_put (False, [4, 2])
        (fst (pq_put (False, [2, 1]) (c_packetSendQueue c))))))\<rparr>) zero_world"


end
