(* ===== verification/SendingFrame.thy ===== *)
theory SendingFrame
  imports Transport
begin

text \<open>
  What sending leaves alone: of a connection it changes the send queue and the counters of free
  buffers, and beyond the connections only the number of pending packets.
\<close>

definition conn_same :: "Connection \<Rightarrow> Connection \<Rightarrow> bool" where
  "conn_same c c' \<longleftrightarrow>
     c_isConnected c' = c_isConnected c \<and> c_handshakeDone c' = c_handshakeDone c \<and>
     c_connectionId c' = c_connectionId c \<and> c_direction c' = c_direction c \<and>
     c_packetReassemblyBuffer c' = c_packetReassemblyBuffer c \<and>
     c_packetReassemblyPosition c' = c_packetReassemblyPosition c \<and>
     c_partnerId c' = c_partnerId c \<and> c_connectionHandle c' = c_connectionHandle c \<and>
     c_partnerAddress c' = c_partnerAddress c \<and>
     c_writeCharacteristicHandle c' = c_writeCharacteristicHandle c \<and>
     c_connectedClusterId c' = c_connectedClusterId c \<and>
     c_connectedClusterSize c' = c_connectedClusterSize c \<and> c_hopsToSink c' = c_hopsToSink c"

lemma conn_same_refl [simp]: "conn_same c c" by (simp add: conn_same_def)

lemma conn_same_trans: "conn_same a b \<Longrightarrow> conn_same b c \<Longrightarrow> conn_same a c"
  by (simp add: conn_same_def)

lemma conn_same_upd [simp]:
  "conn_same c (c'\<lparr>c_packetSendQueue := q\<rparr>) \<longleftrightarrow> conn_same c c'"
  "conn_same c (c'\<lparr>c_reliableBuffersFree := r\<rparr>) \<longleftrightarrow> conn_same c c'"
  "conn_same c (c'\<lparr>c_unreliableBuffersFree := u\<rparr>) \<longleftrightarrow> conn_same c c'"
  by (simp_all add: conn_same_def)

definition sending_only :: "world \<Rightarrow> world \<Rightarrow> bool" where
  "sending_only w w' \<longleftrightarrow> (\<forall>j. conn_same (conns w j) (conns w' j)) \<and>
     cm_pendingConnection (w_cm w') = cm_pendingConnection (w_cm w) \<and>
     cm_freeInConnections (w_cm w') = cm_freeInConnections (w_cm w) \<and>
     cm_freeOutConnections (w_cm w') = cm_freeOutConnections (w_cm w) \<and>
     cm_doHandshake (w_cm w') = cm_doHandshake (w_cm w) \<and>
     cm_txBuffersPerLink (w_cm w') = cm_txBuffersPerLink (w_cm w) \<and>
     w_node w' = w_node w \<and> w_modules w' = w_modules w \<and> w_mstate w' = w_mstate w \<and>
     w_gpio w' = w_gpio w \<and> w_meshService w' = w_meshService w \<and> w_taskQueue w' = w_taskQueue w \<and>
     w_bufferedOperationInProgress w' = w_bufferedOperationInProgress w"

lemma sending_only_refl [simp]: "sending_only w w" by (simp add: sending_only_def)

lemma sending_only_trans: "sending_only u v \<Longrightarrow> sending_only v w \<Longrightarrow> sending_only u w"
  unfolding sending_only_def using conn_same_trans by (intro conjI allI) (blast, simp_all)

lemma sending_onlyD:
  assumes "sending_only w w'"
  shows "w_node w' = w_node w" "w_modules w' = w_modules w" "w_mstate w' = w_mstate w" "w_gpio w' = w_gpio w"
    "w_meshService w' = w_meshService w" "w_taskQueue w' = w_taskQueue w"
    "w_bufferedOperationInProgress w' = w_bufferedOperationInProgress w"
    "cm_pendingConnection (w_cm w') = cm_pendingConnection (w_cm w)"
    "cm_freeInConnections (w_cm w') = cm_freeInConnections (w_cm w)"
    "cm_freeOutConnections (w_cm w') = cm_freeOutConnections (w_cm w)"
    "cm_doHandshake (w_cm w') = cm_doHandshake (w_cm w)"
    "conn_same (conns w j) (conns w' j)"
  using assms by (simp_all add: sending_only_def)

lemma radio_only_sending_only: "radio_only w w' \<Longrightarrow> sending_only w w'"
  by (simp add: radio_only_def sending_only_def)

lemma sending_only_upd_conn:
  assumes "conn_same (conns w i) (f (conns w i))" shows "sending_only w (upd_conn i f w)"
  using assms by (simp add: sending_only_def upd_conn_def)

lemma sending_only_set_queue_mem [simp]: "sending_only w (set_queue_mem i m w)"
  unfolding set_queue_mem_def by (rule sending_only_upd_conn) simp

lemma sending_only_QueuePacket: "sending_only w (QueuePacket i data n r w)"
proof -
  obtain q b where p: "pq_Put data (ucast n) r (c_packetSendQueue (conns w i)) = (q, b)" by fastforce
  have s: "sending_only w (upd_conn i (\<lambda>c. c\<lparr>c_packetSendQueue := q\<rparr>) w)" by (rule sending_only_upd_conn) simp
  have "sending_only v (upd_cm (\<lambda>m. m\<lparr>cm_pendingPackets := cm_pendingPackets m + 1\<rparr>) v)" for v
    by (simp add: sending_only_def)
  from sending_only_trans [OF s this] s show ?thesis by (simp add: QueuePacket_def p Let_def)
qed

lemma sending_only_QueueOverConnections: "sending_only w (QueueOverConnections ignore data n r w)"
proof -
  have "sending_only u (fold (\<lambda>i w. if P i w then QueuePacket i data n r w else w) is v)"
    if "sending_only u v" for P "is" u v
    using that by (induction "is" arbitrary: v) (auto intro: sending_only_trans [OF _ sending_only_QueuePacket])
  from this [OF sending_only_refl] show ?thesis unfolding QueueOverConnections_def .
qed

lemma sending_only_send_reliable:
  assumes "send_reliable E i data n w = Some (w', b)" shows "sending_only w w'"
proof (cases "c_reliableBuffersFree (conns w i) > 0")
  case True
  obtain m part size where sp: "split_packet (pq_mem (c_packetSendQueue (conns w i))) data n
      (c_packetSendPosition (conns w i)) = (m, part, size)" using prod_cases3 by blast
  obtain w1 m1 where st: "stamp_packet E part m w = (w1, m1)" by fastforce
  let ?w2 = "set_queue_mem i m1 w1"
  let ?ble = "bleWriteCharacteristic E (c_connectionHandle (conns ?w2 i))
     (c_writeCharacteristicHandle (conns ?w2 i)) (bytes_at m1 part (unat size)) True ?w2"
  from assms True sp st obtain w3 err where ble: "?ble = Some (w3, err)"
    by (auto simp: send_reliable_def Let_def)
  note r = radio_only_sending_only [OF conjunct1 [OF radio_only_bleWriteCharacteristic [OF ble]]]
  have "sending_only w ?w2"
    using sending_only_trans [OF radio_only_sending_only [OF radio_only_stamp_packet [OF st]]] by simp
  then have s: "sending_only w w3" using r by (rule sending_only_trans)
  have "sending_only w3 (upd_conn i (\<lambda>c. c\<lparr>c_reliableBuffersFree := c_reliableBuffersFree c - 1\<rparr>) w3)"
    by (rule sending_only_upd_conn) simp
  with s show ?thesis
    using assms True sp st ble sending_only_trans
    by (auto simp: send_reliable_def Let_def app_error_check_def app_error_handler_def split: if_splits)
qed (use assms in \<open>auto simp: send_reliable_def\<close>)

lemma sending_only_send_unreliable:
  assumes "send_unreliable E i data n w = Some (w', b)" shows "sending_only w w'"
proof (cases "c_unreliableBuffersFree (conns w i) > 0")
  case True
  with assms obtain v err where v: "bleWriteCharacteristic E (c_connectionHandle (conns w i))
     (c_writeCharacteristicHandle (conns w i))
     (bytes_at (pq_mem (c_packetSendQueue (conns w i))) data (unat n)) False w = Some (v, err)"
    by (auto simp: send_unreliable_def)
  have s: "sending_only w v"
    by (rule radio_only_sending_only [OF conjunct1 [OF radio_only_bleWriteCharacteristic [OF v]]])
  have "sending_only v (upd_conn i (\<lambda>c. c\<lparr>c_unreliableBuffersFree := c_unreliableBuffersFree c - 1,
      c_packetSendQueue := pq_DiscardNext (c_packetSendQueue c)\<rparr>) v)"
    by (rule sending_only_upd_conn) simp
  from sending_only_trans [OF s this] s show ?thesis
    using assms True v by (auto simp: send_unreliable_def split: if_splits)
qed (use assms in \<open>auto simp: send_unreliable_def\<close>)

lemma sending_only_fill_step:
  assumes "fill_step E i w = Some (w', b)" shows "sending_only w w'"
proof -
  obtain q packet where p: "pq_PeekNext (c_packetSendQueue (conns w i)) = (q, packet)" by fastforce
  let ?w = "upd_conn i (\<lambda>c. c\<lparr>c_packetSendQueue := q\<rparr>) w"
  have 0: "sending_only w ?w" by (rule sending_only_upd_conn) simp
  have 1: "sending_only w (set_queue_mem i m ?w)" for m
    by (rule sending_only_trans [OF 0 sending_only_set_queue_mem])
  show ?thesis
    using assms p 0 1
    by (auto simp: fill_step_def Let_def split: option.splits if_splits
        dest!: sending_only_send_reliable sending_only_send_unreliable intro: sending_only_trans)
qed

lemma sending_only_fill_loop: "fill_loop E i w = Some w' \<Longrightarrow> sending_only w w'"
proof (induction E i w arbitrary: w' rule: fill_loop.induct)
  case (1 E i w)
  show ?case
    using "1.prems" "1.IH" sending_only_fill_step [of E i w]
    by (subst (asm) fill_loop.simps)
      (auto split: if_splits option.splits prod.splits intro: sending_only_trans)
qed

lemma sending_only_fillTransmitBuffers:
  assumes "fillTransmitBuffers E w = Some w'" shows "sending_only w w'"
  using assms unfolding fillTransmitBuffers_def
proof (rule each_invariant)
  fix x v v' assume "sending_only w v" "fill_connection E x v = Some v'"
  then show "sending_only w v'"
    using sending_only_fill_loop sending_only_trans by (auto simp: fill_connection_def split: if_splits)
qed simp

lemma sending_only_SendMessage: "SendMessage E i data n r w = Some w' \<Longrightarrow> sending_only w w'"
  unfolding SendMessage_def
  by (rule sending_only_trans [OF sending_only_QueuePacket sending_only_fillTransmitBuffers])

lemma sending_only_SendMessageOverConnections:
  "SendMessageOverConnections E ignore data n r w = Some w' \<Longrightarrow> sending_only w w'"
  unfolding SendMessageOverConnections_def
  by (rule sending_only_trans [OF sending_only_QueueOverConnections sending_only_fillTransmitBuffers])

text \<open>Nothing is sent while nobody is connected.\<close>

lemma fillTransmitBuffers_idle:
  assumes "\<And>i. i < 4 \<Longrightarrow> \<not> c_isConnected (conns w i)" shows "fillTransmitBuffers E w = Some w"
  using assms by (simp add: fillTransmitBuffers_def fill_connection_def)

end
