(* ===== verification/Discovery.thy ===== *)
theory Discovery
  imports Transport
begin

text \<open>
  Cluster discovery (\<^verbatim>\<open>src/mesh/Node.cpp\<close>): the JOIN_ME packets a node sends and collects, the
  choice of the best cluster to connect to, and the discovery state machine with its timer; with
  the operations of \<^verbatim>\<open>ConnectionManager.cpp\<close> and \<^verbatim>\<open>Connection.cpp\<close> that open and close connections,
  and the modules' reactions to a new state.
\<close>

section \<open>Opening and closing connections\<close>

definition Connection_Connect :: "env \<Rightarrow> nat \<Rightarrow> ble_gap_addr \<Rightarrow> u16 \<Rightarrow> world \<Rightarrow> world \<times> bool" where
  "Connection_Connect E i address handle w =
     (if c_isConnected (conns w i) then (w, False)
      else (upd_conn i (\<lambda>c. (Connection_Init E (cm_txBuffersPerLink (w_cm w)) c)
              \<lparr>c_partnerAddress := address, c_writeCharacteristicHandle := handle\<rparr>) w, True))"

definition Connection_Disconnect :: "env \<Rightarrow> nat \<Rightarrow> world \<Rightarrow> world option" where
  "Connection_Disconnect E i w = disconnectFromPeripheral E (c_connectionHandle (conns w i)) w"

definition cm_Disconnect :: "env \<Rightarrow> u16 \<Rightarrow> world \<Rightarrow> world option" where
  "cm_Disconnect E handle w =
     (case GetConnectionFromHandle handle w of None \<Rightarrow> Some w | Some i \<Rightarrow> Connection_Disconnect E i w)"

definition DisconnectOtherConnections :: "env \<Rightarrow> nat option \<Rightarrow> world \<Rightarrow> world option" where
  "DisconnectOtherConnections E keep w =
     each (\<lambda>i w. if keep \<noteq> Some i \<and> c_isConnected (conns w i) then Connection_Disconnect E i w else Some w)
       [0, 1, 2, 3] w"

text \<open>If the counter of free connections and the connections disagree, the code follows a null
  pointer.\<close>

definition ConnectAsMaster :: "env \<Rightarrow> ble_gap_addr \<Rightarrow> u16 \<Rightarrow> world \<Rightarrow> (world \<times> nat option) option" where
  "ConnectAsMaster E address handle w =
     (if cm_freeOutConnections (w_cm w) = 0 \<or> cm_pendingConnection (w_cm w) \<noteq> None then Some (w, None)
      else let w = upd_cm (\<lambda>m. m\<lparr>cm_freeOutConnections := cm_freeOutConnections m - 1\<rparr>) w
      in case GetFreeOutConnection w of
        None \<Rightarrow> None
      | Some i \<Rightarrow>
          let w = upd_cm (\<lambda>m. m\<lparr>cm_pendingConnection := Some i\<rparr>) w;
              w = upd_conn i (\<lambda>c. c\<lparr>c_writeCharacteristicHandle := handle\<rparr>) w;
              (w, connected) = Connection_Connect E i address handle w
          in do { (w, ok) \<leftarrow> connectToPeripheral E address w; Some (w, Some i) })"

section \<open>JOIN_ME packets\<close>

text \<open>\<open>nodeId + connectionLossCounter << 16\<close>: the sum is formed first.\<close>

definition GenerateClusterID :: "world \<Rightarrow> clusterID" where
  "GenerateClusterID w = push_bit 16 (ucast (nodeId w) + ucast (pc_connectionLossCounter (pconf w)))"

text \<open>The packet is built on the stack; the fields the code does not assign keep what lay there.\<close>

definition UpdateJoinMePacket :: "env \<Rightarrow> joinMeBufferPacket option \<Rightarrow> world \<Rightarrow> world option" where
  "UpdateJoinMePacket E ackCluster w =
     (let stack = e_stack E (w_trace w);
          packet = (read_joinMe stack)\<lparr>jm_sender := nodeId w, jm_clusterId := n_clusterId (w_node w),
             jm_clusterSize := n_clusterSize (w_node w),
             jm_freeInConnections := cm_freeInConnections (w_cm w),
             jm_freeOutConnections := cm_freeOutConnections (w_cm w), jm_ackField := 0,
             jm_version := 0, jm_meshWriteHandle := getMeshWriteHandle w\<rparr>;
          packet = (case ackCluster of None \<Rightarrow> packet
             | Some a \<Rightarrow> packet\<lparr>jm_clusterSize := jm_clusterSize (jb_payload a),
                 jm_ackField := jm_sender (jb_payload a)\<rparr>);
          w = (case ackCluster of None \<Rightarrow> w
             | Some a \<Rightarrow> upd_node (\<lambda>n. n\<lparr>n_ackFieldDebugCopy := jm_ackField (jb_payload a)\<rparr>) w)
      in UpdateAdvertisingData E MESSAGE_TYPE_JOIN_ME
           (bytes_at (write_joinMe packet stack) SIZEOF_ADV_PACKET_HEADER SIZEOF_ADV_PACKET_PAYLOAD_JOIN_ME_V0)
           (\<not> c_isConnected (conns w 0)) w)"

definition UpdateScanResponsePacket :: "env \<Rightarrow> u8 list \<Rightarrow> world \<Rightarrow> world option" where
  "UpdateScanResponsePacket E newData w = SetScanResponse E newData w"

section \<open>Modules and the state of the node\<close>

definition module_active :: "Module \<Rightarrow> bool" where
  "module_active m \<longleftrightarrow> m_configuration m 3 \<noteq> 0"

text \<open>The debug packet of the advertising module.\<close>

definition adv_debug_packet :: "env \<Rightarrow> world \<Rightarrow> u8 list" where
  "adv_debug_packet E w =
     (let free = (\<lambda>i. (if c_reliableBuffersFree (conns w i) > 0 then push_bit (2 * i) 1 else 0)
                   OR (if c_unreliableBuffersFree (conns w i) > 0 then push_bit (2 * i + 1) 1 else 0));
          partner = (\<lambda>i m. if c_isConnected (conns w i) then put16 (21 + 2 * i) (c_partnerId (conns w i)) m else m);
          m = ((\<lambda>_. 0) :: mem)(0 := 2, 1 := e_ad_type_flags E, 2 := e_adv_flags E, 3 := 26,
                4 := e_ad_type_manufacturer E);
          m = (put16 5 0x24D m)(7 := 0xDE);
          m = put16 14 (n_clusterSize (w_node w)) (put32 10 (n_clusterId (w_node w)) (put16 8 (nodeId w) m));
          m = (put16 18 (pc_connectionLossCounter (pconf w))
                (m(16 := cm_freeInConnections (w_cm w), 17 := cm_freeOutConnections (w_cm w))))
                (20 := free 0 OR free 1 OR free 2 OR free 3);
          m = (partner 3 (partner 2 (partner 1 (partner 0 m))))(29 := 0xDE)
      in bytes_at m 0 31)"

definition AdvertisingModule_NodeStateChangedHandler ::
    "env \<Rightarrow> Module \<Rightarrow> discoveryState \<Rightarrow> world \<Rightarrow> world option" where
  "AdvertisingModule_NodeStateChangedHandler E m newState w =
     (if newState = BACK_OFF \<or> newState = DISCOVERY_OFF then
        if am_broadcastDebugPackets (w_mstate w) then do {
          w \<leftarrow> checked E (Adv_data_set (Some (adv_debug_packet E w)) None) w;
          SetAdvertisingState E ADV_STATE_HIGH w
        }
        else if m_configuration m 6 > 0 then do {
          w \<leftarrow> checked E (Adv_data_set (Some (bytes_at (m_configuration m) 9
                 (unat (drop_bit 3 (m_configuration m 8))))) None) w;
          SetAdvertisingState E ADV_STATE_HIGH
            (if bit (m_configuration m 8) 0 then adv_SetNonConnectable w else w)
        }
        else Some w
      else if newState = DISCOVERY then UpdateJoinMePacket E None w
      else Some w)"

definition ScanningModule_NodeStateChangedHandler ::
    "env \<Rightarrow> discoveryState \<Rightarrow> world \<Rightarrow> world option" where
  "ScanningModule_NodeStateChangedHandler E newState w =
     (if newState = BACK_OFF then SetScanState E SCAN_STATE_HIGH w else Some w)"

text \<open>The other modules do not override the handler.\<close>

definition NodeStateChangedHandler :: "env \<Rightarrow> Module \<Rightarrow> discoveryState \<Rightarrow> world \<Rightarrow> world option" where
  "NodeStateChangedHandler E m newState w =
     (case m_kind m of
        AdvertisingModule \<Rightarrow> AdvertisingModule_NodeStateChangedHandler E m newState w
      | ScanningModule \<Rightarrow> ScanningModule_NodeStateChangedHandler E newState w
      | _ \<Rightarrow> Some w)"

definition inform_modules :: "env \<Rightarrow> discoveryState \<Rightarrow> world \<Rightarrow> world option" where
  "inform_modules E newState w =
     each (\<lambda>i w. case w_modules w i of None \<Rightarrow> Some w
        | Some m \<Rightarrow> if module_active m then NodeStateChangedHandler E m newState w else Some w)
       [0..<MAX_MODULE_COUNT] w"

section \<open>Choosing a cluster\<close>

definition MAX_JOIN_ME_PACKET_AGE_MS :: u32 where "MAX_JOIN_ME_PACKET_AGE_MS = 15000"

definition too_old :: "joinMeBufferPacket \<Rightarrow> world \<Rightarrow> bool" where
  "too_old packet w \<longleftrightarrow> n_appTimerMs (w_node w) - jb_receivedTime packet > MAX_JOIN_ME_PACKET_AGE_MS"

definition CalculateClusterScoreAsMaster :: "joinMeBufferPacket \<Rightarrow> world \<Rightarrow> u32" where
  "CalculateClusterScoreAsMaster packet w =
     (let p = jb_payload packet; size = n_clusterSize (w_node w); cid = n_clusterId (w_node w)
      in if too_old packet w then 0
         else if jm_clusterId p = cid then 0
         else if jm_freeInConnections p = 0 then 0
         else if jm_ackField p = 0 \<and> (sint (jm_clusterSize p) > sint size \<or>
                   jm_clusterSize p = size \<and> jm_clusterId p > cid) then 0
         else if jm_ackField p \<noteq> 0 \<and> jm_ackField p \<noteq> nodeId w \<and> \<not> sint (jm_clusterSize p) \<le> sint size then 0
         else ucast (jm_freeInConnections p) * 1000 + ucast (jm_freeOutConnections p) * 100)"

definition CalculateClusterScoreAsSlave :: "joinMeBufferPacket \<Rightarrow> world \<Rightarrow> u32" where
  "CalculateClusterScoreAsSlave packet w =
     (let p = jb_payload packet
      in if too_old packet w then 0
         else if jm_clusterId p = n_clusterId (w_node w) then 0
         else if jm_ackField p \<noteq> 0 then 0
         else if jm_freeOutConnections p = 0 then 0
         else scast (jm_clusterSize p) * 1000 + ucast (jm_freeOutConnections p))"

text \<open>The buffered packets, in the order of the buffer.\<close>

definition slot_of :: "SimpleBuffer \<Rightarrow> u16 \<Rightarrow> nat" where
  "slot_of b i = (case sb_PeekItemAt i b of None \<Rightarrow> 0 | Some p \<Rightarrow> p div unat (sb_itemLength b))"

definition joinMe_packets :: "world \<Rightarrow> joinMeBufferPacket list" where
  "joinMe_packets w =
     (let b = n_joinMePacketBuffer (w_node w)
      in map (\<lambda>i. n_joinMeSlots (w_node w) (slot_of b (of_nat i))) [0..<unat (sb_numElements b)])"

definition best_step :: "(joinMeBufferPacket \<Rightarrow> u32) \<Rightarrow> joinMeBufferPacket \<Rightarrow>
    u32 \<times> joinMeBufferPacket option \<Rightarrow> u32 \<times> joinMeBufferPacket option" where
  "best_step score packet best = (if score packet > fst best then (score packet, Some packet) else best)"

definition best_cluster :: "(joinMeBufferPacket \<Rightarrow> u32) \<Rightarrow> joinMeBufferPacket list \<Rightarrow> joinMeBufferPacket option" where
  "best_cluster score packets = snd (fold (best_step score) packets (0, None))"

definition clean_joinMe :: "world \<Rightarrow> world" where
  "clean_joinMe = upd_node (\<lambda>n. n\<lparr>n_joinMePacketBuffer := sb_Clean (n_joinMePacketBuffer n)\<rparr>)"

definition DetermineBestClusterAvailable :: "env \<Rightarrow> world \<Rightarrow> (world \<times> decisionResult) option" where
  "DetermineBestClusterAvailable E w =
     (if sb_numElements (n_joinMePacketBuffer (w_node w)) = 0 then Some (w, DECISION_NO_NODES_FOUND)
      else case (if cm_freeOutConnections (w_cm w) > 0
                 then best_cluster (\<lambda>p. CalculateClusterScoreAsMaster p w) (joinMe_packets w) else None) of
        Some best \<Rightarrow> do {
          (w, _) \<leftarrow> ConnectAsMaster E \<lparr>addr_type = jb_bleAddressType best, addr = jb_bleAddress best\<rparr>
                     (jm_meshWriteHandle (jb_payload best)) w;
          Some (clean_joinMe w, DECISION_CONNECT_AS_MASTER)
        }
      | None \<Rightarrow>
          (case best_cluster (\<lambda>p. CalculateClusterScoreAsSlave p w) (joinMe_packets w) of
             Some best \<Rightarrow> do {
               w \<leftarrow> (if jm_ackField (jb_payload best) = nodeId w
                     then DisconnectOtherConnections E None w else Some w);
               w \<leftarrow> UpdateJoinMePacket E (Some best) w;
               Some (clean_joinMe w, DECISION_CONNECT_AS_SLAVE)
             }
           | None \<Rightarrow> Some (w, DECISION_NO_NODES_FOUND)))"

section \<open>The state machine\<close>

fun rank :: "discoveryState \<Rightarrow> nat" where
  "rank DECIDING = 2"
| "rank DISCOVERY = 1"
| "rank _ = 0"

definition enter :: "i32 option \<Rightarrow> discoveryState \<Rightarrow> world \<Rightarrow> world" where
  "enter timeout next = upd_node (\<lambda>n. n\<lparr>n_nextDiscoveryState := next,
     n_currentStateTimeoutMs := (case timeout of None \<Rightarrow> n_currentStateTimeoutMs n | Some t \<Rightarrow> t)\<rparr>)"

definition radio_state :: "env \<Rightarrow> advState \<Rightarrow> scanState \<Rightarrow> world \<Rightarrow> world option" where
  "radio_state E a s w = do { w \<leftarrow> SetAdvertisingState E a w; SetScanState E s w }"

function ChangeState :: "env \<Rightarrow> discoveryState \<Rightarrow> world \<Rightarrow> world option" where
  "ChangeState E newState w =
     (if n_currentDiscoveryState (w_node w) = newState \<or> n_stateMachineDisabled (w_node w) then Some w
      else do {
        w \<leftarrow> Some (upd_node (\<lambda>n. n\<lparr>n_currentDiscoveryState := newState\<rparr>) w);
        w \<leftarrow> (if newState = DISCOVERY then do {
                w \<leftarrow> Some (enter None INVALID_STATE w);
                w \<leftarrow> (if ucast (n_noNodesFoundCounter (w_node w)) < discoveryHighToLowTransitionDuration Config
                      then ChangeState E DISCOVERY_HIGH w else ChangeState E DISCOVERY_LOW w);
                ChangeState E DISCOVERY_HIGH w
              }
              else if newState = DISCOVERY_HIGH then
                map_option (enter (Some (ucast (meshStateTimeoutHigh Config))) DECIDING)
                  (radio_state E ADV_STATE_HIGH SCAN_STATE_HIGH w)
              else if newState = DISCOVERY_LOW then
                map_option (enter (Some (ucast (meshStateTimeoutLow Config))) DECIDING)
                  (radio_state E ADV_STATE_LOW SCAN_STATE_LOW w)
              else if newState = DECIDING then do {
                w \<leftarrow> radio_state E ADV_STATE_OFF SCAN_STATE_OFF w;
                (w, decision) \<leftarrow> DetermineBestClusterAvailable E w;
                w \<leftarrow> Some (enter None INVALID_STATE w);
                (case decision of
                   DECISION_NO_NODES_FOUND \<Rightarrow>
                     ChangeState E BACK_OFF
                       (upd_node (\<lambda>n. n\<lparr>n_noNodesFoundCounter := (if n_noNodesFoundCounter n < 100
                          then n_noNodesFoundCounter n + 1 else n_noNodesFoundCounter n)\<rparr>) w)
                 | DECISION_CONNECT_AS_MASTER \<Rightarrow>
                     map_option (upd_node (\<lambda>n. n\<lparr>n_noNodesFoundCounter := 0\<rparr>)) (ChangeState E CONNECTING w)
                 | DECISION_CONNECT_AS_SLAVE \<Rightarrow>
                     ChangeState E DISCOVERY (upd_node (\<lambda>n. n\<lparr>n_noNodesFoundCounter := 0\<rparr>) w))
              }
              else if newState = BACK_OFF then do {
                w \<leftarrow> radio_state E ADV_STATE_OFF SCAN_STATE_OFF w;
                (w, r) \<leftarrow> Some (GetRandomInteger E w);
                Some (enter (Some (r mod ucast (meshStateTimeoutBackOff Config)
                        + ucast (meshStateTimeoutBackOffVariance Config))) DISCOVERY w)
              }
              else if newState = CONNECTING then
                map_option (enter (Some (30 * 1000)) DECIDING) (radio_state E ADV_STATE_OFF SCAN_STATE_OFF w)
              else if newState = HANDSHAKE \<or> newState = DISCOVERY_OFF then
                map_option (enter None INVALID_STATE) (radio_state E ADV_STATE_OFF SCAN_STATE_OFF w)
              else Some w);
        inform_modules E newState w
      })"
  by pat_completeness auto
termination by (relation "measure (\<lambda>(E, s, w). rank s)") auto

declare ChangeState.simps [simp del]

definition DisableStateMachine :: "bool \<Rightarrow> world \<Rightarrow> world" where
  "DisableStateMachine disable = upd_node (\<lambda>n. n\<lparr>n_stateMachineDisabled := disable\<rparr>)"

definition Node_Stop :: "env \<Rightarrow> world \<Rightarrow> world option" where
  "Node_Stop E w = map_option (DisableStateMachine True) (ChangeState E DISCOVERY_OFF w)"

section \<open>Collecting JOIN_ME packets\<close>

text \<open>An advertising report. The handler takes the address from the union member of a connected
  event, which is kept apart here.\<close>

record adv_report =
  ar_data :: mem
  ar_dlen :: u8
  ar_type :: u8
  ar_rssi :: i8
  ar_scan_rsp :: u8
  ar_peer_addr :: ble_gap_addr
  ar_connected_peer_addr :: ble_gap_addr

definition fill_joinMe :: "adv_report \<Rightarrow> u32 \<Rightarrow> joinMeBufferPacket \<Rightarrow> joinMeBufferPacket" where
  "fill_joinMe r now t =
     (let p = read_joinMe (ar_data r)
      in t\<lparr>jb_bleAddress := addr (ar_connected_peer_addr r),
           jb_bleAddressType := addr_type (ar_connected_peer_addr r),
           jb_payload := (jb_payload t)\<lparr>jm_clusterId := jm_clusterId p, jm_clusterSize := jm_clusterSize p,
             jm_freeInConnections := jm_freeInConnections p, jm_freeOutConnections := jm_freeOutConnections p,
             jm_sender := jm_sender p, jm_meshWriteHandle := jm_meshWriteHandle p,
             jm_ackField := jm_ackField p\<rparr>,
           jb_connectable := ar_type r, jb_rssi := ar_rssi r, jb_receivedTime := now\<rparr>)"

definition AdvertisementMessageHandler :: "adv_report \<Rightarrow> world \<Rightarrow> world" where
  "AdvertisementMessageHandler r w =
     (if ah_messageType (read_advHeader (ar_data r)) = MESSAGE_TYPE_JOIN_ME
         \<and> unat (ar_dlen r) = SIZEOF_ADV_PACKET_JOIN_ME then
        let p = read_joinMe (ar_data r); n = w_node w; b = n_joinMePacketBuffer n
        in if jm_clusterId p = n_clusterId n then w
           else
             let found = find (\<lambda>i. jm_sender (jb_payload (n_joinMeSlots n (slot_of b (of_nat i)))) = jm_sender p)
                           [0..<unat (sb_numElements b)];
                 (b, target) = (case found of
                     Some i \<Rightarrow> (b, Some (slot_of b (of_nat i)))
                   | None \<Rightarrow> let (b, t) = sb_Reserve b in (b, map_option (\<lambda>t. t div unat (sb_itemLength b)) t))
             in upd_node (\<lambda>n. n\<lparr>n_joinMePacketBuffer := b,
                  n_joinMeSlots := (case target of None \<Rightarrow> n_joinMeSlots n
                    | Some j \<Rightarrow> (n_joinMeSlots n)(j := fill_joinMe r (n_appTimerMs n) (n_joinMeSlots n j)))\<rparr>) w
      else w)"

section \<open>The timer\<close>

definition gpio :: "(u32 \<Rightarrow> u32) \<Rightarrow> world \<Rightarrow> world" where
  "gpio f w = w\<lparr>w_gpio := f (w_gpio w)\<rparr>"

definition leds_off :: "world \<Rightarrow> world" where
  "leds_off w = gpio (led_Off (n_LedBlue (w_node w)) \<circ> led_Off (n_LedGreen (w_node w))
     \<circ> led_Off (n_LedRed (w_node w))) w"

definition blink :: "world \<Rightarrow> world" where
  "blink w =
     (let n = w_node w; red = n_LedRed n; green = n_LedGreen n; blue = n_LedBlue n;
          noConnections = (\<forall>i \<in> {0, 1, 2, 3 :: nat}. \<not> c_handshakeDone (conns w i) \<and> \<not> c_isConnected (conns w i));
          i = unat (n_ledBlinkPosition n div 2);
          w = (if i < MAXIMUM_CONNECTIONS then
                 let done = c_handshakeDone (conns w i);
                     progress = (\<not> c_handshakeDone (conns w i) \<and> c_isConnected (conns w i))
                 in if n_ledBlinkPosition n mod 2 = 0
                    then gpio (\<lambda>out. let out = (if done then led_On blue out else out);
                                      out = (if progress then led_On green out else out)
                                  in if noConnections then led_On red out else out) w
                    else leds_off w
               else if n_isGatewayDevice n
                    then gpio (led_On blue \<circ> led_Off green \<circ> led_On red) w
                    else leds_off w)
      in upd_node (\<lambda>n. n\<lparr>n_ledBlinkPosition := (n_ledBlinkPosition n + 1) mod ((of_nat MAXIMUM_CONNECTIONS + 2) * 2)\<rparr>) w)"

definition tick_clock :: "env \<Rightarrow> u16 \<Rightarrow> world \<Rightarrow> world" where
  "tick_clock E timerMs w =
     (let w = upd_node (\<lambda>n. n\<lparr>n_passsedTimeSinceLastTimerHandler := timerMs,
                n_appTimerMs := n_appTimerMs n + ucast timerMs,
                n_currentStateTimeoutMs := n_currentStateTimeoutMs n - ucast timerMs\<rparr>) w;
          (w, rtc1) = cnt_get E w;
          w = upd_node (\<lambda>n. n\<lparr>n_globalTime := n_globalTime n + ucast (e_cnt_diff E rtc1 (n_globalTimeSetAt n))\<rparr>) w;
          (w, now) = cnt_get E w
      in upd_node (\<lambda>n. n\<lparr>n_globalTimeSetAt := now\<rparr>) w)"

definition Node_TimerTickHandler :: "env \<Rightarrow> u16 \<Rightarrow> world \<Rightarrow> world option" where
  "Node_TimerTickHandler E timerMs w =
     (let w = tick_clock E timerMs w; n = w_node w
      in map_option (\<lambda>w. if n_currentLedMode (w_node w) = LED_MODE_CONNECTIONS then blink w else w)
           (if n_nextDiscoveryState n \<noteq> INVALID_STATE \<and> sint (n_currentStateTimeoutMs n) \<le> 0
            then ChangeState E (n_nextDiscoveryState n) w else Some w))"

section \<open>Starting the node\<close>

record testDevice =
  td_chipID :: u32
  td_id :: nodeID
  td_deviceType :: deviceTypes
  td_addr :: ble_gap_addr

text \<open>The address type is \<open>BLE_GAP_ADDR_TYPE_RANDOM_STATIC\<close>, a constant of the SoftDevice.\<close>

definition testDevices :: "u8 \<Rightarrow> testDevice list" where
  "testDevices static =
     (let dev = (\<lambda>(chip, id, t, b). \<lparr>td_chipID = chip, td_id = id, td_deviceType = t,
                   td_addr = \<lparr>addr_type = static, addr = [b, 0x16, 0xE8, 0x52, 0x4E, 0xC0]\<rparr>\<rparr>)
      in map dev [(1650159794, 45, DEVICE_TYPE_SINK, 0x45), (2267790660, 72, DEVICE_TYPE_STATIC, 0x72),
           (931144702, 458, DEVICE_TYPE_STATIC, 0x58), (1952379473, 635, DEVICE_TYPE_STATIC, 0x35),
           (3505517882, 847, DEVICE_TYPE_STATIC, 0x47), (0xFFFF, 667, DEVICE_TYPE_STATIC, 0x67),
           (1812994605, 304, DEVICE_TYPE_STATIC, 0x04), (449693942, 493, DEVICE_TYPE_STATIC, 0x93),
           (3062062265, 309, DEVICE_TYPE_STATIC, 0x09), (1040859205, 880, DEVICE_TYPE_STATIC, 0x80)])"

text \<open>The characters \<open>BCDFGHJKLMNPQRSTVWXYZ123456789\<close>.\<close>

definition serial_alphabet :: "u8 list" where
  "serial_alphabet = [66, 67, 68, 70, 71, 72, 74, 75, 76, 77, 78, 80, 81, 82, 83, 84, 86, 87, 88, 89, 90,
     49, 50, 51, 52, 53, 54, 55, 56, 57]"

definition InitWithTestDeviceSettings :: "env \<Rightarrow> u8 \<Rightarrow> world \<Rightarrow> world" where
  "InitWithTestDeviceSettings E static w =
     (let (id0, id1) = e_chipId E;
          upd = (\<lambda>f. upd_node (\<lambda>n. n\<lparr>n_persistentConfig := f (n_persistentConfig n)\<rparr>));
          w = (case find (\<lambda>d. td_chipID d = id1) (testDevices static) of
                 Some d \<Rightarrow> upd (\<lambda>p. p\<lparr>pc_nodeId := td_id d, pc_deviceType := td_deviceType d,
                              pc_nodeAddress := td_addr d\<rparr>) w
               | None \<Rightarrow>
                   let w = upd (\<lambda>p. p\<lparr>pc_nodeId := ucast id1 mod 15000 + 1, pc_deviceType := DEVICE_TYPE_STATIC\<rparr>) w;
                       a = e_address E (w_trace w);
                       (w, err) = call E Gap_address_get w
                   in upd (\<lambda>p. p\<lparr>pc_nodeAddress := a\<rparr>) w);
          serial = map (\<lambda>i. serial_alphabet ! unat ((id0 * of_nat i) mod 30)) [0..<SERIAL_NUMBER_LENGTH] @ [0]
      in upd (\<lambda>p. p\<lparr>pc_serialNumber := serial, pc_manufacturerId := 0xFFFF\<rparr>) w)"

definition Node_ConfigurationLoadedHandler :: "env \<Rightarrow> u8 \<Rightarrow> world \<Rightarrow> world option" where
  "Node_ConfigurationLoadedHandler E static w =
     (let upd = (\<lambda>f. upd_node (\<lambda>n. n\<lparr>n_persistentConfig := f (n_persistentConfig n)\<rparr>));
          w = (if pc_version (pconf w) = 0xFFFFFFFF then
                 InitWithTestDeviceSettings E static
                   (upd (\<lambda>p. p\<lparr>pc_version := 0, pc_connectionLossCounter := 0,
                      pc_networkId := meshNetworkIdentifier Config, pc_networkKey := meshNetworkKey Config,
                      pc_dBmRX := 10, pc_dBmTX := 10,
                      pc_retryStorage := replicate MAX_RETRY_STORAGE_SIZE 0,
                      pc_timeStorage := replicate MAX_RETRY_STORAGE_SIZE 0\<rparr>) w)
               else w);
          (w, r) = GetRandomInteger E w;
          w = upd (\<lambda>p. p\<lparr>pc_connectionLossCounter := ucast r\<rparr>) w;
          w = upd_node (\<lambda>n. n\<lparr>n_clusterId := GenerateClusterID w\<rparr>) w
      in do {
        w \<leftarrow> checked E (Gap_address_set (pc_nodeAddress (pconf w))) w;
        w \<leftarrow> Some (adv_Initialize E (pc_networkId (pconf w)) (scan_Initialize w));
        w \<leftarrow> UpdateJoinMePacket E None w;
        ChangeState E DISCOVERY w
      })"

end
