(* ===== verification/DiscoveryStates.thy ===== *)
theory DiscoveryStates
  imports Discovery
begin

text \<open>
  The discovery state machine of \<^verbatim>\<open>Node.cpp\<close>, from outside: where \<open>ChangeState\<close> comes to rest, which
  timeout it arms, how advertising and scanning are switched, and which states a node can be in
  at all.
\<close>

section \<open>What the steps leave alone\<close>

text \<open>\<open>same_state\<close>: neither the discovery state nor what decides its transitions changes.\<close>

definition same_state :: "world \<Rightarrow> world \<Rightarrow> bool" where
  "same_state w w' \<longleftrightarrow>
     n_currentDiscoveryState (w_node w') = n_currentDiscoveryState (w_node w) \<and>
     n_nextDiscoveryState (w_node w') = n_nextDiscoveryState (w_node w) \<and>
     n_currentStateTimeoutMs (w_node w') = n_currentStateTimeoutMs (w_node w) \<and>
     n_noNodesFoundCounter (w_node w') = n_noNodesFoundCounter (w_node w) \<and>
     n_stateMachineDisabled (w_node w') = n_stateMachineDisabled (w_node w) \<and>
     n_persistentConfig (w_node w') = n_persistentConfig (w_node w) \<and>
     w_modules w' = w_modules w"

lemma same_state_refl [simp]: "same_state w w" by (simp add: same_state_def)

lemma same_state_trans [trans]: "same_state u v \<Longrightarrow> same_state v w \<Longrightarrow> same_state u w"
  by (simp add: same_state_def)

lemma radio_only_same_state: "radio_only w w' \<Longrightarrow> same_state w w'"
  by (simp add: same_state_def radio_only_def)

lemma same_state_UpdateJoinMePacket:
  assumes "UpdateJoinMePacket E a w = Some w'" shows "same_state w w'"
proof (cases a)
  case None
  with assms show ?thesis
    by (auto simp: UpdateJoinMePacket_def Let_def dest!: radio_only_UpdateAdvertisingData radio_only_same_state)
next
  case (Some b)
  with assms show ?thesis
    by (auto simp: UpdateJoinMePacket_def Let_def same_state_def radio_only_def dest!: radio_only_UpdateAdvertisingData)
qed

lemma radio_only_UpdateJoinMePacket:
  "UpdateJoinMePacket E None w = Some w' \<Longrightarrow> radio_only w w'"
  by (auto simp: UpdateJoinMePacket_def Let_def dest!: radio_only_UpdateAdvertisingData)

lemma radio_only_NodeStateChangedHandler:
  assumes "NodeStateChangedHandler E m s w = Some w'" shows "radio_only w w'"
  using assms
  by (auto simp: NodeStateChangedHandler_def AdvertisingModule_NodeStateChangedHandler_def
      ScanningModule_NodeStateChangedHandler_def adv_SetNonConnectable_def checked_Some
      split: moduleKind.splits if_splits
      dest!: radio_only_SetAdvertisingState radio_only_SetScanState radio_only_UpdateJoinMePacket)
    (auto simp: radio_only_def)

lemma radio_only_inform_modules:
  assumes "inform_modules E s w = Some w'" shows "radio_only w w'"
proof (rule each_invariant [where P = "radio_only w" and w = w, OF assms [unfolded inform_modules_def] radio_only_refl])
  fix i v v'
  assume "radio_only w v"
    and "(case w_modules v i of None \<Rightarrow> Some v
      | Some m \<Rightarrow> if module_active m then NodeStateChangedHandler E m s v else Some v) = Some v'"
  then show "radio_only w v'"
    by (auto split: option.splits if_splits intro: radio_only_trans radio_only_NodeStateChangedHandler)
qed

lemma radio_only_radio_state: "radio_state E a s w = Some w' \<Longrightarrow> radio_only w w'"
  by (auto simp: radio_state_def dest!: radio_only_SetAdvertisingState radio_only_SetScanState
      intro: radio_only_trans)

lemma radio_only_DisconnectOtherConnections:
  assumes "DisconnectOtherConnections E keep w = Some w'" shows "radio_only w w'"
proof (rule each_invariant [where P = "radio_only w" and w = w, OF assms [unfolded DisconnectOtherConnections_def] radio_only_refl])
  fix i v v'
  assume "radio_only w v"
    "(if keep \<noteq> Some i \<and> c_isConnected (conns v i) then Connection_Disconnect E i v else Some v) = Some v'"
  then show "radio_only w v'"
    by (auto simp: Connection_Disconnect_def split: if_splits
        dest!: radio_only_disconnectFromPeripheral intro: radio_only_trans)
qed

lemma same_state_ConnectAsMaster:
  assumes "ConnectAsMaster E a h w = Some (w', r)" shows "same_state w w'"
  using assms
  by (auto simp: ConnectAsMaster_def Connection_Connect_def Let_def same_state_def radio_only_def
      split: if_splits option.splits dest!: radio_only_connectToPeripheral)

lemma same_state_DetermineBestClusterAvailable:
  assumes "DetermineBestClusterAvailable E w = Some (w', d)" shows "same_state w w'"
proof -
  have clean: "same_state v (clean_joinMe v)" for v by (simp add: same_state_def clean_joinMe_def)
  show ?thesis
    using assms
    by (auto simp: DetermineBestClusterAvailable_def split: if_splits option.splits prod.splits
        dest!: same_state_ConnectAsMaster same_state_UpdateJoinMePacket
          radio_only_DisconnectOtherConnections radio_only_same_state
        intro: same_state_trans clean)
qed

section \<open>The discovery state machine\<close>

lemma random_loop_frame:
  "radio_only w (fst (random_loop E k w)) \<and> w_adv (fst (random_loop E k w)) = w_adv w \<and>
   w_scan (fst (random_loop E k w)) = w_scan w"
proof (induction E k w rule: random_loop.induct)
  case (1 E k w)
  then show ?case
    by (subst (1 2 3) random_loop.simps) (auto simp: call_def Let_def)
qed

lemma GetRandomInteger_frame:
  assumes "GetRandomInteger E w = (w', r)"
  shows "radio_only w w'" "w_adv w' = w_adv w" "w_scan w' = w_scan w"
  using random_loop_frame [of w E 0] assms by (simp_all add: GetRandomInteger_def)

text \<open>The abstract machine: where the node comes to rest when it is told to enter a state.\<close>

inductive settles :: "discoveryState \<Rightarrow> discoveryState \<Rightarrow> bool" where
  "settles DISCOVERY DISCOVERY_HIGH"
| "settles DECIDING BACK_OFF"
| "settles DECIDING CONNECTING"
| "settles DECIDING DISCOVERY_HIGH"
| "s \<noteq> DISCOVERY \<Longrightarrow> s \<noteq> DECIDING \<Longrightarrow> settles s s"

inductive_simps settles_simps [simp]: "settles DISCOVERY s" "settles DECIDING s" "settles HANDSHAKE s"
  "settles DISCOVERY_HIGH s" "settles BACK_OFF s" "settles CONNECTING s" "settles DISCOVERY_OFF s"
  "settles DISCOVERY_LOW s"

text \<open>The state left after \<open>ChangeState\<close>: the state at rest, what the timer does next and when.\<close>

definition armed :: "Node \<Rightarrow> bool" where
  "armed n \<longleftrightarrow> (case n_currentDiscoveryState n of
      DISCOVERY_HIGH \<Rightarrow> n_nextDiscoveryState n = DECIDING \<and> n_currentStateTimeoutMs n = 3000
    | DISCOVERY_LOW \<Rightarrow> n_nextDiscoveryState n = DECIDING \<and> n_currentStateTimeoutMs n = 10000
    | CONNECTING \<Rightarrow> n_nextDiscoveryState n = DECIDING \<and> n_currentStateTimeoutMs n = 30000
    | BACK_OFF \<Rightarrow> n_nextDiscoveryState n = DISCOVERY \<and>
        1000 \<le> sint (n_currentStateTimeoutMs n) \<and> sint (n_currentStateTimeoutMs n) < 2000
    | HANDSHAKE \<Rightarrow> n_nextDiscoveryState n = INVALID_STATE
    | DISCOVERY_OFF \<Rightarrow> n_nextDiscoveryState n = INVALID_STATE
    | _ \<Rightarrow> True)"

lemma ChangeState_idle:
  "n_currentDiscoveryState (w_node w) = s \<or> n_stateMachineDisabled (w_node w) \<Longrightarrow> ChangeState E s w = Some w"
  by (subst ChangeState.simps) simp

text \<open>What advertising and scanning do while the node is at rest in a state.\<close>

definition radio_fits :: "world \<Rightarrow> bool" where
  "radio_fits w \<longleftrightarrow> (case n_currentDiscoveryState (w_node w) of
      DISCOVERY_HIGH \<Rightarrow> ac_advertisingState (w_adv w) = ADV_STATE_HIGH \<and> sc_scanningState (w_scan w) = SCAN_STATE_HIGH
    | CONNECTING \<Rightarrow> ac_advertisingState (w_adv w) = ADV_STATE_OFF \<and> sc_scanningState (w_scan w) = SCAN_STATE_OFF
    | HANDSHAKE \<Rightarrow> ac_advertisingState (w_adv w) = ADV_STATE_OFF \<and> sc_scanningState (w_scan w) = SCAN_STATE_OFF
    | _ \<Rightarrow> True)"

definition kept :: "world \<Rightarrow> world \<Rightarrow> bool" where
  "kept w w' \<longleftrightarrow> n_stateMachineDisabled (w_node w') = n_stateMachineDisabled (w_node w) \<and>
     n_persistentConfig (w_node w') = n_persistentConfig (w_node w) \<and> w_modules w' = w_modules w"

lemma kept_refl [simp]: "kept w w" by (simp add: kept_def)

lemma kept_trans: "kept u v \<Longrightarrow> kept v w \<Longrightarrow> kept u w" by (simp add: kept_def)

lemma kept_upd [simp]:
  "kept w (upd_node (\<lambda>n. n\<lparr>n_currentDiscoveryState := s\<rparr>) w') \<longleftrightarrow> kept w w'"
  "kept w (enter t s w') \<longleftrightarrow> kept w w'"
  by (simp_all add: kept_def enter_def)

lemma radio_only_kept: "radio_only w w' \<Longrightarrow> kept w w'" by (simp add: radio_only_def kept_def)

lemma same_state_kept: "same_state w w' \<Longrightarrow> kept w w'" by (simp add: same_state_def kept_def)

lemma SetScanState_result:
  "SetScanState E s w = Some w' \<Longrightarrow> sc_scanningState (w_scan w') = s \<and> w_adv w' = w_adv w"
  by (auto simp: SetScanState_def checked_Some split: if_splits)

lemma SetAdvertisingState_scan: "SetAdvertisingState E s w = Some w' \<Longrightarrow> w_scan w' = w_scan w"
  by (auto simp: SetAdvertisingState_def checked_Some split: if_splits)

lemma radio_state_result:
  assumes "radio_state E a s w = Some w'"
  shows "ac_advertisingState (w_adv w') = a" "sc_scanningState (w_scan w') = s" "radio_only w w'"
  using assms radio_only_radio_state [OF assms]
  by (auto simp: radio_state_def dest!: SetScanState_result SetAdvertisingState_result)

text \<open>Outside of these three states no module reacts.\<close>

lemma inform_modules_quiet:
  assumes "s \<notin> {BACK_OFF, DISCOVERY_OFF, DISCOVERY}"
  shows "inform_modules E s w = Some w"
proof -
  have "(case w_modules v i of None \<Rightarrow> Some v
      | Some m \<Rightarrow> if module_active m then NodeStateChangedHandler E m s v else Some v) = Some v" for i v
    using assms by (auto simp: NodeStateChangedHandler_def AdvertisingModule_NodeStateChangedHandler_def
        ScanningModule_NodeStateChangedHandler_def split: option.splits moduleKind.splits)
  then show ?thesis unfolding inform_modules_def by (rule each_idle)
qed

lemma back_off_timeout:
  "1000 \<le> sint (r mod 1000 + 1000 :: i32)" "sint (r mod 1000 + 1000 :: i32) < 2000"
proof -
  have r: "unat (r mod 1000) < 1000" by (simp add: unat_mod_distrib)
  then have u: "unat (r mod 1000 + 1000) = unat (r mod 1000) + 1000"
    by (subst unat_add_small) simp_all
  have "sint (r mod 1000 + 1000) = int (unat (r mod 1000 + 1000))"
    by (rule sint_small) (use u r in simp)
  then show "1000 \<le> sint (r mod 1000 + 1000)" "sint (r mod 1000 + 1000) < 2000"
    unfolding u using r by linarith+
qed

text \<open>Entering a state that does not lead on to another at once.\<close>

lemma ChangeState_leaf:
  assumes run: "ChangeState E s w = Some w'" and s: "s \<notin> {DISCOVERY, DECIDING}"
    and go: "n_currentDiscoveryState (w_node w) \<noteq> s" "\<not> n_stateMachineDisabled (w_node w)"
  shows "n_currentDiscoveryState (w_node w') = s \<and> armed (w_node w') \<and> radio_fits w' \<and> kept w w' \<and>
    n_noNodesFoundCounter (w_node w') = n_noNodesFoundCounter (w_node w)"
proof -
  let ?w = "upd_node (\<lambda>n. n\<lparr>n_currentDiscoveryState := s\<rparr>) w"
  have result: "n_currentDiscoveryState (w_node v) = s \<and> armed (w_node v) \<and> radio_fits v \<and> kept w v \<and>
      n_noNodesFoundCounter (w_node v) = n_noNodesFoundCounter (w_node w)"
    if "radio_only u v" "n_currentDiscoveryState (w_node u) = s" "armed (w_node u)" "kept w u"
      "n_noNodesFoundCounter (w_node u) = n_noNodesFoundCounter (w_node w)" "radio_fits v" for u v
    using that radio_only_kept [OF that(1)] by (auto simp: radio_only_def intro: kept_trans)
  have node: "w_node v = w_node u" if "radio_only u v" for u v using that by (simp add: radio_only_def)
  show ?thesis
  proof (cases s)
    case DISCOVERY_HIGH
    then obtain v where v: "radio_state E ADV_STATE_HIGH SCAN_STATE_HIGH ?w = Some v"
      and w': "w' = enter (Some 3000) DECIDING v"
      using run go by (subst (asm) ChangeState.simps) (auto simp: inform_modules_quiet Config_def)
    note r = radio_state_result [OF v]
    show ?thesis using r node [OF r(3)] w' DISCOVERY_HIGH radio_only_kept [OF r(3)]
      by (auto simp: armed_def radio_fits_def enter_def kept_def)
  next
    case DISCOVERY_LOW
    then obtain v where v: "radio_state E ADV_STATE_LOW SCAN_STATE_LOW ?w = Some v"
      and w': "w' = enter (Some 10000) DECIDING v"
      using run go by (subst (asm) ChangeState.simps) (auto simp: inform_modules_quiet Config_def)
    note r = radio_state_result [OF v]
    show ?thesis using r node [OF r(3)] w' DISCOVERY_LOW radio_only_kept [OF r(3)]
      by (auto simp: armed_def radio_fits_def enter_def kept_def)
  next
    case CONNECTING
    then obtain v where v: "radio_state E ADV_STATE_OFF SCAN_STATE_OFF ?w = Some v"
      and w': "w' = enter (Some 30000) DECIDING v"
      using run go by (subst (asm) ChangeState.simps) (auto simp: inform_modules_quiet Config_def)
    note r = radio_state_result [OF v]
    show ?thesis using r node [OF r(3)] w' CONNECTING radio_only_kept [OF r(3)]
      by (auto simp: armed_def radio_fits_def enter_def kept_def)
  next
    case HANDSHAKE
    then obtain v where v: "radio_state E ADV_STATE_OFF SCAN_STATE_OFF ?w = Some v"
      and w': "w' = enter None INVALID_STATE v"
      using run go by (subst (asm) ChangeState.simps) (auto simp: inform_modules_quiet Config_def)
    note r = radio_state_result [OF v]
    show ?thesis using r node [OF r(3)] w' HANDSHAKE radio_only_kept [OF r(3)]
      by (auto simp: armed_def radio_fits_def enter_def kept_def)
  next
    case DISCOVERY_OFF
    then obtain v where v: "radio_state E ADV_STATE_OFF SCAN_STATE_OFF ?w = Some v"
      and w': "inform_modules E DISCOVERY_OFF (enter None INVALID_STATE v) = Some w'"
      using run go by (subst (asm) ChangeState.simps) auto
    note r = radio_state_result [OF v] and i = radio_only_inform_modules [OF w']
    show ?thesis
      using r(3) i DISCOVERY_OFF radio_only_kept [OF r(3)] radio_only_kept [OF i]
      by (auto simp: armed_def radio_fits_def enter_def kept_def radio_only_def)
  next
    case BACK_OFF
    then obtain v where v: "radio_state E ADV_STATE_OFF SCAN_STATE_OFF ?w = Some v"
      and v': "inform_modules E BACK_OFF (enter (Some (snd (GetRandomInteger E v) mod 1000 + 1000)) DISCOVERY
         (fst (GetRandomInteger E v))) = Some w'"
      using run go by (subst (asm) ChangeState.simps) (auto simp: Config_def case_prod_beta)
    obtain u x where u: "GetRandomInteger E v = (u, x)" by fastforce
    with v' have w': "inform_modules E BACK_OFF (enter (Some (x mod 1000 + 1000)) DISCOVERY u) = Some w'" by simp
    note r = radio_state_result [OF v] and g = GetRandomInteger_frame [OF u]
      and i = radio_only_inform_modules [OF w']
    show ?thesis
      using r(3) g(1) i BACK_OFF back_off_timeout [of x]
      by (auto simp: armed_def radio_fits_def enter_def kept_def radio_only_def)
  qed (use run go s in \<open>subst (asm) ChangeState.simps,
        auto simp: inform_modules_quiet armed_def radio_fits_def kept_def\<close>)+
qed

lemma SetAdvertisingState_states:
  "SetAdvertisingState E s w = Some w' \<Longrightarrow> ac_advertisingState (w_adv w') = s \<and> w_scan w' = w_scan w"
  using SetAdvertisingState_result SetAdvertisingState_scan by blast

lemma UpdateAdvertisingData_states:
  assumes "UpdateAdvertisingData E t p c w = Some w'"
  shows "ac_advertisingState (w_adv w') = ac_advertisingState (w_adv w) \<and> w_scan w' = w_scan w"
  using assms
  by (auto simp: UpdateAdvertisingData_def call_def app_error_check_def app_error_handler_def Let_def
      split: if_splits dest!: SetAdvertisingState_states)

lemma UpdateJoinMePacket_states:
  assumes "UpdateJoinMePacket E a w = Some w'"
  shows "ac_advertisingState (w_adv w') = ac_advertisingState (w_adv w) \<and> w_scan w' = w_scan w"
  using assms
  by (auto simp: UpdateJoinMePacket_def Let_def split: option.splits dest!: UpdateAdvertisingData_states)

text \<open>Back in discovery, the modules leave the states of the radio as they are.\<close>

lemma inform_modules_DISCOVERY:
  assumes "inform_modules E DISCOVERY w = Some w'"
  shows "radio_only w w' \<and> ac_advertisingState (w_adv w') = ac_advertisingState (w_adv w) \<and> w_scan w' = w_scan w"
    (is "?P w'")
proof (rule each_invariant [where P = ?P and w = w, OF assms [unfolded inform_modules_def]])
  fix i v v'
  assume "?P v" and "(case w_modules v i of None \<Rightarrow> Some v
      | Some m \<Rightarrow> if module_active m then NodeStateChangedHandler E m DISCOVERY v else Some v) = Some v'"
  then show "?P v'"
    using UpdateJoinMePacket_states [of E None v v'] radio_only_UpdateJoinMePacket [of E v v']
    by (auto simp: NodeStateChangedHandler_def AdvertisingModule_NodeStateChangedHandler_def
        ScanningModule_NodeStateChangedHandler_def
        split: option.splits if_splits moduleKind.splits intro: radio_only_trans)
qed simp

lemma ChangeState_DISCOVERY:
  assumes run: "ChangeState E DISCOVERY w = Some w'"
    and go: "n_currentDiscoveryState (w_node w) \<noteq> DISCOVERY" "\<not> n_stateMachineDisabled (w_node w)"
  shows "n_currentDiscoveryState (w_node w') = DISCOVERY_HIGH \<and> armed (w_node w') \<and> radio_fits w' \<and> kept w w' \<and>
    n_noNodesFoundCounter (w_node w') = n_noNodesFoundCounter (w_node w)"
proof -
  let ?w = "enter None INVALID_STATE (upd_node (\<lambda>n. n\<lparr>n_currentDiscoveryState := DISCOVERY\<rparr>) w)"
  obtain v u t where v: "t \<in> {DISCOVERY_HIGH, DISCOVERY_LOW}" "ChangeState E t ?w = Some v"
    and u: "ChangeState E DISCOVERY_HIGH v = Some u" and w': "inform_modules E DISCOVERY u = Some w'"
    using run go by (subst (asm) ChangeState.simps) (auto split: if_splits)
  have "n_currentDiscoveryState (w_node ?w) \<noteq> t" "\<not> n_stateMachineDisabled (w_node ?w)" "t \<notin> {DISCOVERY, DECIDING}"
    using v(1) go(2) by (auto simp: enter_def)
  note lv = ChangeState_leaf [OF v(2) this(3,1,2)]
  have lu: "n_currentDiscoveryState (w_node u) = DISCOVERY_HIGH \<and> armed (w_node u) \<and> radio_fits u \<and> kept w u \<and>
      n_noNodesFoundCounter (w_node u) = n_noNodesFoundCounter (w_node w)"
  proof (cases "t = DISCOVERY_HIGH")
    case True
    then have "u = v" using u lv ChangeState_idle [of v DISCOVERY_HIGH E] by simp
    then show ?thesis using lv True by (simp add: kept_def enter_def)
  next
    case False
    then have "n_currentDiscoveryState (w_node v) \<noteq> DISCOVERY_HIGH" "\<not> n_stateMachineDisabled (w_node v)"
      using lv v(1) go(2) by (auto simp: kept_def enter_def)
    from ChangeState_leaf [OF u _ this] lv show ?thesis by (simp add: kept_def enter_def)
  qed
  with inform_modules_DISCOVERY [OF w'] show ?thesis
    by (auto simp: radio_only_def radio_fits_def kept_def)
qed

lemma ChangeState_DECIDING:
  assumes run: "ChangeState E DECIDING w = Some w'"
    and go: "n_currentDiscoveryState (w_node w) \<noteq> DECIDING" "\<not> n_stateMachineDisabled (w_node w)"
  shows "n_currentDiscoveryState (w_node w') \<in> {BACK_OFF, CONNECTING, DISCOVERY_HIGH} \<and> armed (w_node w') \<and>
    radio_fits w' \<and> kept w w' \<and> (unat (n_noNodesFoundCounter (w_node w)) \<le> 100 \<longrightarrow>
      unat (n_noNodesFoundCounter (w_node w')) \<le> 100)"
proof -
  let ?w = "upd_node (\<lambda>n. n\<lparr>n_currentDiscoveryState := DECIDING\<rparr>) w"
  obtain v u d where v: "radio_state E ADV_STATE_OFF SCAN_STATE_OFF ?w = Some v"
    and u: "DetermineBestClusterAvailable E v = Some (u, d)"
    and run': "(case d of
        DECISION_NO_NODES_FOUND \<Rightarrow> ChangeState E BACK_OFF
          (upd_node (\<lambda>n. n\<lparr>n_noNodesFoundCounter := (if n_noNodesFoundCounter n < 100
             then n_noNodesFoundCounter n + 1 else n_noNodesFoundCounter n)\<rparr>) (enter None INVALID_STATE u))
      | DECISION_CONNECT_AS_MASTER \<Rightarrow>
          map_option (upd_node (\<lambda>n. n\<lparr>n_noNodesFoundCounter := 0\<rparr>)) (ChangeState E CONNECTING (enter None INVALID_STATE u))
      | DECISION_CONNECT_AS_SLAVE \<Rightarrow>
          ChangeState E DISCOVERY (upd_node (\<lambda>n. n\<lparr>n_noNodesFoundCounter := 0\<rparr>) (enter None INVALID_STATE u))) = Some w'"
    using run go by (subst (asm) ChangeState.simps) (auto simp: inform_modules_quiet split: prod.splits)
  have uw: "n_currentDiscoveryState (w_node u) = DECIDING" "n_noNodesFoundCounter (w_node u) = n_noNodesFoundCounter (w_node w)"
    "kept w u" "\<not> n_stateMachineDisabled (w_node u)"
    using radio_only_same_state [OF radio_state_result(3) [OF v]] same_state_DetermineBestClusterAvailable [OF u] go(2)
    by (auto simp: same_state_def kept_def)
  have step: "unat (c + 1) \<le> 100" if "c < 100" for c :: u8
    using that unat_add1_small [of c] by (simp add: word_less_nat_alt)
  show ?thesis
  proof (cases d)
    case DECISION_NO_NODES_FOUND
    note r = ChangeState_leaf [OF run' [unfolded DECISION_NO_NODES_FOUND decisionResult.case]]
    show ?thesis using r uw step by (auto simp: enter_def kept_def)
  next
    case DECISION_CONNECT_AS_MASTER
    then obtain z where z: "ChangeState E CONNECTING (enter None INVALID_STATE u) = Some z"
      "w' = upd_node (\<lambda>n. n\<lparr>n_noNodesFoundCounter := 0\<rparr>) z" using run' by auto
    note r = ChangeState_leaf [OF z(1)]
    show ?thesis using r uw z(2) by (auto simp: enter_def kept_def armed_def radio_fits_def)
  next
    case DECISION_CONNECT_AS_SLAVE
    note r = ChangeState_DISCOVERY [OF run' [unfolded DECISION_CONNECT_AS_SLAVE decisionResult.case]]
    show ?thesis using r uw by (auto simp: enter_def kept_def)
  qed
qed

section \<open>Properties of the state machine\<close>



text \<open>What drives the machine while no one types commands: the events of connections and the
  boot (which enter \<open>DISCOVERY\<close> or \<open>HANDSHAKE\<close>), stopping the node, the timer; everything else
  leaves these variables alone.\<close>

inductive mesh_reachable :: "env \<Rightarrow> world \<Rightarrow> bool" for E where
  boot: "n_currentDiscoveryState (w_node w) = BOOTUP \<Longrightarrow> n_nextDiscoveryState (w_node w) = INVALID_STATE \<Longrightarrow>
    n_noNodesFoundCounter (w_node w) = 0 \<Longrightarrow> mesh_reachable E w"
| event: "mesh_reachable E w \<Longrightarrow> s \<in> {DISCOVERY, HANDSHAKE, DISCOVERY_OFF} \<Longrightarrow>
    ChangeState E s w = Some w' \<Longrightarrow> mesh_reachable E w'"
| tick: "mesh_reachable E w \<Longrightarrow> Node_TimerTickHandler E ms w = Some w' \<Longrightarrow> mesh_reachable E w'"
| found: "mesh_reachable E w \<Longrightarrow> mesh_reachable E (upd_node (\<lambda>n. n\<lparr>n_noNodesFoundCounter := 0\<rparr>) w)"
| disable: "mesh_reachable E w \<Longrightarrow> mesh_reachable E (DisableStateMachine b w)"
| other: "mesh_reachable E w \<Longrightarrow>
    n_currentDiscoveryState (w_node w') = n_currentDiscoveryState (w_node w) \<Longrightarrow>
    n_nextDiscoveryState (w_node w') = n_nextDiscoveryState (w_node w) \<Longrightarrow>
    n_noNodesFoundCounter (w_node w') = n_noNodesFoundCounter (w_node w) \<Longrightarrow> mesh_reachable E w'"

definition successor :: "discoveryState \<Rightarrow> discoveryState" where
  "successor s = (case s of DISCOVERY_HIGH \<Rightarrow> DECIDING | CONNECTING \<Rightarrow> DECIDING | BACK_OFF \<Rightarrow> DISCOVERY
     | _ \<Rightarrow> INVALID_STATE)"

definition mesh_inv :: "Node \<Rightarrow> bool" where
  "mesh_inv n \<longleftrightarrow>
     n_currentDiscoveryState n \<in> {BOOTUP, DISCOVERY_HIGH, BACK_OFF, CONNECTING, HANDSHAKE, DISCOVERY_OFF} \<and>
     n_nextDiscoveryState n = successor (n_currentDiscoveryState n) \<and> unat (n_noNodesFoundCounter n) \<le> 100"

lemma mesh_inv_ChangeState:
  assumes inv: "mesh_inv (w_node w)" and run: "ChangeState E s w = Some w'"
    and s: "s \<in> {DISCOVERY, DECIDING, HANDSHAKE, DISCOVERY_OFF}"
  shows "mesh_inv (w_node w')"
proof (cases "n_currentDiscoveryState (w_node w) = s \<or> n_stateMachineDisabled (w_node w)")
  case True
  then show ?thesis using ChangeState_idle [of w s E] run inv by auto
next
  case go: False
  show ?thesis
    using s go inv ChangeState_leaf [OF run] ChangeState_DISCOVERY [of E w w'] ChangeState_DECIDING [of E w w'] run
    by (auto simp: mesh_inv_def armed_def successor_def)
qed

lemma blink_frame:
  "n_currentDiscoveryState (w_node (blink w)) = n_currentDiscoveryState (w_node w) \<and>
   n_nextDiscoveryState (w_node (blink w)) = n_nextDiscoveryState (w_node w) \<and>
   n_noNodesFoundCounter (w_node (blink w)) = n_noNodesFoundCounter (w_node w)"
  by (simp add: blink_def Let_def leds_off_def gpio_def)

lemma mesh_inv_blink: "mesh_inv (w_node (blink w)) \<longleftrightarrow> mesh_inv (w_node w)"
  using blink_frame [of w] by (simp add: mesh_inv_def)

lemma tick_clock_frame:
  "n_currentDiscoveryState (w_node (tick_clock E ms w)) = n_currentDiscoveryState (w_node w) \<and>
   n_nextDiscoveryState (w_node (tick_clock E ms w)) = n_nextDiscoveryState (w_node w) \<and>
   n_noNodesFoundCounter (w_node (tick_clock E ms w)) = n_noNodesFoundCounter (w_node w) \<and>
   n_currentStateTimeoutMs (w_node (tick_clock E ms w)) = n_currentStateTimeoutMs (w_node w) - ucast ms"
  by (simp add: tick_clock_def cnt_get_def)

lemma mesh_inv_TimerTick:
  assumes inv: "mesh_inv (w_node w)" and run: "Node_TimerTickHandler E ms w = Some w'"
  shows "mesh_inv (w_node w')"
proof -
  let ?u = "tick_clock E ms w"
  have u: "mesh_inv (w_node ?u)" using inv tick_clock_frame [of E ms w] by (simp add: mesh_inv_def)
  obtain v where v: "(if n_nextDiscoveryState (w_node ?u) \<noteq> INVALID_STATE \<and> sint (n_currentStateTimeoutMs (w_node ?u)) \<le> 0
       then ChangeState E (n_nextDiscoveryState (w_node ?u)) ?u else Some ?u) = Some v"
    and w': "w' = (if n_currentLedMode (w_node v) = LED_MODE_CONNECTIONS then blink v else v)"
    using run unfolding Node_TimerTickHandler_def Let_def by blast
  have "n_nextDiscoveryState (w_node ?u) \<in> {INVALID_STATE, DECIDING, DISCOVERY}"
    using u by (auto simp: mesh_inv_def successor_def)
  then have "mesh_inv (w_node v)"
    using v u mesh_inv_ChangeState [OF u, of E "n_nextDiscoveryState (w_node ?u)" v]
    by (auto split: if_splits)
  then show ?thesis using w' by (simp add: mesh_inv_blink)
qed



end
