(* ===== verification/ClusterChoice.thy ===== *)
theory ClusterChoice
  imports DiscoveryStates
begin

text \<open>
  Choosing a cluster (\<^verbatim>\<open>Node.cpp\<close>): what the buffer of JOIN_ME packets holds, which packet is
  chosen, and what the cluster ids are worth.
\<close>

section \<open>Cluster ids\<close>

text \<open>A new cluster id holds the sum of node id and connection loss counter in its upper half:
  two nodes get the same id exactly if these sums agree modulo \<open>2^16\<close>, so that ids are not unique
  (the counter is a random number at boot), and the lower half is always zero.\<close>

lemma cluster_id_collision:
  "(GenerateClusterID w = GenerateClusterID w' \<longleftrightarrow>
      nodeId w + pc_connectionLossCounter (pconf w) = nodeId w' + pc_connectionLossCounter (pconf w')) \<and>
   take_bit 16 (GenerateClusterID w) = 0"
proof -
  have low: "push_bit 16 x = push_bit 16 y \<longleftrightarrow> (ucast x :: u16) = ucast y" for x y :: u32
  proof
    assume eq: "push_bit 16 x = push_bit 16 y"
    have "bit x n = bit y n" if "n < 16" for n
      using arg_cong [OF eq, of "\<lambda>z. bit z (n + 16)"] that by (simp add: bit_simps)
    then show "(ucast x :: u16) = ucast y" by (intro bit_word_eqI) (simp add: bit_simps)
  next
    assume eq: "(ucast x :: u16) = ucast y"
    have "bit x n = bit y n" if "n < 16" for n
      using arg_cong [OF eq, of "\<lambda>z. bit z n"] that by (simp add: bit_simps)
    then show "push_bit 16 x = push_bit 16 y" by (intro bit_word_eqI) (auto simp: bit_simps)
  qed
  have sum: "(ucast (ucast a + ucast b :: u32) :: u16) = a + b" for a b :: u16
    by transfer (simp add: take_bit_add)
  show ?thesis
    unfolding GenerateClusterID_def low sum by (simp add: take_bit_push_bit)
qed

section \<open>The best cluster\<close>

lemma best_fold:
  "fold (best_step score) xs (b, r) = (b', r') \<Longrightarrow>
    b \<le> b' \<and> (\<forall>p \<in> set xs. score p \<le> b') \<and> (r' = r \<and> b' = b \<or> (\<exists>p \<in> set xs. r' = Some p \<and> score p = b' \<and> b < b'))"
proof (induction xs arbitrary: b r)
  case (Cons x xs)
  let ?s = "best_step score x (b, r)"
  have "fold (best_step score) xs (fst ?s, snd ?s) = (b', r')" using Cons.prems by simp
  from Cons.IH [OF this] show ?case
    unfolding best_step_def by (cases "score x > b") auto
qed simp

lemma best_cluster_result:
  "case best_cluster score xs of
     None \<Rightarrow> \<forall>p \<in> set xs. score p = 0
   | Some p \<Rightarrow> p \<in> set xs \<and> 0 < score p \<and> (\<forall>q \<in> set xs. score q \<le> score p)"
proof -
  obtain b r where f: "fold (best_step score) xs (0, None) = (b, r)" by fastforce
  from best_fold [OF f] show ?thesis
    unfolding best_cluster_def f by (cases r) (auto simp: word_le_nat_alt unat_0_iff)
qed

section \<open>The buffer of JOIN_ME packets\<close>

text \<open>The buffer as it is set up: ten places of the size of a packet, one packet per sender.\<close>

definition joinMe_buffer_ok :: "Node \<Rightarrow> bool" where
  "joinMe_buffer_ok n \<longleftrightarrow> sb_wf (n_joinMePacketBuffer n) \<and> sb_itemLength (n_joinMePacketBuffer n) = 36 \<and>
     sb_bufferLength (n_joinMePacketBuffer n) = 360"

definition buffered :: "Node \<Rightarrow> joinMeBufferPacket list" where
  "buffered n = map (n_joinMeSlots n) [0..<unat (sb_numElements (n_joinMePacketBuffer n))]"

abbreviation sender_of :: "joinMeBufferPacket \<Rightarrow> nodeID" where
  "sender_of p \<equiv> jm_sender (jb_payload p)"

definition joinMe_inv :: "Node \<Rightarrow> bool" where
  "joinMe_inv n \<longleftrightarrow> joinMe_buffer_ok n \<and> distinct (map sender_of (buffered n))"

lemma slot_of_index:
  assumes "joinMe_buffer_ok n" "i < unat (sb_numElements (n_joinMePacketBuffer n))"
  shows "slot_of (n_joinMePacketBuffer n) (of_nat i) = i"
proof -
  have "unat (of_nat i :: u16) = i"
    using assms(2) unat_bound [of "sb_numElements (n_joinMePacketBuffer n)"] by (intro unat_of_nat_small) simp
  then show ?thesis
    using assms by (simp add: slot_of_def sb_PeekItemAt_def joinMe_buffer_ok_def word_le_nat_alt)
qed

lemma joinMe_packets_eq: "joinMe_buffer_ok (w_node w) \<Longrightarrow> joinMe_packets w = buffered (w_node w)"
  by (simp add: joinMe_packets_def buffered_def slot_of_index Let_def)

lemma joinMe_buffer_limit:
  assumes "joinMe_buffer_ok n"
  shows "unat (sb_numElements (n_joinMePacketBuffer n)) \<le> 10"
    "\<not> sb_full (n_joinMePacketBuffer n) \<longleftrightarrow> unat (sb_numElements (n_joinMePacketBuffer n)) < 10"
  using assms by (auto simp: joinMe_buffer_ok_def sb_wf_def not_sb_full) 

text \<open>The place the handler chooses.\<close>

lemma AdvertisementMessageHandler_cases:
  fixes r :: adv_report and w :: world
  defines "p \<equiv> read_joinMe (ar_data r)" and "n \<equiv> w_node w"
  assumes ok: "joinMe_buffer_ok n"
    and joinMe: "ah_messageType (read_advHeader (ar_data r)) = MESSAGE_TYPE_JOIN_ME"
      "unat (ar_dlen r) = SIZEOF_ADV_PACKET_JOIN_ME" "jm_clusterId p \<noteq> n_clusterId n"
  obtains (update) i where "i < unat (sb_numElements (n_joinMePacketBuffer n))"
      "sender_of (n_joinMeSlots n i) = jm_sender p"
      "w_node (AdvertisementMessageHandler r w) =
         n\<lparr>n_joinMeSlots := (n_joinMeSlots n)(i := fill_joinMe r (n_appTimerMs n) (n_joinMeSlots n i))\<rparr>"
  | (add) k where "k = unat (sb_numElements (n_joinMePacketBuffer n))" "k < 10"
      "jm_sender p \<notin> sender_of ` set (buffered n)"
      "w_node (AdvertisementMessageHandler r w) =
         n\<lparr>n_joinMePacketBuffer := fst (sb_Reserve (n_joinMePacketBuffer n)),
           n_joinMeSlots := (n_joinMeSlots n)(k := fill_joinMe r (n_appTimerMs n) (n_joinMeSlots n k))\<rparr>"
  | (full) "length (buffered n) = 10" "jm_sender p \<notin> sender_of ` set (buffered n)"
      "w_node (AdvertisementMessageHandler r w) = n"
proof -
  let ?b = "n_joinMePacketBuffer n"
  let ?k = "unat (sb_numElements ?b)"
  let ?found = "find (\<lambda>i. sender_of (n_joinMeSlots n (slot_of ?b (of_nat i))) = jm_sender p) [0..<?k]"
  note handler = AdvertisementMessageHandler_def [of r w, folded p_def n_def]
  show thesis
  proof (cases ?found)
    case (Some i)
    then have i: "i < ?k" "sender_of (n_joinMeSlots n i) = jm_sender p"
      using slot_of_index [OF ok] by (auto simp: find_Some_iff)
    show thesis
      by (rule update [OF i]) (use Some joinMe slot_of_index [OF ok i(1)] in
        \<open>simp add: handler Let_def n_def [symmetric]\<close>)
  next
    case None
    then have new: "jm_sender p \<notin> sender_of ` set (buffered n)"
      using slot_of_index [OF ok] by (auto simp: find_None_iff buffered_def)
    show thesis
    proof (cases "sb_full ?b")
      case True
      then have "sb_Reserve ?b = (?b, None)" by (simp add: sb_Reserve_def)
      with None joinMe have "w_node (AdvertisementMessageHandler r w) = n"
        by (simp add: handler Let_def n_def [symmetric])
      moreover have "length (buffered n) = 10"
        using joinMe_buffer_limit [OF ok] True by (simp add: buffered_def)
      ultimately show thesis using new by (intro full)
    next
      case False
      then obtain b' t where b': "sb_Reserve ?b = (b', Some t)" by (auto simp: sb_Reserve_def Let_def)
      have wf: "sb_wf ?b" "sb_itemLength ?b = 36" using ok by (simp_all add: joinMe_buffer_ok_def)
      have t: "t = ?k * 36" "sb_itemLength b' = 36" using sb_Reserve_slot [OF wf(1) b'] wf(2) by simp_all
      show thesis
        by (rule add [OF refl _ new]) (use False joinMe_buffer_limit [OF ok] None joinMe b' t in
          \<open>simp_all add: handler Let_def n_def [symmetric]\<close>)
    qed
  qed
qed

text \<open>Replacing the element with a key, in a list with distinct keys.\<close>

lemma filter_key_update:
  assumes "distinct (map f xs)" "i < length xs" "f y = f (xs ! i)"
  shows "map f (xs[i := y]) = map f xs" "filter (\<lambda>x. f x \<noteq> f y) (xs[i := y]) = filter (\<lambda>x. f x \<noteq> f y) xs"
    "filter (\<lambda>x. f x = f y) (xs[i := y]) = [y]"
proof -
  define us x vs where "us = take i xs" and "x = xs ! i" and "vs = drop (Suc i) xs"
  then have xs: "xs = us @ x # vs" and i: "length us = i" and x: "x = xs ! i"
    using id_take_nth_drop [OF assms(2)] assms(2) by (simp_all only: length_take min.absorb4)
  have other: "\<forall>z \<in> set us \<union> set vs. f z \<noteq> f y" using assms(1,3) x by (subst (asm) xs) (auto simp: image_iff)
  have upd: "xs[i := y] = us @ y # vs" by (subst xs) (simp add: list_update_append i)
  show "map f (xs[i := y]) = map f xs" using assms(2,3) by (simp add: map_update list_update_same_conv)
  show "filter (\<lambda>x. f x \<noteq> f y) (xs[i := y]) = filter (\<lambda>x. f x \<noteq> f y) xs"
    using arg_cong [OF xs, of "filter (\<lambda>z. f z \<noteq> f y)"] assms(3) x unfolding upd by simp
  show "filter (\<lambda>x. f x = f y) (xs[i := y]) = [y]"
    unfolding upd using other by (auto simp: filter_empty_conv)
qed

lemma fill_joinMe_sender [simp]: "sender_of (fill_joinMe r t q) = jm_sender (read_joinMe (ar_data r))"
  by (simp add: fill_joinMe_def Let_def)

lemma buffered_cong:
  assumes "unat (sb_numElements (n_joinMePacketBuffer n')) = unat (sb_numElements (n_joinMePacketBuffer n))"
    "n_joinMeSlots n' = (n_joinMeSlots n)(i := q)" "i < unat (sb_numElements (n_joinMePacketBuffer n))"
  shows "buffered n' = (buffered n)[i := q]"
  using assms by (auto simp: buffered_def list_eq_iff_nth_eq nth_list_update)

lemma buffered_snoc:
  assumes "unat (sb_numElements (n_joinMePacketBuffer n')) = Suc k"
    "n_joinMeSlots n' = (n_joinMeSlots n)(k := q)" "k = unat (sb_numElements (n_joinMePacketBuffer n))"
  shows "buffered n' = buffered n @ [q]"
  using assms by (simp add: buffered_def)

text \<open>C16: A JOIN_ME packet of another cluster is kept as the one packet of its sender, with the
  cluster's current data and the time it came in, and the packets of the other senders stay as they
  are; only if there are ten others already it is dropped. The buffer keeps one packet per sender.\<close>

theorem join_me_buffer:
  assumes inv: "joinMe_inv (w_node w)"
    and p: "p = read_joinMe (ar_data r)" and n': "n' = w_node (AdvertisementMessageHandler r w)"
    and joinMe: "ah_messageType (read_advHeader (ar_data r)) = MESSAGE_TYPE_JOIN_ME"
      "unat (ar_dlen r) = SIZEOF_ADV_PACKET_JOIN_ME" "jm_clusterId p \<noteq> n_clusterId (w_node w)"
  shows "joinMe_inv n' \<and>
    filter (\<lambda>q. sender_of q \<noteq> jm_sender p) (buffered n') = filter (\<lambda>q. sender_of q \<noteq> jm_sender p) (buffered (w_node w)) \<and>
    (length (buffered (w_node w)) = 10 \<and> jm_sender p \<notin> sender_of ` set (buffered (w_node w)) \<and> n' = w_node w \<or>
     (\<exists>q. filter (\<lambda>q. sender_of q = jm_sender p) (buffered n') = [q] \<and>
        jm_clusterId (jb_payload q) = jm_clusterId p \<and> jm_clusterSize (jb_payload q) = jm_clusterSize p \<and>
        jm_freeInConnections (jb_payload q) = jm_freeInConnections p \<and>
        jm_freeOutConnections (jb_payload q) = jm_freeOutConnections p \<and>
        jm_meshWriteHandle (jb_payload q) = jm_meshWriteHandle p \<and> jm_ackField (jb_payload q) = jm_ackField p \<and>
        jb_receivedTime q = n_appTimerMs (w_node w)))"
proof -
  let ?n = "w_node w"
  have ok: "joinMe_buffer_ok ?n" and dist: "distinct (map sender_of (buffered ?n))"
    using inv by (simp_all add: joinMe_inv_def)
  have len: "length (buffered ?n) = unat (sb_numElements (n_joinMePacketBuffer ?n))" by (simp add: buffered_def)
  note handled = ok joinMe(1,2) joinMe(3) [unfolded p]
  from handled show ?thesis
  proof (cases rule: AdvertisementMessageHandler_cases)
    case (update i)
    let ?q = "fill_joinMe r (n_appTimerMs ?n) (n_joinMeSlots ?n i)"
    have b: "buffered n' = (buffered ?n)[i := ?q]"
      unfolding n' update(3) by (rule buffered_cong) (use update(1) in simp_all)
    have "sender_of ?q = sender_of (buffered ?n ! i)" using update(1,2) p by (simp add: buffered_def)
    note f = filter_key_update [OF dist _ this, unfolded len, OF update(1)]
    have "joinMe_inv n'"
      using f(1) dist b ok unfolding joinMe_inv_def n' update(3) by (simp add: joinMe_buffer_ok_def)
    then show ?thesis using f(2,3) b p by (auto simp: fill_joinMe_def Let_def)
  next
    case (add k)
    let ?q = "fill_joinMe r (n_appTimerMs ?n) (n_joinMeSlots ?n k)"
    have wf: "sb_wf (n_joinMePacketBuffer ?n)" using ok by (simp add: joinMe_buffer_ok_def)
    have nf: "\<not> sb_full (n_joinMePacketBuffer ?n)" using joinMe_buffer_limit [OF ok] add(1,2) by simp
    then obtain b' t where b': "sb_Reserve (n_joinMePacketBuffer ?n) = (b', Some t)"
      by (auto simp: sb_Reserve_def Let_def)
    have num: "unat (sb_numElements b') = Suc k" using sb_Reserve_slot(2) [OF wf b'] add(1) by simp
    have b: "buffered n' = buffered ?n @ [?q]"
      unfolding n' add(4) by (rule buffered_snoc) (use num b' add(1) in simp_all)
    have "joinMe_buffer_ok n'"
      using ok nf sb_Reserve_wf [OF wf] b' unfolding n' add(4)
      by (auto simp: joinMe_buffer_ok_def sb_Reserve_def Let_def)
    then have "joinMe_inv n'" using dist b add(3) p unfolding joinMe_inv_def by auto
    moreover have "filter (\<lambda>q. sender_of q = jm_sender p) (buffered ?n) = []"
      using add(3) p by (auto simp: filter_empty_conv image_iff)
    ultimately show ?thesis using b p by (auto simp: fill_joinMe_def Let_def)
  next
    case full
    then show ?thesis using inv n' p by simp
  qed
qed

text \<open>A report of a JOIN_ME packet, from a node 7 that is alone in a cluster of its own.\<close>

definition join_me_report :: adv_report where
  "join_me_report = \<lparr>ar_data = write_joinMe \<lparr>jm_sender = 7, jm_clusterId = 0x90000, jm_clusterSize = 1,
       jm_freeInConnections = 1, jm_freeOutConnections = 3, jm_version = 0, jm_batteryRuntime = 0,
       jm_txPower = 0, jm_deviceType = 0, jm_hopsToSink = 0, jm_meshWriteHandle = 14, jm_ackField = 0\<rparr>
       ((\<lambda>_. 0)(10 := 1)),
     ar_dlen = 30, ar_type = 0, ar_rssi = 200, ar_scan_rsp = 0,
     ar_peer_addr = \<lparr>addr_type = 1, addr = [9, 9, 9, 9, 9, 9]\<rparr>,
     ar_connected_peer_addr = \<lparr>addr_type = 1, addr = [9, 9, 9, 9, 9, 9]\<rparr>\<rparr>"

lemma joinMe_inv_zero: "joinMe_inv (w_node zero_world)"
  by (simp add: joinMe_inv_def joinMe_buffer_ok_def buffered_def zero_world_def zero_node_def
      sb_init_wf) (simp add: sb_init_def)

lemma join_me_buffer_witness:
  "\<exists>q. filter (\<lambda>q. sender_of q = 7) (buffered (w_node (AdvertisementMessageHandler join_me_report zero_world))) = [q]
     \<and> jm_clusterId (jb_payload q) = 0x90000"
proof -
  have r: "ah_messageType (read_advHeader (ar_data join_me_report)) = MESSAGE_TYPE_JOIN_ME"
    "unat (ar_dlen join_me_report) = SIZEOF_ADV_PACKET_JOIN_ME"
    "jm_sender (read_joinMe (ar_data join_me_report)) = 7"
    "jm_clusterId (read_joinMe (ar_data join_me_report)) = 0x90000"
    by code_simp+
  have c: "jm_clusterId (read_joinMe (ar_data join_me_report)) \<noteq> n_clusterId (w_node zero_world)"
    unfolding r by (simp add: zero_world_def zero_node_def)
  have "length (buffered (w_node zero_world)) \<noteq> 10"
    by (simp add: buffered_def zero_world_def zero_node_def sb_init_def)
  then show ?thesis
    using join_me_buffer [OF joinMe_inv_zero refl refl r(1,2) c] unfolding r by blast
qed

section \<open>The decision\<close>

text \<open>What is called when the node decides to connect.\<close>

lemma ConnectAsMaster_trace:
  assumes "ConnectAsMaster E a h w = Some (w', r)"
  shows "w_trace w' = (if cm_freeOutConnections (w_cm w) = 0 \<or> cm_pendingConnection (w_cm w) \<noteq> None
      \<or> w_currentlyConnecting w then w_trace w else w_trace w @ [Gap_connect a])"
  using assms
  by (auto simp: ConnectAsMaster_def Connection_Connect_def connectToPeripheral_def checked_Some Let_def
      upd_conn_def split: if_splits option.splits)


text \<open>A node of a cluster with a higher id that has heard the report.\<close>

definition deciding_example :: world where
  "deciding_example = AdvertisementMessageHandler join_me_report
     (upd_node (\<lambda>n. n\<lparr>n_clusterId := 0xA0000\<rparr>) zero_world)"


text \<open>A packet without acknowledgement, as a node sends it about its own cluster.\<close>

definition describes :: "joinMeBufferPacket \<Rightarrow> world \<Rightarrow> bool" where
  "describes p w \<longleftrightarrow> jm_clusterId (jb_payload p) = n_clusterId (w_node w) \<and>
     jm_clusterSize (jb_payload p) = n_clusterSize (w_node w) \<and> jm_ackField (jb_payload p) = 0"



lemma no_disconnect_UpdateAdvertisingData:
  assumes "UpdateAdvertisingData E t p c w = Some w'"
  shows "Gap_disconnect h \<in> set (w_trace w') \<longleftrightarrow> Gap_disconnect h \<in> set (w_trace w)"
proof -
  have "Gap_disconnect h \<in> set (w_trace v') \<longleftrightarrow> Gap_disconnect h \<in> set (w_trace v)"
    if "SetAdvertisingState E s v = Some v'" for s v v'
    using that by (auto simp: SetAdvertisingState_def checked_Some split: if_splits)
  with assms show ?thesis
    by (auto simp: UpdateAdvertisingData_def call_def app_error_check_def app_error_handler_def Let_def split: if_splits)
qed



end
