(* ===== verification/Handshake.thy ===== *)
theory Handshake
  imports DiscoveryStates
begin

text \<open>
  The life of a connection: the handshake that joins two clusters and the routing of packets
  (\<^verbatim>\<open>src/mesh/Connection.cpp\<close>), the events of connections (\<^verbatim>\<open>ConnectionManager.cpp\<close>) and the
  node's reaction to them (\<^verbatim>\<open>Node.cpp\<close>).

  \<open>deliver\<close> stands for \<open>Node::messageReceivedCallback\<close>, which hands a packet to the modules.
\<close>

section \<open>Handshake messages\<close>

definition message_header :: "u8 \<Rightarrow> nodeID \<Rightarrow> nodeID \<Rightarrow> mem \<Rightarrow> mem" where
  "message_header messageType sender receiver m =
     put_receiver receiver (put_sender sender (put_messageType messageType m))"

definition clusterWelcome_message :: "env \<Rightarrow> nat \<Rightarrow> world \<Rightarrow> mem" where
  "clusterWelcome_message E i w =
     write_clusterWelcome \<lparr>cw_clusterId = n_clusterId (w_node w), cw_clusterSize = n_clusterSize (w_node w),
         cw_meshWriteHandle = getMeshWriteHandle w, cw_hopsToSink = GetHopsToShortestSink (Some i) w\<rparr>
       (message_header MESSAGE_TYPE_CLUSTER_WELCOME (nodeId w) (NODE_ID_HOPS_BASE + 1) (e_stack E (w_trace w)))"

definition clusterAck1_message :: "env \<Rightarrow> nat \<Rightarrow> world \<Rightarrow> mem" where
  "clusterAck1_message E i w =
     write_clusterAck1 \<lparr>a1_hopsToSink = GetHopsToShortestSink (Some i) w, a1_reserved = 0\<rparr>
       (message_header MESSAGE_TYPE_CLUSTER_ACK_1 (nodeId w) (c_partnerId (conns w i)) (e_stack E (w_trace w)))"

definition clusterAck2_message :: "mem \<Rightarrow> nat \<Rightarrow> world \<Rightarrow> mem" where
  "clusterAck2_message stack i w =
     write_clusterAck2 \<lparr>a2_clusterId = n_clusterId (w_node w), a2_clusterSize = n_clusterSize (w_node w)\<rparr>
       (message_header MESSAGE_TYPE_CLUSTER_ACK_2 (nodeId w) (c_partnerId (conns w i)) stack)"

text \<open>The update is sent on every other connection with a finished handshake, with the distance
  to the sink that is seen over the connections other than the one it is sent on.\<close>

definition send_clusterInfoUpdate ::
    "env \<Rightarrow> mem \<Rightarrow> nat \<Rightarrow> clusterID \<Rightarrow> clusterID \<Rightarrow> clusterSIZE \<Rightarrow> world \<Rightarrow> world option" where
  "send_clusterInfoUpdate E stack i current new change w =
     each (\<lambda>j w. if j = i \<or> \<not> c_handshakeDone (conns w j) then Some w
           else SendMessage E j
             (write_clusterInfoUpdate \<lparr>iu_currentClusterId = current, iu_newClusterId = new,
                 iu_clusterSizeChange = change, iu_hopsToSink = GetHopsToShortestSink (Some j) w\<rparr>
               (message_header MESSAGE_TYPE_CLUSTER_INFO_UPDATE (nodeId w) 0 stack))
             (of_nat SIZEOF_CONN_PACKET_CLUSTER_INFO_UPDATE) True w)
       [0, 1, 2, 3] w"

section \<open>The handlers of a connection\<close>

definition Connection_ConnectionSuccessfulHandler :: "u16 \<Rightarrow> nat \<Rightarrow> world \<Rightarrow> world" where
  "Connection_ConnectionSuccessfulHandler handle i w =
     upd_conn i (\<lambda>c. c\<lparr>c_handshakeStarted := n_appTimerMs (w_node w), c_connectionHandle := handle,
        c_isConnected := True\<rparr>) w"

definition StartHandshake :: "env \<Rightarrow> nat \<Rightarrow> world \<Rightarrow> world option" where
  "StartHandshake E i w =
     (if c_handshakeDone (conns w i) then Some w
      else SendMessage E i (clusterWelcome_message E i w) (of_nat SIZEOF_CONN_PACKET_CLUSTER_WELCOME) True w)"

definition Connection_DisconnectionHandler :: "env \<Rightarrow> u8 \<Rightarrow> nat \<Rightarrow> world \<Rightarrow> world" where
  "Connection_DisconnectionHandler E reason i w =
     (let p = c_partnerId (conns w i);
          w = (if (p = BLE_NODE_ID \<or> p = BLE_NODE_ID + 1) \<and> reason = 19
               then upd_node (\<lambda>n. n\<lparr>n_inFeignHandshakeMode := False\<rparr>) w else w);
          w = upd_conn i (\<lambda>c. c\<lparr>c_connectedClusterSize := 0\<rparr>) w;
          w = upd_node (\<lambda>n. n\<lparr>n_clusterSize := n_clusterSize n - c_connectedClusterSize (conns w i)\<rparr>) w
      in upd_conn i (Connection_Init E (cm_txBuffersPerLink (w_cm w))) w)"

definition GetAverageRSSI :: "Connection \<Rightarrow> i8" where
  "GetAverageRSSI c = (if c_isConnected c then c_rssiAverage c else 0)"

section \<open>The end of a handshake\<close>

definition StartConnectionRSSIMeasurement :: "env \<Rightarrow> nat \<Rightarrow> world \<Rightarrow> world option" where
  "StartConnectionRSSIMeasurement E i w =
     (if c_isConnected (conns w i)
      then let w = upd_conn i (\<lambda>c. c\<lparr>c_rssiSamplesNum := 0, c_rssiSamplesSum := 0\<rparr>) w
           in checked E (Rssi_start (c_connectionHandle (conns w i))) w
      else Some w)"

text \<open>Only the status reporter overrides the handler; byte 8 of its configuration is
  \<open>connectionRSSISamplingMode\<close>.\<close>

definition RSSI_SAMLING_HIGH :: u8 where "RSSI_SAMLING_HIGH = 3"

definition MeshConnectionChangedHandler :: "env \<Rightarrow> nat \<Rightarrow> Module \<Rightarrow> world \<Rightarrow> world option" where
  "MeshConnectionChangedHandler E i m w =
     (if m_kind m = StatusReporterModule \<and> c_handshakeDone (conns w i)
         \<and> enableConnectionRSSIMeasurement Config \<and> m_configuration m 8 = RSSI_SAMLING_HIGH
      then StartConnectionRSSIMeasurement E i w else Some w)"

definition HandshakeDoneHandler :: "env \<Rightarrow> nat \<Rightarrow> world \<Rightarrow> world option" where
  "HandshakeDoneHandler E i w = do {
     w \<leftarrow> each (\<lambda>k w. case w_modules w k of None \<Rightarrow> Some w
            | Some m \<Rightarrow> MeshConnectionChangedHandler E i m w) [0..<MAX_MODULE_COUNT] w;
     ChangeState E DISCOVERY w
   }"

section \<open>Receiving a packet\<close>

definition hops_over :: "clusterSIZE \<Rightarrow> clusterSIZE" where
  "hops_over hopsToSink = (if sint hopsToSink < 0 then - 1 else hopsToSink + 1)"

text \<open>A packet that arrived on connection \<open>i\<close>: its data, and the length and reliability the
  handler works with.\<close>

definition joins_us :: "connPacketPayloadClusterWelcome \<Rightarrow> world \<Rightarrow> bool" where
  "joins_us p w \<longleftrightarrow> sint (cw_clusterSize p) < sint (n_clusterSize (w_node w)) \<or>
     cw_clusterSize p = n_clusterSize (w_node w) \<and> cw_clusterId p < n_clusterId (w_node w)"

definition handle_CLUSTER_WELCOME :: "env \<Rightarrow> nat \<Rightarrow> mem \<Rightarrow> world \<Rightarrow> world option" where
  "handle_CLUSTER_WELCOME E i data w =
     (let p = read_clusterWelcome data;
          w = upd_conn i (\<lambda>c. c\<lparr>c_writeCharacteristicHandle := cw_meshWriteHandle p\<rparr>) w
      in if cw_clusterId p = n_clusterId (w_node w) then Connection_Disconnect E i w
         else if joins_us p w then
           (if c_direction (conns w i) = CONNECTION_DIRECTION_IN then StartHandshake E i w else Some w)
         else do {
           w \<leftarrow> DisconnectOtherConnections E (Some i) w;
           w \<leftarrow> Some (upd_conn i (\<lambda>c. c\<lparr>c_partnerId := get_sender data,
                  c_hopsToSink := hops_over (cw_hopsToSink p)\<rparr>) w);
           SendMessage E i (clusterAck1_message E i w) (of_nat SIZEOF_CONN_PACKET_CLUSTER_ACK_1) True w
         })"

definition handle_CLUSTER_ACK_1 :: "env \<Rightarrow> nat \<Rightarrow> mem \<Rightarrow> world \<Rightarrow> world option" where
  "handle_CLUSTER_ACK_1 E i data w =
     (let stack = e_stack E (w_trace w); stack2 = shifted stack 64;
          w = upd_node (\<lambda>n. n\<lparr>n_clusterSize := n_clusterSize n + 1\<rparr>) w;
          w = upd_conn i (\<lambda>c. c\<lparr>c_hopsToSink := hops_over (a1_hopsToSink (read_clusterAck1 data)),
                 c_connectedClusterId := n_clusterId (w_node w), c_partnerId := get_sender data,
                 c_connectedClusterSize := c_connectedClusterSize c + 1, c_handshakeDone := True\<rparr>) w
      in do {
        w \<leftarrow> send_clusterInfoUpdate E stack i (n_clusterId (w_node w)) 0 1 w;
        w \<leftarrow> SendMessage E i (clusterAck2_message stack2 i w) (of_nat SIZEOF_CONN_PACKET_CLUSTER_ACK_2) True w;
        w \<leftarrow> UpdateJoinMePacket E None w;
        HandshakeDoneHandler E i w
      })"

definition handle_CLUSTER_ACK_2 :: "env \<Rightarrow> nat \<Rightarrow> mem \<Rightarrow> world \<Rightarrow> world option" where
  "handle_CLUSTER_ACK_2 E i data w =
     (let p = read_clusterAck2 data;
          w = upd_conn i (\<lambda>c. c\<lparr>c_connectedClusterId := a2_clusterId p,
                 c_connectedClusterSize := c_connectedClusterSize c + (a2_clusterSize p - 1)\<rparr>) w;
          w = upd_node (\<lambda>n. n\<lparr>n_clusterId := a2_clusterId p,
                 n_clusterSize := n_clusterSize n + (a2_clusterSize p - 1)\<rparr>) w;
          w = upd_conn i (\<lambda>c. c\<lparr>c_handshakeDone := True\<rparr>) w
      in do {
        w \<leftarrow> UpdateJoinMePacket E None w;
        HandshakeDoneHandler E i w
      })"

text \<open>A UART_WRITE comes from a telephone that is not part of the mesh. Once its handshake is
  feigned the packet becomes a LIGHT_TOGGLE (\<open>Inl\<close>: the handler returns); before, two of them are
  rewritten into the two messages of a handshake (\<open>Inr\<close>: the handler goes on).\<close>

definition light_toggle_packet :: "mem \<Rightarrow> mem" where
  "light_toggle_packet data =
     (put_sender (BLE_NODE_ID + 1) (put_receiver (get16 1 data)
        (put_messageType MESSAGE_TYPE_LIGHT_TOGGLE data)))(SIZEOF_CONN_PACKET_MODULE + 1 := data 3)"

definition handle_UART_WRITE ::
    "(connectionPacket \<Rightarrow> world \<Rightarrow> world option) \<Rightarrow> env \<Rightarrow> nat \<Rightarrow> connectionPacket \<Rightarrow> world \<Rightarrow>
     world option + mem \<times> u16 \<times> world" where
  "handle_UART_WRITE deliver E i inPacket w =
     (let data = cp_data inPacket; n = of_nat (SIZEOF_CONN_PACKET_MODULE + 2)
      in if \<exists>j \<in> {0, 1, 2 :: nat}. c_partnerId (conns w j) = BLE_NODE_ID \<or> c_partnerId (conns w j) = BLE_NODE_ID + 1
         then let data' = light_toggle_packet data
              in Inl (if get16 1 data = nodeId w
                      then deliver (inPacket\<lparr>cp_data := data', cp_dataLength := n\<rparr>) w
                      else SendMessageOverConnections E (Some i) data' n (cp_reliable inPacket) w)
         else if \<not> n_inFeignHandshakeMode (w_node w) then
           Inr (message_header MESSAGE_TYPE_CLUSTER_WELCOME (BLE_NODE_ID + 1) NODE_ID_BROADCAST data,
                of_nat SIZEOF_CONN_PACKET_CLUSTER_WELCOME,
                upd_node (\<lambda>n. n\<lparr>n_inFeignHandshakeMode := True\<rparr>) w)
         else
           Inr (message_header MESSAGE_TYPE_CLUSTER_ACK_1 (BLE_NODE_ID + 1) (nodeId w) data,
                of_nat SIZEOF_CONN_PACKET_CLUSTER_ACK_1,
                upd_node (\<lambda>n. n\<lparr>n_inFeignHandshakeMode := False\<rparr>) w))"

definition last_receiver :: "nodeID \<Rightarrow> world \<Rightarrow> bool" where
  "last_receiver receiver w \<longleftrightarrow> receiver = nodeId w \<or> receiver = NODE_ID_HOPS_BASE + 1 \<or>
     receiver = NODE_ID_SHORTEST_SINK \<and> pc_deviceType (pconf w) = DEVICE_TYPE_SINK"

text \<open>What a packet is changed to before it is passed on; the node itself goes on with the changed
  packet. \<open>NODE_ID_HOPS_BASE + 31000\<close> is compared as an integer.\<close>

definition relay_packet :: "mem \<Rightarrow> mem" where
  "relay_packet data =
     (let hops = iu_hopsToSink (read_clusterInfoUpdate data);
          data = (if get_messageType data = MESSAGE_TYPE_CLUSTER_INFO_UPDATE \<and> sint hops > -1
                  then put16 17 (hops + 1) data else data)
      in if get_sender data > NODE_ID_HOPS_BASE \<and> unat (get_sender data) < unat NODE_ID_HOPS_BASE + 31000
         then put_sender (get_sender data - 1) data else data)"

definition route_packet :: "env \<Rightarrow> nat \<Rightarrow> mem \<Rightarrow> u16 \<Rightarrow> bool \<Rightarrow> world \<Rightarrow> (world \<times> mem) option" where
  "route_packet E i data dataLength reliable w =
     (let receiver = get_receiver data
      in if last_receiver receiver w then Some (w, data)
         else if receiver = NODE_ID_SHORTEST_SINK then
           (case GetConnectionToShortestSink None w of
              Some j \<Rightarrow> map_option (\<lambda>w. (w, data)) (SendMessage E j data dataLength reliable w)
            | None \<Rightarrow> Some (w, data))
         else let data' = relay_packet data
              in map_option (\<lambda>w. (w, data')) (SendMessageOverConnections E (Some i) data' dataLength reliable w))"

definition for_us :: "nodeID \<Rightarrow> world \<Rightarrow> bool" where
  "for_us receiver w \<longleftrightarrow> receiver = nodeId w \<or> receiver = NODE_ID_BROADCAST \<or>
     NODE_ID_HOPS_BASE \<le> receiver \<and> receiver < NODE_ID_HOPS_BASE + 1000 \<or>
     receiver = NODE_ID_SHORTEST_SINK \<and> pc_deviceType (pconf w) = DEVICE_TYPE_SINK"

definition process_packet ::
    "(connectionPacket \<Rightarrow> world \<Rightarrow> world option) \<Rightarrow> env \<Rightarrow> nat \<Rightarrow> connectionPacket \<Rightarrow> mem \<Rightarrow> u16 \<Rightarrow>
     world \<Rightarrow> world option" where
  "process_packet deliver E i inPacket data dataLength w =
     (let t = get_messageType data
      in if t = MESSAGE_TYPE_CLUSTER_WELCOME then
           (if unat dataLength = SIZEOF_CONN_PACKET_CLUSTER_WELCOME then handle_CLUSTER_WELCOME E i data w else Some w)
         else if t = MESSAGE_TYPE_CLUSTER_ACK_1 then
           (if unat dataLength = SIZEOF_CONN_PACKET_CLUSTER_ACK_1 then handle_CLUSTER_ACK_1 E i data w else Some w)
         else if t = MESSAGE_TYPE_CLUSTER_ACK_2 then
           (if unat dataLength = SIZEOF_CONN_PACKET_CLUSTER_ACK_2 then handle_CLUSTER_ACK_2 E i data w else Some w)
         else if for_us (get_receiver data) w then deliver (inPacket\<lparr>cp_data := data\<rparr>) w
         else Some w)"

definition ReceivePacketHandler ::
    "(connectionPacket \<Rightarrow> world \<Rightarrow> world option) \<Rightarrow> env \<Rightarrow> nat \<Rightarrow> connectionPacket \<Rightarrow> world \<Rightarrow> world option" where
  "ReceivePacketHandler deliver E i inPacket w =
     (case (if get_messageType (cp_data inPacket) = MESSAGE_TYPE_UART_WRITE
            then handle_UART_WRITE deliver E i inPacket w
            else Inr (cp_data inPacket, cp_dataLength inPacket, w)) of
        Inl result \<Rightarrow> result
      | Inr (data, dataLength, w) \<Rightarrow> do {
          (w, data) \<leftarrow> route_packet E i data dataLength (cp_reliable inPacket) w;
          process_packet deliver E i inPacket data dataLength w
        })"

text \<open>\<open>ConnectionManager::messageReceivedCallback\<close>: a write of \<open>len\<close> bytes arrived.\<close>

definition cm_messageReceivedCallback ::
    "(connectionPacket \<Rightarrow> world \<Rightarrow> world option) \<Rightarrow> env \<Rightarrow> u16 \<Rightarrow> mem \<Rightarrow> u16 \<Rightarrow> bool \<Rightarrow> world \<Rightarrow> world option" where
  "cm_messageReceivedCallback deliver E handle data len write_cmd w =
     (case GetConnectionFromHandle handle w of
        None \<Rightarrow> Some w
      | Some i \<Rightarrow>
          let w = (if get_messageType data = MESSAGE_TYPE_UPDATE_TIMESTAMP
                   then let (w, now) = cnt_get E w
                        in upd_node (\<lambda>n. n\<lparr>n_globalTimeSetAt := now, n_globalTime := read_timestamp data\<rparr>) w
                   else w);
              c = conns w i;
              (buffer, position, complete) =
                reassemble (c_packetReassemblyBuffer c) (c_packetReassemblyPosition c) data len;
              w = upd_conn i (\<lambda>c. c\<lparr>c_packetReassemblyBuffer := buffer, c_packetReassemblyPosition := position\<rparr>) w
          in case complete of
               None \<Rightarrow> Some w
             | Some (message, n) \<Rightarrow>
                 ReceivePacketHandler deliver E i \<lparr>cp_connectionHandle = handle, cp_reliable = \<not> write_cmd,
                   cp_data = message, cp_dataLength = n\<rparr> w)"

section \<open>The node's handlers\<close>

definition Node_ConnectionSuccessfulHandler :: "env \<Rightarrow> world \<Rightarrow> world option" where
  "Node_ConnectionSuccessfulHandler E w = ChangeState E HANDSHAKE w"

definition Node_ConnectionTimeoutHandler :: "env \<Rightarrow> world \<Rightarrow> world option" where
  "Node_ConnectionTimeoutHandler E w = ChangeState E DISCOVERY w"

text \<open>The cluster sizes are subtracted as integers for the comparison and wrap where they are stored.\<close>

definition smaller_part :: "nat \<Rightarrow> world \<Rightarrow> bool" where
  "smaller_part i w \<longleftrightarrow>
     (let rest = sint (n_clusterSize (w_node w)) - sint (c_connectedClusterSize (conns w i));
          lost = sint (c_connectedClusterSize (conns w i))
      in rest < lost \<or> rest = lost \<and> nodeId w < c_partnerId (conns w i))"

definition Node_DisconnectionHandler :: "env \<Rightarrow> u16 \<Rightarrow> world \<Rightarrow> world option" where
  "Node_DisconnectionHandler E handle w =
     (let w = upd_node (\<lambda>n. n\<lparr>n_persistentConfig := (n_persistentConfig n)
                \<lparr>pc_connectionLossCounter := pc_connectionLossCounter (n_persistentConfig n) + 1\<rparr>\<rparr>) w
      in case GetConnectionFromHandle handle w of
           None \<Rightarrow> None
         | Some i \<Rightarrow> do {
             w \<leftarrow> (if c_handshakeDone (conns w i) then
                     let stack = e_stack E (w_trace w); c = conns w i;
                         small = smaller_part i w;
                         w = (if small then upd_node (\<lambda>n. n\<lparr>n_clusterId := GenerateClusterID w\<rparr>) w else w);
                         w = upd_node (\<lambda>n. n\<lparr>n_clusterSize := n_clusterSize n - c_connectedClusterSize c\<rparr>) w
                     in send_clusterInfoUpdate E stack i (c_connectedClusterId c)
                          (if small then n_clusterId (w_node w) else 0) (- c_connectedClusterSize c) w
                   else Some w);
             w \<leftarrow> UpdateJoinMePacket E None w;
             ChangeState E DISCOVERY (upd_node (\<lambda>n. n\<lparr>n_noNodesFoundCounter := 0\<rparr>) w)
           })"

definition UpdateClusterInfo :: "env \<Rightarrow> nat \<Rightarrow> connPacketPayloadClusterInfoUpdate \<Rightarrow> world \<Rightarrow> world option" where
  "UpdateClusterInfo E i p w = do {
     w \<leftarrow> Some (upd_conn i (\<lambda>c. c\<lparr>c_hopsToSink := hops_over (iu_hopsToSink p)\<rparr>) w);
     w \<leftarrow> (if iu_clusterSizeChange p \<noteq> 0 then
             UpdateJoinMePacket E None
               (upd_conn i (\<lambda>c. c\<lparr>c_connectedClusterSize := c_connectedClusterSize c + iu_clusterSizeChange p\<rparr>)
                 (upd_node (\<lambda>n. n\<lparr>n_clusterSize := n_clusterSize n + iu_clusterSizeChange p\<rparr>) w))
           else Some w);
     if iu_currentClusterId p = n_clusterId (w_node w) \<and> iu_newClusterId p \<noteq> 0 then
       UpdateJoinMePacket E None
         (upd_conn i (\<lambda>c. c\<lparr>c_connectedClusterId := iu_newClusterId p\<rparr>)
           (upd_node (\<lambda>n. n\<lparr>n_clusterId := iu_newClusterId p\<rparr>) w))
     else Some w
   }"

section \<open>The connection manager's handlers\<close>

datatype gap_role = BLE_GAP_ROLE_PERIPH | BLE_GAP_ROLE_CENTRAL

text \<open>What follows once a connection stands, with encryption switched off or established.\<close>

definition begin_handshake :: "env \<Rightarrow> nat \<Rightarrow> world \<Rightarrow> world option" where
  "begin_handshake E i w =
     (if cm_doHandshake (w_cm w) then StartHandshake E i w
      else Some (upd_conn i (\<lambda>c. c\<lparr>c_handshakeDone := True\<rparr>) w))"

definition await_handshake :: "nat \<Rightarrow> world \<Rightarrow> world" where
  "await_handshake i w =
     (if \<not> cm_doHandshake (w_cm w) then upd_conn i (\<lambda>c. c\<lparr>c_handshakeDone := True\<rparr>) w else w)"

definition cm_ConnectionSuccessfulHandler :: "env \<Rightarrow> gap_role \<Rightarrow> u16 \<Rightarrow> world \<Rightarrow> world option" where
  "cm_ConnectionSuccessfulHandler E role handle w =
     map_option (upd_cm (\<lambda>m. m\<lparr>cm_pendingConnection := None\<rparr>))
       (case role of
          BLE_GAP_ROLE_PERIPH \<Rightarrow> do {
            w \<leftarrow> Some (upd_cm (\<lambda>m. m\<lparr>cm_freeInConnections := cm_freeInConnections m - 1\<rparr>) w);
            w \<leftarrow> Node_ConnectionSuccessfulHandler E (Connection_ConnectionSuccessfulHandler handle 0 w);
            Some (if encryptionEnabled Config then w else await_handshake 0 w)
          }
        | BLE_GAP_ROLE_CENTRAL \<Rightarrow>
            (case cm_pendingConnection (w_cm w) of
               None \<Rightarrow> None
             | Some i \<Rightarrow> do {
                 w \<leftarrow> Node_ConnectionSuccessfulHandler E (Connection_ConnectionSuccessfulHandler handle i w);
                 if encryptionEnabled Config then startEncryptingConnection E handle w
                 else begin_handshake E i w
               }))"

definition ConnectionEncryptedHandler :: "env \<Rightarrow> u16 \<Rightarrow> world \<Rightarrow> world option" where
  "ConnectionEncryptedHandler E handle w =
     (case GetConnectionFromHandle handle w of
        None \<Rightarrow> None
      | Some i \<Rightarrow> (case c_direction (conns w i) of
            CONNECTION_DIRECTION_IN \<Rightarrow> Some (await_handshake i w)
          | CONNECTION_DIRECTION_OUT \<Rightarrow> begin_handshake E i w))"

definition handleDiscoveredCallback :: "env \<Rightarrow> u16 \<Rightarrow> u16 \<Rightarrow> world \<Rightarrow> world option" where
  "handleDiscoveredCallback E handle characteristicHandle w =
     (case GetConnectionFromHandle handle w of
        None \<Rightarrow> Some w
      | Some i \<Rightarrow>
          let w = upd_conn i (\<lambda>c. c\<lparr>c_writeCharacteristicHandle := characteristicHandle\<rparr>) w
          in if cm_doHandshake (w_cm w) then StartHandshake E i w else Node_ConnectionSuccessfulHandler E w)"

definition cm_DisconnectionHandler :: "env \<Rightarrow> u16 \<Rightarrow> u8 \<Rightarrow> world \<Rightarrow> world option" where
  "cm_DisconnectionHandler E handle reason w =
     (case GetConnectionFromHandle handle w of
        None \<Rightarrow> Some w
      | Some i \<Rightarrow>
          let w = upd_cm (if c_direction (conns w i) = CONNECTION_DIRECTION_IN
                     then (\<lambda>m. m\<lparr>cm_freeInConnections := cm_freeInConnections m + 1\<rparr>)
                     else (\<lambda>m. m\<lparr>cm_freeOutConnections := cm_freeOutConnections m + 1\<rparr>)) w;
              w = upd_cm (\<lambda>m. m\<lparr>cm_pendingPackets := cm_pendingPackets m
                     - ucast (pq_numElements (c_packetSendQueue (conns w i)))\<rparr>) w;
              w = upd_conn i (\<lambda>c. c\<lparr>c_isConnected := False\<rparr>) w
          in map_option (Connection_DisconnectionHandler E reason i) (Node_DisconnectionHandler E handle w))"

definition cm_ConnectionTimeoutHandler :: "env \<Rightarrow> world \<Rightarrow> world option" where
  "cm_ConnectionTimeoutHandler E w =
     Node_ConnectionTimeoutHandler E (upd_cm (\<lambda>m. m\<lparr>cm_pendingConnection := None,
        cm_freeOutConnections := cm_freeOutConnections m + 1\<rparr>) w)"

end
