(* ===== verification/Storage.thy ===== *)
theory Storage
  imports Transport
begin

text \<open>
  \<^verbatim>\<open>src/utility/Storage.cpp\<close>: reading and writing configurations in flash, one operation at a
  time. Requests wait in the byte queue of \<^verbatim>\<open>SimpleQueue.cpp\<close>; the flash library answers with
  events. Who asked for a configuration is called back when it is loaded, which is the locale
  \<open>storage_listener\<close> here.
\<close>

section \<open>Tasks\<close>

definition STORAGE_BLOCK_SIZE :: u32 where "STORAGE_BLOCK_SIZE = 640"
definition OPERATION_READ :: u16 where "OPERATION_READ = 0"
definition OPERATION_WRITE :: u16 where "OPERATION_WRITE = 1"

text \<open>A pointer to the configuration of the node or of a module, and to the object that is called
  back; objects are numbered.\<close>

fun address_of :: "storage_ref \<Rightarrow> u32" where
  "address_of NODE_CONFIG = 1"
| "address_of (MODULE_CONFIG k) = of_nat k + 2"

definition object_at :: "u32 \<Rightarrow> storage_ref" where
  "object_at a = (if a = 1 then NODE_CONFIG else MODULE_CONFIG (unat (a - 2)))"

record taskitem =
  ti_operation :: u16
  ti_dataLength :: u16
  ti_storageBlock :: u32
  ti_data :: u32
  ti_callback :: u32

definition SIZEOF_TASKITEM :: nat where "SIZEOF_TASKITEM = 16"

definition write_taskitem :: "taskitem \<Rightarrow> mem \<Rightarrow> mem" where
  "write_taskitem t m = put32 12 (ti_callback t) (put32 8 (ti_data t)
     (put32 4 (ti_storageBlock t) (put16 2 (ti_dataLength t) (put16 0 (ti_operation t) m))))"

definition read_taskitem :: "mem \<Rightarrow> taskitem" where
  "read_taskitem m = \<lparr>ti_operation = get16 0 m, ti_dataLength = get16 2 m, ti_storageBlock = get32 4 m,
     ti_data = get32 8 m, ti_callback = get32 12 m\<rparr>"

section \<open>Operations\<close>

text \<open>The task a queue result points at; a null or unassigned pointer is \<^const>\<open>None\<close>.\<close>

definition task_at :: "SimpleQueue \<Rightarrow> sizedData \<Rightarrow> taskitem option" where
  "task_at q s = map_option (\<lambda>p. read_taskitem (shifted (sq_mem q) p)) (sd_data s)"

text \<open>What \<open>pstorage_load\<close> and \<open>pstorage_store\<close> return is not looked at.\<close>

definition BufferedRead :: "env \<Rightarrow> u32 \<Rightarrow> u32 \<Rightarrow> world \<Rightarrow> world" where
  "BufferedRead E block len w = fst (call E (Pstorage_load block len) w)"

definition BufferedWrite :: "env \<Rightarrow> u32 \<Rightarrow> u32 \<Rightarrow> world \<Rightarrow> world option" where
  "BufferedWrite E block len w = checked E (Pstorage_clear block) w"

definition ProcessQueue :: "env \<Rightarrow> world \<Rightarrow> world option" where
  "ProcessQueue E w =
     (if w_bufferedOperationInProgress w \<or> sq_numElements (w_taskQueue w) < 1 then Some w
      else let w = w\<lparr>w_bufferedOperationInProgress := True\<rparr>; q = w_taskQueue w
      in case task_at q (sq_PeekNext q) of
           None \<Rightarrow> None
         | Some t \<Rightarrow>
             if ti_operation t = OPERATION_READ
             then Some (BufferedRead E (ti_storageBlock t) (ucast (ti_dataLength t)) w)
             else if ti_operation t = OPERATION_WRITE
             then BufferedWrite E (ti_storageBlock t) (ucast (ti_dataLength t)) w
             else Some w)"

definition put_task :: "taskitem \<Rightarrow> SimpleQueue \<Rightarrow> SimpleQueue \<times> bool" where
  "put_task t = sq_Put (write_taskitem t (\<lambda>_. 0)) (of_nat SIZEOF_TASKITEM)"

definition queue_task :: "env \<Rightarrow> taskitem \<Rightarrow> world \<Rightarrow> world option" where
  "queue_task E t w = ProcessQueue E (w\<lparr>w_taskQueue := fst (put_task t (w_taskQueue w))\<rparr>)"

definition QueuedRead :: "env \<Rightarrow> storage_ref \<Rightarrow> u16 \<Rightarrow> u32 \<Rightarrow> world \<Rightarrow> world option" where
  "QueuedRead E object dataLength blockId =
     queue_task E \<lparr>ti_operation = OPERATION_READ, ti_dataLength = dataLength, ti_storageBlock = blockId,
        ti_data = address_of object, ti_callback = address_of object\<rparr>"

definition QueuedWrite :: "env \<Rightarrow> storage_ref \<Rightarrow> u16 \<Rightarrow> u32 \<Rightarrow> world \<Rightarrow> world option" where
  "QueuedWrite E object dataLength blockId =
     queue_task E \<lparr>ti_operation = OPERATION_WRITE, ti_dataLength = dataLength, ti_storageBlock = blockId,
        ti_data = address_of object, ti_callback = address_of object\<rparr>"

datatype pstorage_op = PSTORAGE_CLEAR_OP_CODE | PSTORAGE_STORE_OP_CODE | PSTORAGE_LOAD_OP_CODE

text \<open>\<open>loaded\<close> is the callback \<open>ConfigurationLoadedHandler\<close> of the object a task names.\<close>

definition PstorageEventHandler ::
    "(storage_ref \<Rightarrow> world \<Rightarrow> world option) \<Rightarrow> env \<Rightarrow> pstorage_op \<Rightarrow> bool \<Rightarrow> world \<Rightarrow> world option" where
  "PstorageEventHandler loaded E opCode success w =
     (if opCode = PSTORAGE_CLEAR_OP_CODE \<and> success then
        map_option (\<lambda>t. fst (call E (Pstorage_store (ti_storageBlock t) (ucast (ti_dataLength t))) w))
          (task_at (w_taskQueue w) (sq_PeekNext (w_taskQueue w)))
      else if success then
        let (q, s) = sq_GetNext (w_taskQueue w)
        in case task_at q s of
             None \<Rightarrow> None
           | Some t \<Rightarrow> do {
               w \<leftarrow> Some (w\<lparr>w_taskQueue := q\<rparr>);
               w \<leftarrow> (if ti_operation t = OPERATION_READ then loaded (object_at (ti_callback t)) w else Some w);
               ProcessQueue E (w\<lparr>w_bufferedOperationInProgress := False\<rparr>)
             }
      else ProcessQueue E (w\<lparr>w_bufferedOperationInProgress := False\<rparr>))"

section \<open>Tasks in the queue\<close>

lemma task_roundtrip: "read_taskitem (write_taskitem t m) = t"
  by (simp add: read_taskitem_def write_taskitem_def)

lemma object_address: "k < 2 ^ 32 - 2 \<Longrightarrow> object_at (address_of (MODULE_CONFIG k)) = MODULE_CONFIG k"
  "object_at (address_of NODE_CONFIG) = NODE_CONFIG"
proof -
  assume k: "k < 2 ^ 32 - 2"
  have u: "unat (of_nat k :: u32) = k" using k by (intro unat_of_nat_small) simp
  have "of_nat k + 2 \<noteq> (1 :: u32)"
  proof
    assume "of_nat k + 2 = (1 :: u32)"
    then have "1 + of_nat k = (0 :: u32)" by (simp add: algebra_simps)
    then have "of_nat k = (- 1 :: u32)" by (simp add: eq_neg_iff_add_eq_0 add.commute)
    moreover have "unat (- 1 :: u32) = 2 ^ 32 - 1" by (simp add: unsigned_minus_1_eq_mask mask_eq_exp_minus_1)
    ultimately show False using u k by simp
  qed
  then show "object_at (address_of (MODULE_CONFIG k)) = MODULE_CONFIG k"
    using u by (simp add: object_at_def)
qed (simp add: object_at_def)

definition task_bytes :: "taskitem \<Rightarrow> u8 list" where
  "task_bytes t = bytes_at (write_taskitem t (\<lambda>_. 0)) 0 SIZEOF_TASKITEM"

lemma unat_SIZEOF_TASKITEM [simp]: "unat (of_nat SIZEOF_TASKITEM :: u32) = 16"
  by (simp add: SIZEOF_TASKITEM_def)

lemma task_bytes_fits [simp]: "sq_fits (task_bytes t)"
  by (simp add: sq_fits_def task_bytes_def SIZEOF_TASKITEM_def)

lemma length_task_bytes [simp]: "length (task_bytes t) = 16"
  by (simp add: task_bytes_def SIZEOF_TASKITEM_def)

lemma read_taskitem_cong: "(\<And>i. i < 16 \<Longrightarrow> m i = m' i) \<Longrightarrow> read_taskitem m = read_taskitem m'"
  by (simp add: read_taskitem_def get16_def get32_def)

lemma read_task_bytes:
  assumes "bytes_at m p 16 = task_bytes t" shows "read_taskitem (shifted m p) = t"
proof -
  have "shifted m p i = write_taskitem t (\<lambda>_. 0) i" if "i < 16" for i
  proof -
    have "bytes_at m p 16 ! i = task_bytes t ! i" using assms by simp
    then show ?thesis using that by (simp add: task_bytes_def SIZEOF_TASKITEM_def)
  qed
  then have "read_taskitem (shifted m p) = read_taskitem (write_taskitem t (\<lambda>_. 0))"
    by (rule read_taskitem_cong)
  then show ?thesis by (simp add: task_roundtrip)
qed

text \<open>The pending tasks, and that an operation is under way exactly while there are any.\<close>

definition tasks_rep :: "SimpleQueue \<Rightarrow> taskitem list \<Rightarrow> bool" where
  "tasks_rep q ts \<longleftrightarrow> sq_rep q (map task_bytes ts)"

definition storage_inv :: "world \<Rightarrow> taskitem list \<Rightarrow> bool" where
  "storage_inv w ts \<longleftrightarrow> tasks_rep (w_taskQueue w) ts \<and> (w_bufferedOperationInProgress w \<longleftrightarrow> ts \<noteq> [])"

lemma put_task_rep:
  assumes "tasks_rep q ts"
  shows "tasks_rep (fst (put_task t q)) (if snd (put_task t q) then ts @ [t] else ts)"
proof -
  obtain q' b where p: "put_task t q = (q', b)" by fastforce
  have d: "bytes_at (write_taskitem t (\<lambda>_. 0)) 0 (unat (of_nat SIZEOF_TASKITEM :: u32)) = task_bytes t"
    by (simp add: task_bytes_def SIZEOF_TASKITEM_def)
  note acc = sq_Put_accept [where data = "write_taskitem t (\<lambda>_. 0)" and d = "of_nat SIZEOF_TASKITEM", unfolded d]
    and rej = sq_Put_reject [where data = "write_taskitem t (\<lambda>_. 0)" and d = "of_nat SIZEOF_TASKITEM", unfolded d]
  from assms p show ?thesis
    using acc [of q "map task_bytes ts" q'] rej [of q "map task_bytes ts" q']
    by (cases b) (auto simp: tasks_rep_def put_task_def)
qed

lemma task_at_front:
  assumes "tasks_rep q (t # ts)"
  shows "task_at q (sq_PeekNext q) = Some t"
    "task_at (fst (sq_GetNext q)) (snd (sq_GetNext q)) = Some t"
    "tasks_rep (fst (sq_GetNext q)) ts" "\<not> sq_numElements q < 1"
proof -
  have r: "sq_rep q (task_bytes t # map task_bytes ts)" using assms by (simp add: tasks_rep_def)
  let ?rp = "if sq_wraps q then 0 else sq_readPointer q"
  note f = sq_PeekNext_front [OF r]
  have "bytes_at (sq_mem q) (?rp + 4) 16 = task_bytes t"
    using sq_front(1) [OF r] by (simp add: sq_item_at_def)
  note t = read_task_bytes [OF this]
  show "task_at q (sq_PeekNext q) = Some t" using f(1) t by (simp add: task_at_def)
  have "sq_mem (sq_DiscardNext q) = sq_mem q" by (simp add: sq_DiscardNext_def Let_def)
  then show "task_at (fst (sq_GetNext q)) (snd (sq_GetNext q)) = Some t"
    using f(1,2) t by (simp add: task_at_def)
  show "tasks_rep (fst (sq_GetNext q)) ts" using f(2,3) by (simp add: tasks_rep_def)
  show "\<not> sq_numElements q < 1"
    using sq_rep_numElements_0 [OF r] by (simp add: word_less_nat_alt unat_0_iff)
qed

lemma ProcessQueue_result:
  assumes "tasks_rep (w_taskQueue w) ts" "w_bufferedOperationInProgress w \<Longrightarrow> ts \<noteq> []"
    "ProcessQueue E w = Some w'"
  shows "storage_inv w' ts"
proof (cases "w_bufferedOperationInProgress w")
  case True
  then show ?thesis using assms by (auto simp: ProcessQueue_def storage_inv_def)
next
  case idle: False
  show ?thesis
  proof (cases ts)
    case Nil
    then have "sq_numElements (w_taskQueue w) = 0"
      using assms(1) sq_rep_numElements_0 by (auto simp: tasks_rep_def)
    then have "w' = w" using assms(3) idle by (simp add: ProcessQueue_def)
    then show ?thesis using assms(1) idle Nil by (simp add: storage_inv_def)
  next
    case (Cons t us)
    note f = task_at_front [OF assms(1) [unfolded Cons]]
    from assms(3) idle f(1,4) have "w_taskQueue w' = w_taskQueue w" "w_bufferedOperationInProgress w'"
      by (auto simp: ProcessQueue_def Let_def BufferedRead_def BufferedWrite_def call_def checked_Some
          split: if_splits)
    then show ?thesis using assms(1) Cons by (simp add: storage_inv_def)
  qed
qed

section \<open>The interface to those who ask\<close>

locale storage_listener =
  fixes loaded :: "storage_ref \<Rightarrow> world \<Rightarrow> world option"
  assumes queue_kept: "loaded r w = Some w' \<Longrightarrow>
    w_taskQueue w' = w_taskQueue w \<and> w_bufferedOperationInProgress w' = w_bufferedOperationInProgress w"

datatype storage_event = Request taskitem | Flash pstorage_op bool

definition storage_step ::
    "(storage_ref \<Rightarrow> world \<Rightarrow> world option) \<Rightarrow> env \<Rightarrow> storage_event \<Rightarrow> world \<Rightarrow> world option" where
  "storage_step loaded E ev w =
     (case ev of Request t \<Rightarrow> queue_task E t w
      | Flash opCode success \<Rightarrow> PstorageEventHandler loaded E opCode success w)"

text \<open>A history: the requests that found room, and the tasks whose operation the flash reported as
  finished.\<close>

definition accepted_by :: "storage_event \<Rightarrow> world \<Rightarrow> taskitem list" where
  "accepted_by ev w = (case ev of Request t \<Rightarrow> if snd (put_task t (w_taskQueue w)) then [t] else [] | _ \<Rightarrow> [])"

definition finished_by :: "storage_event \<Rightarrow> world \<Rightarrow> taskitem list" where
  "finished_by ev w = (case ev of
       Flash opCode True \<Rightarrow> if opCode = PSTORAGE_CLEAR_OP_CODE then []
         else (case task_at (w_taskQueue w) (sq_PeekNext (w_taskQueue w)) of None \<Rightarrow> [] | Some t \<Rightarrow> [t])
     | _ \<Rightarrow> [])"

fun storage_run ::
    "(storage_ref \<Rightarrow> world \<Rightarrow> world option) \<Rightarrow> env \<Rightarrow> storage_event list \<Rightarrow> world \<Rightarrow>
     (world \<times> taskitem list \<times> taskitem list) option" where
  "storage_run loaded E [] w = Some (w, [], [])"
| "storage_run loaded E (ev # evs) w = do {
     v \<leftarrow> storage_step loaded E ev w;
     (w', accepted, finished) \<leftarrow> storage_run loaded E evs v;
     Some (w', accepted_by ev w @ accepted, finished_by ev w @ finished)
   }"

context storage_listener begin

lemma step:
  assumes inv: "storage_inv w ts" and run: "storage_step loaded E ev w = Some w'"
  shows "\<exists>ts'. storage_inv w' ts' \<and> ts @ accepted_by ev w = finished_by ev w @ ts'"
proof (cases ev)
  case (Request t)
  let ?q = "fst (put_task t (w_taskQueue w))" and ?ts = "if snd (put_task t (w_taskQueue w)) then ts @ [t] else ts"
  have "storage_inv w' ?ts"
    using ProcessQueue_result [of "w\<lparr>w_taskQueue := ?q\<rparr>" ?ts E w'] put_task_rep [of "w_taskQueue w" ts t]
      inv run Request by (auto simp: storage_inv_def storage_step_def queue_task_def)
  then show ?thesis using Request by (auto simp: accepted_by_def finished_by_def)
next
  case (Flash opCode success)
  let ?idle = "\<lambda>v. v\<lparr>w_bufferedOperationInProgress := False\<rparr>"
  have rep: "tasks_rep (w_taskQueue w) ts" using inv by (simp add: storage_inv_def)
  have acc: "accepted_by ev w = []" using Flash by (simp add: accepted_by_def)
  consider (failed) "\<not> success" | (cleared) "success" "opCode = PSTORAGE_CLEAR_OP_CODE"
    | (ended) "success" "opCode \<noteq> PSTORAGE_CLEAR_OP_CODE" by blast
  then show ?thesis
  proof cases
    case failed
    then have "ProcessQueue E (?idle w) = Some w'"
      using run Flash by (simp add: storage_step_def PstorageEventHandler_def)
    then have "storage_inv w' ts" using rep by (intro ProcessQueue_result [of "?idle w"]) simp_all
    then show ?thesis using acc failed Flash by (auto simp: finished_by_def split: bool.split)
  next
    case cleared
    then have "w_taskQueue w' = w_taskQueue w" "w_bufferedOperationInProgress w' = w_bufferedOperationInProgress w"
      using run Flash by (auto simp: storage_step_def PstorageEventHandler_def call_def)
    then show ?thesis using inv acc cleared Flash
      by (auto simp: storage_inv_def finished_by_def intro!: exI [of _ ts])
  next
    case ended
    show ?thesis
    proof (cases ts)
      case Nil
      then have "sq_numElements (w_taskQueue w) = 0"
        using rep sq_rep_numElements_0 by (auto simp: tasks_rep_def)
      then have "task_at (fst (sq_GetNext (w_taskQueue w))) (snd (sq_GetNext (w_taskQueue w))) = None"
        by (simp add: sq_GetNext_def task_at_def)
      then have False using run Flash ended
        by (auto simp: storage_step_def PstorageEventHandler_def split: prod.splits)
      then show ?thesis ..
    next
      case (Cons t us)
      note f = task_at_front [OF rep [unfolded Cons]]
      let ?w = "w\<lparr>w_taskQueue := fst (sq_GetNext (w_taskQueue w))\<rparr>"
      obtain v where v: "(if ti_operation t = OPERATION_READ then loaded (object_at (ti_callback t)) ?w else Some ?w) = Some v"
        and p: "ProcessQueue E (?idle v) = Some w'"
        using run Flash ended f(2)
        by (cases "sq_GetNext (w_taskQueue w)") (fastforce simp: storage_step_def PstorageEventHandler_def Let_def split: if_splits)
      have "w_taskQueue v = fst (sq_GetNext (w_taskQueue w))"
        using v queue_kept [of _ ?w v] by (auto split: if_splits)
      then have "storage_inv w' us" using f(3) p by (intro ProcessQueue_result [OF _ _ p]) simp_all
      then show ?thesis using Cons acc Flash ended f(1) by (auto simp: finished_by_def)
    qed
  qed
qed

lemma run_in_order:
  "storage_inv w ts \<Longrightarrow> storage_run loaded E evs w = Some (w', accepted, finished) \<Longrightarrow>
   \<exists>pending. storage_inv w' pending \<and> ts @ accepted = finished @ pending"
proof (induction evs arbitrary: w ts accepted finished)
  case Nil
  then show ?case by auto
next
  case (Cons ev evs)
  from Cons.prems(2) obtain v acc fin where v: "storage_step loaded E ev w = Some v"
    "storage_run loaded E evs v = Some (w', acc, fin)"
    "accepted = accepted_by ev w @ acc" "finished = finished_by ev w @ fin" by auto
  from step [OF Cons.prems(1) v(1)] obtain us
    where us: "storage_inv v us" "ts @ accepted_by ev w = finished_by ev w @ us" by blast
  from Cons.IH [OF us(1) v(2)] obtain pending
    where "storage_inv w' pending" "us @ acc = fin @ pending" by blast
  with us(2) v(3,4) show ?case by (metis append.assoc)
qed

end

section \<open>Properties\<close>

definition TASK_BUFFER_LENGTH :: nat where "TASK_BUFFER_LENGTH = SIZEOF_TASKITEM * 10"

lemma put_task_bufferEnd [simp]: "sq_bufferEnd (fst (put_task t q)) = sq_bufferEnd q"
  by (simp add: put_task_def sq_Put_def sq_write_def Let_def)

lemma tasks_bound:
  assumes "tasks_rep q ts" "sq_bufferEnd q = TASK_BUFFER_LENGTH" shows "length ts \<le> 7"
proof -
  have "sum_list (map sq_size (map task_bytes ts)) = 20 * length ts"
    by (induction ts) (simp_all add: sq_size_def)
  then show ?thesis
    using sq_layout.ring_total [OF sq_repD(6)] assms
    by (fastforce simp: tasks_rep_def TASK_BUFFER_LENGTH_def SIZEOF_TASKITEM_def)
qed

text \<open>C37: The buffer is sized for ten tasks but holds seven, since every entry carries its length. A
  request beyond them is dropped: nothing changes and nothing tells the caller, so a
  configuration that was to be saved is not.\<close>

theorem storage_holds_seven:
  assumes inv: "storage_inv w ts" and size: "sq_bufferEnd (w_taskQueue w) = TASK_BUFFER_LENGTH"
  shows "length ts \<le> 7 \<and> (length ts = 7 \<longrightarrow> queue_task E t w = Some w)"
proof (intro conjI impI)
  have rep: "tasks_rep (w_taskQueue w) ts" using inv by (simp add: storage_inv_def)
  show "length ts \<le> 7" by (rule tasks_bound [OF rep size])
  assume full: "length ts = 7"
  obtain q' b where p: "put_task t (w_taskQueue w) = (q', b)" by fastforce
  have "\<not> b"
    using tasks_bound [OF put_task_rep [OF rep, of t]] put_task_bufferEnd [of t "w_taskQueue w"] size full p
    by auto
  then have "q' = w_taskQueue w"
    using rep p sq_Put_reject [of "w_taskQueue w" "map task_bytes ts" "write_taskitem t (\<lambda>_. 0)"
      "of_nat SIZEOF_TASKITEM" q']
    by (simp add: tasks_rep_def put_task_def task_bytes_def [symmetric] SIZEOF_TASKITEM_def [symmetric] task_bytes_fits)
  then show "queue_task E t w = Some w"
    using p inv full by (auto simp: queue_task_def ProcessQueue_def storage_inv_def)
qed

fun all_accepted :: "taskitem list \<Rightarrow> SimpleQueue \<Rightarrow> bool" where
  "all_accepted [] q = True"
| "all_accepted (t # ts) q = (let (q', ok) = put_task t q in ok \<and> all_accepted ts q')"

lemma tasks_rep_fold:
  "tasks_rep q us \<Longrightarrow> all_accepted ts q \<Longrightarrow> tasks_rep (fold (\<lambda>t q. fst (put_task t q)) ts q) (us @ ts)"
proof (induction ts arbitrary: q us)
  case (Cons t ts)
  then have "tasks_rep (fst (put_task t q)) (us @ [t])" "all_accepted ts (fst (put_task t q))"
    using put_task_rep [of q us t] by (auto simp: Let_def split: prod.splits)
  from Cons.IH [OF this] show ?case by simp
qed simp

definition seven_tasks :: "taskitem list" where
  "seven_tasks = replicate 7 \<lparr>ti_operation = 1, ti_dataLength = 12, ti_storageBlock = 2, ti_data = 3, ti_callback = 3\<rparr>"

definition busy_world :: world where
  "busy_world = zero_world\<lparr>w_bufferedOperationInProgress := True,
     w_taskQueue := fold (\<lambda>t q. fst (put_task t q)) seven_tasks (sq_init (\<lambda>_. 0) 160)\<rparr>"

lemma busy_world_inv: "storage_inv busy_world seven_tasks"
proof -
  have "tasks_rep (sq_init (\<lambda>_. 0) 160) []"
    unfolding tasks_rep_def by (simp add: sq_init_rep word_le_nat_alt word_less_nat_alt)
  moreover have "all_accepted seven_tasks (sq_init (\<lambda>_. 0) 160)" by code_simp
  ultimately show ?thesis
    using tasks_rep_fold [of "sq_init (\<lambda>_. 0) 160" "[]" seven_tasks]
    by (simp add: storage_inv_def busy_world_def seven_tasks_def)
qed

lemma storage_holds_seven_witness:
  "length seven_tasks = 7 \<and> queue_task quiet_env (hd seven_tasks) busy_world = Some busy_world"
proof -
  have "sq_bufferEnd (fold (\<lambda>t q. fst (put_task t q)) ts q) = sq_bufferEnd q" for ts q
    by (induction ts arbitrary: q) simp_all
  then have "sq_bufferEnd (w_taskQueue busy_world) = TASK_BUFFER_LENGTH"
    by (simp add: busy_world_def sq_init_def TASK_BUFFER_LENGTH_def SIZEOF_TASKITEM_def)
  then show ?thesis
    using storage_holds_seven [OF busy_world_inv, of quiet_env "hd seven_tasks"] by (simp add: seven_tasks_def)
qed

end
