(* ===== verification/RetryStorage.thy ===== *)
theory RetryStorage
  imports Storage
begin

text \<open>
  The votes a node keeps for retrying (\<^verbatim>\<open>src/mesh/Node.cpp\<close>, \<open>PutInRetryStorage\<close> to
  \<open>GetTimeFor\<close>): two arrays of the persistent configuration, the user ids without gaps from the
  front (0 is a free place) and the time of each. Specified by an association list in the order of
  arrival.
\<close>

section \<open>The code\<close>

definition upd_conf :: "(NodeConfiguration \<Rightarrow> NodeConfiguration) \<Rightarrow> world \<Rightarrow> world" where
  "upd_conf f = upd_node (\<lambda>n. n\<lparr>n_persistentConfig := f (n_persistentConfig n)\<rparr>)"

definition SaveConfiguration :: "env \<Rightarrow> world \<Rightarrow> world option" where
  "SaveConfiguration E = QueuedWrite E NODE_CONFIG (e_sizeof_NodeConfiguration E) 0"

definition vote_time :: "env \<Rightarrow> world \<Rightarrow> u32" where
  "vote_time E w = ucast (n_globalTime (w_node w) div ucast (e_clock_freq E))"

definition PutInTimeStorage :: "env \<Rightarrow> nat \<Rightarrow> world \<Rightarrow> world" where
  "PutInTimeStorage E timeIndex w =
     upd_conf (\<lambda>p. p\<lparr>pc_timeStorage := (pc_timeStorage p)[timeIndex := vote_time E w]\<rparr>) w"

definition close_gap :: "nat \<Rightarrow> u32 list \<Rightarrow> u32 list" where
  "close_gap timeIndex t =
     fold (\<lambda>n t. t[n := t ! (n + 1)]) [timeIndex..<MAX_RETRY_STORAGE_SIZE - 1] (t[timeIndex := 0])"

definition RemoveFromTimeStorage :: "nat \<Rightarrow> world \<Rightarrow> world" where
  "RemoveFromTimeStorage timeIndex =
     upd_conf (\<lambda>p. p\<lparr>pc_timeStorage := close_gap timeIndex (pc_timeStorage p)\<rparr>)"

definition RetryStorageContains :: "env \<Rightarrow> u16 \<Rightarrow> world \<Rightarrow> world \<times> bool" where
  "RetryStorageContains E userId w =
     (case find (\<lambda>i. pc_retryStorage (pconf w) ! i = userId) [0..<MAX_RETRY_STORAGE_SIZE] of
        Some i \<Rightarrow> (PutInTimeStorage E i w, True)
      | None \<Rightarrow> (w, False))"

definition RetryStorageIsFull :: "world \<Rightarrow> bool" where
  "RetryStorageIsFull w \<longleftrightarrow> pc_retryStorage (pconf w) ! (MAX_RETRY_STORAGE_SIZE - 1) \<noteq> 0"

definition PutInRetryStorage :: "env \<Rightarrow> u16 \<Rightarrow> world \<Rightarrow> (world \<times> bool) option" where
  "PutInRetryStorage E userId w =
     (case RetryStorageContains E userId w of
        (w, True) \<Rightarrow> Some (w, True)
      | (w, False) \<Rightarrow>
          if RetryStorageIsFull w then
            let n = w_node w
            in Some (w\<lparr>w_gpio := led_Off (n_LedBlue n) (led_On (n_LedGreen n) (led_On (n_LedRed n) (w_gpio w)))\<rparr>, False)
          else
            let w = (case find (\<lambda>i. pc_retryStorage (pconf w) ! i = 0) [0..<MAX_RETRY_STORAGE_SIZE] of
                 None \<Rightarrow> w
               | Some i \<Rightarrow> PutInTimeStorage E i
                   (upd_conf (\<lambda>p. p\<lparr>pc_retryStorage := (pc_retryStorage p)[i := userId]\<rparr>) w))
            in do { w \<leftarrow> SaveConfiguration E w; Some (w, True) })"

definition RemoveFromRetryStorage :: "env \<Rightarrow> u16 \<Rightarrow> world \<Rightarrow> world option" where
  "RemoveFromRetryStorage E userId w =
     (let votes = pc_retryStorage (pconf w);
          kept = filter (\<lambda>v. v \<noteq> userId) votes;
          w = fold (\<lambda>i w. if votes ! i = userId then RemoveFromTimeStorage i w else w)
                [0..<MAX_RETRY_STORAGE_SIZE] w
      in SaveConfiguration E (upd_conf (\<lambda>p. p\<lparr>pc_retryStorage :=
           kept @ replicate (MAX_RETRY_STORAGE_SIZE - length kept) 0\<rparr>) w))"

definition GetVoteFromRetryStorage :: "nat \<Rightarrow> world \<Rightarrow> u16" where
  "GetVoteFromRetryStorage vote w = pc_retryStorage (pconf w) ! vote"

definition GetTimeFor :: "u16 \<Rightarrow> world \<Rightarrow> u32" where
  "GetTimeFor userId w =
     (case find (\<lambda>i. pc_retryStorage (pconf w) ! i = userId) [0..<MAX_RETRY_STORAGE_SIZE] of
        Some i \<Rightarrow> pc_timeStorage (pconf w) ! i | None \<Rightarrow> 0)"

section \<open>The specification\<close>

text \<open>\<open>votes_rep w vs\<close>: the arrays hold the votes \<open>vs\<close>, each with its time.\<close>

definition votes_rep :: "NodeConfiguration \<Rightarrow> (u16 \<times> u32) list \<Rightarrow> bool" where
  "votes_rep p vs \<longleftrightarrow> distinct (map fst vs) \<and> 0 \<notin> fst ` set vs \<and> length vs \<le> MAX_RETRY_STORAGE_SIZE \<and>
     pc_retryStorage p = map fst vs @ replicate (MAX_RETRY_STORAGE_SIZE - length vs) 0 \<and>
     length (pc_timeStorage p) = MAX_RETRY_STORAGE_SIZE \<and>
     take (length vs) (pc_timeStorage p) = map snd vs"

text \<open>A known vote keeps its place and gets the new time.\<close>

definition refresh :: "u16 \<Rightarrow> u32 \<Rightarrow> (u16 \<times> u32) list \<Rightarrow> (u16 \<times> u32) list" where
  "refresh u t = map (\<lambda>(v, s). (v, if v = u then t else s))"

section \<open>Searching\<close>

lemma find_upt_Some:
  "find P [0..<n] = Some i \<longleftrightarrow> i < n \<and> P i \<and> (\<forall>j<i. \<not> P j)"
  by (auto simp: find_Some_iff)

lemma find_upt_None: "find P [0..<n] = None \<longleftrightarrow> (\<forall>i<n. \<not> P i)"
  by (auto simp: find_None_iff)

lemma votes_rep_nth:
  assumes "votes_rep p vs" "i < MAX_RETRY_STORAGE_SIZE"
  shows "pc_retryStorage p ! i = (if i < length vs then fst (vs ! i) else 0)"
  using assms by (auto simp: votes_rep_def nth_append)

lemma votes_rep_time:
  assumes "votes_rep p vs" "i < length vs" shows "pc_timeStorage p ! i = snd (vs ! i)"
proof -
  have "take (length vs) (pc_timeStorage p) ! i = map snd vs ! i" using assms by (simp add: votes_rep_def)
  then show ?thesis using assms by simp
qed

lemma votes_index:
  assumes "votes_rep p vs" "u \<in> fst ` set vs"
  obtains k where "k < length vs" "fst (vs ! k) = u" "\<And>i. i < length vs \<Longrightarrow> fst (vs ! i) = u \<longleftrightarrow> i = k"
proof -
  obtain k where k: "k < length vs" "fst (vs ! k) = u" using assms(2) by (auto simp: in_set_conv_nth)
  have uniq: "i = k" if "i < length vs" "fst (vs ! i) = u" for i
    using that k assms(1) nth_eq_iff_index_eq [of "map fst vs" i k] by (simp add: votes_rep_def)
  show ?thesis by (rule that [OF k]) (use k uniq in blast)
qed

lemma find_vote:
  assumes r: "votes_rep p vs" and k: "k < length vs" "fst (vs ! k) = u"
    "\<And>i. i < length vs \<Longrightarrow> fst (vs ! i) = u \<longleftrightarrow> i = k"
  shows "find (\<lambda>i. pc_retryStorage p ! i = u) [0..<MAX_RETRY_STORAGE_SIZE] = Some k"
proof -
  have len: "length vs \<le> MAX_RETRY_STORAGE_SIZE" using r by (simp add: votes_rep_def)
  show ?thesis
    unfolding find_upt_Some
  proof (intro conjI allI impI)
    show "k < MAX_RETRY_STORAGE_SIZE" using k(1) len by simp
    then show "pc_retryStorage p ! k = u" using votes_rep_nth [OF r] k(1,2) by simp
    fix j assume "j < k"
    then show "pc_retryStorage p ! j \<noteq> u" using votes_rep_nth [OF r, of j] k(1) k(3) [of j] len by simp
  qed
qed

lemma find_no_vote:
  assumes r: "votes_rep p vs" and u: "u \<noteq> 0" "u \<notin> fst ` set vs"
  shows "find (\<lambda>i. pc_retryStorage p ! i = u) [0..<MAX_RETRY_STORAGE_SIZE] = None"
  unfolding find_upt_None
proof (intro allI impI)
  fix i assume "i < MAX_RETRY_STORAGE_SIZE"
  then show "pc_retryStorage p ! i \<noteq> u" using votes_rep_nth [OF r, of i] u by (auto simp: image_iff)
qed

section \<open>The effect on the votes\<close>

lemma refresh_update:
  assumes "k < length vs" "fst (vs ! k) = u" "\<And>i. i < length vs \<Longrightarrow> fst (vs ! i) = u \<longleftrightarrow> i = k"
  shows "refresh u t vs = vs[k := (u, t)]"
  using assms by (intro nth_equalityI) (auto simp: refresh_def nth_list_update split: prod.splits, metis fst_conv, metis fst_conv)

lemma refresh_fst [simp]: "map fst (refresh u t vs) = map fst vs"
  by (simp add: refresh_def case_prod_unfold comp_def)

lemma votes_rep_refresh:
  assumes r: "votes_rep p vs" and k: "k < length vs" "fst (vs ! k) = u"
    "\<And>i. i < length vs \<Longrightarrow> fst (vs ! i) = u \<longleftrightarrow> i = k"
  shows "votes_rep (p\<lparr>pc_timeStorage := (pc_timeStorage p)[k := t]\<rparr>) (refresh u t vs)"
proof -
  note e = refresh_update [OF k, of t]
  have "fst ` set (refresh u t vs) = fst ` set vs" using refresh_fst [of u t vs] by (metis list.set_map)
  moreover have "length (refresh u t vs) = length vs" by (simp add: refresh_def)
  ultimately show ?thesis
    using r k(1) by (simp add: votes_rep_def take_update_swap) (simp add: e map_update)
qed

lemma votes_rep_append:
  assumes r: "votes_rep p vs" and u: "u \<noteq> 0" "u \<notin> fst ` set vs" and l: "length vs < MAX_RETRY_STORAGE_SIZE"
  shows "votes_rep (p\<lparr>pc_retryStorage := (pc_retryStorage p)[length vs := u],
      pc_timeStorage := (pc_timeStorage p)[length vs := t]\<rparr>) (vs @ [(u, t)])"
proof -
  obtain n where n: "MAX_RETRY_STORAGE_SIZE - length vs = Suc n" using l by (cases "MAX_RETRY_STORAGE_SIZE - length vs") auto
  then have "MAX_RETRY_STORAGE_SIZE - Suc (length vs) = n" by simp
  then show ?thesis
    using r u l n by (simp add: votes_rep_def take_Suc_conv_app_nth list_update_append)
qed

lemma close_gap_nth:
  assumes "m < length t" "k \<le> m"
  shows "length (fold (\<lambda>n t. t[n := t ! (n + 1)]) [k..<m] t) = length t \<and>
    (\<forall>i < length t. fold (\<lambda>n t. t[n := t ! (n + 1)]) [k..<m] t ! i = (if k \<le> i \<and> i < m then t ! (i + 1) else t ! i))"
  using assms(2,1)
proof (induction m rule: dec_induct)
  case (step m)
  then show ?case by (auto simp: nth_list_update less_Suc_eq)
qed auto

lemma close_gap_take:
  assumes "length t = MAX_RETRY_STORAGE_SIZE" "k < n" "n \<le> MAX_RETRY_STORAGE_SIZE"
  shows "length (close_gap k t) = MAX_RETRY_STORAGE_SIZE"
    "take (n - 1) (close_gap k t) = take k t @ drop (Suc k) (take n t)"
proof -
  have m: "MAX_RETRY_STORAGE_SIZE - 1 < length (t[k := 0])" "k \<le> MAX_RETRY_STORAGE_SIZE - 1"
    using assms by (simp_all add: MAX_RETRY_STORAGE_SIZE_def)
  note c = close_gap_nth [OF m, folded close_gap_def]
  then show "length (close_gap k t) = MAX_RETRY_STORAGE_SIZE" using assms(1) by simp
  show "take (n - 1) (close_gap k t) = take k t @ drop (Suc k) (take n t)"
  proof (rule nth_equalityI)
    show len: "length (take (n - 1) (close_gap k t)) = length (take k t @ drop (Suc k) (take n t))"
      using c assms by (simp add: min_def MAX_RETRY_STORAGE_SIZE_def)
    fix i assume "i < length (take (n - 1) (close_gap k t))"
    then have i: "i < n - 1" by simp
    then have "i < MAX_RETRY_STORAGE_SIZE - 1" using assms(2,3) by linarith
    note i = i this
    then have "take (n - 1) (close_gap k t) ! i = (if k \<le> i then t ! (i + 1) else t ! i)"
      using c assms by simp
    also have "\<dots> = (take k t @ drop (Suc k) (take n t)) ! i"
      using i assms by (auto simp: nth_append)
    finally show "take (n - 1) (close_gap k t) ! i = (take k t @ drop (Suc k) (take n t)) ! i" .
  qed
qed

lemma votes_rep_remove:
  assumes r: "votes_rep p vs" and k: "k < length vs" "fst (vs ! k) = u"
    "\<And>i. i < length vs \<Longrightarrow> fst (vs ! i) = u \<longleftrightarrow> i = k"
  shows "filter (\<lambda>x. fst x \<noteq> u) vs = take k vs @ drop (Suc k) vs"
proof -
  have ne: "fst (vs ! i) \<noteq> u" if "i < length vs" "i \<noteq> k" for i using k(3) that by simp
  have "vs = take k vs @ vs ! k # drop (Suc k) vs" by (rule id_take_nth_drop [OF k(1)])
  moreover have "filter (\<lambda>x. fst x \<noteq> u) (take k vs) = take k vs"
    unfolding filter_id_conv
  proof
    fix x assume "x \<in> set (take k vs)"
    then obtain i where "i < k" "x = vs ! i" using k(1) by (auto simp: in_set_conv_nth)
    then show "fst x \<noteq> u" using ne k(1) by simp
  qed
  moreover have "filter (\<lambda>x. fst x \<noteq> u) (drop (Suc k) vs) = drop (Suc k) vs"
    unfolding filter_id_conv
  proof
    fix x assume "x \<in> set (drop (Suc k) vs)"
    then obtain i where "i < length vs - Suc k" "x = vs ! (Suc k + i)" by (auto simp: in_set_conv_nth)
    then show "fst x \<noteq> u" using ne by simp
  qed
  ultimately show ?thesis using k(2)
    by (metis (mono_tags, lifting) filter.simps(2) filter_append)
qed

lemma SaveConfiguration_node: "SaveConfiguration E w = Some w' \<Longrightarrow> w_node w' = w_node w"
  by (auto simp: SaveConfiguration_def QueuedWrite_def queue_task_def ProcessQueue_def BufferedRead_def
      BufferedWrite_def call_def checked_Some Let_def split: if_splits option.splits)

lemma fold_one:
  assumes "distinct xs" "\<And>i. i \<in> set xs \<Longrightarrow> P i \<longleftrightarrow> i = k" "k \<in> set xs"
  shows "fold (\<lambda>i w. if P i then f i w else w) xs w = f k w"
  using assms
proof (induction xs arbitrary: w)
  case (Cons x xs)
  have none: "fold (\<lambda>i w. if P i then f i w else w) ys v = v" if "\<And>i. i \<in> set ys \<Longrightarrow> \<not> P i" for ys v
    using that by (induction ys arbitrary: v) auto
  show ?case
  proof (cases "x = k")
    case True
    then show ?thesis using Cons.prems none [of xs "f k w"] by auto
  next
    case False
    then show ?thesis using Cons by auto
  qed
qed simp

section \<open>Properties\<close>

text \<open>Putting a vote into the retry storage: a vote that is known keeps its place and gets the
  current time, a new one is added behind the others with the current time, and if there are 96
  others it is refused and nothing is stored.\<close>

lemma retry_storage_put:
  assumes r: "votes_rep (pconf w) vs" and u: "userId \<noteq> 0"
    and run: "PutInRetryStorage E userId w = Some (w', ok)"
  defines "now \<equiv> vote_time E w"
  shows "if userId \<in> fst ` set vs then ok \<and> votes_rep (pconf w') (refresh userId now vs)
    else if length vs = MAX_RETRY_STORAGE_SIZE then \<not> ok \<and> pconf w' = pconf w
    else ok \<and> votes_rep (pconf w') (vs @ [(userId, now)])"
proof (cases "userId \<in> fst ` set vs")
  case True
  from votes_index [OF r True] obtain k where k: "k < length vs" "fst (vs ! k) = userId"
    "\<And>i. i < length vs \<Longrightarrow> fst (vs ! i) = userId \<longleftrightarrow> i = k" by blast
  then have "w' = PutInTimeStorage E k w" "ok"
    using run find_vote [OF r k] by (simp_all add: PutInRetryStorage_def RetryStorageContains_def)
  then show ?thesis
    using True votes_rep_refresh [OF r k, of now] by (simp add: PutInTimeStorage_def upd_conf_def now_def)
next
  case new: False
  have c: "RetryStorageContains E userId w = (w, False)"
    using find_no_vote [OF r u new] by (simp add: RetryStorageContains_def)
  have len: "length vs \<le> MAX_RETRY_STORAGE_SIZE" using r by (simp add: votes_rep_def)
  have full: "RetryStorageIsFull w \<longleftrightarrow> length vs = MAX_RETRY_STORAGE_SIZE"
    using votes_rep_nth [OF r, of "MAX_RETRY_STORAGE_SIZE - 1"] len r
    by (force simp: RetryStorageIsFull_def votes_rep_def MAX_RETRY_STORAGE_SIZE_def image_iff)
  show ?thesis
  proof (cases "length vs = MAX_RETRY_STORAGE_SIZE")
    case True
    then show ?thesis using run c full new by (auto simp: PutInRetryStorage_def Let_def)
  next
    case False
    then have l: "length vs < MAX_RETRY_STORAGE_SIZE" using len by simp
    have "find (\<lambda>i. pc_retryStorage (pconf w) ! i = 0) [0..<MAX_RETRY_STORAGE_SIZE] = Some (length vs)"
      unfolding find_upt_Some using l votes_rep_nth [OF r] r by (force simp: votes_rep_def image_iff)
    with run c full False obtain v where
      v: "SaveConfiguration E (PutInTimeStorage E (length vs)
          (upd_conf (\<lambda>p. p\<lparr>pc_retryStorage := (pc_retryStorage p)[length vs := userId]\<rparr>) w)) = Some v" "w' = v" "ok"
      by (auto simp: PutInRetryStorage_def Let_def)
    have "pconf w' = (pconf w)\<lparr>pc_retryStorage := (pc_retryStorage (pconf w))[length vs := userId],
        pc_timeStorage := (pc_timeStorage (pconf w))[length vs := now]\<rparr>"
      using SaveConfiguration_node [OF v(1)] v(2)
      by (simp add: PutInTimeStorage_def upd_conf_def now_def vote_time_def)
    then show ?thesis using votes_rep_append [OF r u new l, of now] new False v(3) by simp
  qed
qed

text \<open>Taking a vote out of the retry storage removes it together with its time, closes the gap in
  both arrays and leaves the other votes with their times in their order; looking up the time of
  a vote finds the one it was last stored or asked for with, 0 if it is not there.\<close>

lemma retry_storage_remove:
  assumes r: "votes_rep (pconf w) vs" and u: "userId \<noteq> 0"
    and run: "RemoveFromRetryStorage E userId w = Some w'"
  shows "votes_rep (pconf w') (filter (\<lambda>x. fst x \<noteq> userId) vs) \<and>
    GetTimeFor userId w = (case map_of vs userId of Some t \<Rightarrow> t | None \<Rightarrow> 0) \<and> GetTimeFor userId w' = 0"
proof -
  let ?M = MAX_RETRY_STORAGE_SIZE
  let ?vs = "filter (\<lambda>x. fst x \<noteq> userId) vs"
  have retry: "pc_retryStorage (pconf w) = map fst vs @ replicate (?M - length vs) 0"
    and len: "length vs \<le> ?M" "length (pc_timeStorage (pconf w)) = ?M" using r by (simp_all add: votes_rep_def)
  have filt: "filter (\<lambda>v. v \<noteq> userId) (pc_retryStorage (pconf w)) = map fst ?vs @ replicate (?M - length vs) 0"
    using u by (simp add: retry filter_map comp_def)
  have le: "length ?vs \<le> length vs" by (rule length_filter_le)
  have pad: "map fst ?vs @ replicate (?M - length vs) 0 @ replicate (?M - (length ?vs + (?M - length vs))) 0
      = map fst ?vs @ replicate (?M - length ?vs) (0 :: u16)"
    using len(1) le by (simp add: replicate_add [symmetric])
  obtain w1 where w1: "w1 = fold (\<lambda>i v. if pc_retryStorage (pconf w) ! i = userId then RemoveFromTimeStorage i v else v)
      [0..<?M] w" by simp
  have conf: "pconf w' = (pconf w1)\<lparr>pc_retryStorage := map fst ?vs @ replicate (?M - length ?vs) 0\<rparr>"
    using run pad SaveConfiguration_node
    by (fastforce simp: RemoveFromRetryStorage_def Let_def filt w1 upd_conf_def simp del: length_filter_le)
  have step: "votes_rep (pconf w') ?vs \<and> GetTimeFor userId w = (case map_of vs userId of Some t \<Rightarrow> t | None \<Rightarrow> 0)"
  proof (cases "userId \<in> fst ` set vs")
    case True
    from votes_index [OF r True] obtain k where k: "k < length vs" "fst (vs ! k) = userId"
      "\<And>i. i < length vs \<Longrightarrow> fst (vs ! i) = userId \<longleftrightarrow> i = k" by blast
    note f = votes_rep_remove [OF r k]
    have at: "pc_retryStorage (pconf w) ! i = userId \<longleftrightarrow> i = k" if "i < ?M" for i
      using votes_rep_nth [OF r that] k u by auto
    have "w1 = RemoveFromTimeStorage k w"
      unfolding w1 by (rule fold_one) (use at k(1) len(1) in auto)
    then have p: "pconf w1 = (pconf w)\<lparr>pc_timeStorage := close_gap k (pc_timeStorage (pconf w))\<rparr>"
      by (simp add: RemoveFromTimeStorage_def upd_conf_def)
    note g = close_gap_take [OF len(2) k(1) len(1)]
    have l: "length ?vs = length vs - 1" using k(1) by (simp add: f)
    have A: "take (length vs) (pc_timeStorage (pconf w)) = map snd vs" using r by (simp add: votes_rep_def)
    have B: "take k (pc_timeStorage (pconf w)) = take k (map snd vs)"
      unfolding A [symmetric] take_take using k(1) by (simp add: min_def)
    have "take (length ?vs) (pc_timeStorage (pconf w')) = map snd ?vs"
      using g(2) by (simp add: conf p l A B) (simp add: f take_map drop_map)
    moreover have "distinct (map fst ?vs)" "0 \<notin> fst ` set ?vs"
      using r by (auto simp: votes_rep_def distinct_map_filter)
    moreover have "GetTimeFor userId w = snd (vs ! k)"
      using find_vote [OF r k] votes_rep_time [OF r k(1)] by (simp add: GetTimeFor_def)
    moreover have "map_of vs userId = Some (snd (vs ! k))"
      using r k(1,2) by (auto simp: votes_rep_def intro!: map_of_is_SomeI in_set_conv_nth [THEN iffD2])
    ultimately show ?thesis
      using g(1) order.trans [OF le len(1)] by (simp add: votes_rep_def conf p)
  next
    case False
    have "w1 = w"
    proof -
      have "pc_retryStorage (pconf w) ! i \<noteq> userId" if "i < ?M" for i
        using votes_rep_nth [OF r that] False u by (auto simp: image_iff)
      then have "fold (\<lambda>i v. if pc_retryStorage (pconf w) ! i = userId then RemoveFromTimeStorage i v else v) [0..<n] v = v"
        if "n \<le> ?M" for n v using that by (induction n) auto
      then show ?thesis using w1 by simp
    qed
    moreover have "?vs = vs" using False by (auto simp: filter_id_conv image_iff)
    moreover have "map_of vs userId = None" using False by (simp add: map_of_eq_None_iff)
    moreover have "GetTimeFor userId w = 0" using find_no_vote [OF r u False] by (simp add: GetTimeFor_def)
    ultimately show ?thesis using r conf retry by (simp add: votes_rep_def)
  qed
  have "userId \<notin> fst ` set ?vs" by auto
  then have "GetTimeFor userId w' = 0" using find_no_vote [of "pconf w'" ?vs userId] step u by (simp add: GetTimeFor_def)
  with step show ?thesis by blast
qed

definition voted_world :: world where
  "voted_world = upd_conf (\<lambda>p. p\<lparr>pc_retryStorage := [7, 9] @ replicate 94 0,
     pc_timeStorage := [100, 200] @ replicate 94 0\<rparr>) zero_world"

lemma ProcessQueue_total:
  assumes "tasks_rep (w_taskQueue w) ts" "\<And>tr c. e_status E tr c = 0"
  shows "ProcessQueue E w \<noteq> None"
proof (cases ts)
  case Nil
  then have "sq_numElements (w_taskQueue w) = 0"
    using assms(1) sq_rep_numElements_0 by (auto simp: tasks_rep_def)
  then show ?thesis by (simp add: ProcessQueue_def)
next
  case (Cons t us)
  then show ?thesis
    using task_at_front [of "w_taskQueue w" t us] assms
    by (simp add: ProcessQueue_def Let_def BufferedRead_def BufferedWrite_def call_def checked_eq)
qed

lemma queue_task_total:
  assumes "tasks_rep (w_taskQueue w) ts" "\<And>tr c. e_status E tr c = 0"
  shows "\<exists>w'. queue_task E t w = Some w'"
  using ProcessQueue_total [of "w\<lparr>w_taskQueue := fst (put_task t (w_taskQueue w))\<rparr>" _ E, OF _ assms(2)]
    put_task_rep [OF assms(1), of t]
  by (auto simp: queue_task_def)

lemma zero_world_tasks: "tasks_rep (w_taskQueue zero_world) []"
  unfolding tasks_rep_def by (simp add: zero_world_def sq_init_rep word_le_nat_alt word_less_nat_alt)

lemma SaveConfiguration_total: "w_taskQueue w = w_taskQueue zero_world \<Longrightarrow> \<exists>w'. SaveConfiguration quiet_env w = Some w'"
  unfolding SaveConfiguration_def QueuedWrite_def
  by (rule queue_task_total [of _ "[]"]) (simp_all add: zero_world_tasks quiet_env_def)

lemma voted_world_rep: "votes_rep (pconf voted_world) [(7, 100), (9, 200)]"
  by (simp add: votes_rep_def voted_world_def upd_conf_def MAX_RETRY_STORAGE_SIZE_def)

lemma PutInRetryStorage_total:
  assumes "w_taskQueue w = w_taskQueue zero_world"
  shows "PutInRetryStorage quiet_env u w \<noteq> None"
proof -
  have "w_taskQueue (case find P xs of None \<Rightarrow> w
      | Some i \<Rightarrow> PutInTimeStorage quiet_env i (upd_conf (g i) w)) = w_taskQueue zero_world" for P xs g
    using assms by (simp add: PutInTimeStorage_def upd_conf_def split: option.split)
  note saved = SaveConfiguration_total [OF this]
  show ?thesis
    using saved by (auto simp: PutInRetryStorage_def RetryStorageContains_def Let_def split: option.split)
qed

lemma RemoveFromRetryStorage_total:
  assumes "w_taskQueue w = w_taskQueue zero_world"
  shows "RemoveFromRetryStorage quiet_env u w \<noteq> None"
proof -
  have "w_taskQueue (fold (\<lambda>i v. if P i then RemoveFromTimeStorage i v else v) is w) = w_taskQueue w" for P "is" w
    by (induction "is" arbitrary: w) (simp_all add: RemoveFromTimeStorage_def upd_conf_def)
  then show ?thesis
    using SaveConfiguration_total assms
    by (fastforce simp: RemoveFromRetryStorage_def Let_def upd_conf_def)
qed

lemma voted_world_tasks: "w_taskQueue voted_world = w_taskQueue zero_world"
  by (simp add: voted_world_def upd_conf_def)

text \<open>User id 0 is the mark of a free place. Storing it as a vote while a place is free reports
  success, but stores nothing: the votes stay as they were and nothing is saved; only the time of
  the first free place is written.\<close>

lemma retry_storage_zero:
  assumes r: "votes_rep (pconf w) vs" and room: "length vs < MAX_RETRY_STORAGE_SIZE"
  shows "\<exists>w'. PutInRetryStorage E 0 w = Some (w', True) \<and> votes_rep (pconf w') vs \<and>
    w_trace w' = w_trace w \<and> w_taskQueue w' = w_taskQueue w"
proof -
  have z: "find (\<lambda>i. pc_retryStorage (pconf w) ! i = 0) [0..<MAX_RETRY_STORAGE_SIZE] = Some (length vs)"
    unfolding find_upt_Some using room votes_rep_nth [OF r] r by (force simp: votes_rep_def image_iff)
  let ?w = "PutInTimeStorage E (length vs) w"
  have "PutInRetryStorage E 0 w = Some (?w, True)"
    using z by (simp add: PutInRetryStorage_def RetryStorageContains_def)
  moreover have "votes_rep (pconf ?w) vs"
    using r by (simp add: votes_rep_def PutInTimeStorage_def upd_conf_def)
  ultimately show ?thesis by (simp add: PutInTimeStorage_def upd_conf_def)
qed

lemma retry_storage_zero_witness:
  "\<exists>w'. PutInRetryStorage quiet_env 0 voted_world = Some (w', True) \<and> votes_rep (pconf w') [(7, 100), (9, 200)]"
  using retry_storage_zero [OF voted_world_rep, of quiet_env] by (auto simp: MAX_RETRY_STORAGE_SIZE_def)

end
