(* ===== verification/Modules.thy ===== *)
theory Modules
  imports Handshake RetryStorage
begin

text \<open>
  The modules (\<^verbatim>\<open>src/modules/*.cpp\<close>): the base class with its configuration messages, and the
  modules this build creates: Debug, StatusReporter, Advertising, Scanning, Enrollment and
  LightToggle. The module at index \<open>k\<close> is \<open>activeModules[k]\<close>.

  A module message has its data behind a header of eleven bytes, while \<open>SIZEOF_CONN_PACKET_MODULE\<close>
  counts ten: a message of \<open>n\<close> bytes of data is sent without the last of them.
\<close>

type_synonym delivery = "connectionPacket \<Rightarrow> world \<Rightarrow> world option"

section \<open>The base class\<close>

definition SET_CONFIG :: u8 where "SET_CONFIG = 0"
definition SET_CONFIG_RESULT :: u8 where "SET_CONFIG_RESULT = 1"
definition SET_ACTIVE :: u8 where "SET_ACTIVE = 2"
definition SET_ACTIVE_RESULT :: u8 where "SET_ACTIVE_RESULT = 3"
definition GET_CONFIG :: u8 where "GET_CONFIG = 4"
definition CONFIG :: u8 where "CONFIG = 5"
definition GET_MODULE_LIST :: u8 where "GET_MODULE_LIST = 6"
definition MODULE_LIST :: u8 where "MODULE_LIST = 7"

lemmas config_message_defs = SET_CONFIG_def SET_CONFIG_RESULT_def SET_ACTIVE_def SET_ACTIVE_RESULT_def
  GET_CONFIG_def CONFIG_def GET_MODULE_LIST_def MODULE_LIST_def

definition upd_module :: "nat \<Rightarrow> (Module \<Rightarrow> Module) \<Rightarrow> world \<Rightarrow> world" where
  "upd_module k f w = w\<lparr>w_modules := (w_modules w)(k := map_option f (w_modules w k))\<rparr>"

definition upd_config :: "nat \<Rightarrow> (mem \<Rightarrow> mem) \<Rightarrow> world \<Rightarrow> world" where
  "upd_config k f = upd_module k (\<lambda>m. m\<lparr>m_configuration := f (m_configuration m)\<rparr>)"

text \<open>A message is built on the stack: header, module id and action type.\<close>

definition module_message :: "u8 \<Rightarrow> nodeID \<Rightarrow> nodeID \<Rightarrow> u16 \<Rightarrow> u8 \<Rightarrow> mem \<Rightarrow> mem" where
  "module_message messageType sender receiver moduleId actionType stack =
     (put16 7 moduleId (message_header messageType sender receiver stack))(10 := actionType)"

text \<open>\<open>SendMessageToReceiver\<close> with \<open>n\<close> bytes of module data.\<close>

definition send_module_message :: "delivery \<Rightarrow> env \<Rightarrow> mem \<Rightarrow> nat \<Rightarrow> bool \<Rightarrow> world \<Rightarrow> world option" where
  "send_module_message deliver E data n reliable w =
     SendMessageToReceiver deliver E None data (of_nat (SIZEOF_CONN_PACKET_MODULE + n)) reliable w"

definition SendModuleActionMessage ::
    "delivery \<Rightarrow> env \<Rightarrow> u16 \<Rightarrow> u8 \<Rightarrow> nodeID \<Rightarrow> u8 \<Rightarrow> u8 \<Rightarrow> u8 list \<Rightarrow> bool \<Rightarrow> world \<Rightarrow> world option" where
  "SendModuleActionMessage deliver E moduleId messageType toNode actionType requestHandle additionalData reliable w =
     send_module_message deliver E
       (store_bytes ((module_message messageType (nodeId w) toNode moduleId actionType (e_stack E (w_trace w)))
          (9 := requestHandle)) module_data additionalData)
       (length additionalData) reliable w"

definition SaveModuleConfiguration :: "env \<Rightarrow> nat \<Rightarrow> world \<Rightarrow> world option" where
  "SaveModuleConfiguration E k w =
     (case w_modules w k of None \<Rightarrow> None
      | Some m \<Rightarrow> QueuedWrite E (MODULE_CONFIG k) (m_configurationLength m) (ucast (m_storageSlot m)) w)"

section \<open>Default configurations\<close>

text \<open>The three fields every configuration starts with.\<close>

definition config_header :: "u16 \<Rightarrow> bool \<Rightarrow> mem \<Rightarrow> mem" where
  "config_header moduleId active c = (put16 0 moduleId c)(3 := bool_to_u8 active, 2 := 1)"

definition adv_default_message :: "env \<Rightarrow> u8 list" where
  "adv_default_message E = [2, e_ad_type_flags E, e_adv_flags E, 3, e_ad_type_name E, 65, 66]"

definition Debug_default_config :: "u16 \<Rightarrow> mem \<Rightarrow> mem" where
  "Debug_default_config moduleId c =
     store_bytes (put32 4 0 (config_header moduleId True c)) 8 [106, 100, 104, 100, 117, 114, 0]"

definition Status_default_config :: "u16 \<Rightarrow> mem \<Rightarrow> mem" where
  "Status_default_config moduleId c =
     (put16 4 (30 * 1000) (put16 6 0 (config_header moduleId False c)))(8 := RSSI_SAMLING_HIGH, 9 := RSSI_SAMLING_HIGH)"

definition Advertising_default_config :: "env \<Rightarrow> u16 \<Rightarrow> mem \<Rightarrow> mem" where
  "Advertising_default_config E moduleId c =
     (let c = store_bytes (config_header moduleId True c) 9 (replicate 31 0);
          c = (put16 4 100 c)(6 := 1, 8 := (c 8 AND 7) OR push_bit 3 31)
      in store_bytes c 9 (adv_default_message E))"

definition Scanning_default_config :: "u16 \<Rightarrow> mem \<Rightarrow> mem" where
  "Scanning_default_config moduleId c = put16 4 (20 * 1000) (config_header moduleId False c)"

definition Enrollment_default_config :: "u16 \<Rightarrow> mem \<Rightarrow> mem" where
  "Enrollment_default_config moduleId c = config_header moduleId False c"

definition GROUP_BY_ADDRESS :: u8 where "GROUP_BY_ADDRESS = 1"
definition NO_GROUPING :: u8 where "NO_GROUPING = 2"

text \<open>\<open>setScanFilter\<close>: there is one filter, and it can only be set while it is not active.\<close>

definition setScanFilter :: "scanFilterEntry \<Rightarrow> world \<Rightarrow> world" where
  "setScanFilter f w =
     (if sf_active (sm_scanFilter (w_mstate w)) = 0
      then w_mstate_update (\<lambda>s. s\<lparr>sm_scanFilter := f\<lparr>sf_active := 1\<rparr>\<rparr>) w else w)"

definition default_filter :: scanFilterEntry where
  "default_filter = \<lparr>sf_active = 0, sf_grouping = GROUP_BY_ADDRESS, sf_address = \<lparr>addr_type = 0xFF, addr = []\<rparr>,
     sf_minRSSI = - 100, sf_maxRSSI = 100, sf_advertisingType = 0xFF\<rparr>"

text \<open>The method is virtual; the light toggle module does not override the empty one.\<close>

definition ResetToDefaultConfiguration :: "env \<Rightarrow> nat \<Rightarrow> world \<Rightarrow> world" where
  "ResetToDefaultConfiguration E k w =
     (case w_modules w k of None \<Rightarrow> w
      | Some m \<Rightarrow> (case m_kind m of
            DebugModule \<Rightarrow> upd_config k (Debug_default_config (m_moduleId m)) w
          | StatusReporterModule \<Rightarrow> w_mstate_update (\<lambda>s. s\<lparr>sr_lastConnectionReportingTimer := 0,
              sr_lastStatusReportingTimer := 0\<rparr>) (upd_config k (Status_default_config (m_moduleId m)) w)
          | AdvertisingModule \<Rightarrow> upd_config k (Advertising_default_config E (m_moduleId m)) w
          | ScanningModule \<Rightarrow> setScanFilter default_filter (upd_config k (Scanning_default_config (m_moduleId m)) w)
          | EnrollmentModule \<Rightarrow> upd_config k (Enrollment_default_config (m_moduleId m)) w
          | LightToggleModule \<Rightarrow> w))"

definition Module_ConfigurationLoadedHandler :: "env \<Rightarrow> nat \<Rightarrow> world \<Rightarrow> world" where
  "Module_ConfigurationLoadedHandler E k w =
     (case w_modules w k of None \<Rightarrow> w
      | Some m \<Rightarrow>
          let w = (if get16 0 (m_configuration m) = 0xFF then ResetToDefaultConfiguration E k w else w)
          in if m_kind m = ScanningModule
             then w_mstate_update (\<lambda>s. s\<lparr>sm_totalMessages := 0, sm_totalRSSI := 0\<rparr>) w else w)"

definition LoadModuleConfiguration :: "env \<Rightarrow> nat \<Rightarrow> world \<Rightarrow> world option" where
  "LoadModuleConfiguration E k w =
     (case w_modules w k of None \<Rightarrow> None
      | Some m \<Rightarrow>
          if ignorePersistentModuleConfigurationOnBoot Config
          then Some (Module_ConfigurationLoadedHandler E k (ResetToDefaultConfiguration E k
                 (upd_config k (put16 0 0xFF) w)))
          else QueuedRead E (MODULE_CONFIG k) (m_configurationLength m) (ucast (m_storageSlot m)) w)"

section \<open>Creating the modules\<close>

text \<open>The base class constructor; \<open>raw\<close> is the memory of the configuration. The lengths are \<open>sizeof\<close> of
  the configuration structs; LightToggle never sets its length.\<close>

definition add_Module :: "moduleKind \<Rightarrow> u16 \<Rightarrow> u16 \<Rightarrow> u16 \<Rightarrow> nat \<Rightarrow> mem \<Rightarrow> world \<Rightarrow> world" where
  "add_Module kind moduleId storageSlot len k raw w =
     w\<lparr>w_modules := (w_modules w)(k \<mapsto> \<lparr>m_kind = kind, m_moduleId = moduleId, m_configuration = raw,
        m_configurationLength = len, m_storageSlot = storageSlot\<rparr>)\<rparr>"

definition new_DebugModule :: "env \<Rightarrow> u16 \<Rightarrow> u16 \<Rightarrow> nat \<Rightarrow> mem \<Rightarrow> world \<Rightarrow> world option" where
  "new_DebugModule E moduleId storageSlot k raw w =
     LoadModuleConfiguration E k (ResetToDefaultConfiguration E k
       (w_mstate_update (\<lambda>s. s\<lparr>dm_flood := 0, dm_packetsOut := 0, dm_packetsIn := 0\<rparr>)
         (add_Module DebugModule moduleId storageSlot 20 k raw w)))"

definition new_StatusReporterModule :: "env \<Rightarrow> u16 \<Rightarrow> u16 \<Rightarrow> nat \<Rightarrow> mem \<Rightarrow> world \<Rightarrow> world option" where
  "new_StatusReporterModule E moduleId storageSlot k raw w =
     LoadModuleConfiguration E k
       (w_mstate_update (\<lambda>s. s\<lparr>sr_lastConnectionReportingTimer := 0, sr_lastStatusReportingTimer := 0\<rparr>)
         (add_Module StatusReporterModule moduleId storageSlot 12 k raw w))"

definition new_AdvertisingModule :: "env \<Rightarrow> u16 \<Rightarrow> u16 \<Rightarrow> nat \<Rightarrow> mem \<Rightarrow> world \<Rightarrow> world option" where
  "new_AdvertisingModule E moduleId storageSlot k raw w =
     map_option (w_mstate_update (\<lambda>s. s\<lparr>am_broadcastDebugPackets := False\<rparr>))
       (LoadModuleConfiguration E k (add_Module AdvertisingModule moduleId storageSlot 40 k raw w))"

definition new_ScanningModule :: "env \<Rightarrow> u16 \<Rightarrow> u16 \<Rightarrow> nat \<Rightarrow> mem \<Rightarrow> world \<Rightarrow> world option" where
  "new_ScanningModule E moduleId storageSlot k raw w =
     LoadModuleConfiguration E k
       (w_mstate_update (\<lambda>s. s\<lparr>sm_lastReportingTimerMs := 0, sm_scanFilter := (sm_scanFilter s)\<lparr>sf_active := 0\<rparr>\<rparr>)
         (add_Module ScanningModule moduleId storageSlot 6 k raw w))"

definition new_EnrollmentModule :: "env \<Rightarrow> u16 \<Rightarrow> u16 \<Rightarrow> nat \<Rightarrow> mem \<Rightarrow> world \<Rightarrow> world option" where
  "new_EnrollmentModule E moduleId storageSlot k raw w =
     LoadModuleConfiguration E k (add_Module EnrollmentModule moduleId storageSlot 8 k raw w)"

definition new_LightToggleModule :: "u16 \<Rightarrow> nat \<Rightarrow> mem \<Rightarrow> world \<Rightarrow> world option" where
  "new_LightToggleModule storageSlot k raw w =
     Some (upd_config k (config_header LIGHT_TOGGLE_MODULE_ID True)
       (add_Module LightToggleModule LIGHT_TOGGLE_MODULE_ID storageSlot 0 k raw w))"

definition new_Module :: "env \<Rightarrow> moduleKind \<Rightarrow> u16 \<Rightarrow> u16 \<Rightarrow> nat \<Rightarrow> mem \<Rightarrow> world \<Rightarrow> world option" where
  "new_Module E kind moduleId storageSlot k raw w =
     (case kind of
        DebugModule \<Rightarrow> new_DebugModule E moduleId storageSlot k raw w
      | StatusReporterModule \<Rightarrow> new_StatusReporterModule E moduleId storageSlot k raw w
      | AdvertisingModule \<Rightarrow> new_AdvertisingModule E moduleId storageSlot k raw w
      | ScanningModule \<Rightarrow> new_ScanningModule E moduleId storageSlot k raw w
      | EnrollmentModule \<Rightarrow> new_EnrollmentModule E moduleId storageSlot k raw w
      | LightToggleModule \<Rightarrow> new_LightToggleModule storageSlot k raw w)"

lemmas new_Module_defs = new_DebugModule_def new_StatusReporterModule_def new_AdvertisingModule_def
  new_ScanningModule_def new_EnrollmentModule_def new_LightToggleModule_def

section \<open>Configuration messages\<close>

definition config_response :: "delivery \<Rightarrow> env \<Rightarrow> Module \<Rightarrow> mem \<Rightarrow> u8 \<Rightarrow> u8 list \<Rightarrow> world \<Rightarrow> world option" where
  "config_response deliver E m request actionType response w =
     send_module_message deliver E
       (store_bytes ((module_message MESSAGE_TYPE_MODULE_CONFIG (nodeId w) (get_sender request) (m_moduleId m) actionType
          (e_stack E (w_trace w)))(9 := mp_requestHandle (read_module request))) module_data response)
       (length response) False w"

text \<open>A configuration is accepted if it has the version and the length of the current one; the
  module id stays.\<close>

definition accepts_config :: "Module \<Rightarrow> mem \<Rightarrow> u16 \<Rightarrow> bool" where
  "accepts_config m data dataLength \<longleftrightarrow> data (module_data + 2) = m_configuration m 2 \<and>
     dataLength - of_nat SIZEOF_CONN_PACKET_MODULE = m_configurationLength m"

definition received_config :: "Module \<Rightarrow> mem \<Rightarrow> mem" where
  "received_config m data = put16 0 (get16 0 (m_configuration m))
     (store_bytes (m_configuration m) 0 (bytes_at data module_data (unat (m_configurationLength m))))"

definition set_active :: "delivery \<Rightarrow> env \<Rightarrow> Module \<Rightarrow> mem \<Rightarrow> world \<Rightarrow> world option" where
  "set_active deliver E m data w =
     (case find (\<lambda>j. \<exists>m' \<in> set_option (w_modules w j). m_moduleId m' = mp_moduleId (read_module data)) [0..<MAX_MODULE_COUNT] of
        None \<Rightarrow> Some w
      | Some j \<Rightarrow> config_response deliver E m data SET_ACTIVE_RESULT [0]
                   (upd_config j (\<lambda>c. c(3 := data module_data)) w))"

definition Module_ConnectionPacketReceivedEventHandler ::
    "delivery \<Rightarrow> env \<Rightarrow> nat \<Rightarrow> connectionPacket \<Rightarrow> world \<Rightarrow> world option" where
  "Module_ConnectionPacketReceivedEventHandler deliver E k p w =
     (let data = cp_data p; actionType = mp_actionType (read_module data)
      in case w_modules w k of
           None \<Rightarrow> Some w
         | Some m \<Rightarrow>
             if get_messageType data = MESSAGE_TYPE_MODULE_CONFIG \<and> mp_moduleId (read_module data) = m_moduleId m then
               if actionType = SET_CONFIG then
                 if accepts_config m data (cp_dataLength p) then
                   map_option (Module_ConfigurationLoadedHandler E k)
                     (config_response deliver E (m\<lparr>m_moduleId := get16 0 (m_configuration m)\<rparr>) data SET_CONFIG_RESULT [0]
                       (upd_config k (\<lambda>_. received_config m data) w))
                 else Some w
               else if actionType = GET_CONFIG then
                 config_response deliver E m data CONFIG
                   (bytes_at (m_configuration m) 0 (unat (m_configurationLength m))) w
               else if actionType = SET_ACTIVE then set_active deliver E m data w
               else Some w
             else Some w)"

text \<open>Whether a packet triggers an action of module \<open>m\<close>.\<close>

definition triggers :: "Module \<Rightarrow> mem \<Rightarrow> u8 \<Rightarrow> bool" where
  "triggers m data actionType \<longleftrightarrow> get_messageType data = MESSAGE_TYPE_MODULE_TRIGGER_ACTION \<and>
     mp_moduleId (read_module data) = m_moduleId m \<and> mp_actionType (read_module data) = actionType"

text \<open>An answer of a module.\<close>

definition responds :: "Module \<Rightarrow> mem \<Rightarrow> u8 \<Rightarrow> bool" where
  "responds m data actionType \<longleftrightarrow> get_messageType data = MESSAGE_TYPE_MODULE_ACTION_RESPONSE \<and>
     mp_moduleId (read_module data) = m_moduleId m \<and> mp_actionType (read_module data) = actionType"

end
