(* ===== verification/ModuleHandlers.thy ===== *)
theory ModuleHandlers
  imports Modules
begin

text \<open>
  What the modules of this build do: their reactions to packets, timer ticks and radio events, and
  \<open>Node::messageReceivedCallback\<close>, which hands every packet for this node to all of them.

  A module may answer a packet to its own node, which is delivered by a nested call. The nesting
  is bounded by fuel; \<open>message_nesting\<close> in \<open>ModuleProps\<close> shows that two levels are enough.
\<close>

section \<open>StatusReporterModule\<close>

definition GET_STATUS :: u8 where "GET_STATUS = 1"
definition GET_DEVICE_INFO :: u8 where "GET_DEVICE_INFO = 2"
definition GET_ALL_CONNECTIONS :: u8 where "GET_ALL_CONNECTIONS = 3"
definition GET_NEARBY_NODES :: u8 where "GET_NEARBY_NODES = 4"
definition STATUS :: u8 where "STATUS = 1"
definition DEVICE_INFO :: u8 where "DEVICE_INFO = 2"
definition ALL_CONNECTIONS :: u8 where "ALL_CONNECTIONS = 3"
definition NEARBY_NODES :: u8 where "NEARBY_NODES = 4"

definition SendStatus :: "delivery \<Rightarrow> env \<Rightarrow> Module \<Rightarrow> nodeID \<Rightarrow> u8 \<Rightarrow> world \<Rightarrow> world option" where
  "SendStatus deliver E m toNode messageType w =
     (let c = conns w 0;
          d = module_message messageType (nodeId w) toNode (m_moduleId m) STATUS (e_stack E (w_trace w));
          d = (put16 13 (c_partnerId c) (put16 11 (n_clusterSize (w_node w)) d))
                (15 := c_rssiAverage c,
                 16 := (cm_freeInConnections (w_cm w) AND 3) OR push_bit 2 (cm_freeOutConnections (w_cm w)),
                 17 := 0, 18 := ucast (pc_connectionLossCounter (pconf w)))
      in send_module_message deliver E d 9 False w)"

definition device_type_byte :: "deviceTypes \<Rightarrow> u8" where
  "device_type_byte t = (case t of DEVICE_TYPE_STATIC \<Rightarrow> 0 | DEVICE_TYPE_ROAMING \<Rightarrow> 1 | DEVICE_TYPE_SINK \<Rightarrow> 2)"

definition SendDeviceInfo :: "delivery \<Rightarrow> env \<Rightarrow> Module \<Rightarrow> nodeID \<Rightarrow> u8 \<Rightarrow> world \<Rightarrow> world option" where
  "SendDeviceInfo deliver E m toNode messageType w =
     (let d = module_message messageType (nodeId w) toNode (m_moduleId m) DEVICE_INFO (e_stack E (w_trace w));
          a = e_address E (w_trace w);
          (w, err) = call E Gap_address_get w;
          c = pconf w;
          d = (put16 11 (pc_manufacturerId c) d)(41 := device_type_byte (pc_deviceType c));
          d = store_bytes (store_bytes d 18 (e_deviceAddr E)) 13 (take SERIAL_NUMBER_LENGTH (pc_serialNumber c));
          d = store_bytes (d(26 := addr_type a)) 27 (addr a);
          d = (put16 33 (pc_networkId c) (put32 35 (firmwareVersion Config) d))(39 := pc_dBmRX c, 40 := pc_dBmTX c)
      in send_module_message deliver E d (25 + SERIAL_NUMBER_LENGTH) False w)"

definition SendNearbyNodes :: "delivery \<Rightarrow> env \<Rightarrow> Module \<Rightarrow> nodeID \<Rightarrow> u8 \<Rightarrow> world \<Rightarrow> world option" where
  "SendNearbyNodes deliver E m toNode messageType w =
     (let d = module_message messageType (nodeId w) toNode (m_moduleId m) NEARBY_NODES (e_stack E (w_trace w));
          nodes = joinMe_packets w;
          put = (\<lambda>i d. (put16 (module_data + i * 3) (jm_sender (jb_payload (nodes ! i))) d)
                   (module_data + i * 3 + 2 := jb_rssi (nodes ! i)))
      in send_module_message deliver E (fold put [0..<length nodes] d) (length nodes * 3) False w)"

text \<open>The receiver and the type of the message are not looked at.\<close>

definition SendAllConnections :: "delivery \<Rightarrow> env \<Rightarrow> Module \<Rightarrow> nodeID \<Rightarrow> u8 \<Rightarrow> world \<Rightarrow> world option" where
  "SendAllConnections deliver E m toNode messageType w =
     (let d = module_message MESSAGE_TYPE_MODULE_ACTION_RESPONSE (nodeId w) NODE_ID_BROADCAST (m_moduleId m)
                ALL_CONNECTIONS (e_stack E (w_trace w));
          d = fold (\<lambda>i. put16 (module_data + 2 * i) (c_partnerId (conns w i))) [0, 1, 2, 3] d;
          d = fold (\<lambda>i d. d(module_data + 8 + i := GetAverageRSSI (conns w i))) [0, 1, 2, 3] d
      in send_module_message deliver E d 12 True w)"

definition StopConnectionRSSIMeasurement :: "env \<Rightarrow> nat \<Rightarrow> world \<Rightarrow> world option" where
  "StopConnectionRSSIMeasurement E i w =
     (if c_isConnected (conns w i) then checked E (Rssi_stop (c_connectionHandle (conns w i))) w else Some w)"

text \<open>The average is a quotient of two unsigned numbers, cut to a signed byte.\<close>

definition rssi_sample :: "i8 \<Rightarrow> Connection \<Rightarrow> Connection" where
  "rssi_sample rssi c =
     (let n = c_rssiSamplesNum c + 1; s = c_rssiSamplesSum c + scast rssi
      in if n > 50 then c\<lparr>c_rssiAverage := ucast (s div n), c_rssiSamplesNum := 0, c_rssiSamplesSum := 0\<rparr>
         else c\<lparr>c_rssiSamplesNum := n, c_rssiSamplesSum := s\<rparr>)"

definition Status_RssiChanged :: "u16 \<Rightarrow> i8 \<Rightarrow> world \<Rightarrow> world option" where
  "Status_RssiChanged handle rssi w =
     map_option (\<lambda>i. upd_conn i (rssi_sample rssi) w) (GetConnectionFromHandle handle w)"

definition Status_TimerEventHandler :: "delivery \<Rightarrow> env \<Rightarrow> Module \<Rightarrow> world \<Rightarrow> world option" where
  "Status_TimerEventHandler deliver E m w =
     (let connInterval = get16 4 (m_configuration m); statusInterval = get16 6 (m_configuration m);
          due = (\<lambda>interval last w. interval \<noteq> 0 \<and> n_appTimerMs (w_node w) - last > ucast interval)
      in do {
        w \<leftarrow> (if due connInterval (sr_lastConnectionReportingTimer (w_mstate w)) w
              then map_option (\<lambda>w. w_mstate_update (\<lambda>s. s\<lparr>sr_lastConnectionReportingTimer := n_appTimerMs (w_node w)\<rparr>) w)
                     (SendAllConnections deliver E m NODE_ID_BROADCAST MESSAGE_TYPE_MODULE_GENERAL w)
              else Some w);
        if due statusInterval (sr_lastStatusReportingTimer (w_mstate w)) w
        then map_option (\<lambda>w. w_mstate_update (\<lambda>s. s\<lparr>sr_lastStatusReportingTimer := n_appTimerMs (w_node w)\<rparr>) w)
               (SendStatus deliver E m NODE_ID_BROADCAST MESSAGE_TYPE_MODULE_GENERAL w)
        else Some w
      })"

definition Status_packet :: "delivery \<Rightarrow> env \<Rightarrow> Module \<Rightarrow> mem \<Rightarrow> world \<Rightarrow> world option" where
  "Status_packet deliver E m data w =
     (let sender = get_sender data; t = MESSAGE_TYPE_MODULE_ACTION_RESPONSE
      in if triggers m data GET_STATUS then SendStatus deliver E m sender t w
         else if triggers m data GET_DEVICE_INFO then SendDeviceInfo deliver E m sender t w
         else if triggers m data GET_ALL_CONNECTIONS then SendAllConnections deliver E m sender t w
         else if triggers m data GET_NEARBY_NODES then SendNearbyNodes deliver E m sender t w
         else Some w)"

section \<open>EnrollmentModule\<close>

definition SET_ENROLLMENT_BY_NODE_ID :: u8 where "SET_ENROLLMENT_BY_NODE_ID = 0"
definition SET_ENROLLMENT_BY_CHIP_ID :: u8 where "SET_ENROLLMENT_BY_CHIP_ID = 1"
definition SET_ENROLLMENT_BY_SERIAL :: u8 where "SET_ENROLLMENT_BY_SERIAL = 2"
definition ENROLLMENT_SUCCESSFUL :: u8 where "ENROLLMENT_SUCCESSFUL = 0"

definition SendEnrollmentResponse ::
    "delivery \<Rightarrow> env \<Rightarrow> Module \<Rightarrow> nodeID \<Rightarrow> u8 \<Rightarrow> u8 \<Rightarrow> u8 \<Rightarrow> world \<Rightarrow> world option" where
  "SendEnrollmentResponse deliver E m receiver enrollmentMethod requestHandle result w =
     (let d = (module_message MESSAGE_TYPE_MODULE_ACTION_RESPONSE (nodeId w) receiver (m_moduleId m)
                 ENROLLMENT_SUCCESSFUL (e_stack E (w_trace w)))
                 (9 := requestHandle, 12 := result, 11 := enrollmentMethod)
      in send_module_message deliver E
           (store_bytes d 13 (take SERIAL_NUMBER_LENGTH (pc_serialNumber (pconf w))))
           (10 + SERIAL_NUMBER_LENGTH) True w)"

text \<open>The new identity is stored, the mesh stopped, and the green LED says that the node waits to be
  restarted.\<close>

definition enroll ::
    "delivery \<Rightarrow> env \<Rightarrow> Module \<Rightarrow> u8 \<Rightarrow> u8 \<Rightarrow> (NodeConfiguration \<Rightarrow> NodeConfiguration) \<Rightarrow> world \<Rightarrow> world option" where
  "enroll deliver E m enrollmentMethod requestHandle identity w = do {
     w \<leftarrow> Node_Stop E w;
     w \<leftarrow> SaveConfiguration E (upd_conf identity w);
     let n = w_node w;
     w \<leftarrow> Some (upd_node (\<lambda>n. n\<lparr>n_currentLedMode := LED_MODE_OFF\<rparr>) w);
     w \<leftarrow> Some (gpio (led_Off (n_LedBlue n) \<circ> led_On (n_LedGreen n) \<circ> led_Off (n_LedRed n)) w);
     SendEnrollmentResponse deliver E m NODE_ID_BROADCAST enrollmentMethod requestHandle 0 w
   }"

definition Enrollment_packet :: "delivery \<Rightarrow> env \<Rightarrow> Module \<Rightarrow> mem \<Rightarrow> world \<Rightarrow> world option" where
  "Enrollment_packet deliver E m data w =
     (let handle = mp_requestHandle (read_module data);
          identity = (\<lambda>node network key p. p\<lparr>pc_nodeId := get16 node data, pc_networkId := get16 network data,
             pc_networkKey := (case key of None \<Rightarrow> pc_networkKey p | Some k \<Rightarrow> bytes_at data k 16)\<rparr>)
      in if triggers m data SET_ENROLLMENT_BY_NODE_ID then
           enroll deliver E m 0 handle (identity 11 13 None) w
         else if triggers m data SET_ENROLLMENT_BY_CHIP_ID then
           (if (get32 11 data, get32 15 data) = e_chipId E
            then enroll deliver E m 1 handle (identity 19 21 (Some 23)) w else Some w)
         else if triggers m data SET_ENROLLMENT_BY_SERIAL then
           (if bytes_at data 11 SERIAL_NUMBER_LENGTH = take SERIAL_NUMBER_LENGTH (pc_serialNumber (pconf w))
            then enroll deliver E m 2 handle (identity 16 18 (Some 20)) w else Some w)
         else Some w)"

section \<open>DebugModule\<close>

definition RESET_NODE :: u8 where "RESET_NODE = 0"
definition RESET_CONNECTION_LOSS_COUNTER :: u8 where "RESET_CONNECTION_LOSS_COUNTER = 1"
definition FLOOD_MESSAGE :: u8 where "FLOOD_MESSAGE = 2"

definition Debug_packet :: "nat \<Rightarrow> Module \<Rightarrow> mem \<Rightarrow> world \<Rightarrow> world" where
  "Debug_packet k m data w =
     (if triggers m data FLOOD_MESSAGE then w_mstate_update (\<lambda>s. s\<lparr>dm_packetsIn := dm_packetsIn s + 1\<rparr>) w
      else if triggers m data RESET_NODE
      then upd_config k (put32 4 (n_appTimerMs (w_node w) + 10 * 1000)) w
      else if triggers m data RESET_CONNECTION_LOSS_COUNTER
      then upd_conf (\<lambda>p. p\<lparr>pc_connectionLossCounter := 0\<rparr>) w
      else w)"

text \<open>One round of the loop that floods the mesh.\<close>

definition flood_step :: "delivery \<Rightarrow> env \<Rightarrow> Module \<Rightarrow> world \<Rightarrow> world option" where
  "flood_step deliver E m w =
     (let w = w_mstate_update (\<lambda>s. s\<lparr>dm_packetsOut := dm_packetsOut s + 1\<rparr>) w;
          d = (module_message MESSAGE_TYPE_MODULE_TRIGGER_ACTION (nodeId w) (NODE_ID_HOPS_BASE + 2) (m_moduleId m)
                 FLOOD_MESSAGE (e_stack E (w_trace w)))(module_data := 1)
      in send_module_message deliver E d 0 (dm_flood (w_mstate w) = 1) w)"

text \<open>\<^const>\<open>None\<close> also stands for a loop that does not end.\<close>

partial_function (option) flood_loop :: "delivery \<Rightarrow> env \<Rightarrow> Module \<Rightarrow> world \<Rightarrow> world option" where
  "flood_loop deliver E m w =
     (if cm_pendingPackets (w_cm w) < 6
      then Option.bind (flood_step deliver E m w) (flood_loop deliver E m) else Some w)"

definition Debug_TimerEventHandler :: "delivery \<Rightarrow> env \<Rightarrow> Module \<Rightarrow> u32 \<Rightarrow> world \<Rightarrow> world option" where
  "Debug_TimerEventHandler deliver E m appTimer w =
     (if \<not> module_active m then Some w
      else do {
        w \<leftarrow> (if dm_flood (w_mstate w) \<noteq> 0 then flood_loop deliver E m w else Some w);
        let rebootTimeMs = get32 4 (m_configuration m);
        if rebootTimeMs \<noteq> 0 \<and> rebootTimeMs < appTimer then None else Some w
      })"

section \<open>ScanningModule\<close>

definition TOTAL_SCANNED_PACKETS :: u8 where "TOTAL_SCANNED_PACKETS = 0"

definition SendReport :: "delivery \<Rightarrow> env \<Rightarrow> Module \<Rightarrow> world \<Rightarrow> world option" where
  "SendReport deliver E m w =
     (let s = w_mstate w
      in if sm_totalMessages s > 0 then
           send_module_message deliver E
             (put32 15 (sm_totalRSSI s) (put32 11 (sm_totalMessages s)
                (module_message MESSAGE_TYPE_MODULE_TRIGGER_ACTION (nodeId w) NODE_ID_BROADCAST (m_moduleId m)
                   TOTAL_SCANNED_PACKETS (e_stack E (w_trace w))))) 8 False w
         else Some w)"

definition Scanning_TimerEventHandler :: "delivery \<Rightarrow> env \<Rightarrow> Module \<Rightarrow> world \<Rightarrow> world option" where
  "Scanning_TimerEventHandler deliver E m w =
     (let interval = get16 4 (m_configuration m)
      in if interval \<noteq> 0 \<and> n_appTimerMs (w_node w) - sm_lastReportingTimerMs (w_mstate w) > ucast interval
         then map_option (\<lambda>w. w_mstate_update (\<lambda>s. s\<lparr>sm_totalMessages := 0, sm_totalRSSI := 0,
                sm_lastReportingTimerMs := n_appTimerMs (w_node w)\<rparr>) w) (SendReport deliver E m w)
         else Some w)"

text \<open>Whether an advertising packet belongs to this mesh network.\<close>

definition mesh_packet :: "adv_report \<Rightarrow> world \<Rightarrow> bool" where
  "mesh_packet r w \<longleftrightarrow> unat (ar_dlen r) \<ge> SIZEOF_ADV_PACKET_HEADER \<and>
     get16 5 (ar_data r) = COMPANY_IDENTIFIER \<and>
     ah_meshIdentifier (read_advHeader (ar_data r)) = MESH_IDENTIFIER \<and>
     ah_networkId (read_advHeader (ar_data r)) = pc_networkId (pconf w)"

definition filter_matches :: "scanFilterEntry \<Rightarrow> adv_report \<Rightarrow> bool" where
  "filter_matches f r \<longleftrightarrow>
     (addr_type (sf_address f) = 0xFF \<or> addr_type (sf_address f) = addr_type (ar_peer_addr r)) \<and>
     (sf_advertisingType f = 0xFF \<or> sf_advertisingType f = ar_type r) \<and>
     sint (sf_minRSSI f) \<le> sint (ar_rssi r) \<and> sint (ar_rssi r) \<le> sint (sf_maxRSSI f)"

definition Scanning_AdvReport :: "delivery \<Rightarrow> env \<Rightarrow> Module \<Rightarrow> adv_report \<Rightarrow> world \<Rightarrow> world option" where
  "Scanning_AdvReport deliver E m r w =
     (if \<not> module_active m \<or> mesh_packet r w \<or> ar_scan_rsp r = 1 then Some w
      else
        let d = ar_data r; f = sm_scanFilter (w_mstate w);
            w = (if d 3 = 0x06 \<and> d 4 = 0x09 \<and> d 5 = 0x44 \<and> d 6 = 0x55
                 then w_mstate_update (\<lambda>s. s\<lparr>sm_totalMessages := sm_totalMessages s + 1,
                        sm_totalRSSI := sm_totalRSSI s + scast (ar_rssi r)\<rparr>) w
                 else w)
        in if sf_active f \<noteq> 0 \<and> filter_matches f r \<and> sf_grouping f = NO_GROUPING then
             SendMessageToReceiver deliver E None
               (write_advInfo \<lparr>ai_peerAddress = addr (ar_peer_addr r), ai_inverseRssiSum = - scast (ar_rssi r),
                   ai_packetCount = 1\<rparr>
                 (message_header MESSAGE_TYPE_ADVINFO (nodeId w) NODE_ID_BROADCAST (e_stack E (w_trace w))))
               (of_nat SIZEOF_CONN_PACKET_ADV_INFO) False w
           else Some w)"

section \<open>LightToggleModule\<close>

definition LIGHT_CONNECTED_NODE :: nodeID where "LIGHT_CONNECTED_NODE = 10731"

definition send_light_toggle_packet :: "delivery \<Rightarrow> env \<Rightarrow> nodeID \<Rightarrow> u8 \<Rightarrow> world \<Rightarrow> world option" where
  "send_light_toggle_packet deliver E to_node dataValue w =
     send_module_message deliver E
       ((message_header MESSAGE_TYPE_LIGHT_TOGGLE (nodeId w) to_node (e_stack E (w_trace w)))(module_data := dataValue))
       2 True w"

definition button_handler :: "delivery \<Rightarrow> env \<Rightarrow> bool \<Rightarrow> bool \<Rightarrow> world \<Rightarrow> world option" where
  "button_handler deliver E push button1 w =
     (if push \<and> button1 then
        let toggle = lt_relayToggle (w_mstate w)
        in map_option (w_mstate_update (\<lambda>s. s\<lparr>lt_relayToggle := \<not> toggle\<rparr>))
             (send_light_toggle_packet deliver E LIGHT_CONNECTED_NODE (if toggle then 255 else 0) w)
      else Some w)"

definition LightToggle_packet :: "mem \<Rightarrow> u16 \<Rightarrow> world \<Rightarrow> world" where
  "LightToggle_packet data dataLength w =
     (let n = w_node w; dataValue = data (unat (dataLength - 1))
      in if get_messageType data \<noteq> MESSAGE_TYPE_LIGHT_TOGGLE \<or> get_sender data = nodeId w \<or>
            get_receiver data \<noteq> nodeId w then w
         else if dataValue = 255
         then gpio (led_On (n_Relay n) \<circ> led_On (n_LedGreen n) \<circ> led_On (n_LedBlue n) \<circ> led_On (n_LedRed n)) w
         else if dataValue = 0
         then gpio (led_Off (n_Relay n) \<circ> led_Off (n_LedGreen n) \<circ> led_Off (n_LedBlue n) \<circ> led_Off (n_LedRed n)) w
         else w)"

section \<open>Handing out a packet\<close>

definition module_packet :: "delivery \<Rightarrow> env \<Rightarrow> nat \<Rightarrow> connectionPacket \<Rightarrow> world \<Rightarrow> world option" where
  "module_packet deliver E k p w =
     (case w_modules w k of
        None \<Rightarrow> Some w
      | Some _ \<Rightarrow> do {
          w \<leftarrow> Module_ConnectionPacketReceivedEventHandler deliver E k p w;
          case w_modules w k of
            None \<Rightarrow> Some w
          | Some m \<Rightarrow> (case m_kind m of
                StatusReporterModule \<Rightarrow> Status_packet deliver E m (cp_data p) w
              | EnrollmentModule \<Rightarrow> Enrollment_packet deliver E m (cp_data p) w
              | DebugModule \<Rightarrow> Some (Debug_packet k m (cp_data p) w)
              | LightToggleModule \<Rightarrow> Some (LightToggle_packet (cp_data p) (cp_dataLength p) w)
              | _ \<Rightarrow> Some w)
        })"

text \<open>The entries of the list are written behind the header, which is one byte more than the size
  macro says: the last byte of the buffer is the last but one of the list.\<close>

definition SendModuleList :: "delivery \<Rightarrow> env \<Rightarrow> nodeID \<Rightarrow> u8 \<Rightarrow> world \<Rightarrow> world option" where
  "SendModuleList deliver E toNode requestHandle w =
     (let n = MAX_MODULE_COUNT * 4; stack = e_stack E (w_trace w);
          buffer = (\<lambda>i. if i < SIZEOF_CONN_PACKET_MODULE + n then 0 else stack i);
          d = (module_message MESSAGE_TYPE_MODULE_CONFIG (nodeId w) toNode 0 MODULE_LIST buffer)(9 := requestHandle);
          d = fold (\<lambda>k d. case w_modules w k of None \<Rightarrow> d
                | Some m \<Rightarrow> store_bytes d (module_data + k * 4) (bytes_at (m_configuration m) 0 4))
                [0..<MAX_MODULE_COUNT] d
      in send_module_message deliver E d n True w)"

definition SIZEOF_CONN_PACKET_DATA_2 :: nat where
  "SIZEOF_CONN_PACKET_DATA_2 = SIZEOF_CONN_PACKET_HEADER + (MAX_DATA_SIZE_PER_WRITE - SIZEOF_CONN_PACKET_HEADER)"

definition Node_messageReceived :: "delivery \<Rightarrow> env \<Rightarrow> connectionPacket \<Rightarrow> world \<Rightarrow> world option" where
  "Node_messageReceived deliver E p w =
     (let data = cp_data p; n = unat (cp_dataLength p); t = get_messageType data
      in do {
        w \<leftarrow> (if t = MESSAGE_TYPE_CLUSTER_INFO_UPDATE \<and> n = SIZEOF_CONN_PACKET_CLUSTER_INFO_UPDATE then
                (case GetConnectionFromHandle (cp_connectionHandle p) w of
                   None \<Rightarrow> None
                 | Some i \<Rightarrow> UpdateClusterInfo E i (read_clusterInfoUpdate data) w)
              else if t = MESSAGE_TYPE_DATA_2 \<and> n = SIZEOF_CONN_PACKET_DATA_2 then
                UpdateScanResponsePacket E (bytes_at (data1_data data) 0 (unat (data1_length data))) w
              else Some w);
        w \<leftarrow> (if t = MESSAGE_TYPE_MODULE_CONFIG \<and> mp_actionType (read_module data) = GET_MODULE_LIST
              then SendModuleList deliver E (get_sender data) 7 w else Some w);
        each (\<lambda>k. module_packet deliver E k p) [0..<MAX_MODULE_COUNT] w
      })"

text \<open>\<open>Node::messageReceivedCallback\<close>, nested at most \<open>fuel\<close> deep.\<close>

fun messageReceivedCallback :: "nat \<Rightarrow> env \<Rightarrow> connectionPacket \<Rightarrow> world \<Rightarrow> world option" where
  "messageReceivedCallback 0 E p w = None"
| "messageReceivedCallback (Suc fuel) E p w = Node_messageReceived (messageReceivedCallback fuel E) E p w"

end
