(* ===== verification/ModuleProps.thy ===== *)
theory ModuleProps
  imports ModuleHandlers Sending SendingFrame
begin

text \<open>
  Properties of the modules: how deep messages to the own node nest, what configuration messages
  change, and the arithmetic of the status reporter.
\<close>

section \<open>Requests and answers\<close>

definition is_request :: "mem \<Rightarrow> bool" where
  "is_request data \<longleftrightarrow> get_messageType data = MESSAGE_TYPE_MODULE_TRIGGER_ACTION \<or>
     get_messageType data = MESSAGE_TYPE_MODULE_CONFIG \<and>
       mp_actionType (read_module data) \<in> {SET_CONFIG, SET_ACTIVE, GET_CONFIG, GET_MODULE_LIST}"

text \<open>Two ways to deliver packets that differ on requests only.\<close>

definition agree :: "delivery \<Rightarrow> delivery \<Rightarrow> bool" where
  "agree d d' \<longleftrightarrow> (\<forall>q v. \<not> is_request (cp_data q) \<longrightarrow> d q v = d' q v)"

lemma each_cong: "(\<And>k v. k \<in> set ks \<Longrightarrow> f k v = g k v) \<Longrightarrow> each f ks w = each g ks w"
  by (induction ks arbitrary: w) (auto split: option.splits)

lemma SendMessageToReceiver_agree:
  "agree d d' \<Longrightarrow> \<not> is_request data \<Longrightarrow>
   SendMessageToReceiver d E origin data n reliable w = SendMessageToReceiver d' E origin data n reliable w"
  by (simp add: SendMessageToReceiver_def agree_def)

lemma send_module_message_agree:
  "agree d d' \<Longrightarrow> \<not> is_request data \<Longrightarrow>
   send_module_message d E data n reliable w = send_module_message d' E data n reliable w"
  by (simp add: send_module_message_def SendMessageToReceiver_agree)

lemma module_message_type [simp]:
  "t < 128 \<Longrightarrow> get_messageType (module_message t s r mid a m) = t"
  "module_message t s r mid a m 10 = a"
  by (simp_all add: module_message_def message_header_def)

lemma not_request_response:
  assumes "get_messageType data = MESSAGE_TYPE_MODULE_ACTION_RESPONSE"
  shows "\<not> is_request data"
  using assms by (simp add: is_request_def message_type_defs)

lemma not_request_config:
  assumes "get_messageType data = MESSAGE_TYPE_MODULE_CONFIG"
    "data 10 \<in> {SET_CONFIG_RESULT, SET_ACTIVE_RESULT, CONFIG, MODULE_LIST}"
  shows "\<not> is_request data"
  using assms by (auto simp: is_request_def message_type_defs read_module_def config_message_defs)

lemma config_response_agree:
  assumes "agree d d'" "a \<in> {SET_CONFIG_RESULT, SET_ACTIVE_RESULT, CONFIG}"
  shows "config_response d E m data a xs w = config_response d' E m data a xs w"
  unfolding config_response_def
  by (intro send_module_message_agree [OF assms(1)] not_request_config)
    (use assms(2) in \<open>auto simp: message_type_defs module_data_def\<close>)

lemma type_fold [simp]:
  "(\<And>x m. x \<in> set xs \<Longrightarrow> get_messageType (f x m) = get_messageType m) \<Longrightarrow>
   get_messageType (fold f xs m) = get_messageType m"
  by (induction xs arbitrary: m) auto

lemma action_fold: "(\<And>x m. x \<in> set xs \<Longrightarrow> (f x m) 10 = m 10) \<Longrightarrow> (fold f xs m) 10 = (m :: mem) 10"
  by (induction xs arbitrary: m) auto

lemma Status_packet_agree: "agree d d' \<Longrightarrow> Status_packet d E m data w = Status_packet d' E m data w"
  unfolding Status_packet_def SendStatus_def SendDeviceInfo_def SendAllConnections_def SendNearbyNodes_def Let_def
  by (intro if_cong refl prod.case_cong send_module_message_agree not_request_response)
    (auto simp: message_type_defs module_data_def)

lemma Enrollment_packet_agree:
  assumes "agree d d'" shows "Enrollment_packet d E m data w = Enrollment_packet d' E m data w"
proof -
  have "SendEnrollmentResponse d E m r em h res v = SendEnrollmentResponse d' E m r em h res v" for r em h res v
    unfolding SendEnrollmentResponse_def Let_def
    by (intro send_module_message_agree [OF assms] not_request_response) (simp add: message_type_defs)
  then have "enroll d E m em h idn v = enroll d' E m em h idn v" for em h idn v
    by (simp add: enroll_def)
  then show ?thesis by (simp add: Enrollment_packet_def Let_def)
qed

lemma Module_packet_agree:
  assumes "agree d d'"
  shows "Module_ConnectionPacketReceivedEventHandler d E k p w = Module_ConnectionPacketReceivedEventHandler d' E k p w"
proof -
  note c = config_response_agree [OF assms]
  have "set_active d E m data w = set_active d' E m data w" for m data
    by (simp add: set_active_def c split: option.split)
  then show ?thesis
    by (simp add: Module_ConnectionPacketReceivedEventHandler_def Let_def c split: option.split)
qed

lemma module_packet_agree:
  assumes "agree d d'" shows "module_packet d E k p w = module_packet d' E k p w"
  unfolding module_packet_def
  by (simp add: Module_packet_agree [OF assms] Status_packet_agree [OF assms] Enrollment_packet_agree [OF assms]
      cong: option.case_cong moduleKind.case_cong)

lemma SendModuleList_agree:
  assumes "agree d d'" shows "SendModuleList d E r h w = SendModuleList d' E r h w"
  unfolding SendModuleList_def Let_def
proof (intro send_module_message_agree [OF assms] not_request_config)
  let ?f = "\<lambda>k d. case w_modules w k of None \<Rightarrow> d
    | Some m \<Rightarrow> store_bytes d (module_data + k * 4) (bytes_at (m_configuration m) 0 4)"
  fix b
  show "get_messageType (fold ?f [0..<MAX_MODULE_COUNT] ((module_message MESSAGE_TYPE_MODULE_CONFIG (nodeId w) r 0
      MODULE_LIST b)(9 := h))) = MESSAGE_TYPE_MODULE_CONFIG"
    by (subst type_fold) (auto simp: module_data_def message_type_defs split: option.split)
  have "fold ?f [0..<MAX_MODULE_COUNT] ((module_message MESSAGE_TYPE_MODULE_CONFIG (nodeId w) r 0
      MODULE_LIST b)(9 := h)) 10 = MODULE_LIST"
    by (subst action_fold) (auto simp: module_data_def split: option.split)
  then show "fold ?f [0..<MAX_MODULE_COUNT] ((module_message MESSAGE_TYPE_MODULE_CONFIG (nodeId w) r 0
      MODULE_LIST b)(9 := h)) 10 \<in> {SET_CONFIG_RESULT, SET_ACTIVE_RESULT, CONFIG, MODULE_LIST}"
    by simp
qed

lemma Node_messageReceived_agree:
  assumes "agree d d'" shows "Node_messageReceived d E p w = Node_messageReceived d' E p w"
proof -
  have "(\<lambda>k. module_packet d E k p) = (\<lambda>k. module_packet d' E k p)" "SendModuleList d E = SendModuleList d' E"
    by (intro ext module_packet_agree SendModuleList_agree assms)+
  then show ?thesis by (simp only: Node_messageReceived_def)
qed

text \<open>An answer is not answered.\<close>

lemma module_packet_answer:
  assumes "\<not> is_request (cp_data p)" shows "module_packet d E k p w = module_packet d' E k p w"
proof -
  have "Module_ConnectionPacketReceivedEventHandler d E k p w = Some w" for d
    using assms by (auto simp: Module_ConnectionPacketReceivedEventHandler_def is_request_def Let_def split: option.split)
  moreover have "\<not> triggers m (cp_data p) a" for m a using assms by (auto simp: triggers_def is_request_def)
  ultimately show ?thesis
    by (simp add: module_packet_def Status_packet_def Enrollment_packet_def Let_def
        cong: option.case_cong moduleKind.case_cong)
qed

lemma answer_delivery:
  assumes "\<not> is_request (cp_data p)" shows "Node_messageReceived d E p w = Node_messageReceived d' E p w"
proof -
  have list: "(get_messageType (cp_data p) = MESSAGE_TYPE_MODULE_CONFIG \<and>
      mp_actionType (read_module (cp_data p)) = GET_MODULE_LIST) = False"
    using assms by (auto simp: is_request_def)
  have "(\<lambda>k. module_packet d E k p) = (\<lambda>k. module_packet d' E k p)"
    by (intro ext module_packet_answer assms)
  then show ?thesis by (simp only: Node_messageReceived_def Let_def list if_False)
qed


section \<open>Configuration messages\<close>

lemma each_Some: "(\<And>k v. k \<in> set ks \<Longrightarrow> f k v = Some v) \<Longrightarrow> each f ks w = Some w"
  by (induction ks) auto

lemma answer_ignored:
  assumes "get_messageType (cp_data p) = MESSAGE_TYPE_MODULE_CONFIG" "\<not> is_request (cp_data p)"
  shows "Node_messageReceived d E p w = Some w"
proof -
  have m: "Module_ConnectionPacketReceivedEventHandler d E k p v = Some v" for k v
    using assms by (auto simp: Module_ConnectionPacketReceivedEventHandler_def is_request_def Let_def split: option.split)
  have t: "\<not> triggers m (cp_data p) a" for m a using assms by (auto simp: triggers_def is_request_def)
  have l: "LightToggle_packet (cp_data p) n v = v" for n v
    using assms(1) by (simp add: LightToggle_packet_def message_type_defs Let_def)
  have "module_packet d E k p v = Some v" for k v
    by (simp add: module_packet_def m t l Status_packet_def Enrollment_packet_def Debug_packet_def Let_def
        split: option.split moduleKind.split)
  then show ?thesis
    using assms by (auto simp: Node_messageReceived_def Let_def message_type_defs is_request_def intro!: each_Some)
qed

lemma config_response_frame:
  assumes "config_response (messageReceivedCallback (Suc fuel) E) E m data a xs w = Some w'"
    "a \<in> {SET_CONFIG_RESULT, SET_ACTIVE_RESULT, CONFIG}"
  shows "sending_only w w'"
proof -
  let ?d = "store_bytes ((module_message MESSAGE_TYPE_MODULE_CONFIG (nodeId w) (get_sender data) (m_moduleId m) a
          (e_stack E (w_trace w)))(9 := mp_requestHandle (read_module data))) module_data xs"
  have t: "get_messageType ?d = MESSAGE_TYPE_MODULE_CONFIG" by (simp add: module_data_def message_type_defs)
  have "\<not> is_request ?d"
    using assms(2) by (intro not_request_config) (auto simp: module_data_def message_type_defs)
  then have "messageReceivedCallback (Suc fuel) E \<lparr>cp_connectionHandle = 0, cp_reliable = False, cp_data = ?d,
      cp_dataLength = n\<rparr> v = Some v" for n v
    using t answer_ignored by simp
  then show ?thesis
    using assms(1) sending_only_SendMessage sending_only_SendMessageOverConnections
    by (auto simp: config_response_def send_module_message_def SendMessageToReceiver_def split: if_splits option.splits)
qed


text \<open>A configuration that was read with GET_CONFIG and is sent with SET_CONFIG does not come back
  whole: the message is one byte short of the data, so the last byte of the configuration becomes
  whatever lies behind the message in the receiver's buffer.\<close>

lemma set_config_loses_last_byte:
  assumes len: "n = unat (m_configurationLength m)" and n: "3 \<le> n"
    and data: "data = received (store_bytes h module_data (bytes_at c 0 n)) (SIZEOF_CONN_PACKET_MODULE + n) rest"
  shows "received_config m data = (\<lambda>i. if i < 2 then m_configuration m i else if i < n - 1 then c i
    else if i = n - 1 then rest (SIZEOF_CONN_PACKET_MODULE + n) else m_configuration m i)"
proof
  fix i
  have p: "put16 0 (get16 0 m0) m1 i = (if i < 2 then m0 i else m1 i)" for m0 m1
  proof -
    have "ucast (get16 0 m0) = m0 0" "ucast (drop_bit 8 (get16 0 m0)) = m0 1"
      by (rule bit_word_eqI, auto simp: get16_def bit_simps dest: bit_imp_le_length)+
    then show ?thesis by (auto simp: put16_def less_2_cases_iff)
  qed
  have d: "data (11 + j) = (if j < n - 1 then c j else rest (11 + j))" if "j < n" for j
    using that n by (auto simp: data module_data_def sizeof_defs)
  have s: "store_bytes (m_configuration m) 0 (bytes_at data module_data n) i =
      (if i < n then data (11 + i) else m_configuration m i)"
    by (simp add: module_data_def)
  show "received_config m data i = (if i < 2 then m_configuration m i else if i < n - 1 then c i
    else if i = n - 1 then rest (SIZEOF_CONN_PACKET_MODULE + n) else m_configuration m i)"
    using n d [of i] unfolding received_config_def len [symmetric] p s
    by (cases "i < n - 1"; cases "i = n - 1") (auto simp: sizeof_defs)
qed

section \<open>Signal strength\<close>

lemma rssi_below:
  "c_rssiSamplesNum c = 0 \<Longrightarrow> c_rssiSamplesSum c = 0 \<Longrightarrow> n \<le> 50 \<Longrightarrow>
   (rssi_sample r ^^ n) c = c\<lparr>c_rssiSamplesNum := of_nat n, c_rssiSamplesSum := of_nat n * scast r\<rparr>"
proof (induction n)
  case (Suc n)
  have "unat (of_nat (Suc n) :: u16) = Suc n" using Suc.prems(3) by (intro unat_of_nat_small) simp
  then have u: "unat (of_nat n + 1 :: u16) = Suc n" by (simp add: add.commute)
  have "unat (50 :: u16) = 50" by code_simp
  then have "\<not> (of_nat n + 1 :: u16) > 50" using Suc.prems(3) by (simp only: word_less_nat_alt u)
  then show ?case using Suc by (simp add: rssi_sample_def Let_def algebra_simps)
qed simp

lemma quotient_16: "(word_of_int z :: u16) div 51 = of_nat (nat (z mod 65536) div 51)"
proof -
  have u: "unat (word_of_int z :: u16) = nat (z mod 65536)"
    by (simp add: unsigned_of_int take_bit_eq_mod)
  have "nat (z mod 65536) < 65536" by (simp add: nat_less_iff)
  then have "nat (z mod 65536) div 51 < 2 ^ 16" by (simp add: div_less_iff_less_mult)
  then have "unat (of_nat (nat (z mod 65536) div 51) :: u16) = nat (z mod 65536) div 51"
    by (intro unat_of_nat_small) simp
  then show ?thesis by (simp add: word_unat_eq_iff unat_div_distrib u)
qed

lemma rssi_quotient:
  "ucast ((51 * scast (r :: i8) :: u16) div 51) = (if sint r < 0 then r + 5 else r)"
proof -
  let ?a = "unat r"
  have a: "?a < 256" using unat_bound [of r] by simp
  have "(51 * scast r :: u16) = word_of_int (51 * sint r)" by simp
  then have q: "(51 * scast r :: u16) div 51 = of_nat (nat (51 * sint r mod 65536) div 51)"
    by (simp only: quotient_16)
  show ?thesis
  proof (cases "?a < 128")
    case True
    then have s: "sint r = int ?a" by (intro sint_small) simp
    have "nat (51 * int k mod 65536) div 51 = k" if "k < 128" for k using that by (simp add: nat_mult_distrib)
    from this [OF True] have "nat (51 * sint r mod 65536) div 51 = ?a" by (simp only: s)
    then have "ucast ((51 * scast r :: u16) div 51) = (of_nat ?a :: i8)"
      unfolding q by (simp only:) (rule ucast_of_nat_small, use a in simp)
    then show ?thesis using s by simp
  next
    case False
    have "signed_take_bit 7 z = z - 256" if "128 \<le> z" "z < 256" for z :: int
    proof -
      have "z div 128 = 1" using that by presburger
      then show ?thesis using that by (simp add: signed_take_bit_eq_take_bit_minus take_bit_eq_mod bit_iff_odd)
    qed
    moreover have i: "uint r = int ?a" by simp
    then have "128 \<le> uint r" "uint r < 256" using False a by linarith+
    ultimately have s: "sint r = int ?a - 256" by (simp add: sint_uint)
    have wrap: "nat (51 * (int k - 256) mod 65536) = 51 * k + 52480" if "128 \<le> k" "k < 256" for k
    proof -
      have "51 * (int k - 256) = 51 * int k + 52480 + - 1 * 65536" by simp
      then have "51 * (int k - 256) mod 65536 = (51 * int k + 52480 + - 1 * 65536) mod 65536" by (rule arg_cong)
      also have "\<dots> = (51 * int k + 52480) mod 65536" by (rule mod_mult_self1)
      also have "\<dots> = 51 * int k + 52480" using that by simp
      finally show ?thesis by simp
    qed
    have "nat (51 * sint r mod 65536) = 51 * ?a + 52480" using wrap [of ?a] False a by (simp only: s)
    then have "nat (51 * sint r mod 65536) div 51 = ?a + 1029" by simp
    then have "ucast ((51 * scast r :: u16) div 51) = (of_nat (?a + 1029) :: i8)"
      unfolding q by (simp only:) (rule ucast_of_nat_small, use a in simp)
    also have "\<dots> = r + 5" by simp
    finally show ?thesis using s \<open>uint r < 256\<close> by simp
  qed
qed

text \<open>The average of the signal strength is wrong for every real signal: the sum is kept as an
  unsigned number, so 51 equal samples of a negative strength average to five more than the
  strength; only strengths that are not negative come out right.\<close>

lemma rssi_average_biased:
  assumes "c_rssiSamplesNum c = 0" "c_rssiSamplesSum c = 0"
  shows "c_rssiAverage ((rssi_sample r ^^ 51) c) = (if sint r < 0 then r + 5 else r)"
proof -
  have last_sample: "(50 :: u16) < 51" by code_simp
  have "(rssi_sample r ^^ 51) c = rssi_sample r ((rssi_sample r ^^ 50) c)" by (simp add: numeral_eq_Suc)
  then show ?thesis
    using rssi_below [OF assms, of 50 r] rssi_quotient [of r] last_sample
    by (simp add: rssi_sample_def Let_def algebra_simps)
qed

lemma rssi_average_biased_witness:
  "c_rssiAverage ((rssi_sample (- 60) ^^ 51) zero_connection) = - 55"
  using rssi_average_biased [of zero_connection "- 60"] by (simp add: zero_connection_def)

section \<open>Flooding\<close>

text \<open>Flooding the mesh for a test hangs the node while it has no connection: the loop waits for six
  pending packets, but without a connection with a finished handshake no packet is ever queued, so
  that every round succeeds and leaves the condition of the loop as it was.\<close>

lemma flood_never_ends:
  assumes none: "\<And>i. i < 4 \<Longrightarrow> \<not> c_isConnected (conns w i) \<and> \<not> c_handshakeDone (conns w i)"
    and pending: "cm_pendingPackets (w_cm w) < 6" and id: "nodeId w \<noteq> NODE_ID_HOPS_BASE + 2"
  shows "\<exists>f. f 0 = w \<and> (\<forall>n. flood_step deliver E m (f n) = Some (f (Suc n)) \<and> cm_pendingPackets (w_cm (f n)) < 6)"
proof (intro exI conjI allI)
  let ?f = "\<lambda>n. w_mstate_update (\<lambda>s. s\<lparr>dm_packetsOut := dm_packetsOut s + of_nat n\<rparr>) w"
  show "?f 0 = w" by simp
  fix n
  show "cm_pendingPackets (w_cm (?f n)) < 6" using pending by simp
  have idle: "SendMessageOverConnections E None d k r v = Some v" if "w_cm v = w_cm w" for d k r v
    using that none
    by (simp add: SendMessageOverConnections_def QueueOverConnections_def fillTransmitBuffers_idle)
  have "send_module_message deliver E ((module_message t s (NODE_ID_HOPS_BASE + 2) mid a h)(module_data := 1)) k r v = Some v"
    if "w_cm v = w_cm w" "w_node v = w_node w" for t s mid a h k r v
    using idle [OF that(1)] id that(2)
    by (simp add: send_module_message_def SendMessageToReceiver_def module_message_def message_header_def
        module_data_def config_defs)
  then show "flood_step deliver E m (?f n) = Some (?f (Suc n))"
    by (simp add: flood_step_def Let_def add.commute add.left_commute)
qed

definition debug_module :: Module where
  "debug_module = \<lparr>m_kind = DebugModule, m_moduleId = DEBUG_MODULE_ID,
     m_configuration = Debug_default_config DEBUG_MODULE_ID (\<lambda>_. 0),
     m_configurationLength = 20, m_storageSlot = 1\<rparr>"

lemma flood_never_ends_witness:
  "\<exists>f. f 0 = zero_world \<and>
     (\<forall>n. flood_step (messageReceivedCallback 2 quiet_env) quiet_env debug_module (f n) = Some (f (Suc n)) \<and>
     cm_pendingPackets (w_cm (f n)) < 6)"
  by (rule flood_never_ends)
    (simp_all add: zero_world_conns zero_world_def new_ConnectionManager_def zero_node_def
      zero_nodeConfiguration_def config_defs new_Connection_def Connection_Init_def zero_connection_def)

section \<open>Examples\<close>

definition status_module :: Module where
  "status_module = \<lparr>m_kind = StatusReporterModule, m_moduleId = STATUS_REPORTER_MODULE_ID,
     m_configuration = Status_default_config STATUS_REPORTER_MODULE_ID (\<lambda>_. 0),
     m_configurationLength = 12, m_storageSlot = 2\<rparr>"

definition module_world :: world where
  "module_world = zero_world\<lparr>w_modules := [1 \<mapsto> status_module]\<rparr>"

definition set_config_packet :: connectionPacket where
  "set_config_packet = \<lparr>cp_connectionHandle = 0, cp_reliable = True,
     cp_data = store_bytes (module_message MESSAGE_TYPE_MODULE_CONFIG 1 1 STATUS_REPORTER_MODULE_ID SET_CONFIG (\<lambda>_. 0))
        module_data [9, 9, 1, 1, 100, 0, 200, 0, 3, 3, 0, 0],
     cp_dataLength = 22\<rparr>"

lemma config_response_self:
  assumes "get_sender data = nodeId w" "a \<in> {SET_CONFIG_RESULT, SET_ACTIVE_RESULT, CONFIG}"
    "nodeId w \<noteq> NODE_ID_SHORTEST_SINK"
  shows "config_response (messageReceivedCallback (Suc fuel) E) E m data a xs w = Some w"
proof -
  let ?d = "store_bytes ((module_message MESSAGE_TYPE_MODULE_CONFIG (nodeId w) (get_sender data) (m_moduleId m) a
          (e_stack E (w_trace w)))(9 := mp_requestHandle (read_module data))) module_data xs"
  have t: "get_messageType ?d = MESSAGE_TYPE_MODULE_CONFIG" by (simp add: module_data_def message_type_defs)
  have "\<not> is_request ?d"
    using assms(2) by (intro not_request_config) (auto simp: module_data_def message_type_defs)
  then have "messageReceivedCallback (Suc fuel) E \<lparr>cp_connectionHandle = 0, cp_reliable = False, cp_data = ?d,
      cp_dataLength = n\<rparr> v = Some v" for n v
    using t answer_ignored by simp
  moreover have "get_receiver ?d = nodeId w"
    using assms(1) by (simp add: module_data_def module_message_def message_header_def)
  ultimately show ?thesis
    using assms(3) by (simp add: config_response_def send_module_message_def SendMessageToReceiver_def)
qed


lemma set_config_loses_last_byte_witness:
  "received_config status_module (received (store_bytes (\<lambda>_. 0) module_data (bytes_at (\<lambda>_. 5) 0 12))
     (SIZEOF_CONN_PACKET_MODULE + 12) (\<lambda>_. 77)) 11 = 77"
  using set_config_loses_last_byte [of 12 status_module _ "\<lambda>_. 0" "\<lambda>_. 5" "\<lambda>_. 77"]
  by (simp add: status_module_def)

end
