(* ===== verification/Bookkeeping.thy ===== *)
theory Bookkeeping
  imports Handshake SendingFrame
begin

text \<open>
  The connection manager's bookkeeping: which connections are taken, how many are free, and which
  one is being set up. The discovery state machine touches the connections only when it starts to
  connect as a master; the locales \<open>quiet_property\<close> and \<open>connection_property\<close> state that interface once, for
  every property that does not look at the node.
\<close>

section \<open>What the discovery state machine does to connections\<close>

lemma ChangeState_plain:
  assumes "ChangeState E s w = Some w'" "n_currentDiscoveryState (w_node w) \<noteq> s \<and> \<not> n_stateMachineDisabled (w_node w)"
    "s \<noteq> DISCOVERY" "s \<noteq> DECIDING" "s \<noteq> BACK_OFF"
  shows "\<exists>v. inform_modules E s v = Some w' \<and>
     (v = upd_node (\<lambda>n. n\<lparr>n_currentDiscoveryState := s\<rparr>) w \<or>
      (\<exists>a t u x y. radio_state E a t (upd_node (\<lambda>n. n\<lparr>n_currentDiscoveryState := s\<rparr>) w) = Some u \<and> v = enter x y u))"
  using assms(1) [unfolded ChangeState.simps [of E s w]] assms(2-)
  by (cases s) (simp_all del: fun_upd_apply, blast+)

text \<open>What the state machine leaves of the node: the cluster, the configuration, the lights.\<close>

definition node_same :: "Node \<Rightarrow> Node \<Rightarrow> bool" where
  "node_same n n' \<longleftrightarrow> n_clusterId n' = n_clusterId n \<and> n_clusterSize n' = n_clusterSize n \<and>
     n_persistentConfig n' = n_persistentConfig n \<and> n_globalTime n' = n_globalTime n \<and>
     n_inFeignHandshakeMode n' = n_inFeignHandshakeMode n"

locale quiet_property =
  fixes P :: "world \<Rightarrow> bool" and E :: env
  assumes radio: "P v \<Longrightarrow> radio_only v v' \<Longrightarrow> P v'"
    and node: "P v \<Longrightarrow> (\<And>n. node_same n (nf n)) \<Longrightarrow> P (upd_node nf v)"
begin

lemma join_me:
  assumes "UpdateJoinMePacket E a v = Some v'" "P v" shows "P v'"
proof -
  have "P (upd_node (\<lambda>n. n\<lparr>n_ackFieldDebugCopy := x\<rparr>) v)" for x
    by (rule node [OF assms(2)]) (simp add: node_same_def)
  then show ?thesis using assms
    by (cases a) (auto simp: UpdateJoinMePacket_def Let_def intro: radio dest!: radio_only_UpdateAdvertisingData)
qed

lemma enter: "P v \<Longrightarrow> P (enter t s v)"
  unfolding enter_def by (erule node) (simp add: node_same_def)

lemma leaf:
  assumes run: "ChangeState E s w = Some w'" and s: "s \<noteq> DISCOVERY" "s \<noteq> DECIDING" and P: "P w"
  shows "P w'"
proof (cases "n_currentDiscoveryState (w_node w) = s \<or> n_stateMachineDisabled (w_node w)")
  case True
  then show ?thesis using run P by (simp add: ChangeState_idle)
next
  case go: False
  let ?w = "upd_node (\<lambda>n. n\<lparr>n_currentDiscoveryState := s\<rparr>) w"
  have w: "P ?w" by (rule node [OF P]) (simp add: node_same_def)
  have rs: "P v" if "radio_state E a t ?w = Some v" for a t v
    by (rule radio [OF w radio_only_radio_state [OF that]])
  have im: "P v'" if "inform_modules E t v = Some v'" "P v" for t v v'
    by (rule radio [OF that(2) radio_only_inform_modules [OF that(1)]])
  have gr: "P (fst (GetRandomInteger E v))" if "P v" for v
    using radio [OF that] GetRandomInteger_frame(1) [of E v] by (metis prod.collapse)
  show ?thesis
  proof (cases "s = BACK_OFF")
    case True
    then obtain v where v: "radio_state E ADV_STATE_OFF SCAN_STATE_OFF ?w = Some v"
      and i: "inform_modules E BACK_OFF (enter (Some (snd (GetRandomInteger E v) mod ucast (meshStateTimeoutBackOff Config)
          + ucast (meshStateTimeoutBackOffVariance Config))) DISCOVERY (fst (GetRandomInteger E v))) = Some w'"
      using run go by (subst (asm) ChangeState.simps) (auto simp: case_prod_beta)
    show ?thesis by (rule im [OF i enter [OF gr [OF rs [OF v]]]])
  next
    case False
    from ChangeState_plain [OF run go [simplified] s False]
    have "\<exists>v. P v \<and> inform_modules E s v = Some w'"
      using w enter rs by blast
    then show ?thesis using im by blast
  qed
qed

lemma discovery:
  assumes run: "ChangeState E DISCOVERY w = Some w'" and P: "P w" shows "P w'"
proof (cases "n_currentDiscoveryState (w_node w) = DISCOVERY \<or> n_stateMachineDisabled (w_node w)")
  case True
  then show ?thesis using run P by (simp add: ChangeState_idle)
next
  case go: False
  let ?w = "enter None INVALID_STATE (upd_node (\<lambda>n. n\<lparr>n_currentDiscoveryState := DISCOVERY\<rparr>) w)"
  obtain v u t where v: "t \<in> {DISCOVERY_HIGH, DISCOVERY_LOW}" "ChangeState E t ?w = Some v"
    and u: "ChangeState E DISCOVERY_HIGH v = Some u" and w': "inform_modules E DISCOVERY u = Some w'"
    using run go by (subst (asm) ChangeState.simps) (auto split: if_splits)
  have "P ?w" by (rule enter, rule node [OF P]) (simp add: node_same_def)
  then have "P v" using v by (auto intro: leaf)
  then have "P u" using u by (auto intro: leaf)
  then show ?thesis using radio radio_only_inform_modules [OF w'] by blast
qed

end

text \<open>Only deciding on a cluster starts to connect.\<close>

locale connection_property = quiet_property +
  assumes master: "P v \<Longrightarrow> ConnectAsMaster E a h v = Some (v', r) \<Longrightarrow> P v'"
begin

lemma determine:
  assumes "DetermineBestClusterAvailable E v = Some (v', d)" "P v" shows "P v'"
proof -
  have clean: "P (clean_joinMe u)" if "P u" for u unfolding clean_joinMe_def by (rule node [OF that]) (simp add: node_same_def)
  show ?thesis
    using assms
    by (auto simp: DetermineBestClusterAvailable_def split: if_splits option.splits prod.splits
        intro!: clean intro: master join_me radio dest: radio_only_DisconnectOtherConnections)
qed

lemma change_state:
  assumes run: "ChangeState E s w = Some w'" and P: "P w" shows "P w'"
proof -
  consider "s = DISCOVERY" | "s \<noteq> DISCOVERY" "s \<noteq> DECIDING" | (deciding) "s = DECIDING" by blast
  then show ?thesis
  proof cases
    case deciding
    show ?thesis
    proof (cases "n_currentDiscoveryState (w_node w) = s \<or> n_stateMachineDisabled (w_node w)")
      case True
      then show ?thesis using run P by (simp add: ChangeState_idle)
    next
      case go: False
      let ?w = "upd_node (\<lambda>n. n\<lparr>n_currentDiscoveryState := DECIDING\<rparr>) w"
      obtain v u d x where v: "radio_state E ADV_STATE_OFF SCAN_STATE_OFF ?w = Some v"
        and d: "DetermineBestClusterAvailable E v = Some (u, d)"
        and x: "(case d of
             DECISION_NO_NODES_FOUND \<Rightarrow> ChangeState E BACK_OFF
               (upd_node (\<lambda>n. n\<lparr>n_noNodesFoundCounter := (if n_noNodesFoundCounter n < 100
                  then n_noNodesFoundCounter n + 1 else n_noNodesFoundCounter n)\<rparr>) (enter None INVALID_STATE u))
           | DECISION_CONNECT_AS_MASTER \<Rightarrow> map_option (upd_node (\<lambda>n. n\<lparr>n_noNodesFoundCounter := 0\<rparr>))
               (ChangeState E CONNECTING (enter None INVALID_STATE u))
           | DECISION_CONNECT_AS_SLAVE \<Rightarrow> ChangeState E DISCOVERY
               (upd_node (\<lambda>n. n\<lparr>n_noNodesFoundCounter := 0\<rparr>) (enter None INVALID_STATE u))) = Some x"
        and i: "inform_modules E DECIDING x = Some w'"
        using run go deciding by (subst (asm) ChangeState.simps) auto
      have "P ?w" by (rule node [OF P]) (simp add: node_same_def)
      then have "P u" using determine [OF d] radio [OF _ radio_only_radio_state [OF v]] by blast
      then have "P x" using x
        by (cases d) (auto intro: leaf discovery enter intro!: node simp: node_same_def)
      then show ?thesis using radio radio_only_inform_modules [OF i] by blast
    qed
  qed (use assms in \<open>auto intro: leaf discovery\<close>)
qed

end

end
