(* ===== verification/Events.thy ===== *)
theory Events
  imports ModuleHandlers
begin

text \<open>
  The node as a whole: how events of the SoftDevice reach the controllers and the modules
  (\<open>bleDispatchEventHandler\<close> in \<^verbatim>\<open>Main.cpp\<close>, the event handlers of \<^verbatim>\<open>GAPController.cpp\<close>,
  \<^verbatim>\<open>ScanController.cpp\<close> and \<^verbatim>\<open>GATTController.cpp\<close>), the timer, the end of storage operations,
  and the start of the node.
\<close>

section \<open>Events\<close>

text \<open>Of a discovered characteristic the handler looks at the UUID, its type and the value handle.\<close>

datatype timeout_src = BLE_GAP_TIMEOUT_SRC_CONN | BLE_GAP_TIMEOUT_SRC_SCAN | TIMEOUT_SRC_OTHER

datatype ble_evt =
  BLE_GAP_EVT_CONNECTED u16 gap_role
| BLE_GAP_EVT_DISCONNECTED u16 u8
| BLE_GAP_EVT_TIMEOUT timeout_src
| BLE_GAP_EVT_SEC_INFO_REQUEST u16
| BLE_GAP_EVT_CONN_SEC_UPDATE u16
| BLE_GAP_EVT_RSSI_CHANGED u16 i8
| BLE_GAP_EVT_ADV_REPORT adv_report
| BLE_GATTS_EVT_WRITE u16 mem u16 bool
| BLE_GATTS_EVT_SYS_ATTR_MISSING u16
| BLE_EVT_TX_COMPLETE u16 u8
| BLE_GATTC_EVT_PRIM_SRVC_DISC_RSP u16 u16
| BLE_GATTC_EVT_CHAR_DISC_RSP u16 "(u16 \<times> u8 \<times> u16) list"
| BLE_GATTC_EVT_WRITE_RSP u16 bool
| BLE_GATTC_EVT_TIMEOUT u16
| BLE_EVT_OTHER u16

definition MESH_SERVICE_CHARACTERISTIC_UUID :: u16 where "MESH_SERVICE_CHARACTERISTIC_UUID = 0x1524"

section \<open>The controllers\<close>

definition bleConnectionEventHandler :: "env \<Rightarrow> ble_evt \<Rightarrow> world \<Rightarrow> world option" where
  "bleConnectionEventHandler E ev w =
     (case ev of
        BLE_GAP_EVT_CONNECTED handle role \<Rightarrow>
          let w = w\<lparr>w_currentlyConnecting := False\<rparr>;
              w = (if role = BLE_GAP_ROLE_PERIPH
                   then AdvertisingInterruptedBecauseOfIncomingConnectionHandler w else w)
          in cm_ConnectionSuccessfulHandler E role handle w
      | BLE_GAP_EVT_DISCONNECTED handle reason \<Rightarrow> cm_DisconnectionHandler E handle reason w
      | BLE_GAP_EVT_TIMEOUT src \<Rightarrow>
          if src = BLE_GAP_TIMEOUT_SRC_CONN
          then cm_ConnectionTimeoutHandler E (w\<lparr>w_currentlyConnecting := False\<rparr>) else Some w
      | BLE_GAP_EVT_SEC_INFO_REQUEST handle \<Rightarrow>
          checked E (Sec_info_reply handle (take 16 (pc_networkKey (pconf w)))) w
      | BLE_GAP_EVT_CONN_SEC_UPDATE handle \<Rightarrow> ConnectionEncryptedHandler E handle w
      | _ \<Rightarrow> Some w)"

definition ScanEventHandler :: "env \<Rightarrow> ble_evt \<Rightarrow> world \<Rightarrow> world option" where
  "ScanEventHandler E ev w =
     (case ev of
        BLE_GAP_EVT_ADV_REPORT r \<Rightarrow> Some (if mesh_packet r w then AdvertisementMessageHandler r w else w)
      | BLE_GAP_EVT_CONNECTED handle role \<Rightarrow> SetScanState E SCAN_STATE_HIGH w
      | _ \<Rightarrow> Some w)"

definition bleCharacteristicDiscoveryFinishedHandler ::
    "env \<Rightarrow> u16 \<Rightarrow> (u16 \<times> u8 \<times> u16) list \<Rightarrow> world \<Rightarrow> world option" where
  "bleCharacteristicDiscoveryFinishedHandler E handle chars w =
     (case chars of
        (uuid, uuidType, valueHandle) # _ \<Rightarrow>
          if uuid = MESH_SERVICE_CHARACTERISTIC_UUID \<and> uuidType = ms_serviceUuidType (w_meshService w)
          then handleDiscoveredCallback E handle valueHandle w else Some w
      | [] \<Rightarrow> Some w)"

definition bleMeshServiceEventHandler :: "delivery \<Rightarrow> env \<Rightarrow> ble_evt \<Rightarrow> world \<Rightarrow> world option" where
  "bleMeshServiceEventHandler deliver E ev w =
     (case ev of
        BLE_GAP_EVT_CONNECTED handle role \<Rightarrow> Some (meshServiceConnectHandler handle w)
      | BLE_GAP_EVT_DISCONNECTED handle reason \<Rightarrow> Some (meshServiceDisconnectHandler E w)
      | BLE_GATTS_EVT_WRITE handle data len write_cmd \<Rightarrow>
          cm_messageReceivedCallback deliver E handle data len write_cmd w
      | BLE_GATTS_EVT_SYS_ATTR_MISSING handle \<Rightarrow> attributeMissingHandler E handle w
      | BLE_EVT_TX_COMPLETE handle count \<Rightarrow> dataTransmitted_TX_COMPLETE E handle count w
      | BLE_GATTC_EVT_PRIM_SRVC_DISC_RSP handle count \<Rightarrow> bleServiceDiscoveryFinishedHandler E handle count w
      | BLE_GATTC_EVT_CHAR_DISC_RSP handle chars \<Rightarrow> bleCharacteristicDiscoveryFinishedHandler E handle chars w
      | BLE_GATTC_EVT_WRITE_RSP handle success \<Rightarrow> dataTransmitted_WRITE_RSP E handle success w
      | _ \<Rightarrow> Some w)"

section \<open>The modules\<close>

definition module_ble_event :: "delivery \<Rightarrow> env \<Rightarrow> ble_evt \<Rightarrow> Module \<Rightarrow> world \<Rightarrow> world option" where
  "module_ble_event deliver E ev m w =
     (case (m_kind m, ev) of
        (StatusReporterModule, BLE_GAP_EVT_RSSI_CHANGED handle rssi) \<Rightarrow> Status_RssiChanged handle rssi w
      | (ScanningModule, BLE_GAP_EVT_ADV_REPORT r) \<Rightarrow> Scanning_AdvReport deliver E m r w
      | _ \<Rightarrow> Some w)"

definition module_timer_event :: "delivery \<Rightarrow> env \<Rightarrow> u32 \<Rightarrow> Module \<Rightarrow> world \<Rightarrow> world option" where
  "module_timer_event deliver E appTimer m w =
     (case m_kind m of
        DebugModule \<Rightarrow> Debug_TimerEventHandler deliver E m appTimer w
      | StatusReporterModule \<Rightarrow> Status_TimerEventHandler deliver E m w
      | ScanningModule \<Rightarrow> Scanning_TimerEventHandler deliver E m w
      | _ \<Rightarrow> Some w)"

text \<open>Only active modules hear of an event.\<close>

definition active_modules :: "(Module \<Rightarrow> world \<Rightarrow> world option) \<Rightarrow> world \<Rightarrow> world option" where
  "active_modules f =
     each (\<lambda>k w. case w_modules w k of None \<Rightarrow> Some w
           | Some m \<Rightarrow> if module_active m then f m w else Some w) [0..<MAX_MODULE_COUNT]"

section \<open>The main loop\<close>

definition delivering :: "env \<Rightarrow> delivery" where
  "delivering = messageReceivedCallback 2"

definition bleDispatchEventHandler :: "env \<Rightarrow> ble_evt \<Rightarrow> world \<Rightarrow> world option" where
  "bleDispatchEventHandler E ev w = do {
     w \<leftarrow> bleConnectionEventHandler E ev w;
     w \<leftarrow> ScanEventHandler E ev w;
     w \<leftarrow> bleMeshServiceEventHandler (delivering E) E ev w;
     active_modules (module_ble_event (delivering E) E ev) w
   }"

definition ble_timer_dispatch :: "world \<Rightarrow> world" where
  "ble_timer_dispatch = upd_node (\<lambda>n. n\<lparr>n_passsedTimeSinceLastTimerHandler :=
     n_passsedTimeSinceLastTimerHandler n + ucast (mainTimerTickMs Config)\<rparr>)"

definition timerEventDispatch :: "env \<Rightarrow> u16 \<Rightarrow> u32 \<Rightarrow> world \<Rightarrow> world option" where
  "timerEventDispatch E passedTime appTimer = active_modules (module_timer_event (delivering E) E appTimer)"

text \<open>What the main loop does when there are no more events: time that passed is handled.\<close>

definition no_more_events :: "env \<Rightarrow> world \<Rightarrow> world option" where
  "no_more_events E w =
     (let passed = n_passsedTimeSinceLastTimerHandler (w_node w)
      in if passed > 0 then do {
           w \<leftarrow> Node_TimerTickHandler E passed w;
           w \<leftarrow> timerEventDispatch E (n_passsedTimeSinceLastTimerHandler (w_node w)) (n_appTimerMs (w_node w)) w;
           Some (upd_node (\<lambda>n. n\<lparr>n_passsedTimeSinceLastTimerHandler := 0\<rparr>) w)
         }
         else Some w)"

section \<open>The end of a storage operation\<close>

text \<open>Before it reports a finished load, the flash library has written what it read to where the
  task points.\<close>

datatype flash_content = Nothing_loaded | Loaded_node NodeConfiguration | Loaded_module nat mem

definition load_content :: "flash_content \<Rightarrow> world \<Rightarrow> world" where
  "load_content c w =
     (case c of Nothing_loaded \<Rightarrow> w | Loaded_node p \<Rightarrow> upd_conf (\<lambda>_. p) w | Loaded_module k m \<Rightarrow> upd_config k (\<lambda>_. m) w)"

definition configuration_loaded :: "env \<Rightarrow> u8 \<Rightarrow> storage_ref \<Rightarrow> world \<Rightarrow> world option" where
  "configuration_loaded E static r w =
     (case r of NODE_CONFIG \<Rightarrow> Node_ConfigurationLoadedHandler E static w
      | MODULE_CONFIG k \<Rightarrow> Some (Module_ConfigurationLoadedHandler E k w))"

section \<open>Starting the node\<close>

text \<open>The pins of the LEDs, the buzzer and the relay, and whether they are inverted, are constants of
  the board the firmware is built for.\<close>

record board =
  BSP_LED_0 :: nat
  BSP_LED_1 :: nat
  BSP_LED_2 :: nat
  GPIO_BUZZER :: nat
  GPIO_RELAY :: nat
  INVERT_LEDS :: bool
  INVERT_GPIOS :: bool

definition reset_Node :: "board \<Rightarrow> Node \<Rightarrow> Node" where
  "reset_Node bd n = n\<lparr>n_ackFieldDebugCopy := 0, n_clusterId := 0, n_clusterSize := 1, n_noNodesFoundCounter := 0,
     n_passsedTimeSinceLastTimerHandler := 0, n_globalTimeSetAt := 0, n_globalTime := 0,
     n_currentStateTimeoutMs := 0, n_currentDiscoveryState := BOOTUP, n_nextDiscoveryState := INVALID_STATE,
     n_appTimerMs := 0, n_LedRed := led_init (BSP_LED_0 bd) (INVERT_LEDS bd),
     n_LedGreen := led_init (BSP_LED_1 bd) (INVERT_LEDS bd), n_LedBlue := led_init (BSP_LED_2 bd) (INVERT_LEDS bd),
     n_Buzzer := led_init (GPIO_BUZZER bd) (INVERT_GPIOS bd), n_Relay := led_init (GPIO_RELAY bd) (INVERT_GPIOS bd),
     n_inFeignHandshakeMode := False, n_ledBlinkPosition := 0, n_currentLedMode := LED_MODE_CONNECTIONS,
     n_stateMachineDisabled := False\<rparr>"

definition the_modules :: "(moduleKind \<times> u16 \<times> u16) list" where
  "the_modules = [(DebugModule, DEBUG_MODULE_ID, 1), (StatusReporterModule, STATUS_REPORTER_MODULE_ID, 2),
     (AdvertisingModule, ADVERTISING_MODULE_ID, 3), (ScanningModule, SCANNING_MODULE_ID, 4),
     (EnrollmentModule, ENROLLMENT_MODULE_ID, 5), (LightToggleModule, LIGHT_TOGGLE_MODULE_ID, 6)]"

text \<open>\<open>raw k\<close> is the memory the module at index \<open>k\<close> is created in, \<open>txBuffersPerLink\<close> what the
  SoftDevice answers to \<open>sd_ble_tx_buffer_count_get\<close>.\<close>

definition new_Node :: "env \<Rightarrow> board \<Rightarrow> u8 \<Rightarrow> (nat \<Rightarrow> mem) \<Rightarrow> u8 \<Rightarrow> world \<Rightarrow> world option" where
  "new_Node E bd txBuffersPerLink raw static w =
     (let w = leds_off (upd_node (reset_Node bd) (w\<lparr>w_modules := \<lambda>_. None\<rparr>));
          w = w\<lparr>w_cm := new_ConnectionManager E txBuffersPerLink (conns w)\<rparr>
      in do {
        w \<leftarrow> each (\<lambda>(k, kind, moduleId, slot). new_Module E kind moduleId slot k (raw k))
               (enumerate 0 the_modules) w;
        w \<leftarrow> Some (upd_node (\<lambda>n. n\<lparr>n_isGatewayDevice := IS_GATEWAY_DEVICE,
               n_joinMePacketBuffer := sb_init (sb_mem (n_joinMePacketBuffer n)) 360 36\<rparr>) w);
        if ignorePersistentNodeConfigurationOnBoot Config
        then Node_ConfigurationLoadedHandler E static (upd_conf (\<lambda>p. p\<lparr>pc_version := 0xFFFFFFFF\<rparr>) w)
        else QueuedRead E NODE_CONFIG (e_sizeof_NodeConfiguration E) 0 w
      })"

section \<open>Everything that can happen to a node\<close>

datatype node_event =
  Ble ble_evt
| No_more_events
| Timer
| Flash_event pstorage_op bool flash_content
| Button bool bool

definition node_step :: "env \<Rightarrow> u8 \<Rightarrow> node_event \<Rightarrow> world \<Rightarrow> world option" where
  "node_step E static ev w =
     (case ev of
        Ble b \<Rightarrow> bleDispatchEventHandler E b w
      | No_more_events \<Rightarrow> no_more_events E w
      | Timer \<Rightarrow> Some (ble_timer_dispatch w)
      | Flash_event opCode success c \<Rightarrow>
          PstorageEventHandler (configuration_loaded E static) E opCode success (load_content c w)
      | Button push button1 \<Rightarrow> button_handler (delivering E) E push button1 w)"

definition node_run :: "env \<Rightarrow> u8 \<Rightarrow> node_event list \<Rightarrow> world \<Rightarrow> world option" where
  "node_run E static = each (node_step E static)"

end
