(* ===== verification/NodeFrame.thy ===== *)
theory NodeFrame
  imports Bookkeeping Events
begin

text \<open>
  Properties of the whole node that survive everything a node does between two events of the radio:
  the locale \<open>node_property\<close> lists what such a property has to bear, and its lemmas carry it through
  the handlers of packets, of timers, of the modules and of the loading of configurations. A result
  \<^term>\<open>None\<close> is a reset, after which nothing is claimed.
\<close>

section \<open>Properties of what an operation leaves\<close>

named_theorems keeps

lemma pred_optionI: "(\<And>v. x = Some v \<Longrightarrow> P v) \<Longrightarrow> pred_option P x"
  by (cases x) simp_all

lemma pred_optionD: "pred_option P x \<Longrightarrow> x = Some v \<Longrightarrow> P v"
  by simp

lemma keeps_Some: "P v \<Longrightarrow> pred_option P (Some v)"
  by simp

lemma keeps_None: "pred_option P None"
  by simp

lemma keeps_bind:
  "pred_option Q x \<Longrightarrow> (\<And>v. Q v \<Longrightarrow> pred_option P (f v)) \<Longrightarrow> pred_option P (Option.bind x f)"
  by (cases x) simp_all

lemma keeps_map:
  "pred_option Q x \<Longrightarrow> (\<And>v. Q v \<Longrightarrow> P (f v)) \<Longrightarrow> pred_option P (map_option f x)"
  by (cases x) simp_all

lemma keeps_each:
  assumes "P w" "\<And>x v. P v \<Longrightarrow> pred_option P (f x v)" shows "pred_option P (each f xs w)"
  by (rule pred_optionI) (rule each_invariant, assumption, rule assms(1), rule pred_optionD [OF assms(2)])

lemma keeps_if: "(b \<Longrightarrow> P x) \<Longrightarrow> (\<not> b \<Longrightarrow> P y) \<Longrightarrow> P (if b then x else y)"
  by simp

lemma keeps_option: "(x = None \<Longrightarrow> P a) \<Longrightarrow> (\<And>y. x = Some y \<Longrightarrow> P (f y)) \<Longrightarrow> P (case x of None \<Rightarrow> a | Some y \<Rightarrow> f y)"
  by (cases x) simp_all

lemma keeps_prod: "(\<And>a b. x = (a, b) \<Longrightarrow> P (f a b)) \<Longrightarrow> P (case x of (a, b) \<Rightarrow> f a b)"
  by (cases x) simp

lemma load_content_frame [simp]:
  "w_cm (load_content c w) = w_cm w" "w_taskQueue (load_content c w) = w_taskQueue w"
  "w_bufferedOperationInProgress (load_content c w) = w_bufferedOperationInProgress w"
  by (cases c; simp add: load_content_def upd_conf_def upd_config_def upd_module_def)+

section \<open>The interface\<close>

definition link_same :: "Connection \<Rightarrow> Connection \<Rightarrow> bool" where
  "link_same c c' \<longleftrightarrow> c_isConnected c' = c_isConnected c \<and> c_direction c' = c_direction c \<and>
     c_connectionId c' = c_connectionId c"

text \<open>The arrays of the persistent configuration have the sizes they are declared with, a module has
  the id and the length of the configuration of its class.\<close>

definition conf_typed :: "NodeConfiguration \<Rightarrow> bool" where
  "conf_typed c \<longleftrightarrow> length (pc_serialNumber c) = SERIAL_NUMBER_LENGTH + 1 \<and> length (pc_networkKey c) = 16 \<and>
     length (pc_retryStorage c) = MAX_RETRY_STORAGE_SIZE \<and> length (pc_timeStorage c) = MAX_RETRY_STORAGE_SIZE"

definition class_of :: "moduleKind \<Rightarrow> u16 \<times> u16" where
  "class_of kind = (case kind of
       DebugModule \<Rightarrow> (DEBUG_MODULE_ID, 20) | StatusReporterModule \<Rightarrow> (STATUS_REPORTER_MODULE_ID, 12)
     | AdvertisingModule \<Rightarrow> (ADVERTISING_MODULE_ID, 40) | ScanningModule \<Rightarrow> (SCANNING_MODULE_ID, 6)
     | EnrollmentModule \<Rightarrow> (ENROLLMENT_MODULE_ID, 8) | LightToggleModule \<Rightarrow> (LIGHT_TOGGLE_MODULE_ID, 0))"

definition module_typed :: "Module \<Rightarrow> bool" where
  "module_typed m \<longleftrightarrow> (m_moduleId m, m_configurationLength m) = class_of (m_kind m)"

definition node_shape :: "Node \<Rightarrow> Node \<Rightarrow> bool" where
  "node_shape n n' \<longleftrightarrow> (conf_typed (n_persistentConfig n) \<longrightarrow> conf_typed (n_persistentConfig n'))"

definition module_shape :: "Module \<Rightarrow> Module \<Rightarrow> bool" where
  "module_shape m m' \<longleftrightarrow> (module_typed m \<longrightarrow> module_typed m')"

lemma node_shape_same [keeps]: "node_shape n n"
  by (simp add: node_shape_def)

lemma node_shape_upd [keeps]:
  "node_shape n n' \<Longrightarrow> node_shape n (n'\<lparr>n_ackFieldDebugCopy := a\<rparr>)"
  "node_shape n n' \<Longrightarrow> node_shape n (n'\<lparr>n_stateMachineDisabled := b\<rparr>)"
  "node_shape n n' \<Longrightarrow> node_shape n (n'\<lparr>n_isGatewayDevice := b\<rparr>)"
  "node_shape n n' \<Longrightarrow> node_shape n (n'\<lparr>n_inFeignHandshakeMode := b\<rparr>)"
  "node_shape n n' \<Longrightarrow> node_shape n (n'\<lparr>n_joinMePacketBuffer := sb\<rparr>)"
  "node_shape n n' \<Longrightarrow> node_shape n (n'\<lparr>n_joinMeSlots := js\<rparr>)"
  "node_shape n n' \<Longrightarrow> node_shape n (n'\<lparr>n_globalTime := t\<rparr>)"
  "node_shape n n' \<Longrightarrow> node_shape n (n'\<lparr>n_globalTimeSetAt := t'\<rparr>)"
  "node_shape n n' \<Longrightarrow> node_shape n (n'\<lparr>n_passsedTimeSinceLastTimerHandler := a\<rparr>)"
  "node_shape n n' \<Longrightarrow> node_shape n (n'\<lparr>n_currentStateTimeoutMs := i\<rparr>)"
  "node_shape n n' \<Longrightarrow> node_shape n (n'\<lparr>n_appTimerMs := t'\<rparr>)"
  "node_shape n n' \<Longrightarrow> node_shape n (n'\<lparr>n_noNodesFoundCounter := c\<rparr>)"
  "node_shape n n' \<Longrightarrow> node_shape n (n'\<lparr>n_clusterSize := a\<rparr>)"
  "node_shape n n' \<Longrightarrow> node_shape n (n'\<lparr>n_clusterId := t'\<rparr>)"
  "node_shape n n' \<Longrightarrow> node_shape n (n'\<lparr>n_ledBlinkPosition := c\<rparr>)"
  "node_shape n n' \<Longrightarrow> node_shape n (n'\<lparr>n_currentLedMode := l\<rparr>)"
  "(conf_typed (n_persistentConfig n) \<Longrightarrow> conf_typed p) \<Longrightarrow> node_shape n (n\<lparr>n_persistentConfig := p\<rparr>)"
  by (simp_all add: node_shape_def)

lemma conf_typed_upd [keeps]:
  "conf_typed p \<Longrightarrow> conf_typed (p\<lparr>pc_version := x\<rparr>)"
  "conf_typed p \<Longrightarrow> conf_typed (p\<lparr>pc_nodeAddress := ad\<rparr>)"
  "conf_typed p \<Longrightarrow> conf_typed (p\<lparr>pc_networkId := y\<rparr>)"
  "conf_typed p \<Longrightarrow> conf_typed (p\<lparr>pc_nodeId := y\<rparr>)"
  "conf_typed p \<Longrightarrow> conf_typed (p\<lparr>pc_manufacturerId := y\<rparr>)"
  "conf_typed p \<Longrightarrow> conf_typed (p\<lparr>pc_connectionLossCounter := y\<rparr>)"
  "conf_typed p \<Longrightarrow> conf_typed (p\<lparr>pc_deviceType := d\<rparr>)"
  "conf_typed p \<Longrightarrow> conf_typed (p\<lparr>pc_dBmTX := z\<rparr>)"
  "conf_typed p \<Longrightarrow> conf_typed (p\<lparr>pc_dBmRX := z\<rparr>)"
  by (simp_all add: conf_typed_def)

lemma module_shape_config [keeps]: "module_shape m (m\<lparr>m_configuration := c\<rparr>)"
  by (simp add: module_shape_def module_typed_def)

locale node_property =
  fixes P :: "world \<Rightarrow> bool" and E :: env
  assumes sending: "P v \<Longrightarrow> sending_only v v' \<Longrightarrow> P v'"
    and node [keeps]: "P v \<Longrightarrow> (\<And>n. node_shape n (nf n)) \<Longrightarrow> P (upd_node nf v)"
    and conn: "P v \<Longrightarrow> (\<And>c. link_same c (cf c)) \<Longrightarrow> P (upd_conn i cf v)"
    and modules [keeps]: "P v \<Longrightarrow> (\<And>m. module_shape m (g m)) \<Longrightarrow> P (upd_module k g v)"
    and add_module: "P v \<Longrightarrow> module_typed m \<Longrightarrow> P (v\<lparr>w_modules := (w_modules v)(k \<mapsto> m)\<rparr>)"
    and mstate [keeps]: "P v \<Longrightarrow> P (w_mstate_update h v)"
    and io: "P v \<Longrightarrow> P (w_gpio_update l v)"
    and master: "P v \<Longrightarrow> ConnectAsMaster E a mh v = Some (v', r) \<Longrightarrow> P v'"

sublocale node_property \<subseteq> link: connection_property P E
proof unfold_locales
  show "P (upd_node nf v)" if "P v" "\<And>n. node_same n (nf n)" for v nf
    using that by (intro node) (simp_all add: node_shape_def node_same_def)
qed (blast intro: sending radio_only_sending_only master)+

context node_property begin

text \<open>Branches, with \<^term>\<open>P\<close> as the only property they are split for.\<close>

lemmas splits [keeps] = keeps_Some [of P] keeps_None [of P] keeps_bind [of P _ P] keeps_map [of P _ P] keeps_each [of P]
  keeps_if [of _ "pred_option P"] keeps_option [of _ "pred_option P"] keeps_prod [of _ "pred_option P"]
  keeps_if [of _ P] keeps_option [of _ P] keeps_prod [of _ P]

lemma keeps_change_state [keeps]: "P v \<Longrightarrow> pred_option P (ChangeState E s v)"
  by (rule pred_optionI) (rule link.change_state)

lemma keeps_radio: "(\<And>v'. x = Some v' \<Longrightarrow> radio_only v v') \<Longrightarrow> P v \<Longrightarrow> pred_option P x"
  by (rule pred_optionI) (blast intro: link.radio)

lemma keeps_sending: "(\<And>v'. x = Some v' \<Longrightarrow> sending_only v v') \<Longrightarrow> P v \<Longrightarrow> pred_option P x"
  by (rule pred_optionI) (blast intro: sending)

lemma keeps_checked [keeps]: "P v \<Longrightarrow> pred_option P (checked E c v)"
  by (rule keeps_radio [of _ v]) (simp_all add: checked_Some radio_only_def)

lemma keeps_join_me [keeps]: "P v \<Longrightarrow> pred_option P (UpdateJoinMePacket E a v)"
  by (rule pred_optionI) (rule link.join_me)

lemma keeps_trace [keeps]: "P v \<Longrightarrow> P (w_trace_update t v)"
  by (erule link.radio) (simp add: radio_only_def)

lemma keeps_adv [keeps]: "P v \<Longrightarrow> P (w_adv_update t v)" "P v \<Longrightarrow> P (w_scan_update s v)"
    "P v \<Longrightarrow> P (w_currentlyConnecting_update u v)"
  by (erule link.radio, simp add: radio_only_def)+

lemma keeps_call [keeps]: "P v \<Longrightarrow> P (fst (call E c v))"
  by (simp add: call_def keeps)

lemma keeps_SendMessage [keeps]: "P v \<Longrightarrow> pred_option P (SendMessage E i d n r v)"
  by (rule keeps_sending) (rule sending_only_SendMessage)

lemma keeps_SendMessageOverConnections [keeps]: "P v \<Longrightarrow> pred_option P (SendMessageOverConnections E i d n r v)"
  by (rule keeps_sending) (rule sending_only_SendMessageOverConnections)

lemma keeps_fill [keeps]: "P v \<Longrightarrow> pred_option P (fillTransmitBuffers E v)"
  by (rule keeps_sending) (rule sending_only_fillTransmitBuffers)

lemma keeps_disconnect_others [keeps]: "P v \<Longrightarrow> pred_option P (DisconnectOtherConnections E i v)"
  by (rule keeps_radio) (rule radio_only_DisconnectOtherConnections)

lemma keeps_disconnect [keeps]: "P v \<Longrightarrow> pred_option P (Connection_Disconnect E i v)"
  unfolding Connection_Disconnect_def disconnectFromPeripheral_def by (rule keeps_checked)

lemma keeps_pending_packets [keeps]: "P v \<Longrightarrow> P (upd_cm (\<lambda>m. m\<lparr>cm_pendingPackets := n m\<rparr>) v)"
  by (erule sending) (simp add: sending_only_def)

lemma keeps_gpio [keeps]: "P v \<Longrightarrow> P (gpio l v)"
  using io [of v "\<lambda>_. l (w_gpio v)"] by (simp add: gpio_def)

lemma keeps_conn [keeps]: "P v \<Longrightarrow> (\<And>c. link_same c (cf c)) \<Longrightarrow> P (upd_conn i cf v)"
  by (rule conn)

lemma keeps_random [keeps]: "P v \<Longrightarrow> P (fst (GetRandomInteger E v))"
  using link.radio GetRandomInteger_frame(1) [of E v] by (metis prod.collapse)

section \<open>Loading a configuration\<close>

lemma keeps_upd_config [keeps]: "P v \<Longrightarrow> P (upd_config k g v)"
  unfolding upd_config_def by (intro keeps)

lemma keeps_ResetToDefault [keeps]: "P v \<Longrightarrow> P (ResetToDefaultConfiguration E k v)"
  unfolding ResetToDefaultConfiguration_def setScanFilter_def Let_def
  by (auto split: option.splits moduleKind.splits intro: keeps)

lemma keeps_ModuleLoaded [keeps]: "P v \<Longrightarrow> P (Module_ConfigurationLoadedHandler E k v)"
  unfolding Module_ConfigurationLoadedHandler_def Let_def by (intro keeps)

lemma keeps_conf [keeps]: "P v \<Longrightarrow> (\<And>p. conf_typed p \<Longrightarrow> conf_typed (f p)) \<Longrightarrow> P (upd_conf f v)"
  unfolding upd_conf_def by (intro keeps)

lemma keeps_initialize [keeps]: "P v \<Longrightarrow> P (adv_Initialize E k v)" "P v \<Longrightarrow> P (scan_Initialize v)"
  unfolding adv_Initialize_def scan_Initialize_def Let_def by (simp_all add: keeps)

lemma keeps_test_device [keeps]: "P v \<Longrightarrow> P (InitWithTestDeviceSettings E static v)"
  unfolding InitWithTestDeviceSettings_def call_def Let_def
  by (auto intro!: keeps split: option.split simp: conf_typed_def)

lemma keeps_node_loaded [keeps]: "P v \<Longrightarrow> pred_option P (Node_ConfigurationLoadedHandler E static v)"
  unfolding Node_ConfigurationLoadedHandler_def Let_def case_prod_beta
  by (intro keeps) (simp_all add: conf_typed_def Config_def)

lemma keeps_loaded [keeps]: "P v \<Longrightarrow> pred_option P (configuration_loaded E static r v)"
  unfolding configuration_loaded_def by (cases r) (simp_all add: keeps keeps_ModuleLoaded)

lemma keeps_load_content:
  "P v \<Longrightarrow> (\<And>p. c = Loaded_node p \<Longrightarrow> conf_typed p) \<Longrightarrow> P (load_content c v)"
  unfolding load_content_def by (cases c) (simp_all add: keeps_conf keeps_upd_config)

section \<open>Packets\<close>

lemma keeps_RSSI [keeps]: "P v \<Longrightarrow> pred_option P (StartConnectionRSSIMeasurement E i v)"
  unfolding StartConnectionRSSIMeasurement_def Let_def
  by (intro keeps) (simp_all add: link_same_def)

lemma keeps_HandshakeDone [keeps]: "P v \<Longrightarrow> pred_option P (HandshakeDoneHandler E i v)"
  unfolding HandshakeDoneHandler_def MeshConnectionChangedHandler_def by (intro keeps)

lemma keeps_StartHandshake [keeps]: "P v \<Longrightarrow> pred_option P (StartHandshake E i v)"
  unfolding StartHandshake_def by (intro keeps)

lemma keeps_info_update [keeps]: "P v \<Longrightarrow> pred_option P (send_clusterInfoUpdate E stack i c n s v)"
  unfolding send_clusterInfoUpdate_def by (intro keeps)

lemma keeps_WELCOME [keeps]: "P v \<Longrightarrow> pred_option P (handle_CLUSTER_WELCOME E i data v)"
  unfolding handle_CLUSTER_WELCOME_def Let_def by (intro keeps) (simp_all add: link_same_def)

lemma keeps_ACK_1 [keeps]: "P v \<Longrightarrow> pred_option P (handle_CLUSTER_ACK_1 E i data v)"
  unfolding handle_CLUSTER_ACK_1_def Let_def by (intro keeps) (simp_all add: link_same_def)

lemma keeps_ACK_2 [keeps]: "P v \<Longrightarrow> pred_option P (handle_CLUSTER_ACK_2 E i data v)"
  unfolding handle_CLUSTER_ACK_2_def Let_def by (intro keeps) (simp_all add: link_same_def)

lemma keeps_UpdateClusterInfo [keeps]: "P v \<Longrightarrow> pred_option P (UpdateClusterInfo E i p v)"
  unfolding UpdateClusterInfo_def by (intro keeps) (simp_all add: link_same_def)

lemma keeps_process_packet [keeps]:
  assumes "\<And>p v. P v \<Longrightarrow> pred_option P (deliver p v)"
  shows "P v \<Longrightarrow> pred_option P (process_packet deliver E i inPacket data n v)"
  unfolding process_packet_def Let_def by (intro keeps assms)

lemma keeps_route: "P v \<Longrightarrow> pred_option (\<lambda>r. P (fst r)) (route_packet E i data n reliable v)"
  unfolding route_packet_def Let_def
  by (auto simp: option.pred_map comp_def split: option.split intro!: keeps_Some
      intro: keeps_SendMessage keeps_SendMessageOverConnections)

end

section \<open>Delivery to the modules\<close>

locale storing_property = node_property +
  assumes task [keeps]: "P v \<Longrightarrow> pred_option P (queue_task E t v)"

locale delivery_property = storing_property +
  fixes deliver :: delivery
  assumes deliver [keeps]: "P v \<Longrightarrow> pred_option P (deliver p v)"
begin

lemma keeps_ReceivePacketHandler [keeps]:
  assumes "P v" shows "pred_option P (ReceivePacketHandler deliver E i inPacket v)"
proof -
  have rest: "pred_option P (do { (w, data) \<leftarrow> route_packet E i data n reliable u;
      process_packet deliver E i inPacket data n w })" if "P u" for data n reliable u
    using keeps_route [OF that, of i data n reliable]
    by (auto intro!: keeps_bind [where Q = "\<lambda>r. P (fst r)"] keeps_process_packet deliver)
  show ?thesis using assms
    unfolding ReceivePacketHandler_def handle_UART_WRITE_def Let_def
    by (auto intro!: rest deliver keeps)
qed

lemma keeps_cm_messageReceivedCallback [keeps]:
  "P v \<Longrightarrow> pred_option P (cm_messageReceivedCallback deliver E handle data n cmd v)"
  unfolding cm_messageReceivedCallback_def Let_def cnt_get_def
  by (intro keeps) (auto simp: link_same_def intro: keeps)

lemma keeps_SendMessageToReceiver [keeps]: "P v \<Longrightarrow> pred_option P (SendMessageToReceiver deliver E origin data n r v)"
  unfolding SendMessageToReceiver_def by (intro keeps)

lemma keeps_send_module_message [keeps]: "P v \<Longrightarrow> pred_option P (send_module_message deliver E data n r v)"
  unfolding send_module_message_def by (rule keeps_SendMessageToReceiver)

subsection \<open>The modules\<close>

lemma keeps_config_response [keeps]: "P v \<Longrightarrow> pred_option P (config_response deliver E m d t r v)"
  unfolding config_response_def by (intro keeps)

lemma keeps_Module_packet [keeps]:
  "P v \<Longrightarrow> pred_option P (Module_ConnectionPacketReceivedEventHandler deliver E k p v)"
  unfolding Module_ConnectionPacketReceivedEventHandler_def set_active_def Let_def by (intro keeps)

lemma keeps_Status [keeps]:
  "P v \<Longrightarrow> pred_option P (SendStatus deliver E m to t v)"
  "P v \<Longrightarrow> pred_option P (SendDeviceInfo deliver E m to t v)"
  "P v \<Longrightarrow> pred_option P (SendNearbyNodes deliver E m to t v)"
  "P v \<Longrightarrow> pred_option P (SendAllConnections deliver E m to t v)"
  unfolding SendStatus_def SendDeviceInfo_def SendNearbyNodes_def SendAllConnections_def Let_def call_def
  by (simp_all add: keeps)

lemma keeps_Status_packet [keeps]: "P v \<Longrightarrow> pred_option P (Status_packet deliver E m data v)"
  unfolding Status_packet_def Let_def by (intro keeps)

lemma keeps_Save [keeps]: "P v \<Longrightarrow> pred_option P (SaveConfiguration E v)"
  unfolding SaveConfiguration_def QueuedWrite_def by (rule task)

lemma keeps_Stop [keeps]: "P v \<Longrightarrow> pred_option P (Node_Stop E v)"
  unfolding Node_Stop_def DisableStateMachine_def by (intro keeps)

lemma keeps_enroll:
  "P v \<Longrightarrow> (\<And>p. conf_typed p \<Longrightarrow> conf_typed (identity p)) \<Longrightarrow> pred_option P (enroll deliver E m method handle identity v)"
  unfolding enroll_def SendEnrollmentResponse_def Let_def by (intro keeps)

lemma keeps_Enrollment_packet [keeps]: "P v \<Longrightarrow> pred_option P (Enrollment_packet deliver E m data v)"
  unfolding Enrollment_packet_def Let_def by (intro keeps keeps_enroll) (simp_all add: conf_typed_def)

lemma keeps_Debug_packet [keeps]: "P v \<Longrightarrow> P (Debug_packet k m data v)"
  unfolding Debug_packet_def by (intro keeps)

lemma keeps_LightToggle_packet [keeps]: "P v \<Longrightarrow> P (LightToggle_packet data n v)"
  unfolding LightToggle_packet_def Let_def by (intro keeps)

lemma keeps_module_packet [keeps]: "P v \<Longrightarrow> pred_option P (module_packet deliver E k p v)"
proof -
  have "pred_option P (case m_kind m of
      StatusReporterModule \<Rightarrow> Status_packet deliver E m (cp_data p) u
    | EnrollmentModule \<Rightarrow> Enrollment_packet deliver E m (cp_data p) u
    | DebugModule \<Rightarrow> Some (Debug_packet k m (cp_data p) u)
    | LightToggleModule \<Rightarrow> Some (LightToggle_packet (cp_data p) (cp_dataLength p) u)
    | _ \<Rightarrow> Some u)" if "P u" for m u
    using that by (cases "m_kind m") (auto intro: keeps)
  then show "P v \<Longrightarrow> pred_option P (module_packet deliver E k p v)"
    unfolding module_packet_def by (intro keeps)
qed

lemma keeps_Node_messageReceived [keeps]: "P v \<Longrightarrow> pred_option P (Node_messageReceived deliver E p v)"
  unfolding Node_messageReceived_def SendModuleList_def UpdateScanResponsePacket_def SetScanResponse_def Let_def
  by (intro keeps)

end

lemma delivery_property_callback:
  assumes "storing_property P E" shows "delivery_property P E (messageReceivedCallback n E)"
proof (induction n)
  case 0
  show ?case using assms by (intro delivery_property.intro delivery_property_axioms.intro) simp_all
next
  case (Suc n)
  show ?case
    using assms delivery_property.keeps_Node_messageReceived [OF Suc]
    by (intro delivery_property.intro delivery_property_axioms.intro) simp_all
qed

sublocale storing_property \<subseteq> delivering: delivery_property P E "delivering E"
  unfolding delivering_def by (rule delivery_property_callback) (rule storing_property_axioms)

section \<open>Time\<close>

context delivery_property begin

lemma keeps_flood_step [keeps]: "P v \<Longrightarrow> pred_option P (flood_step deliver E m v)"
  unfolding flood_step_def Let_def by (intro keeps)

lemma keeps_flood [keeps]: assumes "P v" shows "pred_option P (flood_loop deliver E m v)"
proof -
  have "d = deliver \<longrightarrow> e = E \<longrightarrow> P w \<longrightarrow> P u" if "flood_loop d e m w = Some u" for d e m w u
    by (rule flood_loop.raw_induct [where P = "\<lambda>d e m w u. d = deliver \<longrightarrow> e = E \<longrightarrow> P w \<longrightarrow> P u", OF _ that])
      (auto split: if_splits dest: pred_optionD [OF keeps_flood_step])
  then show ?thesis using assms by (intro pred_optionI) blast
qed

lemma keeps_module_timer [keeps]: "P v \<Longrightarrow> pred_option P (module_timer_event deliver E t m v)"
  unfolding module_timer_event_def Debug_TimerEventHandler_def Status_TimerEventHandler_def
    Scanning_TimerEventHandler_def SendReport_def Let_def
  by (cases "m_kind m"; simp only: moduleKind.case; intro keeps)

lemma keeps_rssi [keeps]: "P v \<Longrightarrow> pred_option P (Status_RssiChanged handle rssi v)"
  unfolding Status_RssiChanged_def
  by (cases "GetConnectionFromHandle handle v") (auto intro!: keeps simp: link_same_def rssi_sample_def Let_def)

lemma keeps_adv_report [keeps]: "P v \<Longrightarrow> pred_option P (Scanning_AdvReport deliver E m r v)"
  unfolding Scanning_AdvReport_def Let_def by (intro keeps)

lemma keeps_module_ble [keeps]: "P v \<Longrightarrow> pred_option P (module_ble_event deliver E ev m v)"
  unfolding module_ble_event_def by (cases "m_kind m"; cases ev) (simp_all add: keeps)

lemma keeps_active [keeps]:
  assumes "P v" "\<And>m v. P v \<Longrightarrow> pred_option P (f m v)" shows "pred_option P (active_modules f v)"
  unfolding active_modules_def by (intro keeps assms)

lemma keeps_button [keeps]: "P v \<Longrightarrow> pred_option P (button_handler deliver E push button1 v)"
  unfolding button_handler_def send_light_toggle_packet_def Let_def by (intro keeps)

section \<open>Radio events between connecting and disconnecting\<close>

lemma keeps_TX_COMPLETE [keeps]: "P v \<Longrightarrow> pred_option P (dataTransmitted_TX_COMPLETE E handle n v)"
  unfolding dataTransmitted_TX_COMPLETE_def Let_def by (intro keeps) (simp_all add: link_same_def)

lemma keeps_WRITE_RSP [keeps]: "P v \<Longrightarrow> pred_option P (dataTransmitted_WRITE_RSP E handle ok v)"
  unfolding dataTransmitted_WRITE_RSP_def Let_def by (intro keeps) (simp_all add: link_same_def)

lemma keeps_discovered [keeps]: "P v \<Longrightarrow> pred_option P (handleDiscoveredCallback E handle h v)"
  unfolding handleDiscoveredCallback_def Node_ConnectionSuccessfulHandler_def Let_def
  by (intro keeps) (simp_all add: link_same_def)

lemma keeps_await [keeps]: "P v \<Longrightarrow> P (await_handshake i v)"
  unfolding await_handshake_def by (intro keeps) (simp_all add: link_same_def)

lemma keeps_begin [keeps]: "P v \<Longrightarrow> pred_option P (begin_handshake E i v)"
  unfolding begin_handshake_def by (intro keeps) (simp_all add: link_same_def)

lemma keeps_encrypted [keeps]: "P v \<Longrightarrow> pred_option P (ConnectionEncryptedHandler E handle v)"
  unfolding ConnectionEncryptedHandler_def
  by (auto split: option.splits ConnectionDirection.splits intro!: keeps)

lemma keeps_SetScanState [keeps]: "P v \<Longrightarrow> pred_option P (SetScanState E s v)"
  by (rule keeps_radio) (rule radio_only_SetScanState)

lemma keeps_AdvertisementMessage [keeps]: "P v \<Longrightarrow> P (AdvertisementMessageHandler r v)"
  unfolding AdvertisementMessageHandler_def Let_def by (auto intro!: keeps split: option.split prod.split)

lemma keeps_scan [keeps]: "P v \<Longrightarrow> pred_option P (ScanEventHandler E ev v)"
  unfolding ScanEventHandler_def by (cases ev) (auto intro: keeps)

end

section \<open>The node\<close>

definition connects :: "node_event \<Rightarrow> bool" where
  "connects ev \<longleftrightarrow> (case ev of
       Ble (BLE_GAP_EVT_CONNECTED _ _) \<Rightarrow> True
     | Ble (BLE_GAP_EVT_DISCONNECTED _ _) \<Rightarrow> True
     | Ble (BLE_GAP_EVT_TIMEOUT src) \<Rightarrow> src = BLE_GAP_TIMEOUT_SRC_CONN
     | _ \<Rightarrow> False)"

definition stores :: "node_event \<Rightarrow> bool" where
  "stores ev \<longleftrightarrow> (case ev of Flash_event _ _ _ \<Rightarrow> True | _ \<Rightarrow> False)"

context storing_property begin

lemma keeps_blink [keeps]: "P v \<Longrightarrow> P (blink v)"
  unfolding blink_def leds_off_def Let_def by (intro keeps)

lemma keeps_tick_clock [keeps]: "P v \<Longrightarrow> P (tick_clock E t v)"
  unfolding tick_clock_def cnt_get_def Let_def prod.case by (intro keeps)

lemma keeps_tick [keeps]: "P v \<Longrightarrow> pred_option P (Node_TimerTickHandler E t v)"
  unfolding Node_TimerTickHandler_def Let_def by (intro keeps)

lemma keeps_no_more_events [keeps]: "P v \<Longrightarrow> pred_option P (no_more_events E v)"
  unfolding no_more_events_def timerEventDispatch_def Let_def by (intro keeps delivering.keeps_active delivering.keeps_module_timer)

lemma keeps_dispatch:
  assumes "\<not> connects (Ble ev)" "P v" shows "pred_option P (bleDispatchEventHandler E ev v)"
proof -
  have gap: "pred_option P (bleConnectionEventHandler E ev v)"
    using assms delivering.keeps_encrypted by (cases ev) (simp_all add: bleConnectionEventHandler_def connects_def keeps)
  have gatt: "pred_option P (bleMeshServiceEventHandler (delivering E) E ev u)" if "P u" for u
    using assms(1) that
    by (cases ev) (auto simp: bleMeshServiceEventHandler_def connects_def attributeMissingHandler_def
        bleServiceDiscoveryFinishedHandler_def bleCharacteristicDiscoveryFinishedHandler_def
        split: list.split
        intro: keeps_checked delivering.keeps_TX_COMPLETE delivering.keeps_WRITE_RSP delivering.keeps_discovered
          delivering.keeps_cm_messageReceivedCallback)
  show ?thesis
    unfolding bleDispatchEventHandler_def
    by (intro keeps gap gatt delivering.keeps_scan delivering.keeps_active delivering.keeps_module_ble)
qed

theorem node_step_keeps:
  assumes "\<not> connects ev" "\<not> stores ev" "P v" shows "pred_option P (node_step E static ev v)"
  using assms keeps_dispatch
  by (cases ev) (auto simp: node_step_def stores_def ble_timer_dispatch_def
      intro: keeps_no_more_events delivering.keeps_button intro!: keeps)

lemma keeps_QueuedRead [keeps]: "P v \<Longrightarrow> pred_option P (QueuedRead E r n b v)"
  unfolding QueuedRead_def by (rule task)

lemma keeps_LoadModule [keeps]: "P v \<Longrightarrow> pred_option P (LoadModuleConfiguration E k v)"
  unfolding LoadModuleConfiguration_def Let_def
  by (intro keeps keeps_ModuleLoaded keeps_ResetToDefault keeps_upd_config)

lemma keeps_add_Module [keeps]:
  "P v \<Longrightarrow> (mid, n) = class_of kind \<Longrightarrow> P (add_Module kind mid slot n k raw v)"
  using add_module [of v "\<lparr>m_kind = kind, m_moduleId = mid, m_configuration = raw,
      m_configurationLength = n, m_storageSlot = slot\<rparr>" k]
  by (simp add: add_Module_def module_typed_def)

lemma keeps_new_Module:
  "P v \<Longrightarrow> mid = fst (class_of kind) \<Longrightarrow> pred_option P (new_Module E kind mid slot k raw v)"
  unfolding new_Module_def new_Module_defs
  by (cases kind; simp only: moduleKind.case;
      intro keeps keeps_ResetToDefault keeps_upd_config; simp add: class_of_def)

text \<open>The start: a property the node has once its connections are created it has when it is up.\<close>

lemma keeps_start:
  assumes "\<And>v. w_taskQueue v = w_taskQueue w \<Longrightarrow>
      w_bufferedOperationInProgress v = w_bufferedOperationInProgress w \<Longrightarrow> pconf v = pconf w \<Longrightarrow>
      w_modules v = (\<lambda>_. None) \<Longrightarrow> P (upd_cm (\<lambda>_. new_ConnectionManager E tx (conns v)) v)"
  shows "pred_option P (new_Node E bd tx raw static w)"
proof -
  have all: "pred_option P (each (\<lambda>(k, kind, moduleId, slot). new_Module E kind moduleId slot k (raw k))
      (enumerate 0 the_modules) v)" if "P v" for v
  proof (rule pred_optionI)
    fix v' assume run: "each (\<lambda>(k, kind, moduleId, slot). new_Module E kind moduleId slot k (raw k))
      (enumerate 0 the_modules) v = Some v'"
    show "P v'"
    proof (rule each_invariant [where P = P, OF run])
      show "P v" by fact
    next
      fix x u u'
      assume x: "x \<in> set (enumerate 0 the_modules)" and u: "P u"
        and u': "(case x of (k, kind, moduleId, slot) \<Rightarrow> new_Module E kind moduleId slot k (raw k)) u = Some u'"
      obtain k kind mid slot where xs: "x = (k, kind, mid, slot)" by (rule prod_cases4)
      have "mid = fst (class_of kind)"
        using x by (auto simp: xs the_modules_def class_of_def)
      then show "P u'" using pred_optionD [OF keeps_new_Module [OF u]] u' by (auto simp: xs)
    qed
  qed
  show ?thesis
    unfolding new_Node_def Let_def
    by (intro keeps keeps_conf all) (rule assms; simp add: leds_off_def gpio_def reset_Node_def)
qed

end

end
