(* ===== verification/NodeRuns.thy ===== *)
theory NodeRuns
  imports NodeFrame
begin

text \<open>
  Two more interfaces for properties of the whole node: \<open>queue_property\<close> for those that do not look at
  the queue of storage tasks, which then survive the end of a flash operation, and \<open>radio_property\<close> for
  those that do not look at which connections stand, which then survive connecting and disconnecting.
  And what holds of every step holds of every history.
\<close>

section \<open>The flash\<close>

locale queue_property = node_property +
  assumes queue: "P v \<Longrightarrow> P (w_taskQueue_update qf v)"
    and busy: "P v \<Longrightarrow> P (w_bufferedOperationInProgress_update bf v)"
begin

lemma keeps_ProcessQueue: assumes "P v" shows "pred_option P (ProcessQueue E v)"
  unfolding ProcessQueue_def BufferedRead_def BufferedWrite_def Let_def
  by (intro keeps assms busy)

lemma keeps_queue_task: "P v \<Longrightarrow> pred_option P (queue_task E t v)"
  unfolding queue_task_def by (intro keeps_ProcessQueue queue)

lemma keeps_flash: assumes "P v" shows "pred_option P (PstorageEventHandler (configuration_loaded E static) E opCode ok v)"
  unfolding PstorageEventHandler_def Let_def using assms
  by (intro splits queue busy keeps_ProcessQueue keeps_loaded)
    (auto intro!: keeps_map [where Q = "\<lambda>_. True"] keeps_call pred_optionI)

end

sublocale queue_property \<subseteq> storing_property
  by unfold_locales (rule keeps_queue_task)

section \<open>The radio\<close>

definition role_same :: "Connection \<Rightarrow> Connection \<Rightarrow> bool" where
  "role_same c c' \<longleftrightarrow> c_direction c' = c_direction c \<and> c_connectionId c' = c_connectionId c"

locale radio_property = storing_property +
  assumes link: "P v \<Longrightarrow> (\<And>c. role_same c (lf c)) \<Longrightarrow> P (upd_conn i lf v)"
    and manager: "P v \<Longrightarrow> (\<And>m. cm_connections (mf m) = cm_connections m) \<Longrightarrow> P (upd_cm mf v)"
    and service: "P v \<Longrightarrow> P (w_meshService_update s v)"
begin

lemma keeps_succeed: "P v \<Longrightarrow> pred_option P (cm_ConnectionSuccessfulHandler E role handle v)"
  unfolding cm_ConnectionSuccessfulHandler_def Node_ConnectionSuccessfulHandler_def
    Connection_ConnectionSuccessfulHandler_def startEncryptingConnection_def
  by (cases role; simp only: gap_role.case;
    intro keeps link manager delivering.keeps_await delivering.keeps_begin; simp add: role_same_def)

lemma keeps_disconnected: "P v \<Longrightarrow> pred_option P (cm_DisconnectionHandler E handle reason v)"
  unfolding cm_DisconnectionHandler_def Node_DisconnectionHandler_def Connection_DisconnectionHandler_def Let_def
  by (intro splits keeps_change_state keeps_info_update keeps_join_me node node_shape_same node_shape_upd
      conf_typed_upd link manager; simp add: role_same_def Connection_Init_def)

lemma keeps_timeout: "P v \<Longrightarrow> pred_option P (cm_ConnectionTimeoutHandler E v)"
  unfolding cm_ConnectionTimeoutHandler_def Node_ConnectionTimeoutHandler_def
  by (intro keeps manager; simp)

lemma keeps_gap: "P v \<Longrightarrow> pred_option P (bleConnectionEventHandler E ev v)"
  unfolding bleConnectionEventHandler_def AdvertisingInterruptedBecauseOfIncomingConnectionHandler_def Let_def
  by (cases ev; simp only: ble_evt.case;
    intro keeps keeps_succeed keeps_disconnected keeps_timeout delivering.keeps_encrypted)

lemma keeps_radio_event: assumes "P v" shows "pred_option P (bleDispatchEventHandler E ev v)"
proof (cases "connects (Ble ev)")
  case False
  then show ?thesis using assms by (rule keeps_dispatch)
next
  case True
  have gatt: "pred_option P (bleMeshServiceEventHandler (delivering E) E ev u)" if "P u" for u
    using True that
    by (cases ev) (auto simp: bleMeshServiceEventHandler_def connects_def meshServiceConnectHandler_def
        meshServiceDisconnectHandler_def intro: service)
  show ?thesis
    unfolding bleDispatchEventHandler_def using assms
    by (intro keeps keeps_gap gatt delivering.keeps_scan delivering.keeps_active delivering.keeps_module_ble)
qed

lemma keeps_step_radio:
  assumes "\<not> stores ev" "P v" shows "pred_option P (node_step E static ev v)"
proof (cases "connects ev")
  case False
  then show ?thesis using node_step_keeps assms by simp
next
  case True
  then show ?thesis using keeps_radio_event [OF assms(2)] by (cases ev) (simp_all add: connects_def node_step_def)
qed

end

section \<open>Histories\<close>

lemma node_run_keeps:
  assumes "node_run E static evs w = Some w'" "P w"
    "\<And>ev v. ev \<in> set evs \<Longrightarrow> P v \<Longrightarrow> pred_option P (node_step E static ev v)"
  shows "P w'"
  using assms(1) unfolding node_run_def
  by (rule each_invariant [where P = P]) (use assms(2,3) in \<open>auto dest: pred_optionD\<close>)

end
