(* ===== verification/Links.thy ===== *)
theory Links
  imports NodeRuns
begin

text \<open>
  The connection manager's bookkeeping over any history of events: the counters of free connections
  agree with the connections that stand and the one that is being set up. It holds as long as the
  events of the radio come in an order that makes sense; one order that does not is shown to make
  the node follow a null pointer.
\<close>

section \<open>The invariant\<close>

definition outs :: "world \<Rightarrow> nat" where
  "outs w = length (filter (\<lambda>i. c_isConnected (conns w i)) [1, 2, 3])"

definition book :: "world \<Rightarrow> bool" where
  "book w \<longleftrightarrow>
     c_direction (conns w 0) = CONNECTION_DIRECTION_IN \<and>
     (\<forall>i \<in> {1, 2, 3}. c_direction (conns w i) = CONNECTION_DIRECTION_OUT) \<and>
     cm_freeInConnections (w_cm w) = (if c_isConnected (conns w 0) then 0 else 1) \<and>
     (\<forall>i. cm_pendingConnection (w_cm w) = Some i \<longrightarrow> i \<in> {1, 2, 3} \<and> \<not> c_isConnected (conns w i)) \<and>
     unat (cm_freeOutConnections (w_cm w)) + outs w + (if cm_pendingConnection (w_cm w) = None then 0 else 1) = 3"

text \<open>What the bookkeeping looks at.\<close>

definition books :: "world \<Rightarrow> (nat \<Rightarrow> bool \<times> ConnectionDirection) \<times> nat option \<times> u8 \<times> u8" where
  "books w = ((\<lambda>i. (c_isConnected (conns w i), c_direction (conns w i))), cm_pendingConnection (w_cm w),
     cm_freeInConnections (w_cm w), cm_freeOutConnections (w_cm w))"

lemma book_cong: assumes "books w' = books w" shows "book w' \<longleftrightarrow> book w"
proof -
  have c: "(\<lambda>i. c_isConnected (conns w' i)) = (\<lambda>i. c_isConnected (conns w i))"
    "\<And>i. c_direction (conns w' i) = c_direction (conns w i)"
    using assms by (auto simp: books_def fun_eq_iff)
  then have "\<And>i. c_isConnected (conns w' i) = c_isConnected (conns w i)" by metis
  then show ?thesis using assms c by (simp add: book_def outs_def books_def)
qed

lemma book_free_connection:
  assumes "book w" "cm_freeOutConnections (w_cm w) \<noteq> 0" "cm_pendingConnection (w_cm w) = None"
  obtains i where "GetFreeOutConnection w = Some i" "i \<in> {1, 2, 3}" "\<not> c_isConnected (conns w i)"
proof -
  have "unat (cm_freeOutConnections (w_cm w)) \<noteq> 0" using assms(2) by (simp add: unat_eq_0)
  then have "outs w < 3" using assms by (simp add: book_def)
  then show ?thesis
    using that by (auto simp: outs_def GetFreeOutConnection_def split: if_splits)
qed

lemma book_master:
  assumes b: "book w" and run: "ConnectAsMaster E a k w = Some (w', r)" shows "book w'"
proof (cases "cm_freeOutConnections (w_cm w) = 0 \<or> cm_pendingConnection (w_cm w) \<noteq> None")
  case True
  then show ?thesis using run b by (simp add: ConnectAsMaster_def)
next
  case False
  then obtain i where i: "GetFreeOutConnection w = Some i" "i \<in> {1, 2, 3}" "\<not> c_isConnected (conns w i)"
    using book_free_connection [OF b] by blast
  have free: "GetFreeOutConnection (upd_cm f w) = GetFreeOutConnection w" if "cm_connections (f (w_cm w)) = conns w" for f
    using that by (simp add: GetFreeOutConnection_def)
  have cm: "cm_pendingConnection (w_cm w') = Some i" "cm_freeInConnections (w_cm w') = cm_freeInConnections (w_cm w)"
    "cm_freeOutConnections (w_cm w') = cm_freeOutConnections (w_cm w) - 1"
    and c: "\<And>j. c_isConnected (conns w' j) = c_isConnected (conns w j)"
    "\<And>j. c_direction (conns w' j) = c_direction (conns w j)"
    using run False i(1,3)
    by (auto simp: ConnectAsMaster_def free Connection_Connect_def Connection_Init_def connectToPeripheral_def checked_Some Let_def
        split: if_splits)
  have "outs w' = outs w" by (simp add: outs_def c)
  moreover have "unat (cm_freeOutConnections (w_cm w) - 1) = unat (cm_freeOutConnections (w_cm w)) - 1"
    "unat (cm_freeOutConnections (w_cm w)) \<noteq> 0"
    using False by (auto simp: unat_minus_one unat_eq_0)
  ultimately show ?thesis using b i False by (auto simp: book_def cm c)
qed

lemma books_cong: "book v \<Longrightarrow> books v' = books v \<Longrightarrow> book v'"
  using book_cong by blast

interpretation book: queue_property book E for E
proof unfold_locales
  show "book v \<Longrightarrow> sending_only v v' \<Longrightarrow> book v'" for v v'
    by (erule books_cong) (simp add: books_def sending_only_def conn_same_def)
  show "book v \<Longrightarrow> (\<And>c. link_same c (cf c)) \<Longrightarrow> book (upd_conn i cf v)" for v i cf
    by (erule books_cong) (simp add: books_def link_same_def fun_eq_iff)
  show "book v \<Longrightarrow> ConnectAsMaster E a k v = Some (v', r) \<Longrightarrow> book v'" for v a k v' r
    by (rule book_master)
qed (erule books_cong, simp add: books_def upd_module_def)+

section \<open>Connecting and disconnecting\<close>

interpretation books: quiet_property "\<lambda>w. books w = B" E for B E
  by unfold_locales (simp_all add: books_def radio_only_def)

lemma books_sending: "sending_only v v' \<Longrightarrow> books v' = books v"
  by (simp add: books_def sending_only_def conn_same_def)

lemma books_conn: "(\<And>c. link_same c (f c)) \<Longrightarrow> books (upd_conn i f v) = books v"
  by (simp add: books_def link_same_def fun_eq_iff)

lemma books_ChangeState:
  assumes "ChangeState E s w = Some w'" "s = HANDSHAKE \<or> s = DISCOVERY" shows "books w' = books w"
  using assms books.leaf [of E s w w' "books w"] books.discovery [of E w w' "books w"] by auto

lemma books_begin_handshake: assumes "begin_handshake E i w = Some w'" shows "books w' = books w"
  using assms
  by (auto simp: begin_handshake_def StartHandshake_def books_conn link_same_def
      dest!: sending_only_SendMessage books_sending split: if_splits)

lemma books_await [simp]: "books (await_handshake i w) = books w"
  by (simp add: await_handshake_def books_conn link_same_def)

lemma outs_eq: "outs w = of_bool (c_isConnected (conns w 1)) + of_bool (c_isConnected (conns w 2))
    + of_bool (c_isConnected (conns w 3))"
  by (simp add: outs_def)

lemma book_connected:
  assumes b: "book w" and run: "cm_ConnectionSuccessfulHandler E role handle w = Some w'"
    and ok: "case role of BLE_GAP_ROLE_PERIPH \<Rightarrow> \<not> c_isConnected (conns w 0) \<and> cm_pendingConnection (w_cm w) = None
      | BLE_GAP_ROLE_CENTRAL \<Rightarrow> cm_pendingConnection (w_cm w) \<noteq> None"
  shows "book w'"
proof (cases role)
  case BLE_GAP_ROLE_PERIPH
  let ?v = "Connection_ConnectionSuccessfulHandler handle 0 (upd_cm (\<lambda>m. m\<lparr>cm_freeInConnections := cm_freeInConnections m - 1\<rparr>) w)"
  obtain u where u: "ChangeState E HANDSHAKE ?v = Some u"
    and w': "w' = upd_cm (\<lambda>m. m\<lparr>cm_pendingConnection := None\<rparr>) (await_handshake 0 u)"
    using run BLE_GAP_ROLE_PERIPH
    by (auto simp: cm_ConnectionSuccessfulHandler_def Node_ConnectionSuccessfulHandler_def Config_def)
  have a: "books (await_handshake 0 u) = books ?v" using books_ChangeState [OF u] by simp
  have v: "book ?v" "cm_pendingConnection (w_cm ?v) = None"
    using b ok BLE_GAP_ROLE_PERIPH by (simp_all add: book_def outs_eq Connection_ConnectionSuccessfulHandler_def)
  show ?thesis unfolding w' using a v(2) by (intro books_cong [OF v(1)]) (simp add: books_def)
next
  case BLE_GAP_ROLE_CENTRAL
  then obtain i where i: "cm_pendingConnection (w_cm w) = Some i" using ok by auto
  let ?v = "Connection_ConnectionSuccessfulHandler handle i w"
  obtain u x where u: "ChangeState E HANDSHAKE ?v = Some u" and x: "begin_handshake E i u = Some x"
    and w': "w' = upd_cm (\<lambda>m. m\<lparr>cm_pendingConnection := None\<rparr>) x"
    using run BLE_GAP_ROLE_CENTRAL i
    by (auto simp: cm_ConnectionSuccessfulHandler_def Node_ConnectionSuccessfulHandler_def Config_def)
  have x: "books x = books ?v" using books_ChangeState [OF u] books_begin_handshake [OF x] by simp
  have "book (upd_cm (\<lambda>m. m\<lparr>cm_pendingConnection := None\<rparr>) ?v)"
    using b i by (auto simp: book_def outs_eq Connection_ConnectionSuccessfulHandler_def)
  then show ?thesis using x unfolding w' by (elim books_cong) (simp add: books_def)
qed

lemma sending_only_info_update:
  assumes "send_clusterInfoUpdate E stack i c n s w = Some w'" shows "sending_only w w'"
  by (rule each_invariant [where P = "sending_only w" and w = w, OF assms [unfolded send_clusterInfoUpdate_def] sending_only_refl])
    (auto split: if_splits intro: sending_only_trans sending_only_SendMessage)

lemma books_Node_disconnected:
  assumes "Node_DisconnectionHandler E handle w = Some w'" shows "books w' = books w"
proof -
  have node: "books (upd_node f v) = books v" for f v by (simp add: books_def)
  have j: "books v' = books v" if "UpdateJoinMePacket E None v = Some v'" for v v'
    using books.join_me [OF that refl] .
  have s: "books v' = books v" if "send_clusterInfoUpdate E stack i c n s v = Some v'" for stack i c n s v v'
    by (rule books_sending [OF sending_only_info_update [OF that]])
  from assms show ?thesis
    by (auto simp: Node_DisconnectionHandler_def Let_def node split: option.splits if_splits
        dest!: j s books_ChangeState)
qed

lemma unat_plus_one: "unat n < 255 \<Longrightarrow> unat (n + 1) = unat n + 1" for n :: u8
  by (simp add: unat_word_ariths)

lemma book_disconnected:
  assumes b: "book w" and run: "cm_DisconnectionHandler E handle reason w = Some w'"
    and ok: "\<And>i. GetConnectionFromHandle handle w = Some i \<Longrightarrow> c_isConnected (conns w i)"
  shows "book w'"
proof (cases "GetConnectionFromHandle handle w")
  case None
  then show ?thesis using b run by (simp add: cm_DisconnectionHandler_def)
next
  case (Some i)
  have i: "i \<in> {0, 1, 2, 3}" "c_isConnected (conns w i)"
    using Some ok [OF Some] by (auto simp: GetConnectionFromHandle_def split: if_splits)
  define x where "x = upd_cm (if c_direction (conns w i) = CONNECTION_DIRECTION_IN
     then (\<lambda>m. m\<lparr>cm_freeInConnections := cm_freeInConnections m + 1\<rparr>)
     else (\<lambda>m. m\<lparr>cm_freeOutConnections := cm_freeOutConnections m + 1\<rparr>)) w"
  define v where "v = upd_conn i (\<lambda>c. c\<lparr>c_isConnected := False\<rparr>)
     (upd_cm (\<lambda>m. m\<lparr>cm_pendingPackets := cm_pendingPackets m - ucast (pq_numElements (c_packetSendQueue (conns x i)))\<rparr>) x)"
  obtain u where u: "Node_DisconnectionHandler E handle v = Some u"
    and w': "w' = Connection_DisconnectionHandler E reason i u"
    using run [unfolded cm_DisconnectionHandler_def Some option.case Let_def, folded x_def, folded v_def]
    by (auto simp only: map_option_eq_Some)
  have books: "books u = books v" by (rule books_Node_disconnected [OF u])
  have "\<not> c_isConnected (conns v i)" by (simp add: v_def)
  then have "\<not> c_isConnected (conns u i)" using books by (auto simp: books_def fun_eq_iff)
  then have "books w' = books u"
    unfolding w' by (auto simp: Connection_DisconnectionHandler_def Let_def Connection_Init_def books_def fun_eq_iff)
  moreover have "book v"
  proof -
    have p: "cm_pendingConnection (w_cm w) \<noteq> Some i" using b i(2) by (auto simp: book_def)
    have c: "conns v = (conns w)(i := (conns w i)\<lparr>c_isConnected := False\<rparr>)"
      "cm_pendingConnection (w_cm v) = cm_pendingConnection (w_cm w)"
      "cm_freeInConnections (w_cm v) = cm_freeInConnections (w_cm w) + of_bool (c_direction (conns w i) = CONNECTION_DIRECTION_IN)"
      "cm_freeOutConnections (w_cm v) = cm_freeOutConnections (w_cm w) + of_bool (c_direction (conns w i) \<noteq> CONNECTION_DIRECTION_IN)"
      by (simp_all add: v_def x_def)
    have f: "unat (cm_freeOutConnections (w_cm w)) + outs w \<le> 3" using b by (auto simp: book_def)
    show ?thesis
      using b i p f unat_plus_one [of "cm_freeOutConnections (w_cm w)"]
      by (auto simp: book_def outs_eq c split: if_splits)
  qed
  ultimately show ?thesis using books books_cong [of v w'] by simp
qed

lemma book_timeout:
  assumes b: "book w" and run: "cm_ConnectionTimeoutHandler E w = Some w'" and p: "cm_pendingConnection (w_cm w) \<noteq> None"
  shows "book w'"
proof -
  let ?v = "upd_cm (\<lambda>m. m\<lparr>cm_pendingConnection := None, cm_freeOutConnections := cm_freeOutConnections m + 1\<rparr>) w"
  have "books w' = books ?v"
    using run by (auto simp: cm_ConnectionTimeoutHandler_def Node_ConnectionTimeoutHandler_def dest: books_ChangeState)
  moreover have "book ?v"
    using b p unat_plus_one [of "cm_freeOutConnections (w_cm w)"] by (auto simp: book_def outs_eq)
  ultimately show ?thesis using books_cong [of ?v w'] by simp
qed

section \<open>Any history\<close>

text \<open>The order of events the radio keeps to: one incoming connection at a time and none while an
  outgoing one is set up, an outgoing connection or its timeout only after it was asked for, and a
  disconnection only of a connection that stands.\<close>

definition allowed :: "node_event \<Rightarrow> world \<Rightarrow> bool" where
  "allowed ev w \<longleftrightarrow> (case ev of
       Ble (BLE_GAP_EVT_CONNECTED handle BLE_GAP_ROLE_PERIPH) \<Rightarrow>
         \<not> c_isConnected (conns w 0) \<and> cm_pendingConnection (w_cm w) = None
     | Ble (BLE_GAP_EVT_CONNECTED handle BLE_GAP_ROLE_CENTRAL) \<Rightarrow> cm_pendingConnection (w_cm w) \<noteq> None
     | Ble (BLE_GAP_EVT_TIMEOUT BLE_GAP_TIMEOUT_SRC_CONN) \<Rightarrow> cm_pendingConnection (w_cm w) \<noteq> None
     | Ble (BLE_GAP_EVT_DISCONNECTED handle reason) \<Rightarrow>
         (case GetConnectionFromHandle handle w of None \<Rightarrow> True | Some i \<Rightarrow> c_isConnected (conns w i))
     | _ \<Rightarrow> True)"

fun allowed_run :: "env \<Rightarrow> u8 \<Rightarrow> node_event list \<Rightarrow> world \<Rightarrow> bool" where
  "allowed_run E static [] w \<longleftrightarrow> True"
| "allowed_run E static (ev # evs) w \<longleftrightarrow> allowed ev w \<and>
     (case node_step E static ev w of None \<Rightarrow> True | Some v \<Rightarrow> allowed_run E static evs v)"

lemma book_gap:
  assumes "book w" "allowed (Ble ev) w" "connects (Ble ev)"
  shows "pred_option book (bleConnectionEventHandler E ev w)"
proof (rule pred_optionI)
  fix v assume run: "bleConnectionEventHandler E ev w = Some v"
  have cur: "book (w\<lparr>w_currentlyConnecting := False\<rparr>)"
    "book (AdvertisingInterruptedBecauseOfIncomingConnectionHandler (w\<lparr>w_currentlyConnecting := False\<rparr>))"
    by (rule books_cong [OF assms(1)];
        simp add: books_def AdvertisingInterruptedBecauseOfIncomingConnectionHandler_def)+
  show "book v"
  proof (cases ev)
    case (BLE_GAP_EVT_CONNECTED handle role)
    then show ?thesis
      using run assms(2) cur
      by (cases role)
        (auto simp: bleConnectionEventHandler_def allowed_def AdvertisingInterruptedBecauseOfIncomingConnectionHandler_def
          intro: book_connected)
  next
    case (BLE_GAP_EVT_DISCONNECTED handle reason)
    then show ?thesis
      using run assms(1,2) by (auto simp: bleConnectionEventHandler_def allowed_def intro: book_disconnected)
  next
    case (BLE_GAP_EVT_TIMEOUT src)
    then show ?thesis
      using run assms(2,3) cur by (auto simp: bleConnectionEventHandler_def allowed_def connects_def intro: book_timeout)
  qed (use assms(3) in \<open>simp_all add: connects_def\<close>)
qed

lemma book_connecting_event:
  assumes "book w" "allowed (Ble ev) w" "connects (Ble ev)"
  shows "pred_option book (bleDispatchEventHandler E ev w)"
proof -
  have gatt: "pred_option book (bleMeshServiceEventHandler (delivering E) E ev u)" if "book u" for u
    using assms(3) that
    by (cases ev) (auto simp: bleMeshServiceEventHandler_def connects_def meshServiceConnectHandler_def
        meshServiceDisconnectHandler_def books_def elim!: books_cong)
  show ?thesis
    unfolding bleDispatchEventHandler_def
    by (intro book.splits book_gap [OF assms] gatt book.delivering.keeps_scan book.delivering.keeps_active
        book.delivering.keeps_module_ble)
qed

lemma book_step:
  assumes "book w" "allowed ev w" shows "pred_option book (node_step E static ev w)"
proof (cases "connects ev \<or> stores ev")
  case False
  then show ?thesis using book.node_step_keeps assms(1) by simp
next
  case True
  show ?thesis
  proof (cases ev)
    case (Ble b)
    then show ?thesis using assms True book_connecting_event [of w b E] by (simp add: node_step_def stores_def)
  next
    case (Flash_event opCode ok c)
    then show ?thesis using book.keeps_flash books_cong [OF assms(1), of "load_content c w"] by (simp add: node_step_def books_def)
  qed (use True in \<open>simp_all add: connects_def stores_def\<close>)
qed

text \<open>C15: Over any history of radio events, timer ticks, storage events and button presses, in an order the
  radio keeps to, the counters of free connections agree with the connections: the incoming connection
  is free exactly if none stands, and the free, the standing and the one pending outgoing connection
  add up to three. So connecting as a master always finds a free connection.\<close>

theorem connection_bookkeeping:
  assumes "book w" "allowed_run E static evs w" "node_run E static evs w = Some w'"
  shows "book w' \<and> (cm_freeOutConnections (w_cm w') \<noteq> 0 \<and> cm_pendingConnection (w_cm w') = None \<longrightarrow>
    GetFreeOutConnection w' \<noteq> None)"
proof -
  have "book w'"
    using assms
  proof (induction evs arbitrary: w)
    case (Cons ev evs)
    then obtain v where v: "node_step E static ev w = Some v" "node_run E static evs v = Some w'"
      by (auto simp: node_run_def split: option.splits)
    moreover have "book v" using book_step [of w ev E static] Cons.prems v by simp
    ultimately show ?case using Cons by simp
  qed (simp add: node_run_def)
  then show ?thesis using book_free_connection [of w'] by auto
qed

lemma book_new_Node: "pred_option book (new_Node E bd tx raw static w)"
  by (rule book.keeps_start)
    (simp add: book_def outs_eq new_ConnectionManager_def new_Connection_def Connection_Init_def Config_def)

lemma active_modules_idle: "(\<And>m w. f m w = Some w) \<Longrightarrow> active_modules f w = Some w"
  unfolding active_modules_def by (rule each_idle) (auto split: option.split)

lemma books_after_gap:
  assumes "ScanEventHandler E (BLE_GAP_EVT_CONNECTED handle role) u = Some v"
    "bleMeshServiceEventHandler deliver E (BLE_GAP_EVT_CONNECTED handle role) v = Some x"
    "active_modules (module_ble_event deliver E (BLE_GAP_EVT_CONNECTED handle role)) x = Some w"
  shows "books w = books u"
proof -
  have "books v = books u"
    using assms(1) by (auto simp: ScanEventHandler_def dest!: radio_only_SetScanState radio_only_sending_only books_sending)
  moreover have "books x = books v"
    using assms(2) by (auto simp: bleMeshServiceEventHandler_def meshServiceConnectHandler_def books_def)
  moreover have "w = x"
    using assms(3) active_modules_idle [of "module_ble_event deliver E (BLE_GAP_EVT_CONNECTED handle role)"]
    by (simp add: module_ble_event_def split: moduleKind.split)
  ultimately show ?thesis by simp
qed


section \<open>Two runs\<close>

lemma each_stays: "(\<And>x. f x w = Some w) \<Longrightarrow> each f xs w = Some w"
  by (induction xs) simp_all

lemma incoming_run:
  "\<exists>w'. bleDispatchEventHandler quiet_env (BLE_GAP_EVT_CONNECTED 7 BLE_GAP_ROLE_PERIPH)
     (upd_cm (\<lambda>m. m\<lparr>cm_pendingConnection := p\<rparr>) zero_world) = Some w'"
proof -
  let ?w = "upd_cm (\<lambda>m. m\<lparr>cm_pendingConnection := p\<rparr>) zero_world"
  have act: "active_modules (module_ble_event d E (BLE_GAP_EVT_CONNECTED 7 r)) w = Some w" for d E r w
    by (rule active_modules_idle) (simp add: module_ble_event_def split: moduleKind.split)
  have ch: "\<exists>u. ChangeState E HANDSHAKE v = Some u"
    if "n_currentDiscoveryState (w_node v) = BOOTUP" "\<not> n_stateMachineDisabled (w_node v)" "w_modules v = (\<lambda>_. None)"
      "ac_advertisingState (w_adv v) = ADV_STATE_OFF" "sc_scanningState (w_scan v) = SCAN_STATE_OFF" for v E
    using that
    by (subst ChangeState.simps)
      (simp add: radio_state_def SetAdvertisingState_def SetScanState_def inform_modules_def enter_def each_stays)
  obtain u where u: "bleConnectionEventHandler quiet_env (BLE_GAP_EVT_CONNECTED 7 BLE_GAP_ROLE_PERIPH) ?w = Some u"
  proof -
    have "\<exists>u. bleConnectionEventHandler quiet_env (BLE_GAP_EVT_CONNECTED 7 BLE_GAP_ROLE_PERIPH) ?w = Some u"
      unfolding bleConnectionEventHandler_def cm_ConnectionSuccessfulHandler_def Node_ConnectionSuccessfulHandler_def
      using ch [of "Connection_ConnectionSuccessfulHandler 7 0 (upd_cm (\<lambda>m. m\<lparr>cm_freeInConnections := cm_freeInConnections m - 1\<rparr>)
         (AdvertisingInterruptedBecauseOfIncomingConnectionHandler (?w\<lparr>w_currentlyConnecting := False\<rparr>)))" quiet_env]
      by (auto simp: Connection_ConnectionSuccessfulHandler_def AdvertisingInterruptedBecauseOfIncomingConnectionHandler_def
          zero_world_def zero_node_def Let_def)
    then show ?thesis using that by blast
  qed
  have sc: "\<exists>v. SetScanState quiet_env s u = Some v" for s u
    by (auto simp: SetScanState_def checked_eq quiet_env_def)
  then show ?thesis
    using u act sc [of SCAN_STATE_HIGH u]
    by (auto simp: bleDispatchEventHandler_def ScanEventHandler_def bleMeshServiceEventHandler_def)
qed

lemma book_zero_world: "book zero_world"
  by (simp add: book_def outs_eq zero_world_def new_ConnectionManager_def new_Connection_def Connection_Init_def Config_def
      zero_connection_def)

lemma connection_bookkeeping_witness:
  "\<exists>w'. node_run quiet_env 0 [Ble (BLE_GAP_EVT_CONNECTED 7 BLE_GAP_ROLE_PERIPH)] zero_world = Some w' \<and> book w'"
proof -
  have z: "zero_world = upd_cm (\<lambda>m. m\<lparr>cm_pendingConnection := None\<rparr>) zero_world"
    by (simp add: zero_world_def new_ConnectionManager_def)
  obtain w' where w': "node_run quiet_env 0 [Ble (BLE_GAP_EVT_CONNECTED 7 BLE_GAP_ROLE_PERIPH)] zero_world = Some w'"
    using incoming_run [of None, folded z] by (auto simp: node_run_def node_step_def)
  have "allowed_run quiet_env 0 [Ble (BLE_GAP_EVT_CONNECTED 7 BLE_GAP_ROLE_PERIPH)] zero_world"
    by (simp add: allowed_def zero_world_def new_ConnectionManager_def new_Connection_def Connection_Init_def split: option.split)
  from connection_bookkeeping [OF book_zero_world this w'] w' show ?thesis by blast
qed


end
