(* ===== verification/StoredTasks.thy ===== *)
theory StoredTasks
  imports NodeRuns RetryStorage
begin

text \<open>
  The storage tasks of the whole node. Loading a configuration does not touch the queue of tasks, which
  makes it a \<open>storage_listener\<close>; so tasks are finished in the order they were accepted. And over any
  history of the node an operation of the flash is under way exactly while tasks wait.
\<close>

section \<open>Loading configurations as a listener\<close>

interpretation task_queue: node_property "\<lambda>w. w_taskQueue w = q \<and> w_bufferedOperationInProgress w = b" E for q b E
proof unfold_locales
  show "w_taskQueue v' = q \<and> w_bufferedOperationInProgress v' = b"
    if "w_taskQueue v = q \<and> w_bufferedOperationInProgress v = b" "ConnectAsMaster E a k v = Some (v', r)" for v a k v' r
    using that
    by (auto simp: ConnectAsMaster_def Connection_Connect_def connectToPeripheral_def checked_Some Let_def upd_conn_def
        split: if_splits option.splits)
qed (auto simp: sending_only_def upd_conn_def upd_module_def)

interpretation listener: storage_listener "configuration_loaded E static" for E static
proof unfold_locales
  show "w_taskQueue w' = w_taskQueue w \<and> w_bufferedOperationInProgress w' = w_bufferedOperationInProgress w"
    if "configuration_loaded E static r w = Some w'" for r w w'
    using task_queue.keeps_loaded [of w "w_taskQueue w" "w_bufferedOperationInProgress w" E static r] that by simp
qed

text \<open>C20: Storage tasks are finished in the order they were accepted, whatever the flash reports and
  whoever is called back: from a queue of waiting tasks, what was waiting and what was accepted since
  is what the flash finished, in the same order, followed by what still waits.\<close>

theorem storage_tasks_in_order:
  assumes "storage_inv w waiting"
    "storage_run (configuration_loaded E static) E evs w = Some (w', accepted, finished)"
  shows "\<exists>pending. storage_inv w' pending \<and> waiting @ accepted = finished @ pending"
  by (rule listener.run_in_order [OF assms])

lemma storage_tasks_in_order_witness:
  "\<exists>w'. storage_run (configuration_loaded quiet_env 1) quiet_env [Flash PSTORAGE_STORE_OP_CODE True] busy_world
       = Some (w', [], [hd seven_tasks]) \<and> storage_inv w' (tl seven_tasks)"
proof -
  let ?t = "hd seven_tasks" and ?q = "w_taskQueue busy_world"
  have rep: "tasks_rep ?q (?t # tl seven_tasks)"
    using busy_world_inv by (simp add: storage_inv_def seven_tasks_def numeral_eq_Suc)
  note f = task_at_front [OF rep]
  have w: "ti_operation ?t \<noteq> OPERATION_READ" by (simp add: seven_tasks_def OPERATION_READ_def)
  let ?v = "busy_world\<lparr>w_taskQueue := fst (sq_GetNext ?q), w_bufferedOperationInProgress := False\<rparr>"
  obtain w' where w': "ProcessQueue quiet_env ?v = Some w'"
    using ProcessQueue_total [of ?v "tl seven_tasks" quiet_env] f(3) by (auto simp: quiet_env_def)
  have run: "storage_run (configuration_loaded quiet_env 1) quiet_env [Flash PSTORAGE_STORE_OP_CODE True] busy_world
       = Some (w', [], [?t])"
    using f(1,2) w w'
    by (simp add: storage_step_def PstorageEventHandler_def accepted_by_def finished_by_def case_prod_beta)
  from storage_tasks_in_order [OF busy_world_inv run]
  show ?thesis using run by (auto simp: seven_tasks_def numeral_eq_Suc)
qed

section \<open>The storage queue over any history\<close>

definition storage_ok :: "world \<Rightarrow> bool" where
  "storage_ok w \<longleftrightarrow> (\<exists>ts. storage_inv w ts)"

lemma storage_ok_cong: "storage_ok v \<Longrightarrow> w_taskQueue v' = w_taskQueue v \<Longrightarrow>
    w_bufferedOperationInProgress v' = w_bufferedOperationInProgress v \<Longrightarrow> storage_ok v'"
  by (simp add: storage_ok_def storage_inv_def)

lemma storage_ok_task: assumes "storage_ok v" shows "pred_option storage_ok (queue_task E t v)"
proof (rule pred_optionI)
  fix u assume "queue_task E t v = Some u"
  then show "storage_ok u"
    using assms listener.step [where w = v and E = E and ev = "Request t" and w' = u]
    by (auto simp: storage_ok_def storage_step_def)
qed

interpretation stored: radio_property storage_ok E for E
proof unfold_locales
  show "storage_ok v'" if "storage_ok v" "ConnectAsMaster E a k v = Some (v', r)" for v a k v' r
    using that task_queue.master [of v "w_taskQueue v" "w_bufferedOperationInProgress v" E a k v' r]
    by (auto elim: storage_ok_cong)
qed ((erule storage_ok_cong; simp add: sending_only_def upd_conn_def upd_module_def) | rule storage_ok_task)+

lemma storage_ok_flash:
  assumes "storage_ok w"
  shows "pred_option storage_ok (PstorageEventHandler (configuration_loaded E static) E opCode ok w)"
proof (rule pred_optionI)
  fix u assume "PstorageEventHandler (configuration_loaded E static) E opCode ok w = Some u"
  then show "storage_ok u"
    using assms listener.step [where w = w and E = E and static = static and ev = "Flash opCode ok" and w' = u]
    by (auto simp: storage_ok_def storage_step_def)
qed

lemma storage_ok_step: assumes "storage_ok w" shows "pred_option storage_ok (node_step E static ev w)"
proof (cases "stores ev")
  case False
  then show ?thesis using assms by (rule stored.keeps_step_radio)
next
  case True
  then show ?thesis using storage_ok_flash storage_ok_cong [OF assms]
    by (cases ev) (simp_all add: node_step_def stores_def)
qed

text \<open>The queue as the storage is created with.\<close>

definition new_Storage :: "mem \<Rightarrow> world \<Rightarrow> world" where
  "new_Storage taskBuffer w =
     w\<lparr>w_taskQueue := sq_init taskBuffer (of_nat TASK_BUFFER_LENGTH), w_bufferedOperationInProgress := False\<rparr>"

lemma new_Storage_empty: "tasks_rep (w_taskQueue (new_Storage taskBuffer w)) []"
  unfolding tasks_rep_def new_Storage_def
  using sq_init_rep [of "of_nat TASK_BUFFER_LENGTH" taskBuffer]
  by (simp add: TASK_BUFFER_LENGTH_def SIZEOF_TASKITEM_def)


lemma config_queue [simp]:
  "w_taskQueue (ResetToDefaultConfiguration E k w) = w_taskQueue w"
  "w_taskQueue (Module_ConfigurationLoadedHandler E k w) = w_taskQueue w"
  "w_taskQueue (upd_config k g w) = w_taskQueue w"
  using task_queue.keeps_ResetToDefault [of w _ "w_bufferedOperationInProgress w" E k]
    task_queue.keeps_ModuleLoaded [of w _ "w_bufferedOperationInProgress w" E k]
    task_queue.keeps_upd_config [of w _ "w_bufferedOperationInProgress w" k g] by simp_all

lemma modules_after_reset: "w_modules (ResetToDefaultConfiguration E k w) k = None \<longleftrightarrow> w_modules w k = None"
  by (auto simp: ResetToDefaultConfiguration_def setScanFilter_def upd_config_def upd_module_def Let_def
      split: option.split moduleKind.split)

lemma LoadModule_runs:
  assumes "w_modules w k \<noteq> None"
  shows "\<exists>v'. LoadModuleConfiguration E k w = Some v' \<and> w_taskQueue v' = w_taskQueue w"
  using assms by (auto simp: LoadModuleConfiguration_def Config_def)

lemma new_Module_runs:
  "\<exists>v'. new_Module E kind mid slot k r v = Some v' \<and> w_taskQueue v' = w_taskQueue v"
proof -
  have add: "w_modules (add_Module c mid slot n k r v) k \<noteq> None" "w_taskQueue (add_Module c mid slot n k r v) = w_taskQueue v"
    for c n by (simp_all add: add_Module_def)
  have l: "\<exists>v'. LoadModuleConfiguration E k (w_mstate_update f (add_Module c mid slot n k r v)) = Some v' \<and> w_taskQueue v' = w_taskQueue v"
    "\<exists>v'. LoadModuleConfiguration E k (add_Module c mid slot n k r v) = Some v' \<and> w_taskQueue v' = w_taskQueue v"
    "\<exists>v'. LoadModuleConfiguration E k (ResetToDefaultConfiguration E k (w_mstate_update f (add_Module c mid slot n k r v))) = Some v'
      \<and> w_taskQueue v' = w_taskQueue v" for f c n
    using LoadModule_runs [of "w_mstate_update f (add_Module c mid slot n k r v)" k E]
      LoadModule_runs [of "add_Module c mid slot n k r v" k E]
      LoadModule_runs [of "ResetToDefaultConfiguration E k (w_mstate_update f (add_Module c mid slot n k r v))" k E] add
    by (simp_all add: modules_after_reset)
  show ?thesis
    proof (cases kind)
    case LightToggleModule
    then show ?thesis by (simp add: new_Module_def new_LightToggleModule_def add_Module_def)
  next
    case AdvertisingModule
    obtain v' where "LoadModuleConfiguration E k (add_Module AdvertisingModule mid slot 40 k r v) = Some v'"
      "w_taskQueue v' = w_taskQueue v" using l(2) by blast
    then show ?thesis using AdvertisingModule by (simp add: new_Module_def new_AdvertisingModule_def)
  qed (use l in \<open>simp_all add: new_Module_def new_Module_defs\<close>)
qed

lemma new_Node_runs:
  "\<exists>w. new_Node quiet_env bd tx raw static (new_Storage taskBuffer w0) = Some w"
proof -
  have m: "\<exists>v'. each (\<lambda>(k, kind, mid, slot). new_Module quiet_env kind mid slot k (raw k)) ms v = Some v' \<and>
      w_taskQueue v' = w_taskQueue v" for ms v
  proof (induction ms arbitrary: v)
    case (Cons x xs)
    obtain k kind mid slot where x: "x = (k, kind, mid, slot)" by (cases x)
    obtain u where "new_Module quiet_env kind mid slot k (raw k) v = Some u" "w_taskQueue u = w_taskQueue v"
      using new_Module_runs by blast
    then show ?case using Cons [of u] x by simp
  qed simp
  have q: "\<exists>w. QueuedRead quiet_env r n b v = Some w" if "w_taskQueue v = w_taskQueue (new_Storage taskBuffer w0)" for r n b v
    unfolding QueuedRead_def
    by (rule queue_task_total [of _ "[]"]) (simp_all add: that new_Storage_empty quiet_env_def)
  show ?thesis
  proof -
    define v where "v = upd_cm (\<lambda>_. new_ConnectionManager quiet_env tx (conns (leds_off (upd_node (reset_Node bd)
      (new_Storage taskBuffer w0\<lparr>w_modules := \<lambda>_. None\<rparr>))))) (leds_off (upd_node (reset_Node bd)
      (new_Storage taskBuffer w0\<lparr>w_modules := \<lambda>_. None\<rparr>)))"
    obtain u where u: "each (\<lambda>(k, kind, mid, slot). new_Module quiet_env kind mid slot k (raw k)) (enumerate 0 the_modules) v = Some u"
      "w_taskQueue u = w_taskQueue v" using m by blast
    have "w_taskQueue v = w_taskQueue (new_Storage taskBuffer w0)" by (simp add: v_def leds_off_def gpio_def)
    then show ?thesis
      unfolding new_Node_def Let_def v_def [symmetric] u(1)
      using q u(2) by (simp add: Config_def)
  qed
qed


end
