(* ===== verification/Typed.thy ===== *)
theory Typed
  imports StoredTasks
begin

text \<open>
  The state keeps its types: the arrays of the persistent configuration have the sizes they are
  declared with, the modules keep the id and the configuration length of their class, and the four
  connections keep their number and direction, from the start of the node on and over any history.
\<close>

definition typed :: "world \<Rightarrow> bool" where
  "typed w \<longleftrightarrow> conf_typed (pconf w) \<and> (\<forall>k m. w_modules w k = Some m \<longrightarrow> module_typed m) \<and>
     (\<forall>i<4. c_connectionId (conns w i) = of_nat i \<and>
        c_direction (conns w i) = (if i = 0 then CONNECTION_DIRECTION_IN else CONNECTION_DIRECTION_OUT))"

lemma typed_cong:
  "typed v \<Longrightarrow> w_node v' = w_node v \<Longrightarrow> w_modules v' = w_modules v \<Longrightarrow>
     (\<And>i. role_same (conns v i) (conns v' i)) \<Longrightarrow> typed v'"
  by (simp add: typed_def role_same_def)

lemma typed_master:
  assumes "ConnectAsMaster E a k v = Some (v', r)" "typed v" shows "typed v'"
  by (rule typed_cong [OF assms(2)])
    (use assms(1) in \<open>auto simp: ConnectAsMaster_def Connection_Connect_def connectToPeripheral_def checked_Some
      Let_def upd_conn_def role_same_def Connection_Init_def split: if_splits option.splits\<close>)

interpretation typed: queue_property typed E for E
proof unfold_locales
  show "typed v \<Longrightarrow> sending_only v v' \<Longrightarrow> typed v'" for v v'
    by (erule typed_cong) (auto simp: sending_only_def conn_same_def role_same_def)
  show "typed v \<Longrightarrow> (\<And>n. node_shape n (nf n)) \<Longrightarrow> typed (upd_node nf v)" for v nf
    by (simp add: typed_def node_shape_def)
  show "typed v \<Longrightarrow> (\<And>c. link_same c (cf c)) \<Longrightarrow> typed (upd_conn i cf v)" for v cf i
    by (erule typed_cong) (auto simp: upd_conn_def role_same_def link_same_def)
  show "typed (upd_module k g v)" if "typed v" "\<And>m. module_shape m (g m)" for v k g
    using that by (auto simp: typed_def upd_module_def module_shape_def)
  show "typed v \<Longrightarrow> module_typed m \<Longrightarrow> typed (v\<lparr>w_modules := (w_modules v)(k \<mapsto> m)\<rparr>)" for v m k
    by (simp add: typed_def)
  show "typed v \<Longrightarrow> ConnectAsMaster E a mh v = Some (v', r) \<Longrightarrow> typed v'" for v a mh v' r
    by (rule typed_master)
qed (erule typed_cong; simp add: role_same_def)+

interpretation typed_radio: radio_property typed E for E
proof unfold_locales
  show "typed v \<Longrightarrow> (\<And>c. role_same c (lf c)) \<Longrightarrow> typed (upd_conn i lf v)" for v lf i
    by (erule typed_cong) (auto simp: upd_conn_def role_same_def)
qed (erule typed_cong; simp add: role_same_def)+

lemma typed_step:
  assumes "typed v" "\<And>opCode ok p. ev = Flash_event opCode ok (Loaded_node p) \<Longrightarrow> conf_typed p"
  shows "pred_option typed (node_step E static ev v)"
proof (cases ev)
  case (Flash_event opCode ok c)
  have "typed (load_content c v)"
    using assms(2) Flash_event by (intro typed.keeps_load_content [OF assms(1)]) simp
  then show ?thesis using typed.keeps_flash by (simp add: Flash_event node_step_def)
qed (use assms(1) typed_radio.keeps_step_radio in \<open>simp_all add: stores_def\<close>)

text \<open>C19: From the start of the node on and over any history of radio events, ticks, button presses and
  flash events the state is well typed: the arrays of the persistent configuration keep their sizes,
  whatever is enrolled, loaded or reset, each module keeps the id and the configuration length of its
  class, and the four connections keep their numbers and directions, one in and three out. It is
  assumed that memory and flash hold arrays of the declared sizes to begin with.\<close>

theorem node_well_typed:
  assumes "new_Node E bd tx raw static w0 = Some w" "node_run E static evs w = Some w'"
    "conf_typed (pconf w0)" "\<forall>opCode ok p. Flash_event opCode ok (Loaded_node p) \<in> set evs \<longrightarrow> conf_typed p"
  shows "typed w'"
proof -
  have "pred_option typed (new_Node E bd tx raw static w0)"
    by (rule typed.keeps_start)
      (simp add: typed_def assms(3) new_ConnectionManager_def new_Connection_def Connection_Init_def)
  then have "typed w" using assms(1) by simp
  with assms(2) show ?thesis by (rule node_run_keeps) (use assms(4) in \<open>auto intro: typed_step\<close>)
qed

lemma node_well_typed_witness:
  "\<exists>w w'. new_Node quiet_env \<lparr>BSP_LED_0 = 21, BSP_LED_1 = 22, BSP_LED_2 = 23, GPIO_BUZZER = 1, GPIO_RELAY = 2,
       INVERT_LEDS = True, INVERT_GPIOS = False\<rparr> 6 (\<lambda>_ _. 0) 1 (new_Storage (\<lambda>_. 0) zero_world) = Some w \<and>
     node_run quiet_env 1 [Timer, Timer] w = Some w' \<and> typed w'"
proof -
  obtain w where w: "new_Node quiet_env \<lparr>BSP_LED_0 = 21, BSP_LED_1 = 22, BSP_LED_2 = 23, GPIO_BUZZER = 1, GPIO_RELAY = 2,
       INVERT_LEDS = True, INVERT_GPIOS = False\<rparr> 6 (\<lambda>_ _. 0) 1 (new_Storage (\<lambda>_. 0) zero_world) = Some w"
    using new_Node_runs by blast
  obtain w' where w': "node_run quiet_env 1 [Timer, Timer] w = Some w'"
    by (simp add: node_run_def node_step_def)
  have "conf_typed (pconf (new_Storage (\<lambda>_. 0) zero_world))"
    by (simp add: conf_typed_def new_Storage_def zero_world_def zero_node_def zero_nodeConfiguration_def
        SERIAL_NUMBER_LENGTH_def Config_def)
  from node_well_typed [OF w w' this] w w' show ?thesis by auto
qed

end
