(* ===== verification/Agreement.thy ===== *)
theory Agreement
  imports Bookkeeping ModuleHandlers
begin

text \<open>
  Two nodes together: what one sends and the other receives. The messages of the handshake make exactly
  one side join, and leave both with the same cluster; an update of the cluster counts a hop too many;
  the button of one node switches the lights of another.
\<close>

section \<open>Who joins whom\<close>

lemma welcome_received:
  "cw_clusterId (read_clusterWelcome (received (clusterWelcome_message E i w) SIZEOF_CONN_PACKET_CLUSTER_WELCOME rest))
     = n_clusterId (w_node w)"
  "cw_clusterSize (read_clusterWelcome (received (clusterWelcome_message E i w) SIZEOF_CONN_PACKET_CLUSTER_WELCOME rest))
     = n_clusterSize (w_node w)"
  by (simp_all add: read_clusterWelcome_def clusterWelcome_message_def write_clusterWelcome_def sizeof_defs)

lemma larger_decides:
  fixes s t :: clusterSIZE and c d :: clusterID
  assumes "c \<noteq> d"
  shows "(sint s < sint t \<or> s = t \<and> c < d) \<longleftrightarrow> \<not> (sint t < sint s \<or> t = s \<and> d < c)"
proof (cases "sint s = sint t")
  case True
  then have "s = t" by (rule signed_word_eqI)
  then show ?thesis using assms by auto
qed auto



section \<open>The end of a handshake\<close>

text \<open>What the end of a handshake settles.\<close>

definition membership :: "world \<Rightarrow> clusterID \<times> clusterSIZE \<times> nodeID \<times> (nat \<Rightarrow> nodeID \<times> bool \<times> clusterID \<times> clusterSIZE)" where
  "membership w = (n_clusterId (w_node w), n_clusterSize (w_node w), nodeId w,
     \<lambda>i. (c_partnerId (conns w i), c_handshakeDone (conns w i), c_connectedClusterId (conns w i), c_connectedClusterSize (conns w i)))"

interpretation membership: quiet_property "\<lambda>w. membership w = M" E for M E
  by unfold_locales (auto simp: membership_def radio_only_def node_same_def)

lemma membership_sending: "sending_only v v' \<Longrightarrow> membership v' = membership v"
  by (auto simp: membership_def sending_only_def conn_same_def)

lemma membership_update:
  assumes "send_clusterInfoUpdate E stack i c n s w = Some w'" shows "membership w' = membership w"
  using assms unfolding send_clusterInfoUpdate_def
  by (rule each_invariant [where P = "\<lambda>v. membership v = membership w"])
    (auto split: if_splits dest!: sending_only_SendMessage membership_sending)

lemma membership_done:
  assumes "HandshakeDoneHandler E i w = Some w'" shows "membership w' = membership w"
proof -
  obtain v where v: "each (\<lambda>k w. case w_modules w k of None \<Rightarrow> Some w
      | Some m \<Rightarrow> MeshConnectionChangedHandler E i m w) [0..<MAX_MODULE_COUNT] w = Some v"
    and w': "ChangeState E DISCOVERY v = Some w'"
    using assms by (auto simp: HandshakeDoneHandler_def split: option.splits bind_splits)
  have "membership v = membership w"
    by (rule each_invariant [where P = "\<lambda>v. membership v = membership w", OF v])
      (auto simp: MeshConnectionChangedHandler_def StartConnectionRSSIMeasurement_def checked_Some Let_def
        membership_def upd_conn_def fun_eq_iff split: option.splits if_splits)
  then show ?thesis using membership.discovery [OF w'] by blast
qed

lemma membership_join_me: "UpdateJoinMePacket E x v = Some v' \<Longrightarrow> membership v' = membership v"
  using membership.join_me by blast

text \<open>The master's side, with the message it sends.\<close>

lemma ack1_outcome:
  assumes "handle_CLUSTER_ACK_1 E i d a = Some a'"
  shows "n_clusterId (w_node a') = n_clusterId (w_node a)" "n_clusterSize (w_node a') = n_clusterSize (w_node a) + 1"
    "c_handshakeDone (conns a' i)" "c_connectedClusterId (conns a' i) = n_clusterId (w_node a)"
    "c_partnerId (conns a' i) = get_sender d"
    "\<exists>v u. SendMessage E i (clusterAck2_message (shifted (e_stack E (w_trace a)) 64) i a')
       (of_nat SIZEOF_CONN_PACKET_CLUSTER_ACK_2) True v = Some u"
proof -
  define a1 where "a1 = upd_conn i (\<lambda>c. c\<lparr>c_hopsToSink := hops_over (a1_hopsToSink (read_clusterAck1 d)),
      c_connectedClusterId := n_clusterId (w_node a), c_partnerId := get_sender d,
      c_connectedClusterSize := c_connectedClusterSize c + 1, c_handshakeDone := True\<rparr>)
    (upd_node (\<lambda>n. n\<lparr>n_clusterSize := n_clusterSize n + 1\<rparr>) a)"
  let ?m = "clusterAck2_message (shifted (e_stack E (w_trace a)) 64) i"
  obtain v u x where v: "send_clusterInfoUpdate E (e_stack E (w_trace a)) i (n_clusterId (w_node a)) 0 1 a1 = Some v"
    and u: "SendMessage E i (?m v) (of_nat SIZEOF_CONN_PACKET_CLUSTER_ACK_2) True v = Some u"
    and x: "UpdateJoinMePacket E None u = Some x" and a': "HandshakeDoneHandler E i x = Some a'"
    using assms by (auto simp: handle_CLUSTER_ACK_1_def a1_def Let_def split: bind_splits)
  have "membership v = membership a1" "membership u = membership v" "membership x = membership u"
    "membership a' = membership x"
    using membership_update [OF v] membership_sending [OF sending_only_SendMessage [OF u]] membership_join_me [OF x]
      membership_done [OF a'] by simp_all
  then have m: "membership a' = membership a1" "membership a' = membership v" by simp_all
  then have "?m v = ?m a'"
    by (simp add: membership_def clusterAck2_message_def fun_eq_iff)
  with u show "\<exists>v u. SendMessage E i (?m a') (of_nat SIZEOF_CONN_PACKET_CLUSTER_ACK_2) True v = Some u" by metis
  have c: "c_handshakeDone (conns a' i) = c_handshakeDone (conns a1 i)"
    "c_partnerId (conns a' i) = c_partnerId (conns a1 i)"
    "c_connectedClusterId (conns a' i) = c_connectedClusterId (conns a1 i)"
    using m(1) by (simp_all add: membership_def fun_eq_iff)
  show "n_clusterId (w_node a') = n_clusterId (w_node a)" "n_clusterSize (w_node a') = n_clusterSize (w_node a) + 1"
    using m(1) by (simp_all add: membership_def a1_def)
  show "c_handshakeDone (conns a' i)" "c_connectedClusterId (conns a' i) = n_clusterId (w_node a)"
    "c_partnerId (conns a' i) = get_sender d"
    by (simp_all add: c a1_def)
qed

lemma ack2_outcome:
  assumes "handle_CLUSTER_ACK_2 E j d b = Some b'"
  shows "n_clusterId (w_node b') = a2_clusterId (read_clusterAck2 d)"
    "n_clusterSize (w_node b') = n_clusterSize (w_node b) + (a2_clusterSize (read_clusterAck2 d) - 1)"
    "c_handshakeDone (conns b' j)" "c_connectedClusterId (conns b' j) = a2_clusterId (read_clusterAck2 d)"
proof -
  let ?p = "read_clusterAck2 d"
  define b1 where "b1 = upd_conn j (\<lambda>c. c\<lparr>c_handshakeDone := True\<rparr>)
    (upd_node (\<lambda>n. n\<lparr>n_clusterId := a2_clusterId ?p, n_clusterSize := n_clusterSize n + (a2_clusterSize ?p - 1)\<rparr>)
      (upd_conn j (\<lambda>c. c\<lparr>c_connectedClusterId := a2_clusterId ?p,
         c_connectedClusterSize := c_connectedClusterSize c + (a2_clusterSize ?p - 1)\<rparr>) b))"
  obtain x where x: "UpdateJoinMePacket E None b1 = Some x" and b': "HandshakeDoneHandler E j x = Some b'"
    using assms by (auto simp: handle_CLUSTER_ACK_2_def b1_def Let_def split: bind_splits)
  have m: "membership b' = membership b1" using membership_join_me [OF x] membership_done [OF b'] by simp
  then have c: "c_handshakeDone (conns b' j) = c_handshakeDone (conns b1 j)"
    "c_connectedClusterId (conns b' j) = c_connectedClusterId (conns b1 j)"
    by (simp_all add: membership_def fun_eq_iff)
  show "n_clusterId (w_node b') = a2_clusterId ?p"
    "n_clusterSize (w_node b') = n_clusterSize (w_node b) + (a2_clusterSize ?p - 1)"
    using m by (simp_all add: membership_def b1_def)
  show "c_handshakeDone (conns b' j)" "c_connectedClusterId (conns b' j) = a2_clusterId ?p"
    by (simp_all add: c b1_def)
qed


text \<open>A second node, in a cluster of its own.\<close>

definition joining_world :: world where
  "joining_world = upd_node (\<lambda>n. n\<lparr>n_clusterId := 7, n_persistentConfig := (n_persistentConfig n)\<lparr>pc_nodeId := 2\<rparr>\<rparr>) zero_world"


section \<open>Updates of the cluster\<close>

text \<open>C39: A CLUSTER_INFO_UPDATE says how far its sender is from the sink. Passing the packet on counts
  the hop in the packet itself, and the update of the connection then counts it once more: the node that
  receives \<open>h\<close> takes the sink to be \<open>h + 2\<close> hops away over this connection, where a handshake with the
  same sender gives \<open>h + 1\<close>.\<close>

theorem hops_counted_twice:
  assumes "get_messageType data = MESSAGE_TYPE_CLUSTER_INFO_UPDATE" "get_receiver data = NODE_ID_BROADCAST"
    "nodeId w \<noteq> NODE_ID_BROADCAST" "iu_hopsToSink (read_clusterInfoUpdate data) = h" "0 \<le> sint h" "sint h < 2 ^ 15 - 2"
    "route_packet E i data n reliable w = Some (v, data')"
    "UpdateClusterInfo E i (read_clusterInfoUpdate data') v = Some v'"
  shows "c_hopsToSink (conns v' i) = h + 2 \<and> hops_over h = h + 1"
proof -
  have s: "sint (h + 1) = sint h + 1"
    using assms(5,6) by (subst signed_take_bit_int_eq_self [of 15 "sint h + 1", symmetric]) (simp_all add: sint_word_ariths)
  have notlast: "\<not> last_receiver (get_receiver data) w" "get_receiver data \<noteq> NODE_ID_SHORTEST_SINK"
    using assms(2,3) by (auto simp: last_receiver_def NODE_ID_BROADCAST_def NODE_ID_HOPS_BASE_def NODE_ID_SHORTEST_SINK_def)
  have d: "data' = relay_packet data"
    using assms(7) notlast by (auto simp: route_packet_def Let_def)
  have "get16 17 data = h" using assms(4) by (simp add: read_clusterInfoUpdate_def)
  then have h: "iu_hopsToSink (read_clusterInfoUpdate data') = h + 1"
    using assms(1,5) by (simp add: d relay_packet_def read_clusterInfoUpdate_def Let_def)
  have keep: "w_cm u' = w_cm u" if "UpdateJoinMePacket E None u = Some u'" for u u'
    using that by (auto simp: UpdateJoinMePacket_def Let_def radio_only_def dest!: radio_only_UpdateAdvertisingData)
  obtain x where x: "(if iu_clusterSizeChange (read_clusterInfoUpdate data') \<noteq> 0 then UpdateJoinMePacket E None
        (upd_conn i (\<lambda>c. c\<lparr>c_connectedClusterSize := c_connectedClusterSize c + iu_clusterSizeChange (read_clusterInfoUpdate data')\<rparr>)
          (upd_node (\<lambda>n. n\<lparr>n_clusterSize := n_clusterSize n + iu_clusterSizeChange (read_clusterInfoUpdate data')\<rparr>)
            (upd_conn i (\<lambda>c. c\<lparr>c_hopsToSink := hops_over (h + 1)\<rparr>) v)))
      else Some (upd_conn i (\<lambda>c. c\<lparr>c_hopsToSink := hops_over (h + 1)\<rparr>) v)) = Some x"
    and v': "Some v' = (if iu_currentClusterId (read_clusterInfoUpdate data') = n_clusterId (w_node x) \<and>
        iu_newClusterId (read_clusterInfoUpdate data') \<noteq> 0 then UpdateJoinMePacket E None
          (upd_conn i (\<lambda>c. c\<lparr>c_connectedClusterId := iu_newClusterId (read_clusterInfoUpdate data')\<rparr>)
            (upd_node (\<lambda>n. n\<lparr>n_clusterId := iu_newClusterId (read_clusterInfoUpdate data')\<rparr>) x)) else Some x)"
    using assms(8) unfolding UpdateClusterInfo_def h by (auto split: bind_splits)
  have "c_hopsToSink (conns x i) = hops_over (h + 1)"
    using x by (cases "iu_clusterSizeChange (read_clusterInfoUpdate data') = 0") (auto simp: upd_conn_def dest!: keep)
  moreover have "c_hopsToSink (conns v' i) = c_hopsToSink (conns x i)"
    using v' [symmetric] by (auto simp: upd_conn_def dest!: keep split: if_splits)
  ultimately have "c_hopsToSink (conns v' i) = hops_over (h + 1)" by simp
  then show ?thesis using assms(5) s by (simp add: hops_over_def)
qed

text \<open>A node at distance 3 of the sink tells it to its neighbours.\<close>

lemma hops_counted_twice_witness:
  "\<exists>v data' v'. route_packet quiet_env 0 (write_clusterInfoUpdate \<lparr>iu_currentClusterId = 65536, iu_newClusterId = 0,
        iu_clusterSizeChange = 1, iu_hopsToSink = 3\<rparr> (message_header MESSAGE_TYPE_CLUSTER_INFO_UPDATE 2 0 (\<lambda>_. 0))) 18 True
        zero_world = Some (v, data') \<and>
     UpdateClusterInfo quiet_env 0 (read_clusterInfoUpdate data') v = Some v' \<and>
     c_hopsToSink (conns v' 0) = 3 + 2 \<and> hops_over 3 = 3 + 1"
proof -
  let ?m = "write_clusterInfoUpdate \<lparr>iu_currentClusterId = 65536, iu_newClusterId = 0,
        iu_clusterSizeChange = 1, iu_hopsToSink = 3\<rparr> (message_header MESSAGE_TYPE_CLUSTER_INFO_UPDATE 2 0 (\<lambda>_. 0))"
  have "(case route_packet quiet_env 0 ?m 18 True zero_world of None \<Rightarrow> False
      | Some (v, data') \<Rightarrow> UpdateClusterInfo quiet_env 0 (read_clusterInfoUpdate data') v \<noteq> None)"
    by code_simp
  then obtain v data' v' where r: "route_packet quiet_env 0 ?m 18 True zero_world = Some (v, data')"
    "UpdateClusterInfo quiet_env 0 (read_clusterInfoUpdate data') v = Some v'"
    by (auto split: option.splits)
  have "c_hopsToSink (conns v' 0) = 3 + 2 \<and> hops_over 3 = 3 + 1"
    by (rule hops_counted_twice [OF _ _ _ _ _ _ r])
      (simp_all add: message_header_def write_clusterInfoUpdate_def read_clusterInfoUpdate_def message_type_defs
        NODE_ID_BROADCAST_def zero_world_def zero_node_def zero_nodeConfiguration_def)
  with r show ?thesis by blast
qed

section \<open>The light switch\<close>

lemma led_Off_lit: "led_active l \<Longrightarrow> m_io_msk l \<noteq> 0 \<Longrightarrow> \<not> led_lit l (led_Off l out)"
  by (auto simp: led_lit_def led_Off_def bit_eq_iff bit_simps)

definition lights :: "Node \<Rightarrow> LedWrapper list" where
  "lights n = [n_LedRed n, n_LedBlue n, n_LedGreen n, n_Relay n]"

lemma four_lights:
  assumes "\<forall>l \<in> set [r, b, g, y]. led_active l \<and> m_io_msk l \<noteq> 0"
    "pairwise (\<lambda>k l. m_io_msk k AND m_io_msk l = 0) (set [r, b, g, y])" "distinct [r, b, g, y]" "l \<in> set [r, b, g, y]"
  shows "led_lit l ((led_On y \<circ> led_On g \<circ> led_On b \<circ> led_On r) out)"
    "\<not> led_lit l ((led_Off y \<circ> led_Off g \<circ> led_Off b \<circ> led_Off r) out)"
proof -
  have "m_io_msk b AND m_io_msk r = 0" "m_io_msk g AND m_io_msk r = 0" "m_io_msk y AND m_io_msk r = 0"
    "m_io_msk g AND m_io_msk b = 0" "m_io_msk y AND m_io_msk b = 0" "m_io_msk y AND m_io_msk g = 0"
    using assms(2,3) by (auto simp: pairwise_def)
  with assms(1,4) show "led_lit l ((led_On y \<circ> led_On g \<circ> led_On b \<circ> led_On r) out)"
    "\<not> led_lit l ((led_Off y \<circ> led_Off g \<circ> led_Off b \<circ> led_Off r) out)"
    by (auto simp: led_On_lit led_Off_lit led_other)
qed

text \<open>C32: Pressing the button of one node switches the lights of another: the message that is sent on all
  connections, as the lamp receives it, turns the lamp's relay and its three LEDs on if the switch was on
  and off if it was off, and the switch is turned over, so that the next press does the opposite. The
  four lights have pins of their own and are active.\<close>

theorem light_switch:
  assumes "button_handler deliver E True True w = Some w'"
    "nodeId w \<noteq> LIGHT_CONNECTED_NODE" "nodeId lamp = LIGHT_CONNECTED_NODE"
    "\<forall>l \<in> set (lights (w_node lamp)). led_active l \<and> m_io_msk l \<noteq> 0"
    "pairwise (\<lambda>k l. m_io_msk k AND m_io_msk l = 0) (set (lights (w_node lamp)))" "distinct (lights (w_node lamp))"
  shows "\<exists>sent u. SendMessageOverConnections E None sent 12 True w = Some u \<and>
    lt_relayToggle (w_mstate w') = (\<not> lt_relayToggle (w_mstate w)) \<and>
    (\<forall>rest. \<forall>l \<in> set (lights (w_node lamp)).
       led_lit l (w_gpio (LightToggle_packet (received sent 12 rest) 12 lamp)) \<longleftrightarrow> lt_relayToggle (w_mstate w))"
proof -
  let ?on = "lt_relayToggle (w_mstate w)" and ?n = "w_node lamp"
  let ?sent = "(message_header MESSAGE_TYPE_LIGHT_TOGGLE (nodeId w) LIGHT_CONNECTED_NODE (e_stack E (w_trace w)))
    (module_data := if ?on then 255 else 0)"
  have h: "get_receiver ?sent = LIGHT_CONNECTED_NODE" "get_sender ?sent = nodeId w"
    "get_messageType ?sent = MESSAGE_TYPE_LIGHT_TOGGLE"
    by (simp_all add: message_header_def module_data_def message_type_defs)
  have r: "get_receiver (received ?sent 12 rest) = LIGHT_CONNECTED_NODE" "get_sender (received ?sent 12 rest) = nodeId w"
    "get_messageType (received ?sent 12 rest) = MESSAGE_TYPE_LIGHT_TOGGLE"
    "received ?sent 12 rest 11 = (if ?on then 255 else 0)" for rest
    using h by (simp_all add: module_data_def)
  have send: "send_light_toggle_packet deliver E LIGHT_CONNECTED_NODE (if ?on then 255 else 0) w =
      SendMessageOverConnections E None ?sent 12 True w"
    using assms(2) h(1)
    by (simp add: send_light_toggle_packet_def send_module_message_def SendMessageToReceiver_def sizeof_defs
        LIGHT_CONNECTED_NODE_def NODE_ID_BROADCAST_def NODE_ID_SHORTEST_SINK_def)
  obtain u where u: "SendMessageOverConnections E None ?sent 12 True w = Some u"
    "w' = w_mstate_update (\<lambda>s. s\<lparr>lt_relayToggle := \<not> ?on\<rparr>) u"
    using assms(1) by (auto simp: button_handler_def send Let_def simp del: fun_upd_apply)
  have "led_lit l (w_gpio (LightToggle_packet (received ?sent 12 rest) 12 lamp)) \<longleftrightarrow> ?on" if "l \<in> set (lights ?n)" for l rest
  proof -
    note f = four_lights [OF assms(4-6) [unfolded lights_def] that [unfolded lights_def], of "w_gpio lamp"]
    have "w_gpio (LightToggle_packet (received ?sent 12 rest) 12 lamp) =
        (if ?on then led_On (n_Relay ?n) \<circ> led_On (n_LedGreen ?n) \<circ> led_On (n_LedBlue ?n) \<circ> led_On (n_LedRed ?n)
         else led_Off (n_Relay ?n) \<circ> led_Off (n_LedGreen ?n) \<circ> led_Off (n_LedBlue ?n) \<circ> led_Off (n_LedRed ?n)) (w_gpio lamp)"
      using assms(2,3) r [of rest]
      by (simp add: LightToggle_packet_def gpio_def Let_def del: received_apply)
    then show ?thesis using f by simp
  qed
  then show ?thesis using u by auto
qed

definition lamp_world :: world where
  "lamp_world = upd_node (\<lambda>n. n\<lparr>n_persistentConfig := (n_persistentConfig n)\<lparr>pc_nodeId := LIGHT_CONNECTED_NODE\<rparr>,
     n_LedRed := led_init 21 True, n_LedBlue := led_init 22 True, n_LedGreen := led_init 23 True,
     n_Relay := led_init 2 False\<rparr>) zero_world"

lemma light_switch_witness:
  "\<exists>w'. button_handler (\<lambda>_. Some) quiet_env True True zero_world = Some w' \<and>
     (\<exists>sent. \<forall>l \<in> set (lights (w_node lamp_world)).
        \<not> led_lit l (w_gpio (LightToggle_packet (received sent 12 (\<lambda>_. 0)) 12 lamp_world)))"
proof -
  have "button_handler (\<lambda>_. Some) quiet_env True True zero_world \<noteq> None" by code_simp
  then obtain w' where w': "button_handler (\<lambda>_. Some) quiet_env True True zero_world = Some w'" by blast
  have off: "\<not> lt_relayToggle (w_mstate zero_world)" by (simp add: zero_world_def)
  have "\<exists>sent u. SendMessageOverConnections quiet_env None sent 12 True zero_world = Some u \<and>
    lt_relayToggle (w_mstate w') = (\<not> lt_relayToggle (w_mstate zero_world)) \<and>
    (\<forall>rest. \<forall>l \<in> set (lights (w_node lamp_world)).
       led_lit l (w_gpio (LightToggle_packet (received sent 12 rest) 12 lamp_world)) \<longleftrightarrow> lt_relayToggle (w_mstate zero_world))"
    by (rule light_switch [OF w'])
      (auto simp: lamp_world_def zero_world_def zero_node_def zero_nodeConfiguration_def LIGHT_CONNECTED_NODE_def
        lights_def led_init_def pairwise_insert)
  with w' off show ?thesis by blast
qed

end
