(* ===== verification/Texts.thy ===== *)
theory Texts
  imports Prelude "HOL-Library.Char_ord"
begin

text \<open>
  Texts: what of the C library the program reads and prints numbers with (\<open>strtoul\<close>, \<open>strtol\<close>,
  \<open>atoi\<close>, \<open>toupper\<close>, the formats \<open>%u\<close> and \<open>%02X\<close> of \<open>sprintf\<close>), and the conversions of
  \<^verbatim>\<open>src/utility/Logger.cpp\<close> that use it: bytes in hexadecimal, and times.
\<close>

section \<open>The C library\<close>

definition isspace :: "char \<Rightarrow> bool" where
  "isspace c \<longleftrightarrow> of_char c = (32 :: nat) \<or> 9 \<le> (of_char c :: nat) \<and> (of_char c :: nat) \<le> 13"

definition toupper :: "char \<Rightarrow> char" where
  "toupper c = (let n = of_char c :: nat in if 97 \<le> n \<and> n \<le> 122 then char_of (n - 32) else c)"

definition digit_value :: "char \<Rightarrow> nat option" where
  "digit_value c = (let n = of_char c :: nat
     in if 48 \<le> n \<and> n \<le> 57 then Some (n - 48)
        else if 65 \<le> n \<and> n \<le> 90 then Some (n - 55)
        else if 97 \<le> n \<and> n \<le> 122 then Some (n - 87)
        else None)"

fun digits :: "nat \<Rightarrow> nat \<Rightarrow> string \<Rightarrow> nat" where
  "digits base acc [] = acc"
| "digits base acc (c # cs) =
     (case digit_value c of
        Some d \<Rightarrow> if d < base then digits base (acc * base + d) cs else acc
      | None \<Rightarrow> acc)"

text \<open>White space, a sign and, for base 16, a prefix are skipped.\<close>

definition number :: "nat \<Rightarrow> string \<Rightarrow> bool \<times> nat" where
  "number base s =
     (let s = dropWhile isspace s;
          (neg, s) = (case s of c # cs \<Rightarrow> if c = CHR ''-'' then (True, cs) else if c = CHR ''+'' then (False, cs) else (False, s)
            | [] \<Rightarrow> (False, []));
          s = (if base = 16 \<and> map toupper (take 2 s) = ''0X'' then drop 2 s else s)
      in (neg, digits base 0 s))"

text \<open>A value out of range gives the nearest one, as in the C library of the compiler; \<open>int\<close> and
  \<open>long\<close> have 32 bits.\<close>

definition strtoul :: "nat \<Rightarrow> string \<Rightarrow> u32" where
  "strtoul base s = (case number base s of (neg, v) \<Rightarrow>
     if v \<ge> 2 ^ 32 then - 1 else if neg then - of_nat v else of_nat v)"

definition strtol :: "nat \<Rightarrow> string \<Rightarrow> int" where
  "strtol base s = (case number base s of (neg, v) \<Rightarrow>
     max (- (2 ^ 31)) (min (2 ^ 31 - 1) (if neg then - int v else int v)))"

definition atoi :: "string \<Rightarrow> int" where "atoi = strtol 10"

fun decimal :: "nat \<Rightarrow> string" where
  "decimal n = (if n < 10 then [char_of (48 + n)] else decimal (n div 10) @ [char_of (48 + n mod 10)])"

declare decimal.simps [simp del]

text \<open>\<open>%0<width>u\<close>\<close>

definition padded :: "nat \<Rightarrow> nat \<Rightarrow> string" where
  "padded width n = replicate (width - length (decimal n)) (CHR ''0'') @ decimal n"

definition hex_digit :: "nat \<Rightarrow> char" where
  "hex_digit d = ''0123456789ABCDEF'' ! d"

definition hex_byte :: "u8 \<Rightarrow> string" where
  "hex_byte b = [hex_digit (unat b div 16), hex_digit (unat b mod 16)]"

text \<open>Characters and bytes.\<close>

definition text_of :: "u8 list \<Rightarrow> string" where
  "text_of bs = map (\<lambda>b. char_of (unat b)) bs"

definition bytes_of :: "string \<Rightarrow> u8 list" where
  "bytes_of s = map (\<lambda>c. of_nat (of_char c)) s"

lemma text_of_append: "text_of (xs @ ys) = text_of xs @ text_of ys"
  by (simp add: text_of_def)

lemma text_of_bytes: "text_of (bytes_of s) = s"
proof -
  have "unat (of_nat (of_char c) :: u8) = of_char c" for c :: char
    using nat_of_char_less_256 [of c] by (intro unat_of_nat_small) simp
  then show ?thesis by (simp add: text_of_def bytes_of_def comp_def)
qed

section \<open>Bytes in hexadecimal\<close>

text \<open>What is written to the destination; for no bytes nothing is, not even the terminator.\<close>

definition convertBufferToHexString :: "u8 list \<Rightarrow> string" where
  "convertBufferToHexString bs =
     concat (map (\<lambda>i. if i < length bs - 1 then hex_byte (bs ! i) @ '':'' else hex_byte (bs ! i)) [0..<length bs])"

text \<open>The bytes that are written, from the start of the destination on. The destination's size is only
  compared for a log message.\<close>

definition parseHexStringToBuffer :: "string \<Rightarrow> u8 list" where
  "parseHexStringToBuffer s = map (\<lambda>i. ucast (strtoul 16 (drop (i * 3) s))) [0..<(length s + 1) div 3]"

section \<open>Times\<close>

text \<open>The clock counts \<open>freq\<close> (\<open>APP_TIMER_CLOCK_FREQ\<close>) ticks a second.\<close>

definition timestamp_parts :: "u32 \<Rightarrow> u64 \<Rightarrow> u16 \<times> u16 \<times> u16 \<times> u16 \<times> u16 \<times> u16" where
  "timestamp_parts freq t =
     (let f = ucast freq :: u64;
          yearDivider = f * 60 * 60 * 24 * 365; years = ucast (t div yearDivider + 1970); t = t mod yearDivider;
          dayDivider = f * 60 * 60 * 24; days = ucast (t div dayDivider + 1); t = t mod dayDivider;
          hourDivider = freq * 60 * 60; hours = ucast (t div ucast hourDivider); t = t mod ucast hourDivider;
          minuteDivider = freq * 60; minutes = ucast (t div ucast minuteDivider); t = t mod ucast minuteDivider;
          seconds = ucast (t div f); t = t mod f;
          millisecondDivider = freq div 1000; milliseconds = ucast (t div ucast millisecondDivider)
      in (years, days, hours, minutes, seconds, milliseconds))"

definition convertTimestampToString :: "u32 \<Rightarrow> u64 \<Rightarrow> string" where
  "convertTimestampToString freq t =
     (case timestamp_parts freq t of (years, days, hours, minutes, seconds, milliseconds) \<Rightarrow>
        ''approx. '' @ decimal (unat years) @ '' years, '' @ decimal (unat days) @ '' days, ''
        @ padded 2 (unat hours) @ ''h:'' @ padded 2 (unat minutes) @ ''m:'' @ padded 2 (unat seconds) @ ''s,''
        @ padded 3 (unat milliseconds) @ ''ms'')"

section \<open>Reading back what was printed\<close>

lemma digits_append:
  assumes "\<forall>c \<in> set s. \<exists>d. digit_value c = Some d \<and> d < base"
  shows "digits base acc (s @ t) = digits base (digits base acc s) t"
  using assms by (induction s arbitrary: acc) auto

lemma decimal_digit:
  assumes "d < 10"
  shows "digit_value (char_of (48 + d)) = Some d" "\<not> isspace (char_of (48 + d))"
    "char_of (48 + d) \<noteq> CHR ''-''" "char_of (48 + d) \<noteq> CHR ''+''"
proof -
  have c: "of_char (char_of (48 + d) :: char) = 48 + d" using assms by (simp add: of_char_of)
  show "digit_value (char_of (48 + d)) = Some d" "\<not> isspace (char_of (48 + d))"
    using assms by (simp_all add: digit_value_def isspace_def c)
  show "char_of (48 + d) \<noteq> CHR ''-''" "char_of (48 + d) \<noteq> CHR ''+''"
    using c by (auto dest: arg_cong [of _ _ "of_char :: char \<Rightarrow> nat"])
qed

lemma decimal_digits:
  "(\<forall>c \<in> set (decimal n). \<exists>d. digit_value c = Some d \<and> d < 10) \<and> digits 10 0 (decimal n) = n \<and>
   (\<exists>(d :: nat) cs. d < 10 \<and> decimal n = char_of (48 + d) # cs)"
proof (induction n rule: decimal.induct)
  case (1 n)
  show ?case
  proof (cases "n < 10")
    case True
    then show ?thesis
      by (subst (1 2 3) decimal.simps) (use True in \<open>auto simp: decimal_digit intro!: exI [of _ n]\<close>)
  next
    case False
    note IH = 1 [OF False]
    have m: "digit_value (char_of (48 + n mod 10)) = Some (n mod 10)" by (rule decimal_digit(1)) simp
    have "digits 10 0 (decimal n) = digits 10 (n div 10) [char_of (48 + n mod 10)]"
      using IH digits_append [of "decimal (n div 10)" 10 0] by (subst decimal.simps) (simp add: False)
    also have "\<dots> = n" by (simp add: m)
    finally have d: "digits 10 0 (decimal n) = n" .
    have e: "decimal n = decimal (n div 10) @ [char_of (48 + n mod 10)]" by (subst decimal.simps) (simp add: False)
    show ?thesis using IH m unfolding d unfolding e by auto
  qed
qed

lemma decimal_length: "0 < k \<Longrightarrow> length (decimal n) \<le> k \<longleftrightarrow> n < 10 ^ k"
proof (induction k arbitrary: n)
  case (Suc k)
  show ?case
  proof (cases "n < 10")
    case True
    have "(10 :: nat) \<le> 10 ^ Suc k" by simp
    then show ?thesis using True by (subst decimal.simps) (simp add: order.strict_trans2 del: power_Suc)
  next
    case False
    then have "length (decimal n) = Suc (length (decimal (n div 10)))" by (subst decimal.simps) simp
    moreover have "n div 10 < 10 ^ k \<longleftrightarrow> n < 10 ^ Suc k" by (simp add: div_less_iff_less_mult mult.commute)
    moreover have "length (decimal m) \<noteq> 0" for m by (subst decimal.simps) simp
    ultimately show ?thesis using Suc.IH [of "n div 10"] False by (cases k) simp_all
  qed
qed simp

text \<open>A number that was printed reads back, whatever follows it but another digit.\<close>

lemma atoi_decimal:
  assumes "n < 2 ^ 31" "rest = [] \<or> digit_value (hd rest) = None \<or> 10 \<le> the (digit_value (hd rest))"
  shows "atoi (decimal n @ rest) = int n"
proof -
  from decimal_digits [of n] obtain d :: nat and cs where d: "d < 10" "decimal n = char_of (48 + d) # cs"
    and ds: "\<forall>c \<in> set (decimal n). \<exists>d. digit_value c = Some d \<and> d < 10" "digits 10 0 (decimal n) = n" by blast
  have "digits 10 n rest = n" using assms(2) by (cases rest) (auto split: option.splits)
  then have "digits 10 0 (decimal n @ rest) = n" using digits_append [OF ds(1), of 0 rest] ds(2) by simp
  then have "number 10 (decimal n @ rest) = (False, n)"
    using decimal_digit(2-4) [OF d(1)] by (simp add: number_def d(2))
  then show ?thesis using assms(1) by (simp add: atoi_def strtol_def)
qed

lemma hex_digits:
  assumes "d < 16"
  shows "digit_value (hex_digit d) = Some d \<and> \<not> isspace (hex_digit d) \<and> hex_digit d \<noteq> CHR ''-'' \<and>
    hex_digit d \<noteq> CHR ''+'' \<and> toupper (hex_digit d) \<noteq> CHR ''X''"
proof -
  from assms have "d \<in> set [0..<16]" by simp
  then show ?thesis
    by (simp add: upt_rec [of _ "16"] numeral_eq_Suc)
       (elim disjE; simp add: digit_value_def isspace_def hex_digit_def toupper_def Let_def)
qed

lemma upt_from_0: "[0..<Suc n] = 0 # map Suc [0..<n]"
  by (simp add: map_Suc_upt upt_conv_Cons del: upt_Suc)

lemma strtoul_hex_byte:
  assumes "rest = [] \<or> hd rest = CHR '':''" shows "strtoul 16 (hex_byte b @ rest) = ucast b"
proof -
  let ?h = "unat b div 16" and ?l = "unat b mod 16"
  have b: "unat b < 256" using unat_bound [of b] by simp
  then have h: "?h < 16" "?l < 16" by simp_all
  have "digits 16 v rest = v" for v
    using assms by (cases rest) (auto simp: digit_value_def)
  then have "number 16 (hex_byte b @ rest) = (False, unat b)"
    using hex_digits [OF h(1)] hex_digits [OF h(2)] h
    by (simp add: number_def hex_byte_def)
  then show ?thesis using b by (simp add: strtoul_def)
qed

lemma convert_Cons:
  "convertBufferToHexString (b # bs) = hex_byte b @ (if bs = [] then [] else CHR '':'' # convertBufferToHexString bs)"
  unfolding convertBufferToHexString_def length_Cons upt_from_0
  by (cases bs) (simp_all add: comp_def less_diff_conv del: upt_Suc cong: if_cong)

lemma drop_three: "drop (Suc i * 3) (x # y # z # s) = drop (i * 3) s"
proof -
  have "Suc i * 3 = Suc (Suc (Suc (i * 3)))" by simp
  then show ?thesis by (simp del: mult_Suc)
qed

lemma parse_Cons:
  "parseHexStringToBuffer (x # y # CHR '':'' # s) = ucast (strtoul 16 (x # y # CHR '':'' # s)) # parseHexStringToBuffer s"
proof -
  have n: "(length (x # y # CHR '':'' # s) + 1) div 3 = Suc ((length s + 1) div 3)" by simp
  show ?thesis
    unfolding parseHexStringToBuffer_def n upt_from_0
    by (simp add: comp_def drop_three del: upt_Suc mult_Suc)
qed

lemma ucast_u8_u32 [simp]: "ucast (ucast (b :: u8) :: u32) = b"
  by (rule bit_word_eqI) (auto simp: bit_simps dest: bit_imp_le_length)

text \<open>C36: Bytes that are printed in hexadecimal, as a configuration is shown on the terminal, and typed in
  again are the same bytes.\<close>

theorem hex_roundtrip: "parseHexStringToBuffer (convertBufferToHexString bs) = bs"
proof (induction bs)
  case (Cons b bs)
  show ?case
  proof (cases bs)
    case Nil
    have "ucast (strtoul 16 (hex_byte b)) = b" using strtoul_hex_byte [of "[]" b] by simp
    moreover have "length (hex_byte b) = 2" by (simp add: hex_byte_def)
    ultimately show ?thesis by (simp add: Nil convert_Cons parseHexStringToBuffer_def)
  next
    case (Cons c cs)
    let ?s = "convertBufferToHexString bs"
    have "ucast (strtoul 16 (hex_byte b @ CHR '':'' # ?s)) = b" using strtoul_hex_byte [of "CHR '':'' # ?s" b] by simp
    then show ?thesis
      using Cons.IH Cons parse_Cons [of "hex_digit (unat b div 16)" "hex_digit (unat b mod 16)" ?s]
      by (simp add: convert_Cons [of b] hex_byte_def)
  qed
qed (simp add: convertBufferToHexString_def parseHexStringToBuffer_def)

text \<open>The last part counts 32768ths of a second in steps of 32, not milliseconds: it runs up to 1023.\<close>

lemma milliseconds_beyond_999: "timestamp_parts 32768 32767 = (1970, 1, 0, 0, 0, 1023)"
  by (simp add: timestamp_parts_def)

end
