(* ===== verification/AdFields.thy ===== *)
theory AdFields
  imports Texts "HOL-Library.Monad_Syntax"
begin

text \<open>
  The fields of advertising data: each is a byte for its length, one for its type, and its data. They are
  searched by \<open>bleParseAdvData\<close> (\<^verbatim>\<open>src/modules/ScanningModule.cpp\<close>) and printed by
  \<open>blePrettyPrintAdvData\<close> (\<^verbatim>\<open>src/utility/Logger.cpp\<close>). Both walk from field to field; neither checks
  that a field ends within the data.
\<close>

section \<open>Walking through the fields\<close>

text \<open>What is found is the position of the field's data, and their length.\<close>

function find_field :: "u8 \<Rightarrow> mem \<Rightarrow> nat \<Rightarrow> nat \<Rightarrow> (nat \<times> u16) option" where
  "find_field type p_data len index =
     (if index < len then
        let field_length = p_data index; field_type = p_data (index + 1)
        in if field_type = type then Some (index + 2, ucast field_length - 1)
           else find_field type p_data len (index + unat field_length + 1)
      else None)"
  by pat_completeness auto
termination by (relation "measure (\<lambda>(type, p_data, len, index). len - index)") auto

definition bleParseAdvData :: "u8 \<Rightarrow> mem \<Rightarrow> u16 \<Rightarrow> (nat \<times> u16) option" where
  "bleParseAdvData type advData len = find_field type advData (unat len) 0"

text \<open>The types and the texts that are printed. The text of a field is written to a buffer of 100 characters,
  which is not checked; of a field without data nothing is written, and what the buffer still holds is printed.
  \<^term>\<open>None\<close> is a text that does not fit, or a buffer nothing was written to.\<close>

function print_fields :: "mem \<Rightarrow> nat \<Rightarrow> nat \<Rightarrow> string option \<Rightarrow> (u8 \<times> string) list option" where
  "print_fields data len i hexString =
     (if i < len then
        let fieldSize = data i; fieldType = data (i + 1);
            fieldLength = unat (ucast fieldSize - 1 :: u16);
            hexString = (if fieldLength = 0 then hexString
                         else Some (convertBufferToHexString (bytes_at data (i + 2) fieldLength)))
        in if 3 * fieldLength > 100 then None
           else do { text \<leftarrow> hexString;
                     out \<leftarrow> print_fields data len (i + unat fieldSize + 1) hexString;
                     Some ((fieldType, text) # out) }
      else Some [])"
  by pat_completeness auto
termination by (relation "measure (\<lambda>(data, len, i, hexString). len - i)") auto

definition blePrettyPrintAdvData :: "mem \<Rightarrow> u16 \<Rightarrow> (u8 \<times> string) list option" where
  "blePrettyPrintAdvData data len = print_fields data (unat len) 0 None"

declare find_field.simps [simp del] print_fields.simps [simp del]

section \<open>Fields that were encoded\<close>

definition ad_field :: "u8 \<times> u8 list \<Rightarrow> u8 list" where
  "ad_field f = of_nat (length (snd f) + 1) # fst f # snd f"

abbreviation "ad_fields fs \<equiv> concat (map ad_field fs)"

lemma length_ad_field [simp]: "length (ad_field f) = length (snd f) + 2"
  by (simp add: ad_field_def)

lemma at_ad_field:
  assumes "bytes_at m i (length (ad_field f @ rest)) = ad_field f @ rest" "length (snd f) < 255"
  shows "unat (m i) = length (snd f) + 1" "m (Suc i) = fst f" "bytes_at m (Suc (Suc i)) (length (snd f)) = snd f"
    "bytes_at m (i + length (snd f) + 2) (length rest) = rest"
    "unat (ucast (m i) - 1 :: u16) = length (snd f)"
proof -
  have b: "bytes_at m i (2 + length (snd f) + length rest) = of_nat (length (snd f) + 1) # fst f # snd f @ rest"
    using assms(1) by (simp add: ad_field_def add.commute add.left_commute)
  then have nth: "k < 2 + length (snd f) + length rest \<Longrightarrow> m (i + k) = (of_nat (length (snd f) + 1) # fst f # snd f @ rest) ! k" for k
    by (metis nth_bytes_at)
  from nth [of 0] have l: "m i = of_nat (length (snd f) + 1)" by simp
  then show u: "unat (m i) = length (snd f) + 1" using assms(2) by (simp add: unat_of_nat del: of_nat_add of_nat_Suc)
  from nth [of 1] show "m (Suc i) = fst f" by simp
  show "bytes_at m (Suc (Suc i)) (length (snd f)) = snd f" "bytes_at m (i + length (snd f) + 2) (length rest) = rest"
    using nth [of "2 + _"] by (auto simp: bytes_at_eq_iff nth_append add.assoc)
  have "ucast (m i) = (of_nat (length (snd f) + 1) :: u16)" using u by (metis of_nat_unat)
  then show "unat (ucast (m i) - 1 :: u16) = length (snd f)" using assms(2) by (simp add: unat_of_nat)
qed

lemma find_in_fields:
  assumes "bytes_at m i (length (ad_fields fs)) = ad_fields fs" "\<forall>f \<in> set fs. length (snd f) < 255"
  shows "map_option (\<lambda>(p, n). bytes_at m p (unat n)) (find_field type m (i + length (ad_fields fs)) i) =
    map_option snd (find (\<lambda>f. fst f = type) fs)"
  using assms
proof (induction fs arbitrary: i)
  case Nil
  then show ?case by (simp add: find_field.simps [of _ _ i i])
next
  case (Cons f fs)
  note at = at_ad_field [of m i f "ad_fields fs"]
  have IH: "map_option (\<lambda>(p, n). bytes_at m p (unat n)) (find_field type m (i + length (snd f) + 2 + length (ad_fields fs)) (i + length (snd f) + 2)) =
      map_option snd (find (\<lambda>f. fst f = type) fs)"
    using Cons.prems at by (intro Cons.IH) simp_all
  show ?case using Cons.prems at IH
    by (subst find_field.simps) (simp add: Let_def ac_simps)
qed

lemma print_of_fields:
  assumes "bytes_at m i (length (ad_fields fs)) = ad_fields fs" "\<forall>f \<in> set fs. 0 < length (snd f) \<and> length (snd f) \<le> 33"
  shows "print_fields m (i + length (ad_fields fs)) i s = Some (map (\<lambda>f. (fst f, convertBufferToHexString (snd f))) fs)"
  using assms
proof (induction fs arbitrary: i s)
  case Nil
  then show ?case by (simp add: print_fields.simps [of _ i i])
next
  case (Cons f fs)
  note at = at_ad_field [of m i f "ad_fields fs"]
  have IH: "print_fields m (i + length (snd f) + 2 + length (ad_fields fs)) (i + length (snd f) + 2) s =
      Some (map (\<lambda>f. (fst f, convertBufferToHexString (snd f))) fs)" for s
    using Cons.prems at by (intro Cons.IH) simp_all
  show ?case using Cons.prems at IH
    by (subst print_fields.simps) (simp add: Let_def ac_simps)
qed

text \<open>C33: Advertising data that consist of whole fields, none of them empty or longer than 33 bytes, are taken
  apart into these fields again: the field of a type that is searched for is the first one that has it, with its
  data, and what is printed are the types and the data, in hexadecimal, of all fields in order.\<close>

theorem adv_fields_parsed:
  assumes "bytes_at advData 0 (unat len) = ad_fields fs" "\<forall>f \<in> set fs. 0 < length (snd f) \<and> length (snd f) \<le> 33"
  shows "map_option (\<lambda>(p, n). bytes_at advData p (unat n)) (bleParseAdvData type advData len) =
      map_option snd (find (\<lambda>f. fst f = type) fs) \<and>
    blePrettyPrintAdvData advData len = Some (map (\<lambda>f. (fst f, convertBufferToHexString (snd f))) fs)"
proof -
  have l: "unat len = length (ad_fields fs)" using assms(1) by (metis length_bytes_at)
  have "\<forall>f \<in> set fs. length (snd f) < 255" using assms(2) by auto
  from find_in_fields [OF _ this, of advData 0 type] print_of_fields [OF _ assms(2), of advData 0 None] show ?thesis
    using assms(1) by (simp add: l bleParseAdvData_def blePrettyPrintAdvData_def)
qed

lemma adv_fields_parsed_witness:
  "map_option (\<lambda>(p, n). bytes_at (mem_of [2, 1, 6, 3, 8, 65, 66] (\<lambda>_. 0)) p (unat n))
      (bleParseAdvData 8 (mem_of [2, 1, 6, 3, 8, 65, 66] (\<lambda>_. 0)) 7) = Some [65, 66] \<and>
    blePrettyPrintAdvData (mem_of [2, 1, 6, 3, 8, 65, 66] (\<lambda>_. 0)) 7 = Some [(1, ''06''), (8, ''41:42'')]"
proof -
  let ?m = "mem_of [2, 1, 6, 3, 8, 65, 66] (\<lambda>_. 0)"
  have "bytes_at ?m 0 (unat (7 :: u16)) = ad_fields [(1, [6]), (8, [65, 66])]"
    by (simp add: ad_field_def bytes_at_def mem_of_def upt_rec)
  from adv_fields_parsed [OF this, of 8] show ?thesis
    by (simp add: convert_Cons hex_byte_def hex_digit_def)
qed

end
