(* ===== verification/Terminal.thy ===== *)
theory Terminal
  imports Texts "HOL-Library.Monad_Syntax"
begin

text \<open>
  The terminal (\<^verbatim>\<open>src/utility/Terminal.cpp\<close>), in a build with \<open>ENABLE_TERMINAL\<close>: a line is read from
  the UART into a buffer of 250 bytes, with backspace, taken apart at the spaces, and offered to the
  listeners in the order they registered in.

  The input of the UART is a list of bytes; a routine that waits for more than there is has the
  result \<^term>\<open>None\<close>.
\<close>

section \<open>Reading a line\<close>

definition BACKSPACE :: u8 where "BACKSPACE = 127"
definition CR :: u8 where "CR = 13"
definition READ_BUFFER_LENGTH :: u8 where "READ_BUFFER_LENGTH = 250"

text \<open>The buffer, the input that is left, and what was echoed.\<close>

fun read_line :: "bool \<Rightarrow> u8 \<Rightarrow> u8 list \<Rightarrow> mem \<Rightarrow> u8 \<Rightarrow> u8 list \<Rightarrow> (mem \<times> u8 list \<times> u8 list) option" where
  "read_line echo readBufferLength [] readBuffer counter out = None"
| "read_line echo readBufferLength (byte # input) readBuffer counter out =
     (if byte = BACKSPACE then
        if counter > 0
        then read_line echo readBufferLength input (readBuffer(unat (counter - 1) := 0)) (counter - 1)
               (if echo then out @ [byte] else out)
        else read_line echo readBufferLength input readBuffer counter out
      else
        let out = (if echo then out @ [byte] else out)
        in if byte = CR \<or> counter \<ge> readBufferLength \<or> counter \<ge> 250
           then Some (readBuffer(unat counter := 0), input, if echo then out @ [13, 10] else out)
           else read_line echo readBufferLength input (readBuffer(unat counter := byte)) (counter + 1) out)"

definition ReadlineUART :: "bool \<Rightarrow> u8 list \<Rightarrow> mem \<Rightarrow> u8 \<Rightarrow> u8 \<Rightarrow> (mem \<times> u8 list \<times> u8 list) option" where
  "ReadlineUART echo input readBuffer readBufferLength offset =
     read_line echo readBufferLength input readBuffer offset []"

section \<open>Taking a line apart\<close>

text \<open>A C string in a buffer of \<open>n\<close> bytes; one without a terminator in the buffer has no value.\<close>

definition c_string :: "mem \<Rightarrow> nat \<Rightarrow> string option" where
  "c_string m n =
     (if 0 \<in> set (bytes_at m 0 n) then Some (map (\<lambda>b. char_of (unat b)) (takeWhile (\<lambda>b. b \<noteq> 0) (bytes_at m 0 n)))
      else None)"

text \<open>Repeated \<open>strtok\<close> with the delimiter \<open>" "\<close>.\<close>

function tokens :: "string \<Rightarrow> string list" where
  "tokens s = (let s = dropWhile (\<lambda>c. c = CHR '' '') s
     in if s = [] then [] else takeWhile (\<lambda>c. c \<noteq> CHR '' '') s # tokens (dropWhile (\<lambda>c. c \<noteq> CHR '' '') s))"
  by auto

termination
proof (relation "measure length", simp)
  fix s x :: string
  assume x: "x = dropWhile (\<lambda>c. c = CHR '' '') s" "x \<noteq> []"
  then obtain c cs where c: "x = c # cs" "c \<noteq> CHR '' ''"
    using hd_dropWhile [of "\<lambda>c. c = CHR '' ''" s] by (cases x) (simp_all, metis list.sel(1))
  have "length (dropWhile (\<lambda>c. c \<noteq> CHR '' '') cs) \<le> length cs" "length x \<le> length s"
    unfolding x(1) by (rule length_dropWhile_le)+
  then show "(dropWhile (\<lambda>c. c \<noteq> CHR '' '') x, s) \<in> measure length" using c by simp
qed

declare tokens.simps [simp del]

section \<open>The listeners\<close>

text \<open>A listener gets the name of the command and its arguments and says whether it handled them.\<close>

type_synonym 's listener = "string \<Rightarrow> string list \<Rightarrow> 's \<Rightarrow> ('s \<times> bool) option"

definition call_all :: "'s listener list \<Rightarrow> string \<Rightarrow> string list \<Rightarrow> 's \<Rightarrow> ('s \<times> nat) option" where
  "call_all listeners name args s =
     fold (\<lambda>f r. case r of None \<Rightarrow> None
       | Some (s, handled) \<Rightarrow> map_option (\<lambda>(s, b). (s, if b then handled + 1 else handled)) (f name args s))
       listeners (Some (s, 0))"

text \<open>What becomes of a line: the screen is cleared, or the listeners have been called and nobody or
  somebody handled the command.\<close>

datatype outcome = Cleared | Handled | Not_found

definition run_line :: "'s listener list \<Rightarrow> string \<Rightarrow> 's \<Rightarrow> ('s \<times> outcome) option" where
  "run_line listeners line s =
     (let (name, args) = (case tokens line of [] \<Rightarrow> ([], []) | t # ts \<Rightarrow> (t, ts))
      in if name = ''cls'' then Some (s, Cleared)
         else map_option (\<lambda>(s, handled). (s, if handled = 0 then Not_found else Handled)) (call_all listeners name args s))"

text \<open>Nothing happens as long as nothing was typed. The first key has arrived when the terminal looks for it; the theory
  Uart has what happens when it arrives while the terminal waits.\<close>

definition PollUART ::
    "'s listener list \<Rightarrow> bool \<Rightarrow> u8 list \<Rightarrow> mem \<Rightarrow> 's \<Rightarrow> (mem \<times> u8 list \<times> 's \<times> outcome option) option" where
  "PollUART listeners echo input readBuffer s =
     (case input of
        [] \<Rightarrow> Some (readBuffer(0 := 0), [], s, None)
      | first # input \<Rightarrow> do {
          (readBuffer, input, _) \<leftarrow> ReadlineUART echo input (readBuffer(0 := first)) READ_BUFFER_LENGTH 1;
          line \<leftarrow> c_string readBuffer 250;
          (s, r) \<leftarrow> run_line listeners line s;
          Some (readBuffer, input, s, Some r)
        })"

section \<open>Editing a line\<close>

text \<open>The reference: a backspace takes the last character away, any other character is added.\<close>

definition edit :: "u8 list \<Rightarrow> u8 \<Rightarrow> u8 list" where
  "edit line c = (if c = BACKSPACE then butlast line else line @ [c])"

lemma bytes_at_butlast:
  "bytes_at m 0 (length line) = line \<Longrightarrow> bytes_at (m(length line - 1 := v)) 0 (length line - 1) = butlast line"
  by (auto simp: bytes_at_eq_iff nth_butlast)

lemma read_line_edits:
  assumes "CR \<notin> set cs" "\<forall>k \<le> length cs. length (foldl edit line (take k cs)) < 250" "bytes_at m 0 (length line) = line"
  shows "\<exists>m' out'. read_line echo READ_BUFFER_LENGTH (cs @ CR # rest) m (of_nat (length line)) out = Some (m', rest, out') \<and>
    bytes_at m' 0 (length (foldl edit line cs)) = foldl edit line cs \<and> m' (length (foldl edit line cs)) = 0"
  using assms
proof (induction cs arbitrary: line m out)
  case Nil
  have "unat (of_nat (length line) :: u8) = length line" using Nil(2) by (simp add: unat_of_nat_small)
  then show ?case using Nil by (simp add: CR_def BACKSPACE_def Let_def bytes_at_def)
next
  case (Cons c cs)
  have len: "length line < 250" "length (edit line c) < 250"
    using Cons.prems(2) [rule_format, of 0] Cons.prems(2) [rule_format, of 1] by simp_all
  then have n: "unat (of_nat (length line) :: u8) = length line" by (simp add: unat_of_nat_small)
  have rest: "\<forall>k \<le> length cs. length (foldl edit (edit line c) (take k cs)) < 250"
    using Cons.prems(2) by (metis Suc_le_mono foldl_Cons length_Cons take_Suc_Cons)
  have cr: "CR \<notin> set cs" "c \<noteq> CR" using Cons.prems(1) by auto
  note IH = Cons.IH [OF cr(1) rest]
  show ?case
  proof (cases "c = BACKSPACE")
    case True
    show ?thesis
    proof (cases "line = []")
      case True
      then show ?thesis using IH [of m] \<open>c = BACKSPACE\<close> by (simp add: edit_def bytes_at_def)
    next
      case False
      have p: "(of_nat (length line) :: u8) - 1 = of_nat (length line - 1)" "(of_nat (length line) :: u8) > 0"
        using False n by (simp_all add: of_nat_diff Suc_leI word_less_nat_alt)
      have "unat (of_nat (length line - 1) :: u8) = length line - 1"
        using len by (intro unat_of_nat_small) simp
      moreover have "edit line c = butlast line" using True by (simp add: edit_def)
      moreover have "bytes_at (m(length line - 1 := 0)) 0 (length (butlast line)) = butlast line"
        using bytes_at_butlast [OF Cons.prems(3), of 0] by simp
      ultimately show ?thesis
        using IH [of "m(length line - 1 := 0)" "if echo then out @ [c] else out"] True p
        by (cases echo) (simp_all del: fun_upd_apply)
    qed
  next
    case False
    have e: "edit line c = line @ [c]" "length line + 1 < 250" using False len by (simp_all add: edit_def)
    have "bytes_at (m(length line := c)) 0 (length (edit line c)) = edit line c"
      using Cons.prems(3) by (auto simp: e bytes_at_eq_iff nth_append less_Suc_eq)
    moreover have "\<not> of_nat (length line) \<ge> (250 :: u8)" using len n by (simp add: word_le_nat_alt)
    ultimately show ?thesis
      using IH [of "m(length line := c)" "if echo then out @ [c] else out"] False cr(2) n e
      by (cases echo) (simp_all add: READ_BUFFER_LENGTH_def Let_def add.commute del: fun_upd_apply)
  qed
qed

lemma c_string_line:
  assumes "bytes_at m 0 (length line) = line" "m (length line) = 0" "0 \<notin> set line" "length line < n"
  shows "c_string m n = Some (text_of line)"
proof -
  obtain k where n: "n = length line + Suc k" using assms(4) less_iff_Suc_add by (metis add_Suc_right)
  have "bytes_at m 0 n = line @ 0 # bytes_at m (Suc (length line)) k"
    using assms(1,2) bytes_at_append [of m 0 "length line" "Suc k"] bytes_at_append [of m "length line" 1 k]
    by (simp add: n bytes_at_def)
  moreover have "takeWhile (\<lambda>b. b \<noteq> 0) (line @ 0 # ys) = line" for ys
    using assms(3) by (induction line) auto
  ultimately show ?thesis by (simp add: c_string_def text_of_def)
qed

lemma set_edit: "set (foldl edit line cs) \<subseteq> set line \<union> set cs"
proof (induction cs arbitrary: line)
  case (Cons c cs)
  have "set (edit line c) \<subseteq> set line \<union> {c}" by (auto simp: edit_def dest: in_set_butlastD)
  then show ?case using Cons [of "edit line c"] by auto
qed simp

text \<open>C34: What the terminal makes of the keys that are typed is what a line editor makes of them: the
  buffer with its counter, and whether it echoes or not, make no difference. The listeners are called with
  the words of the line in which every backspace has taken back the character before it, up to the
  carriage return; what was typed behind it is left for the next line. The line must not grow to 250
  characters at any time and not hold a zero byte.\<close>

theorem terminal_edits_lines:
  assumes "CR \<notin> set keys" "0 \<notin> set (first # keys)"
    "\<forall>k \<le> length keys. length (foldl edit [first] (take k keys)) < 250"
  shows "\<exists>m'. PollUART listeners echo (first # keys @ CR # rest) m s =
    map_option (\<lambda>(s', r). (m', rest, s', Some r)) (run_line listeners (text_of (foldl edit [first] keys)) s)"
proof -
  let ?line = "foldl edit [first] keys"
  have "bytes_at (m(0 := first)) 0 (length [first]) = [first]" by (simp add: bytes_at_def)
  from read_line_edits [OF assms(1,3) this, of echo rest "[]"] obtain m' out' where
    r: "ReadlineUART echo (keys @ CR # rest) (m(0 := first)) READ_BUFFER_LENGTH 1 = Some (m', rest, out')"
    and m': "bytes_at m' 0 (length ?line) = ?line" "m' (length ?line) = 0"
    by (auto simp: ReadlineUART_def)
  have "0 \<notin> set ?line" using assms(2) set_edit [of "[first]" keys] by auto
  moreover have "length ?line < 250" using assms(3) [rule_format, of "length keys"] by simp
  ultimately have "c_string m' 250 = Some (text_of ?line)" by (intro c_string_line m') simp_all
  then show ?thesis
    using r by (cases "run_line listeners (text_of ?line) s") (auto simp: PollUART_def)
qed

lemma terminal_edits_lines_witness:
  "\<exists>m'. PollUART [\<lambda>name args s. Some (s @ [(name, args)], True)] True
      (bytes_of ''connecz'' @ BACKSPACE # bytes_of ''t a  1'' @ CR # [7]) (\<lambda>_. 9) [] =
    Some (m', [7], [(''connect'', [''a'', ''1''])], Some Handled)"
proof -
  let ?keys = "bytes_of ''onnecz'' @ BACKSPACE # bytes_of ''t a  1''" and ?c = "of_nat (of_char CHR ''c'') :: u8"
  have line: "foldl edit [?c] ?keys = bytes_of ''connect a  1''"
    by (simp add: edit_def BACKSPACE_def bytes_of_def)
  have k: "\<forall>k \<le> length ?keys. length (foldl edit [?c] (take k ?keys)) < 250"
  proof (intro allI impI)
    fix k
    have "length (foldl edit l cs) \<le> length l + length cs" for l cs
    proof (induction cs arbitrary: l)
      case (Cons c cs)
      have "length (edit l c) \<le> length l + 1" by (auto simp: edit_def)
      then show ?case using Cons [of "edit l c"] by simp
    qed simp
    from this [of "[?c]" "take k ?keys"] show "length (foldl edit [?c] (take k ?keys)) < 250" by (simp add: bytes_of_def)
  qed
  have "CR \<notin> set ?keys" "0 \<notin> set (?c # ?keys)" by (simp_all add: CR_def BACKSPACE_def bytes_of_def)
  from terminal_edits_lines [OF this k, of "[\<lambda>name args s. Some (s @ [(name, args)], True)]" True "[7]" "\<lambda>_. 9" "[]"]
  show ?thesis
    unfolding line text_of_bytes
    by (simp add: bytes_of_def run_line_def tokens.simps call_all_def)
qed

section \<open>A line that is too long\<close>

lemma read_line_fills:
  assumes "BACKSPACE \<notin> set cs" "CR \<notin> set cs" "unat counter + length cs = 250"
  shows "\<exists>out'. read_line echo READ_BUFFER_LENGTH (cs @ rest) m counter out =
    read_line echo READ_BUFFER_LENGTH rest (store_bytes m (unat counter) cs) 250 out'"
  using assms
proof (induction cs arbitrary: counter m out)
  case Nil
  then have "counter = 250" by (simp add: word_unat_eq_iff)
  moreover have "store_bytes m 250 [] = m" by (auto simp: store_bytes_def fun_eq_iff)
  ultimately show ?case by auto
next
  case (Cons c cs)
  have lt: "unat counter < 250" using Cons.prems(3) by simp
  then have n: "unat (counter + 1) = Suc (unat counter)" by (simp add: unat_add_small)
  have "store_bytes (m(unat counter := c)) (Suc (unat counter)) cs = store_bytes m (unat counter) (c # cs)"
    by (auto simp: store_bytes_def fun_eq_iff nth_Cons')
  then show ?case
    using Cons.IH [of "counter + 1" "m(unat counter := c)" "if echo then out @ [c] else out"] Cons.prems n lt
    by (auto simp: READ_BUFFER_LENGTH_def word_le_nat_alt Let_def simp del: fun_upd_apply)
qed

text \<open>A line of 250 characters fills the buffer to its end, and the next key, whichever it is, writes the
  terminator one byte behind the buffer; within the buffer the line has no end.\<close>

lemma readline_overrun:
  assumes "length line = 250" "BACKSPACE \<notin> set line" "CR \<notin> set line" "0 \<notin> set line" "key \<noteq> BACKSPACE"
  shows "\<exists>m' out. ReadlineUART echo (tl line @ key # rest) (m(0 := hd line)) READ_BUFFER_LENGTH 1 = Some (m', rest, out) \<and>
    bytes_at m' 0 250 = line \<and> m' 250 = 0 \<and> c_string m' 250 = None"
proof -
  obtain c cs where l: "line = c # cs" using assms(1) by (cases line) auto
  obtain out' where r: "read_line echo READ_BUFFER_LENGTH (cs @ key # rest) (m(0 := c)) 1 [] =
      read_line echo READ_BUFFER_LENGTH (key # rest) (store_bytes (m(0 := c)) 1 cs) 250 out'"
    using read_line_fills [of cs 1 echo "key # rest" "m(0 := c)" "[]"] assms l by auto
  let ?m = "(store_bytes (m(0 := c)) 1 cs)(250 := 0)"
  have b: "bytes_at ?m 0 250 = line"
    using assms(1) by (auto simp: l bytes_at_eq_iff store_bytes_def nth_Cons')
  moreover have "?m 250 = 0" by simp
  moreover have "c_string ?m 250 = None" using assms(4) b by (simp add: c_string_def)
  ultimately show ?thesis
    using r assms(5) by (auto simp: l ReadlineUART_def READ_BUFFER_LENGTH_def Let_def simp del: fun_upd_apply)
qed

lemma readline_overrun_witness:
  "\<exists>m' out. ReadlineUART True (replicate 249 65 @ [66]) ((\<lambda>_. 7)(0 := 65)) READ_BUFFER_LENGTH 1 = Some (m', [], out) \<and>
    bytes_at m' 0 250 = replicate 250 65 \<and> m' 250 = 0 \<and> c_string m' 250 = None"
  using readline_overrun [of "replicate 250 65" 66 True "[]" "\<lambda>_. 7"]
  by (simp add: BACKSPACE_def CR_def del: replicate_Suc fun_upd_apply)

end
