(* ===== verification/Commands.thy ===== *)
theory Commands
  imports Terminal Events
begin

text \<open>
  The commands of the terminal: the handlers of the logger, the storage, the node and the modules
  (\<open>TerminalCommandHandler\<close> in \<^verbatim>\<open>Logger.cpp\<close>, \<^verbatim>\<open>Storage.cpp\<close>, \<^verbatim>\<open>Node.cpp\<close> and \<^verbatim>\<open>src/modules/*.cpp\<close>), in
  the order they registered in, in a build with \<open>ENABLE_TERMINAL\<close> and \<open>ENABLE_LOGGING\<close>. What a command
  prints is left out.

  The result \<^term>\<open>None\<close> is a reset, a failed check of the SoftDevice, or a behaviour C++ leaves
  undefined, as an argument that was not given.
\<close>

section \<open>State\<close>

text \<open>What the commands change beside the node: the terminal's mode, the logger's tags, a flag for
  breakpoints.\<close>

record console =
  k_promptAndEchoMode :: bool
  k_logEverything :: bool
  k_logFilter :: "string list"
  k_breakpointToggleActive :: bool

type_synonym command = "string \<Rightarrow> string list \<Rightarrow> world \<times> console \<Rightarrow> ((world \<times> console) \<times> bool) option"

definition argument :: "string list \<Rightarrow> nat \<Rightarrow> string option" where
  "argument args i = (if i < length args then Some (args ! i) else None)"

text \<open>A command that is handled by an operation on the node.\<close>

definition done_by :: "world option \<Rightarrow> console \<Rightarrow> ((world \<times> console) \<times> bool) option" where
  "done_by r c = map_option (\<lambda>w. ((w, c), True)) r"

text \<open>\<open>"this"\<close> or the number of a node.\<close>

definition node_argument :: "string \<Rightarrow> world \<Rightarrow> nodeID" where
  "node_argument s w = (if s = ''this'' then nodeId w else of_int (atoi s))"

section \<open>Logger\<close>

definition enableTag :: "string \<Rightarrow> console \<Rightarrow> console" where
  "enableTag tag c = (let tag = map toupper tag
     in if tag \<in> set (k_logFilter c) then c else c\<lparr>k_logFilter := k_logFilter c @ [tag]\<rparr>)"

definition disableTag :: "string \<Rightarrow> console \<Rightarrow> console" where
  "disableTag tag c = c\<lparr>k_logFilter := remove1 (map toupper tag) (k_logFilter c)\<rparr>"

definition toggleTag :: "string \<Rightarrow> console \<Rightarrow> console" where
  "toggleTag tag c = (let tag = map toupper tag
     in if tag \<in> set (k_logFilter c) then c\<lparr>k_logFilter := remove1 tag (k_logFilter c)\<rparr>
        else c\<lparr>k_logFilter := k_logFilter c @ [tag]\<rparr>)"

definition disableAll :: "console \<Rightarrow> console" where
  "disableAll c = c\<lparr>k_logFilter := [], k_logEverything := False\<rparr>"

definition Logger_command :: command where
  "Logger_command name args s =
     (case s of (w, c) \<Rightarrow>
        if name = ''debug'' \<and> length args = 1 then
          Some ((w, if args ! 0 = ''all'' then c\<lparr>k_logEverything := \<not> k_logEverything c\<rparr>
                    else if args ! 0 = ''none'' then disableAll c
                    else toggleTag (args ! 0) c), True)
        else Some ((w, c), name = ''debugtags'' \<or> name = ''debugnone''))"

section \<open>Storage\<close>

text \<open>The length of what is stored is rounded up to words. A text of a whole number of words does not
  fit the array it is copied to, which has no byte for its end.\<close>

definition words_up :: "nat \<Rightarrow> nat" where
  "words_up len = (if len mod 4 \<noteq> 0 then len + 4 - len mod 4 else len)"

definition Storage_command :: "env \<Rightarrow> command" where
  "Storage_command E name args s =
     (case s of (w, c) \<Rightarrow>
        if name = ''save'' then do {
          slot \<leftarrow> argument args 0;
          text \<leftarrow> argument args 1;
          if length text mod 4 = 0 then None
          else done_by (BufferedWrite E (of_int (atoi slot)) (of_nat (words_up (length text))) w) c
        }
        else if name = ''load'' then do {
          slot \<leftarrow> argument args 0;
          len \<leftarrow> argument args 1;
          if atoi len < 0 then None
          else done_by (Some (BufferedRead E (of_int (atoi slot)) (of_nat (words_up (nat (atoi len)))) w)) c
        }
        else Some ((w, c), False))"

section \<open>Node\<close>

text \<open>The payload of a data message has place for 13 bytes.\<close>

definition SetScanResponseData :: "env \<Rightarrow> string \<Rightarrow> world \<Rightarrow> world option" where
  "SetScanResponseData E dataString w =
     (if dataString = [] \<or> length dataString > 20 then Some w
      else if length dataString > 13 then None
      else do {
        let d = store_bytes ((message_header MESSAGE_TYPE_DATA_2 (nodeId w) 0 (e_stack E (w_trace w)))
                  (7 := of_nat (length dataString))) 8 (bytes_of dataString);
        w \<leftarrow> SendMessageOverConnections E None d (of_nat SIZEOF_CONN_PACKET_DATA_2) True w;
        UpdateScanResponsePacket E (bytes_of dataString) w
      })"

definition data_command :: "delivery \<Rightarrow> env \<Rightarrow> string list \<Rightarrow> world \<Rightarrow> world option" where
  "data_command deliver E args w =
     (let receiver = (case args of [] \<Rightarrow> 0
            | a # _ \<Rightarrow> if a = ''sink'' then NODE_ID_SHORTEST_SINK
                       else if a = ''hop'' then NODE_ID_HOPS_BASE + 1 else NODE_ID_BROADCAST);
          d = (message_header MESSAGE_TYPE_DATA_1 (nodeId w) receiver (e_stack E (w_trace w)))
                (7 := 7, 8 := 1, 9 := 3, 10 := 3)
      in SendMessageToReceiver deliver E None d (of_nat SIZEOF_CONN_PACKET_DATA_1) (args \<noteq> []) w)"

definition datal_command :: "delivery \<Rightarrow> env \<Rightarrow> world \<Rightarrow> world option" where
  "datal_command deliver E w =
     SendMessageToReceiver deliver E None
       (store_bytes (message_header MESSAGE_TYPE_DATA_1 (nodeId w) 0 (e_stack E (w_trace w))) 5
          (map (\<lambda>i. of_nat (i + 1)) [0..<40])) 45 True w"

definition loss_command :: "env \<Rightarrow> world \<Rightarrow> world option" where
  "loss_command E w =
     (let w = upd_conf (\<lambda>p. p\<lparr>pc_connectionLossCounter := pc_connectionLossCounter p + 1\<rparr>) w
      in UpdateJoinMePacket E None (upd_node (\<lambda>n. n\<lparr>n_clusterId := GenerateClusterID w\<rparr>) w))"

definition settime_command :: "env \<Rightarrow> string \<Rightarrow> world \<Rightarrow> world" where
  "settime_command E seconds w =
     (let (w, now) = cnt_get E w
      in upd_node (\<lambda>n. n\<lparr>n_globalTime := of_int (atoi seconds) * ucast (e_clock_freq E), n_globalTimeSetAt := now\<rparr>) w)"

definition discovery_command :: "env \<Rightarrow> string list \<Rightarrow> world \<Rightarrow> world option" where
  "discovery_command E args w =
     (if args = [] \<or> args ! 0 = ''high'' then ChangeState E DISCOVERY_HIGH (upd_node (\<lambda>n. n\<lparr>n_noNodesFoundCounter := 0\<rparr>) w)
      else if args ! 0 = ''low'' then ChangeState E DISCOVERY_LOW (upd_node (\<lambda>n. n\<lparr>n_noNodesFoundCounter := 50\<rparr>) w)
      else if args ! 0 = ''off'' then ChangeState E DISCOVERY_OFF w
      else Some w)"

definition testDevice_names :: "string list" where
  "testDevice_names = [''045'', ''072'', ''458'', ''635'', ''847'', ''667'', ''304'', ''493'', ''309'', ''880'']"

definition connect_command :: "env \<Rightarrow> u8 \<Rightarrow> string \<Rightarrow> world \<Rightarrow> world option" where
  "connect_command E static arg =
     each (\<lambda>(name, d) w. if arg = name then map_option fst (ConnectAsMaster E (td_addr d) 14 w) else Some w)
       (zip testDevice_names (testDevices static))"

text \<open>There are four connections; a number beyond is outside the array.\<close>

definition get_modules_command :: "delivery \<Rightarrow> env \<Rightarrow> string \<Rightarrow> world \<Rightarrow> world option" where
  "get_modules_command deliver E arg w =
     send_module_message deliver E (module_message MESSAGE_TYPE_MODULE_CONFIG (nodeId w) (node_argument arg w) 0
       GET_MODULE_LIST (e_stack E (w_trace w))) 0 True w"

definition clearstorage_command :: "env \<Rightarrow> world \<Rightarrow> world option" where
  "clearstorage_command E w = SaveConfiguration E (upd_conf (\<lambda>p. p\<lparr>pc_version := 0xFFFFFFFF\<rparr>) w)"

text \<open>A number beyond the connections is an access outside their array.\<close>

definition disconnect_command :: "env \<Rightarrow> string list \<Rightarrow> world \<Rightarrow> world option" where
  "disconnect_command E args w =
     (if args = [] then Some w
      else let i = unat (of_int (atoi (args ! 0)) :: u8) in if i < 4 then Connection_Disconnect E i w else None)"

definition security_command :: "env \<Rightarrow> string list \<Rightarrow> world \<Rightarrow> world option" where
  "security_command E args w =
     do { a \<leftarrow> argument args 0;
          let i = unat (of_int (strtol 10 a) :: u16);
          if i < 4 then startEncryptingConnection E (c_connectionHandle (conns w i)) w else None }"

definition yousink_command :: "world \<Rightarrow> world" where
  "yousink_command w = upd_conf (\<lambda>p. p\<lparr>pc_deviceType := DEVICE_TYPE_SINK\<rparr>) w"

definition set_nodeid_command :: "string list \<Rightarrow> world \<Rightarrow> world option" where
  "set_nodeid_command args w = map_option (\<lambda>a. upd_conf (\<lambda>p. p\<lparr>pc_nodeId := of_int (atoi a)\<rparr>) w) (argument args 0)"

definition uart_scan_response_command :: "env \<Rightarrow> string list \<Rightarrow> world \<Rightarrow> world option" where
  "uart_scan_response_command E args w = (if args = [] then Some w else SetScanResponseData E (args ! 0) w)"

definition Node_command :: "delivery \<Rightarrow> env \<Rightarrow> u8 \<Rightarrow> command" where
  "Node_command deliver E static name args s =
     (case s of (w, c) \<Rightarrow>
        if name = ''reset'' then None
        else if name = ''startterm'' then Some ((w, c\<lparr>k_promptAndEchoMode := True\<rparr>), True)
        else if name = ''stopterm'' then Some ((w, disableAll (c\<lparr>k_promptAndEchoMode := False\<rparr>)), True)
        else if name = ''status'' then done_by (Some (fst (call E Gap_address_get w))) c
        else if name \<in> {''bufferstat'', ''stat'', ''heap'', ''get_plugged_in''} then Some ((w, c), True)
        else if name = ''data'' then done_by (data_command deliver E args w) c
        else if name = ''datal'' then done_by (datal_command deliver E w) c
        else if name = ''loss'' then done_by (loss_command E w) c
        else if name = ''settime'' then done_by (map_option (\<lambda>a. settime_command E a w) (argument args 0)) c
        else if name = ''gettime'' then done_by (Some (fst (cnt_get E w))) c
        else if name = ''sendtime'' then
          done_by (SendMessageToReceiver deliver E None
            (message_header MESSAGE_TYPE_UPDATE_TIMESTAMP (nodeId w) 0 (e_stack E (w_trace w)))
            (of_nat SIZEOF_CONN_PACKET_UPDATE_TIMESTAMP) True w) c
        else if name = ''discovery'' then done_by (discovery_command E args w) c
        else if name = ''savenode'' then done_by (SaveConfiguration E w) c
        else if name = ''stop'' then done_by (Some (DisableStateMachine True w)) c
        else if name = ''start'' then done_by (Some (DisableStateMachine False w)) c
        else if name = ''clearstorage'' then done_by (clearstorage_command E w) c
        else if name = ''break'' then
          Some ((w, c\<lparr>k_breakpointToggleActive := \<not> k_breakpointToggleActive c\<rparr>), True)
        else if name = ''connect'' then
          do { a \<leftarrow> argument args 0; done_by (connect_command E static a w) c }
        else if name = ''disconnect'' then done_by (disconnect_command E args w) c
        else if name = ''security'' then done_by (security_command E args w) c
        else if name = ''yousink'' then done_by (Some (yousink_command w)) c
        else if name = ''set_nodeid'' then done_by (set_nodeid_command args w) c
        else if name = ''uart_scan_response'' then done_by (uart_scan_response_command E args w) c
        else if name = ''get_modules'' \<and> length args = 1 then done_by (get_modules_command deliver E (args ! 0) w) c
        else Some ((w, c), False))"

section \<open>Modules\<close>

text \<open>A name is copied to an array of ten characters. That of the light toggle module is longer and loses its
  end; a comparison goes on with \<open>tail\<close>, what lies behind the array.\<close>

definition moduleName :: "string \<Rightarrow> moduleKind \<Rightarrow> string" where
  "moduleName tail kind = (case kind of DebugModule \<Rightarrow> ''debug'' | StatusReporterModule \<Rightarrow> ''status''
     | AdvertisingModule \<Rightarrow> ''adv'' | ScanningModule \<Rightarrow> ''scan'' | EnrollmentModule \<Rightarrow> ''enroll''
     | LightToggleModule \<Rightarrow> take 10 ''lighttoggle'' @ tail)"

definition addressed :: "string \<Rightarrow> Module \<Rightarrow> string list \<Rightarrow> bool" where
  "addressed tail m args \<longleftrightarrow> length args \<ge> 2 \<and> args ! 1 = moduleName tail (m_kind m)"

definition request_handle :: "string list \<Rightarrow> nat \<Rightarrow> u8" where
  "request_handle args i = (if i < length args then of_int (atoi (args ! i)) else 0)"

text \<open>The base class.\<close>

definition set_config_message :: "env \<Rightarrow> Module \<Rightarrow> nodeID \<Rightarrow> string list \<Rightarrow> world \<Rightarrow> mem" where
  "set_config_message E m receiver args w =
     store_bytes ((module_message MESSAGE_TYPE_MODULE_CONFIG (nodeId w) receiver (m_moduleId m) SET_CONFIG
         (e_stack E (w_trace w)))(9 := request_handle args 3))
       module_data (parseHexStringToBuffer (args ! 2))"

definition Module_command :: "delivery \<Rightarrow> env \<Rightarrow> string \<Rightarrow> Module \<Rightarrow> command" where
  "Module_command deliver E tail m name args s =
     (case s of (w, c) \<Rightarrow>
        if addressed tail m args then
          let receiver = node_argument (args ! 0) w
          in if name = ''set_config'' then
               (if length args \<ge> 3
                then done_by (send_module_message deliver E (set_config_message E m receiver args w)
                       (unat (of_nat ((length (args ! 2) + 1) div 3) :: u16)) True w) c
                else Some ((w, c), False))
             else if name = ''get_config'' then
               (if length args = 2
                then done_by (send_module_message deliver E (module_message MESSAGE_TYPE_MODULE_CONFIG (nodeId w) receiver
                       (m_moduleId m) GET_CONFIG (e_stack E (w_trace w))) 0 False w) c
                else Some ((w, c), False))
             else if name = ''set_active'' then
               do { state \<leftarrow> argument args 2;
                    done_by (send_module_message deliver E
                      ((module_message MESSAGE_TYPE_MODULE_CONFIG (nodeId w) receiver (m_moduleId m) SET_ACTIVE
                         (e_stack E (w_trace w)))(9 := request_handle args 3, module_data := bool_to_u8 (state = ''on''))) 1 True w) c }
             else Some ((w, c), False)
        else Some ((w, c), False))"

definition trigger_action :: "delivery \<Rightarrow> env \<Rightarrow> Module \<Rightarrow> string \<Rightarrow> u8 \<Rightarrow> world \<Rightarrow> world option" where
  "trigger_action deliver E m destination actionType w =
     SendModuleActionMessage deliver E (m_moduleId m) MESSAGE_TYPE_MODULE_TRIGGER_ACTION (node_argument destination w)
       actionType 0 [] False w"

definition Status_command :: "delivery \<Rightarrow> env \<Rightarrow> string \<Rightarrow> Module \<Rightarrow> command" where
  "Status_command deliver E tail m name args s =
     (case s of (w, c) \<Rightarrow>
        let act = (\<lambda>t. done_by (trigger_action deliver E m (args ! 0) t w) c);
            is = (\<lambda>what. addressed tail m args \<and> name = ''action'' \<and> length args = 3 \<and> args ! 2 = what)
        in if name = ''rssistart'' then done_by (each (StartConnectionRSSIMeasurement E) [0, 1, 2, 3] w) c
           else if name = ''rssistop'' then done_by (each (StopConnectionRSSIMeasurement E) [0, 1, 2, 3] w) c
           else if is ''get_status'' then act GET_STATUS
           else if is ''get_device_info'' then act GET_DEVICE_INFO
           else if is ''get_connections'' then act GET_ALL_CONNECTIONS
           else if is ''get_nearby'' then act GET_NEARBY_NODES
           else Module_command deliver E tail m name args (w, c))"

definition Debug_command :: "delivery \<Rightarrow> env \<Rightarrow> string \<Rightarrow> nat \<Rightarrow> Module \<Rightarrow> command" where
  "Debug_command deliver E tail k m name args s =
     (case s of (w, c) \<Rightarrow>
        let rest = (if name = ''testsave'' then
                      done_by (SaveModuleConfiguration E k (upd_config k (put32 4 (12 * 1000)) w)) c
                    else if name = ''testload'' then done_by (LoadModuleConfiguration E k w) c
                    else Module_command deliver E tail m name args (w, c))
        in if addressed tail m args \<and> name = ''action'' then
             do { what \<leftarrow> argument args 2;
                  if what = ''reset'' then done_by (trigger_action deliver E m (args ! 0) RESET_NODE w) c
                  else if what = ''reset_connection_loss_counter''
                  then done_by (trigger_action deliver E m (args ! 0) RESET_CONNECTION_LOSS_COUNTER w) c
                  else if what = ''flood''
                  then done_by (Some (w_mstate_update (\<lambda>s. s\<lparr>dm_flood := of_nat ((unat (dm_flood s) + 1) mod 3)\<rparr>) w)) c
                  else rest }
           else rest)"

definition Advertising_command :: "delivery \<Rightarrow> env \<Rightarrow> string \<Rightarrow> Module \<Rightarrow> command" where
  "Advertising_command deliver E tail m name args s =
     (case s of (w, c) \<Rightarrow>
        if addressed tail m args \<and> name = ''action'' then
          do { what \<leftarrow> argument args 2;
               if what = ''broadcast_debug''
               then done_by (Some (w_mstate_update (\<lambda>s. s\<lparr>am_broadcastDebugPackets := \<not> am_broadcastDebugPackets s\<rparr>) w)) c
               else Module_command deliver E tail m name args (w, c) }
        else Module_command deliver E tail m name args (w, c))"

subsection \<open>Enrollment\<close>

definition SIZEOF_SET_ENROLLMENT_BY_NODE_ID :: nat where "SIZEOF_SET_ENROLLMENT_BY_NODE_ID = 20"
definition SIZEOF_SET_ENROLLMENT_BY_CHIP_ID :: nat where "SIZEOF_SET_ENROLLMENT_BY_CHIP_ID = 28"
definition SIZEOF_SET_ENROLLMENT_BY_SERIAL :: nat where
  "SIZEOF_SET_ENROLLMENT_BY_SERIAL = 20 + SERIAL_NUMBER_LENGTH"

text \<open>The argument \<open>i\<close> is read twice: as the handle of the request and as the network key, which is written
  to offset \<open>key\<close>.\<close>

definition enrollment_header :: "env \<Rightarrow> Module \<Rightarrow> nodeID \<Rightarrow> u8 \<Rightarrow> string list \<Rightarrow> nat \<Rightarrow> world \<Rightarrow> mem" where
  "enrollment_header E m receiver actionType args i w =
     (module_message MESSAGE_TYPE_MODULE_TRIGGER_ACTION (nodeId w) receiver (m_moduleId m) actionType
        (e_stack E (w_trace w)))(9 := request_handle args i)"

definition with_key :: "string list \<Rightarrow> nat \<Rightarrow> nat \<Rightarrow> mem \<Rightarrow> mem" where
  "with_key args i key d = (if i < length args then store_bytes d key (parseHexStringToBuffer (args ! i)) else d)"

definition number_u16 :: "string \<Rightarrow> u16" where "number_u16 s = of_int (atoi s)"

text \<open>A serial number shorter than five characters is copied with its end and what follows it.\<close>

definition Enrollment_command :: "delivery \<Rightarrow> env \<Rightarrow> string \<Rightarrow> Module \<Rightarrow> command" where
  "Enrollment_command deliver E tail m name args s =
     (case s of (w, c) \<Rightarrow>
        let receiver = node_argument (args ! 0) w; stack = e_stack E (w_trace w);
            send = (\<lambda>d n. done_by (send_module_message deliver E d n True w) c)
        in if addressed tail m args \<and> name = ''action'' \<and> length args \<ge> 5 \<and> args ! 2 = ''nodeid'' then
             send (with_key args 5 15 (put16 13 (number_u16 (args ! 4)) (put16 11 (number_u16 (args ! 3))
               (enrollment_header E m receiver SET_ENROLLMENT_BY_NODE_ID args 5 w)))) SIZEOF_SET_ENROLLMENT_BY_NODE_ID
           else if addressed tail m args \<and> name = ''action'' \<and> length args \<ge> 7 \<and> args ! 2 = ''chipid'' then
             send (with_key args 7 23 (put16 21 (number_u16 (args ! 6)) (put16 19 (number_u16 (args ! 5))
               (put32 15 (strtoul 10 (args ! 4)) (put32 11 (strtoul 10 (args ! 3))
                 (enrollment_header E m receiver SET_ENROLLMENT_BY_CHIP_ID args 7 w)))))) SIZEOF_SET_ENROLLMENT_BY_CHIP_ID
           else if addressed tail m args \<and> name = ''action'' \<and> length args \<ge> 6 \<and> args ! 2 = ''serial'' then
             send (with_key args 6 20 (put16 18 (number_u16 (args ! 5)) (put16 16 (number_u16 (args ! 4))
               (store_bytes (enrollment_header E m receiver SET_ENROLLMENT_BY_SERIAL args 6 w) 11
                 (bytes_at (mem_of (bytes_of (args ! 3) @ [0]) stack) 0 SERIAL_NUMBER_LENGTH))))) SIZEOF_SET_ENROLLMENT_BY_SERIAL
           else Module_command deliver E tail m name args (w, c))"

section \<open>The test commands\<close>

text \<open>\<open>testId\<close> is the id the node had when the tests were created.\<close>

definition test_burst :: "env \<Rightarrow> nodeID \<Rightarrow> mem \<Rightarrow> nat \<Rightarrow> bool \<Rightarrow> world \<Rightarrow> world option" where
  "test_burst E testId stack i reliable w =
     (let d = (message_header MESSAGE_TYPE_DATA_1 testId 0 stack)
            (7 := 7, 10 := 7, 8 := of_nat (if reliable then 2 * i + 1 else 2 * i), 9 := bool_to_u8 reliable)
      in each (\<lambda>j w. if c_handshakeDone (conns w j)
                then SendMessage E j d (of_nat SIZEOF_CONN_PACKET_DATA_1) reliable w else Some w) [0, 1, 2, 3] w)"

definition Testing_command :: "env \<Rightarrow> nodeID \<Rightarrow> command" where
  "Testing_command E testId name args s =
     (case s of (w, c) \<Rightarrow>
        if name = ''send'' then
          let unreliable = args = [] \<or> args ! 0 = ''b'' \<or> args ! 0 = ''u'';
              reliable = args = [] \<or> args ! 0 \<noteq> ''u'';
              burst = test_burst E testId (e_stack E (w_trace w));
              count = (if length args > 1 then of_int (atoi (args ! 1)) else 5 :: u8)
          in done_by (each (\<lambda>i w. do {
               w \<leftarrow> (if unreliable then burst i False w else Some w);
               if reliable then burst i True w else Some w
             }) [0..<unat count] w) c
        else if name = ''fill'' then done_by (fillTransmitBuffers E w) c
        else if name = ''advertise'' then done_by (SetAdvertisingState E ADV_STATE_HIGH w) c
        else if name = ''scan'' then done_by (SetScanState E SCAN_STATE_HIGH w) c
        else if name = ''reset'' then None
        else Some ((w, c), False))"

section \<open>The listeners\<close>

definition module_command :: "delivery \<Rightarrow> env \<Rightarrow> string \<Rightarrow> nat \<Rightarrow> command" where
  "module_command deliver E tail k name args s =
     (case w_modules (fst s) k of
        None \<Rightarrow> Some (s, False)
      | Some m \<Rightarrow> (case m_kind m of
            DebugModule \<Rightarrow> Debug_command deliver E tail k m name args s
          | StatusReporterModule \<Rightarrow> Status_command deliver E tail m name args s
          | AdvertisingModule \<Rightarrow> Advertising_command deliver E tail m name args s
          | EnrollmentModule \<Rightarrow> Enrollment_command deliver E tail m name args s
          | _ \<Rightarrow> Module_command deliver E tail m name args s))"

definition listeners :: "env \<Rightarrow> u8 \<Rightarrow> string \<Rightarrow> nodeID \<Rightarrow> command list" where
  "listeners E static tail testId =
     [Logger_command, Storage_command E, Node_command (delivering E) E static] @
     map (module_command (delivering E) E tail) [0..<6] @ [Testing_command E testId]"

end
