(* ===== verification/CommandProps.thy ===== *)
theory CommandProps
  imports Commands StoredTasks ModuleProps Agreement
begin

text \<open>
  What commands do: a configuration and an identity that are typed on one node, and what arrives of them
  at another; commands nobody knows; and the two storage commands, which the storage does not survive.
\<close>

section \<open>Storage\<close>

text \<open>The terminal's storage commands bring the node down: they start a flash operation behind the back
  of the queue, and when it ends while no task waits, the handler takes a task from the empty queue and
  follows a pointer that was never set.\<close>

lemma storage_commands_crash:
  assumes "storage_inv w []" "name = ''save'' \<and> op = PSTORAGE_CLEAR_OP_CODE \<or> name = ''load'' \<and> op = PSTORAGE_LOAD_OP_CODE"
    "Storage_command E name args (w, c) = Some ((w', c'), b)"
  shows "PstorageEventHandler loaded E op True w' = None"
proof -
  have q: "w_taskQueue w' = w_taskQueue w"
    using assms(2,3) by (auto simp: Storage_command_def done_by_def BufferedRead_def BufferedWrite_def call_def
        checked_Some split: bind_splits if_splits)
  have "sq_numElements (w_taskQueue w) = 0"
    using assms(1) sq_rep_numElements_0 [of "w_taskQueue w" "[]"] by (simp add: storage_inv_def tasks_rep_def)
  then have "task_at (w_taskQueue w) (sq_PeekNext (w_taskQueue w)) = None"
    "task_at (fst (sq_GetNext (w_taskQueue w))) (snd (sq_GetNext (w_taskQueue w))) = None"
    by (auto simp: sq_GetNext_def task_at_def sq_PeekNext_def)
  then show ?thesis using assms(2) by (auto simp: PstorageEventHandler_def q case_prod_beta Let_def)
qed

definition quiet_console :: console where
  "quiet_console = \<lparr>k_promptAndEchoMode = False, k_logEverything = False, k_logFilter = [], k_breakpointToggleActive = False\<rparr>"

lemma storage_commands_crash_witness:
  "\<exists>w' c' b. Storage_command quiet_env ''save'' [''3'', ''abc''] (zero_world, quiet_console) = Some ((w', c'), b) \<and>
     PstorageEventHandler (\<lambda>_. Some) quiet_env PSTORAGE_CLEAR_OP_CODE True w' = None"
proof -
  have inv: "storage_inv zero_world []" using zero_world_tasks by (simp add: storage_inv_def zero_world_def)
  obtain w' where w': "Storage_command quiet_env ''save'' [''3'', ''abc''] (zero_world, quiet_console) = Some ((w', quiet_console), True)"
    by (simp add: Storage_command_def argument_def done_by_def BufferedWrite_def checked_eq quiet_env_def)
  from storage_commands_crash [OF inv _ w', of PSTORAGE_CLEAR_OP_CODE] w' show ?thesis by blast
qed

section \<open>Setting a configuration\<close>

lemma module_message_fields [simp]:
  "get16 (Suc 0) (module_message t s r i a m) = s" "get_receiver (module_message t s r i a m) = r"
  "get16 7 (module_message t s r i a m) = i"
  by (simp_all add: module_message_def message_header_def)

text \<open>C27: A configuration that is typed in hexadecimal after \<open>set_config\<close> becomes a SET_CONFIG message for the
  node and the module that were named, with exactly the bytes that were typed behind its header. On the
  node itself they are all there; another node receives the last of them not, but the byte that lies behind
  the message.\<close>

theorem set_config_typed:
  assumes "args = [node, moduleName tail (m_kind m), convertBufferToHexString bs]" "bs \<noteq> []" "length bs < 2 ^ 15"
  shows "\<exists>d. Module_command deliver E tail m ''set_config'' args (w, c) =
      done_by (SendMessageToReceiver deliver E None d (of_nat (10 + length bs)) True w) c \<and>
    get_messageType d = MESSAGE_TYPE_MODULE_CONFIG \<and> get_sender d = nodeId w \<and> get_receiver d = node_argument node w \<and>
    read_module d = \<lparr>mp_moduleId = m_moduleId m, mp_requestHandle = 0, mp_actionType = SET_CONFIG\<rparr> \<and>
    bytes_at d module_data (length bs) = bs \<and>
    bytes_at (received d (10 + length bs) rest) module_data (length bs) = butlast bs @ [rest (10 + length bs)]"
proof -
  let ?d = "set_config_message E m (node_argument node w) args w"
  have len: "length (convertBufferToHexString bs) + 1 = 3 * length bs" using assms(2)
  proof (induction bs)
    case (Cons b bs)
    then show ?case by (cases "bs = []") (simp_all add: convert_Cons hex_byte_def)
  qed simp
  have a2: "args ! 2 = convertBufferToHexString bs" by (simp add: assms(1))
  have n: "unat (of_nat ((length (args ! 2) + 1) div 3) :: u16) = length bs"
    unfolding a2 len using assms(3) by (simp add: unat_of_nat_small)
  have d: "?d = store_bytes ((module_message MESSAGE_TYPE_MODULE_CONFIG (nodeId w) (node_argument node w) (m_moduleId m) SET_CONFIG
      (e_stack E (w_trace w)))(9 := 0)) module_data bs"
    by (simp add: set_config_message_def request_handle_def a2 hex_roundtrip) (simp add: assms(1))
  have b: "bytes_at ?d module_data (length bs) = bs" by (simp add: d)
  have "Module_command deliver E tail m ''set_config'' args (w, c) =
      done_by (SendMessageToReceiver deliver E None ?d (of_nat (10 + length bs)) True w) c"
    unfolding Module_command_def send_module_message_def Let_def n
    by (simp add: assms(1) addressed_def sizeof_defs)
  moreover have "get_messageType ?d = MESSAGE_TYPE_MODULE_CONFIG" "get_sender ?d = nodeId w" "get_receiver ?d = node_argument node w"
    "read_module ?d = \<lparr>mp_moduleId = m_moduleId m, mp_requestHandle = 0, mp_actionType = SET_CONFIG\<rparr>"
    by (simp_all add: d module_data_def read_module_def message_type_defs)
  moreover have "bytes_at (received ?d (10 + length bs) rest) module_data (length bs) = butlast bs @ [rest (10 + length bs)]"
    using bytes_at_received [OF b assms(2), of rest] by (simp add: module_data_def)
  ultimately show ?thesis using b by blast
qed

definition debug_module_example :: Module where
  "debug_module_example = \<lparr>m_kind = DebugModule, m_moduleId = DEBUG_MODULE_ID, m_configuration = \<lambda>_. 0,
     m_configurationLength = 20, m_storageSlot = 1\<rparr>"

lemma set_config_typed_witness:
  "\<exists>d. Module_command (\<lambda>_. Some) quiet_env [] debug_module_example ''set_config'' [''this'', ''debug'', ''01:00:01:FF'']
       (zero_world, quiet_console) = done_by (SendMessageToReceiver (\<lambda>_. Some) quiet_env None d 14 True zero_world) quiet_console \<and>
     get_receiver d = 1 \<and> bytes_at d module_data 4 = [1, 0, 1, 255] \<and>
     bytes_at (received d 14 (\<lambda>_. 9)) module_data 4 = [1, 0, 1, 9]"
proof -
  have hex: "convertBufferToHexString [1, 0, 1, 255] = ''01:00:01:FF''"
    by (simp add: convert_Cons hex_byte_def hex_digit_def)
  have "node_argument ''this'' zero_world = 1"
    by (simp add: node_argument_def zero_world_def zero_node_def zero_nodeConfiguration_def)
  moreover have l: "length [1 :: u8, 0, 1, 255] = 4" by simp
  note set_config_typed [of "[''this'', ''debug'', ''01:00:01:FF'']" "''this''" "[]" debug_module_example "[1, 0, 1, 255]"
      "\<lambda>_. Some" quiet_env zero_world quiet_console "\<lambda>_. 9", unfolded l]
  ultimately show ?thesis by (simp add: hex debug_module_example_def moduleName_def) blast
qed

section \<open>Enrolling a node\<close>

text \<open>Enrolling a node by its chip id, with a network key: the node with that chip takes over the node id
  and the network that were typed, but not the key, whose last byte it does not receive. And the argument
  that is read as the key is read as the handle of the request, too.\<close>

lemma enrollment_loses_key:
  assumes "args = [node, moduleName tail (m_kind m), ''chipid'', chipA, chipB, i, n, convertBufferToHexString key]"
    "length key = 16" "(strtoul 10 chipA, strtoul 10 chipB) = e_chipId E'" "m_moduleId m' = m_moduleId m"
  shows "\<exists>d. Enrollment_command deliver E tail m ''action'' args (w, c) =
      done_by (SendMessageToReceiver deliver E None d 38 True w) c \<and> get_receiver d = node_argument node w \<and>
    Enrollment_packet deliver' E' m' (received d 38 rest) v =
      enroll deliver' E' m' 1 (of_int (atoi (convertBufferToHexString key)))
        (\<lambda>p. p\<lparr>pc_nodeId := number_u16 i, pc_networkId := number_u16 n, pc_networkKey := butlast key @ [rest 38]\<rparr>) v"
proof -
  let ?h = "enrollment_header E m (node_argument node w) SET_ENROLLMENT_BY_CHIP_ID args 7 w"
  let ?d = "store_bytes (put16 21 (number_u16 n) (put16 19 (number_u16 i) (put32 15 (strtoul 10 chipB)
      (put32 11 (strtoul 10 chipA) ?h)))) 23 key"
  have nth: "args ! 0 = node" "args ! 1 = moduleName tail (m_kind m)" "args ! 2 = ''chipid''" "args ! 3 = chipA"
    "args ! 4 = chipB" "args ! 5 = i" "args ! 6 = n" "args ! 7 = convertBufferToHexString key" "length args = 8"
    by (simp_all add: assms(1) numeral_eq_Suc)
  have cmd: "Enrollment_command deliver E tail m ''action'' args (w, c) =
      done_by (SendMessageToReceiver deliver E None ?d 38 True w) c"
    by (simp add: Enrollment_command_def Let_def addressed_def nth nth(2) [simplified] with_key_def hex_roundtrip
        send_module_message_def SIZEOF_SET_ENROLLMENT_BY_CHIP_ID_def sizeof_defs)
  have h: "get_messageType ?h = MESSAGE_TYPE_MODULE_TRIGGER_ACTION" "get_receiver ?h = node_argument node w"
    "get16 7 ?h = m_moduleId m" "?h 10 = SET_ENROLLMENT_BY_CHIP_ID" "?h 9 = of_int (atoi (convertBufferToHexString key))"
    by (simp_all add: enrollment_header_def request_handle_def nth message_type_defs)
  have r: "get_messageType (received ?d 38 rest) = MESSAGE_TYPE_MODULE_TRIGGER_ACTION"
    "get16 7 (received ?d 38 rest) = m_moduleId m" "received ?d 38 rest 10 = SET_ENROLLMENT_BY_CHIP_ID"
    "received ?d 38 rest 9 = of_int (atoi (convertBufferToHexString key))"
    "(get32 11 (received ?d 38 rest), get32 15 (received ?d 38 rest)) = e_chipId E'"
    "get16 19 (received ?d 38 rest) = number_u16 i" "get16 21 (received ?d 38 rest) = number_u16 n"
    using h assms(3) by (simp_all del: fun_upd_apply)
  have key: "bytes_at (received ?d 38 rest) 23 16 = butlast key @ [rest 38]"
  proof -
    have b: "bytes_at ?d 23 (length key) = key" by simp
    have "key \<noteq> []" using assms(2) by auto
    from bytes_at_received [OF b this, of rest] show ?thesis by (simp only: assms(2)) simp
  qed
  have "Enrollment_packet deliver' E' m' (received ?d 38 rest) v =
      enroll deliver' E' m' 1 (of_int (atoi (convertBufferToHexString key)))
        (\<lambda>p. p\<lparr>pc_nodeId := number_u16 i, pc_networkId := number_u16 n, pc_networkKey := butlast key @ [rest 38]\<rparr>) v"
    using r key assms(4)
    by (simp add: Enrollment_packet_def triggers_def read_module_def Let_def SET_ENROLLMENT_BY_NODE_ID_def
        SET_ENROLLMENT_BY_CHIP_ID_def del: received_apply)
  then show ?thesis using cmd h(2) by (intro exI [of _ ?d]) simp
qed

definition enrollment_module_example :: Module where
  "enrollment_module_example = \<lparr>m_kind = EnrollmentModule, m_moduleId = ENROLLMENT_MODULE_ID, m_configuration = \<lambda>_. 0,
     m_configurationLength = 8, m_storageSlot = 1\<rparr>"

lemma enrollment_loses_key_witness:
  "\<exists>d. Enrollment_command (\<lambda>_. Some) quiet_env [] enrollment_module_example ''action''
        [''5'', ''enroll'', ''chipid'', ''1'', ''2'', ''7'', ''11'', convertBufferToHexString (replicate 16 171)]
        (zero_world, quiet_console) =
      done_by (SendMessageToReceiver (\<lambda>_. Some) quiet_env None d 38 True zero_world) quiet_console \<and>
    get_receiver d = node_argument ''5'' zero_world \<and>
    Enrollment_packet (\<lambda>_. Some) quiet_env enrollment_module_example (received d 38 (\<lambda>_. 9)) zero_world =
      enroll (\<lambda>_. Some) quiet_env enrollment_module_example 1 (of_int (atoi (convertBufferToHexString (replicate 16 171))))
        (\<lambda>p. p\<lparr>pc_nodeId := number_u16 ''7'', pc_networkId := number_u16 ''11'', pc_networkKey := butlast (replicate 16 171) @ [9]\<rparr>)
        zero_world"
proof -
  have "strtoul 10 ''1'' = 1" "strtoul 10 ''2'' = 2"
    by (simp_all add: strtoul_def number_def isspace_def digit_value_def)
  then show ?thesis
    by (intro enrollment_loses_key [where rest = "\<lambda>_. 9", simplified])
      (simp_all add: enrollment_module_example_def moduleName_def quiet_env_def)
qed

end
