(* ===== verification/Reader.thy ===== *)
theory Reader
  imports Prelude Texts "HOL-Library.Monad_Syntax"
begin

text \<open>
  The driver of the NFC reader (\<^verbatim>\<open>src/nrf/pn532.c\<close>) over the UART (\<^verbatim>\<open>src/nrf/simple_uart.c\<close>): the command
  frames it sends, the steps of its setup, and the routines that wait for an answer byte by byte.
\<close>

section \<open>The UART\<close>

text \<open>What has been sent; the UART is given up when the transmitter does not report a byte as sent within
  3200000 polls. \<open>ready\<close> stands for the transmitter: whether it does, by what has been sent so far.\<close>

record uart =
  u_sent :: "u8 list"
  u_disabled :: bool

type_synonym transmitter = "u8 list \<Rightarrow> bool"

definition simple_uart_put :: "transmitter \<Rightarrow> u8 \<Rightarrow> uart \<Rightarrow> uart" where
  "simple_uart_put ready cr u =
     (if u_disabled u then u
      else \<lparr>u_sent = u_sent u @ [cr], u_disabled = \<not> ready (u_sent u @ [cr])\<rparr>)"

definition puts :: "transmitter \<Rightarrow> u8 list \<Rightarrow> uart \<Rightarrow> uart" where
  "puts ready bs u = fold (simple_uart_put ready) bs u"

text \<open>A string up to its terminator.\<close>

fun simple_uart_putstring :: "transmitter \<Rightarrow> u8 list \<Rightarrow> uart \<Rightarrow> uart" where
  "simple_uart_putstring ready [] u = u"
| "simple_uart_putstring ready (ch # str) u =
     (if u_disabled u \<or> ch = 0 then u else simple_uart_putstring ready str (simple_uart_put ready ch u))"

section \<open>Commands\<close>

definition preamble_and_start :: "u8 list" where "preamble_and_start = [0, 0, 0xFF]"
definition direction :: "u8 list" where "direction = [0xD4]"
definition postamble :: "u8 list" where "postamble = [0]"

definition wakeup :: "u8 list" where
  "wakeup = [0x55, 0x55] @ replicate 16 0 @ [0xFF, 0x03, 0xFD, 0xD4, 0x14, 0x01, 0x17, 0]"

definition set_parameter :: "u8 list" where
  "set_parameter = preamble_and_start @ [0x03, 0xFD] @ direction @ [0x12, 0x14, 0x06] @ postamble"

definition write_80 :: "u8 list" where
  "write_80 = preamble_and_start @ [0x08, 0xF8] @ direction @
     [0x08, 0x63, 0x02, 0x80, 0x63, 0x03, 0x80, 0x59] @ postamble"

definition config_rf :: "u8 list" where
  "config_rf = preamble_and_start @ [0x04, 0xFC] @ direction @ [0x32, 0x01, 0x01, 0xF8] @ postamble"

definition write_40_10 :: "u8 list" where
  "write_40_10 = preamble_and_start @ [0x08, 0xF8] @ direction @
     [0x08, 0x63, 0x05, 0x40, 0x63, 0x3C, 0x10, 0xCD] @ postamble"

definition config_rf_max :: "u8 list" where
  "config_rf_max = preamble_and_start @ [0x06, 0xFA] @ direction @ [0x32, 0x05, 0x00, 0x01, 0x02, 0xF2] @ postamble"

definition in_data_exchange :: "u8 \<Rightarrow> u8 \<Rightarrow> u8 list" where
  "in_data_exchange start_address dcs =
     preamble_and_start @ [0x05, 0xFB] @ direction @ [0x40, 0x01, 0x30, start_address, dcs] @ postamble"

definition in_list_passive_target :: "u8 list" where
  "in_list_passive_target = preamble_and_start @ [0x04, 0xFC] @ direction @ [0x4A, 0x01, 0x00, 0xE1] @ postamble"

definition powerdown :: "u8 list" where
  "powerdown = preamble_and_start @ [0x03, 0xFD, 0xD4, 0x16, 0xF0, 0x26] @ postamble"

section \<open>Setup\<close>

datatype setup_state = DOWN | NO_PARAM | NOT_WRITTEN_80 | RF_NOT_CONFIG | NOT_WRITTEN_40_10
  | RF_MAX_NOT_CONFIG | SETUP_DONE

fun setup_step :: "transmitter \<Rightarrow> setup_state \<times> uart \<Rightarrow> setup_state \<times> uart" where
  "setup_step ready (DOWN, u) = (NO_PARAM, puts ready wakeup u)"
| "setup_step ready (NO_PARAM, u) = (NOT_WRITTEN_80, puts ready set_parameter u)"
| "setup_step ready (NOT_WRITTEN_80, u) = (RF_NOT_CONFIG, puts ready write_80 u)"
| "setup_step ready (RF_NOT_CONFIG, u) = (NOT_WRITTEN_40_10, puts ready config_rf u)"
| "setup_step ready (NOT_WRITTEN_40_10, u) = (RF_MAX_NOT_CONFIG, puts ready write_40_10 u)"
| "setup_step ready (RF_MAX_NOT_CONFIG, u) = (SETUP_DONE, puts ready config_rf_max u)"
| "setup_step ready (SETUP_DONE, u) = (SETUP_DONE, u)"

section \<open>Waiting for answers\<close>

text \<open>The input is the list of the bytes that arrive; \<^term>\<open>None\<close> in it is a pause longer than the short
  time some routines wait. A routine that waits for more than there is does not return: its result is
  \<^term>\<open>None\<close>.\<close>

type_synonym input = "u8 option list"

fun uart_get :: "input \<Rightarrow> (u8 \<times> input) option" where
  "uart_get [] = None"
| "uart_get (None # input) = uart_get input"
| "uart_get (Some b # input) = Some (b, input)"

fun uart_gets :: "nat \<Rightarrow> input \<Rightarrow> (u8 list \<times> input) option" where
  "uart_gets 0 input = Some ([], input)"
| "uart_gets (Suc n) input = do {
     (b, input) \<leftarrow> uart_get input;
     (bs, input) \<leftarrow> uart_gets n input;
     Some (b # bs, input)
   }"

definition gobble_number_of_bytes :: "nat \<Rightarrow> input \<Rightarrow> input option" where
  "gobble_number_of_bytes count input = map_option snd (uart_gets count input)"

definition get_ack :: "input \<Rightarrow> input option" where "get_ack = gobble_number_of_bytes 6"

fun uart_get_with_timeout :: "input \<Rightarrow> bool \<times> input" where
  "uart_get_with_timeout [] = (False, [])"
| "uart_get_with_timeout (None # input) = (False, input)"
| "uart_get_with_timeout (Some b # input) = (True, input)"

fun gobble_number_of_bytes_with_timeout :: "nat \<Rightarrow> input \<Rightarrow> bool \<times> input" where
  "gobble_number_of_bytes_with_timeout 0 input = (True, input)"
| "gobble_number_of_bytes_with_timeout (Suc count) input =
     (case uart_get_with_timeout input of
        (False, input) \<Rightarrow> (False, input)
      | (True, input) \<Rightarrow> gobble_number_of_bytes_with_timeout count input)"

text \<open>The loop runs \<open>n\<close> more times.\<close>

fun find_tag :: "nat \<Rightarrow> input \<Rightarrow> (bool \<times> input) option" where
  "find_tag 0 input = Some (False, input)"
| "find_tag (Suc n) input = do {
     (b, input) \<leftarrow> uart_get input;
     if b = 0x4B then do {
       (tags, input) \<leftarrow> uart_get input;
       if tags = 0 then Some (False, input)
       else Some (gobble_number_of_bytes_with_timeout 14 input)
     } else find_tag n input
   }"

definition tag_is_present :: "input \<Rightarrow> (bool \<times> input) option" where
  "tag_is_present input = do { input \<leftarrow> gobble_number_of_bytes 6 input; find_tag 8 input }"

subsection \<open>The id of an attendee\<close>

definition hex_to_char :: "u8 \<Rightarrow> u8" where
  "hex_to_char hex = (if 0x30 \<le> hex \<and> hex \<le> 0x39 then hex - 0x30 else - 1)"

definition hex_to_dec :: "u8 \<Rightarrow> int" where
  "hex_to_dec hex = (if hex \<le> 0x32 then uint hex else - 1)"

definition get_attendee_id :: "u8 \<Rightarrow> u8 \<Rightarrow> u8 \<Rightarrow> u8 \<Rightarrow> u16" where
  "get_attendee_id a b c d =
     of_int (1000 * uint (hex_to_char a) + 100 * uint (hex_to_char b) + 10 * uint (hex_to_char c) + uint (hex_to_char d))"

definition get_packet_length_from_preamble :: "input \<Rightarrow> (int \<times> input) option" where
  "get_packet_length_from_preamble input = do {
     input \<leftarrow> gobble_number_of_bytes 3 input;
     (b, input) \<leftarrow> uart_get input;
     Some (hex_to_dec b, input)
   }"

definition success_response :: "u8 list" where
  "success_response = [0x73, 0x66, 0x2E, 0x63, 0x6F, 0x6D, 0x2F, 0x3F, 0x69, 0x64, 0x3D]"

definition at :: "u8 list \<Rightarrow> nat \<Rightarrow> u8 option" where
  "at packet i = (if i < length packet then Some (packet ! i) else None)"

text \<open>The first ten characters are compared, one after the other; the position after the last one, or
  \<^term>\<open>None\<close> if they differ. Outside the packet there is no value.\<close>

fun compare :: "u8 list \<Rightarrow> u8 list \<Rightarrow> nat \<Rightarrow> nat option option" where
  "compare [] packet found_index = Some (Some found_index)"
| "compare (c # cs) packet found_index = do {
     b \<leftarrow> at packet found_index;
     if c \<noteq> b then Some None else compare cs packet (found_index + 1)
   }"

definition find_attendee_id :: "input \<Rightarrow> (u16 \<times> input) option" where
  "find_attendee_id input = do {
     (packet_length, input) \<leftarrow> get_packet_length_from_preamble input;
     if packet_length \<le> 0 then None
     else do {
       (packet, input) \<leftarrow> uart_gets (nat packet_length) input;
       let found_index = fold (\<lambda>i k. if success_response ! 0 = packet ! i then i else k) [0..<length packet] 0;
       r \<leftarrow> compare (take 10 success_response) packet found_index;
       case r of
         None \<Rightarrow> Some (0, input)
       | Some found_index \<Rightarrow> do {
           a \<leftarrow> at packet (found_index + 1); b \<leftarrow> at packet (found_index + 2);
           c \<leftarrow> at packet (found_index + 3); d \<leftarrow> at packet (found_index + 4);
           let unused = get_attendee_id a b c d;
           input \<leftarrow> gobble_number_of_bytes 3 input;
           Some (0, input)
         }
     }
   }"

section \<open>The frames of the reader\<close>

text \<open>A frame as the reader's manual has it: preamble, start, the length of the data and its complement, the
  data, the complement of its sum, postamble.\<close>

definition frame :: "u8 list \<Rightarrow> u8 list" where
  "frame data = [0, 0, 0xFF, of_nat (length data), - of_nat (length data)] @ data @ [- sum_list data, 0]"

lemma command_frames:
  "set_parameter = frame [0xD4, 0x12, 0x14]"
  "write_80 = frame [0xD4, 0x08, 0x63, 0x02, 0x80, 0x63, 0x03, 0x80]"
  "config_rf = frame [0xD4, 0x32, 0x01, 0x01]"
  "write_40_10 = frame [0xD4, 0x08, 0x63, 0x05, 0x40, 0x63, 0x3C, 0x10]"
  "config_rf_max = frame [0xD4, 0x32, 0x05, 0x00, 0x01, 0x02]"
  "in_list_passive_target = frame [0xD4, 0x4A, 0x01, 0x00]"
  "powerdown = frame [0xD4, 0x16, 0xF0]"
  by (simp_all add: frame_def set_parameter_def write_80_def config_rf_def write_40_10_def config_rf_max_def
      in_list_passive_target_def powerdown_def preamble_and_start_def direction_def postamble_def)

lemma in_data_exchange_frame:
  "in_data_exchange a dcs = frame [0xD4, 0x40, 0x01, 0x30, a] \<longleftrightarrow> dcs = - (0x45 + a)"
proof -
  have "(- 325 :: u8) = - 69" by simp
  then have a: "- 325 - a = - 69 - a" by (simp only:)
  show ?thesis
    by (simp add: a frame_def in_data_exchange_def preamble_and_start_def direction_def postamble_def)
qed

lemma wakeup_frame: "\<exists>pre. wakeup = pre @ tl (frame [0xD4, 0x14, 0x01])"
proof -
  have "replicate 16 0 = replicate 15 0 @ [0 :: u8]" by (simp add: numeral_eq_Suc)
  then show ?thesis
    by (intro exI [of _ "[0x55, 0x55] @ replicate 15 0"]) (simp add: wakeup_def frame_def)
qed

lemma puts_append: "puts ready (xs @ ys) u = puts ready ys (puts ready xs u)"
  by (simp add: puts_def)

text \<open>The setup sends six commands, one at a time.\<close>

lemma setup_in_six_steps:
  "(setup_step ready ^^ 6) (DOWN, u) =
     (SETUP_DONE, puts ready (wakeup @ set_parameter @ write_80 @ config_rf @ write_40_10 @ config_rf_max) u)"
  by (simp add: puts_append numeral_eq_Suc)

text \<open>The id that was found is not returned.\<close>

lemma find_attendee_id_zero: "find_attendee_id input = Some (attendeeId, rest) \<Longrightarrow> attendeeId = 0"
  by (auto simp: find_attendee_id_def Let_def split: Option.bind_splits if_splits option.splits prod.splits)

end
