(* ===== verification/Nfc.thy ===== *)
theory Nfc
  imports Reader RetryStorage Discovery
begin

text \<open>
  The module that reads the votes off NFC cards (\<^verbatim>\<open>src/modules/NFCModule.cpp\<close>): the interrupt handler that is
  called for each byte of the reader, with its automata for the acknowledgement, the answer and the data
  of a card, and the timer that starts the reading.
\<close>

section \<open>State\<close>

datatype ack_state = ACK_START | second_byte | third_byte | fourth_byte | fifth_byte | sixth_byte
  | ack_error | ack_processed

datatype response_state = RESPONSE_NEEDS_PROCESSING | PREAMBLE | START1 | START2 | LEN | NO_TAG_EXISTS
  | TAG_EXISTS | NOT_EXPECTED_RESPONSE

datatype rest_of_response_state = START_PROCESSING_REST_OF_RESPONSE | LCS | TO_HOST | COMMAND_RESPONSE
  | TAG_NUMBER | BAUDRATE | DATA2 | DATA3 | DATA4 | DATA5 | DATA6 | DATA7 | DATA8 | DATA9 | DATA10
  | DATA11 | DATA12 | DATA13 | POSTAMBLE | GOING_TO_END | REST_OF_RESPONSE_PROCESSED
  | NOT_EXPECTED_REST_OF_RESPONSE

datatype data_grab_state = start_grabbing | end_grabbing

datatype nfc_state = SETUP | NEEDS_RETRY | ERROR | TAG_PRESENCE_UNKNOWN | IN_LIST_ACK_PROCESSING
  | PROCESSING_REST_OF_RESPONSE | READ_TAG_ACK | SECOND_READ_ACK | THIRD_READ_ACK | GET_PAID_1
  | GET_PAID_2 | GET_PAID_3 | GET_PAID_4 | FOURTH_READ_ACK | FIFTH_READ_ACK | EAT_FIRST_DATA_COMMAND
  | EAT_SECOND_DATA_COMMAND | EAT_THIRD_DATA_COMMAND | EAT_FOURTH_DATA_COMMAND | ID_TAKEN

text \<open>The static variables of the module and of the driver.\<close>

record nfc =
  f_UART_CONFIGURED :: bool
  f_first_response_received :: bool
  f_ack :: ack_state
  f_response :: response_state
  f_rest :: rest_of_response_state
  f_number_of_tags :: nat
  f_grab :: data_grab_state
  f_data_dump1 :: "u8 list"
  f_count :: nat
  f_dump_index :: nat
  f_state :: nfc_state
  f_setup :: setup_state
  f_uart :: uart

definition four_frame_data_dump_size :: nat where "four_frame_data_dump_size = 60"
definition max_remaining_byte_size_in_a_frame :: nat where "max_remaining_byte_size_in_a_frame = 15"

definition nfc_at_boot :: nfc where
  "nfc_at_boot = \<lparr>f_UART_CONFIGURED = False, f_first_response_received = False, f_ack = ACK_START,
     f_response = RESPONSE_NEEDS_PROCESSING, f_rest = START_PROCESSING_REST_OF_RESPONSE, f_number_of_tags = 0,
     f_grab = start_grabbing, f_data_dump1 = replicate four_frame_data_dump_size 0, f_count = 0, f_dump_index = 0,
     f_state = SETUP, f_setup = DOWN, f_uart = \<lparr>u_sent = [], u_disabled = False\<rparr>\<rparr>"

section \<open>The automata\<close>

definition process_ack :: "u8 \<Rightarrow> ack_state \<Rightarrow> ack_state" where
  "process_ack rx_byte s =
     (case s of
        ACK_START \<Rightarrow> if rx_byte = 0 then second_byte else ack_error
      | second_byte \<Rightarrow> if rx_byte = 0 then third_byte else ack_error
      | third_byte \<Rightarrow> if rx_byte = 255 then fourth_byte else ack_error
      | fourth_byte \<Rightarrow> if rx_byte = 0 then fifth_byte else ack_error
      | fifth_byte \<Rightarrow> if rx_byte = 255 then sixth_byte else ack_error
      | sixth_byte \<Rightarrow> if rx_byte = 0 then ack_processed else ack_error
      | _ \<Rightarrow> s)"

definition process_response :: "u8 \<Rightarrow> response_state \<Rightarrow> response_state" where
  "process_response rx_byte s =
     (case s of
        RESPONSE_NEEDS_PROCESSING \<Rightarrow> if rx_byte = 0 then PREAMBLE else NOT_EXPECTED_RESPONSE
      | PREAMBLE \<Rightarrow> if rx_byte = 0 then START1 else NOT_EXPECTED_RESPONSE
      | START1 \<Rightarrow> if rx_byte = 255 then START2 else NOT_EXPECTED_RESPONSE
      | START2 \<Rightarrow> if rx_byte = 3 then NO_TAG_EXISTS else if rx_byte = 15 then TAG_EXISTS else NOT_EXPECTED_RESPONSE
      | _ \<Rightarrow> s)"

definition process_rest_of_tag_exists_response ::
    "u8 \<Rightarrow> rest_of_response_state \<times> nat \<Rightarrow> rest_of_response_state \<times> nat" where
  "process_rest_of_tag_exists_response rx_byte s =
     (case s of (r, number_of_tags) \<Rightarrow>
        let step = (\<lambda>ok r'. (if ok then r' else NOT_EXPECTED_REST_OF_RESPONSE, number_of_tags));
            data = step (rx_byte < 255)
        in (case r of
              START_PROCESSING_REST_OF_RESPONSE \<Rightarrow> step (rx_byte = 241) LCS
            | LCS \<Rightarrow> step (rx_byte = 213) TO_HOST
            | TO_HOST \<Rightarrow> step (rx_byte = 75) TAG_NUMBER
            | TAG_NUMBER \<Rightarrow> if rx_byte = 1 then (BAUDRATE, 1) else (NOT_EXPECTED_REST_OF_RESPONSE, number_of_tags)
            | BAUDRATE \<Rightarrow> step (rx_byte = 1) DATA2
            | DATA2 \<Rightarrow> data DATA3 | DATA3 \<Rightarrow> data DATA4 | DATA4 \<Rightarrow> data DATA5 | DATA5 \<Rightarrow> data DATA6
            | DATA6 \<Rightarrow> data DATA7 | DATA7 \<Rightarrow> data DATA8 | DATA8 \<Rightarrow> data DATA9 | DATA9 \<Rightarrow> data DATA10
            | DATA10 \<Rightarrow> data DATA11 | DATA11 \<Rightarrow> data DATA12 | DATA12 \<Rightarrow> data DATA13 | DATA13 \<Rightarrow> data POSTAMBLE
            | POSTAMBLE \<Rightarrow> data REST_OF_RESPONSE_PROCESSED
            | _ \<Rightarrow> s))"

text \<open>Beyond its 60 bytes the dump must not be written.\<close>

definition grab_frame_bytes_into_mass_dump :: "u8 \<Rightarrow> nfc \<Rightarrow> nfc option" where
  "grab_frame_bytes_into_mass_dump rx_byte f =
     (case f_grab f of
        start_grabbing \<Rightarrow>
          if f_count f < max_remaining_byte_size_in_a_frame then
            if f_dump_index f < four_frame_data_dump_size then
              Some (f\<lparr>f_data_dump1 := (f_data_dump1 f)[f_dump_index f := rx_byte], f_count := f_count f + 1,
                      f_dump_index := f_dump_index f + 1, f_grab := start_grabbing\<rparr>)
            else None
          else Some (f\<lparr>f_grab := end_grabbing, f_count := 0\<rparr>)
      | end_grabbing \<Rightarrow> Some f)"

section \<open>The id on a card\<close>

definition isprint :: "u8 \<Rightarrow> bool" where "isprint b \<longleftrightarrow> 32 \<le> b \<and> b \<le> 126"

text \<open>\<open>std::string::find\<close>\<close>

fun find_text :: "'a list \<Rightarrow> 'a list \<Rightarrow> nat option" where
  "find_text pat [] = (if pat = [] then Some 0 else None)"
| "find_text pat (c # cs) = (if take (length pat) (c # cs) = pat then Some 0 else map_option Suc (find_text pat cs))"

definition id_exists_in_response :: "u8 list \<Rightarrow> bool" where
  "id_exists_in_response response \<longleftrightarrow> find_text (bytes_of ''id='') response \<noteq> None"

text \<open>What is returned as a \<open>short\<close>, as the \<open>unsigned short\<close> it is passed on as. Not found is position
  \<open>npos\<close>, and \<open>npos + 1\<close> is 0.\<close>

definition get_id :: "u8 list \<Rightarrow> u16" where
  "get_id dump =
     (let response_string = text_of (filter isprint dump);
          start = (case find_text ''='' response_string of None \<Rightarrow> 0 | Some found \<Rightarrow> found + 1)
      in of_int (atoi (take 4 (drop start response_string))))"

definition FlashWhite :: "nat \<Rightarrow> world \<Rightarrow> world" where
  "FlashWhite k w =
     (let n = w_node w; leds = [n_LedRed n, n_LedBlue n, n_LedGreen n, n_Buzzer n]
      in gpio ((\<lambda>out. fold led_Off leds (fold led_On leds out)) ^^ k) w)"

section \<open>The interrupt handler\<close>

definition send_to_reader :: "transmitter \<Rightarrow> u8 list \<Rightarrow> nfc \<Rightarrow> nfc" where
  "send_to_reader ready bs f = f\<lparr>f_uart := puts ready bs (f_uart f)\<rparr>"

text \<open>A byte of a frame: when the frame is over, the next part of the card is asked for.\<close>

definition get_paid :: "transmitter \<Rightarrow> u8 \<Rightarrow> u8 list \<Rightarrow> nfc_state \<Rightarrow> nfc \<Rightarrow> nfc option" where
  "get_paid ready rx_byte command next f = do {
     f \<leftarrow> grab_frame_bytes_into_mass_dump rx_byte (f\<lparr>f_grab := start_grabbing\<rparr>);
     Some (if f_grab f = end_grabbing then (send_to_reader ready command f)\<lparr>f_state := next\<rparr> else f)
   }"

definition nfcEventHandler :: "env \<Rightarrow> transmitter \<Rightarrow> u8 \<Rightarrow> nfc \<times> world \<Rightarrow> (nfc \<times> world) option" where
  "nfcEventHandler E ready rx_byte s =
     (case s of (f, w) \<Rightarrow>
        let goto = (\<lambda>b st. Some (if b then f\<lparr>f_state := st\<rparr> else f, w));
            paid = (\<lambda>command next. map_option (\<lambda>f. (f, w)) (get_paid ready rx_byte command next f))
        in (case f_state f of
              SETUP \<Rightarrow> Some (if rx_byte = 255 then f\<lparr>f_first_response_received := True\<rparr> else f, w)
            | TAG_PRESENCE_UNKNOWN \<Rightarrow>
                let a = (if f_ack f \<noteq> ack_processed then process_ack rx_byte (f_ack f) else f_ack f)
                in Some (f\<lparr>f_ack := a, f_state := (if a = ack_error then NEEDS_RETRY
                          else if a = ack_processed then IN_LIST_ACK_PROCESSING else TAG_PRESENCE_UNKNOWN)\<rparr>, w)
            | IN_LIST_ACK_PROCESSING \<Rightarrow>
                let r = process_response rx_byte (f_response f)
                in Some (f\<lparr>f_response := r, f_state := (if r = NOT_EXPECTED_RESPONSE \<or> r = NO_TAG_EXISTS then NEEDS_RETRY
                          else if r = TAG_EXISTS then PROCESSING_REST_OF_RESPONSE else IN_LIST_ACK_PROCESSING)\<rparr>, w)
            | PROCESSING_REST_OF_RESPONSE \<Rightarrow>
                let (r, tags) = (if f_rest f \<noteq> REST_OF_RESPONSE_PROCESSED
                      then process_rest_of_tag_exists_response rx_byte (f_rest f, f_number_of_tags f)
                      else (f_rest f, f_number_of_tags f));
                    f = f\<lparr>f_rest := r, f_number_of_tags := tags\<rparr>
                in Some (if r = NOT_EXPECTED_REST_OF_RESPONSE then f\<lparr>f_state := NEEDS_RETRY\<rparr>
                         else if r = REST_OF_RESPONSE_PROCESSED
                         then (send_to_reader ready (in_data_exchange 0x00 0xBB) f)\<lparr>f_state := SECOND_READ_ACK\<rparr>
                         else f, w)
            | SECOND_READ_ACK \<Rightarrow> goto (rx_byte = 65) EAT_FIRST_DATA_COMMAND
            | EAT_FIRST_DATA_COMMAND \<Rightarrow> goto (rx_byte = 0) GET_PAID_1
            | GET_PAID_1 \<Rightarrow> paid (in_data_exchange 0x04 0xB7) THIRD_READ_ACK
            | THIRD_READ_ACK \<Rightarrow> goto (rx_byte = 65) EAT_SECOND_DATA_COMMAND
            | EAT_SECOND_DATA_COMMAND \<Rightarrow> goto (rx_byte = 0) GET_PAID_2
            | GET_PAID_2 \<Rightarrow> paid (in_data_exchange 0x08 0xB3) FOURTH_READ_ACK
            | FOURTH_READ_ACK \<Rightarrow> goto (rx_byte = 65) EAT_THIRD_DATA_COMMAND
            | EAT_THIRD_DATA_COMMAND \<Rightarrow> goto (rx_byte = 0) GET_PAID_3
            | GET_PAID_3 \<Rightarrow> paid (in_data_exchange 0x0C 0xAF) FIFTH_READ_ACK
            | FIFTH_READ_ACK \<Rightarrow> goto (rx_byte = 65) GET_PAID_4
            | EAT_FOURTH_DATA_COMMAND \<Rightarrow> goto (rx_byte = 0) GET_PAID_4
            | GET_PAID_4 \<Rightarrow> do {
                f \<leftarrow> grab_frame_bytes_into_mass_dump rx_byte (f\<lparr>f_grab := start_grabbing\<rparr>);
                if f_grab f \<noteq> end_grabbing then Some (f, w)
                else if id_exists_in_response (f_data_dump1 f) then do {
                  (w, _) \<leftarrow> PutInRetryStorage E (get_id (f_data_dump1 f)) w;
                  Some (f\<lparr>f_state := ID_TAKEN\<rparr>, FlashWhite 6 w)
                } else Some (f\<lparr>f_state := NEEDS_RETRY\<rparr>, w)
              }
            | _ \<Rightarrow> Some (f, w)))"

section \<open>The timer\<close>

definition setup_state_machine :: "nfc \<Rightarrow> nfc" where
  "setup_state_machine f = f\<lparr>f_response := RESPONSE_NEEDS_PROCESSING, f_rest := START_PROCESSING_REST_OF_RESPONSE,
     f_state := TAG_PRESENCE_UNKNOWN, f_ack := ACK_START, f_number_of_tags := 0, f_dump_index := 0,
     f_data_dump1 := replicate four_frame_data_dump_size 0\<rparr>"

definition setup_tick :: "transmitter \<Rightarrow> nfc \<Rightarrow> nfc" where
  "setup_tick ready f = (case setup_step ready (f_setup f, f_uart f) of (s, u) \<Rightarrow> f\<lparr>f_setup := s, f_uart := u\<rparr>)"

definition NFC_TimerEventHandler :: "transmitter \<Rightarrow> u32 \<Rightarrow> nfc \<times> world \<Rightarrow> nfc \<times> world" where
  "NFC_TimerEventHandler ready appTimer s =
     (let (f, w) = s;
          f = f\<lparr>f_UART_CONFIGURED := True\<rparr>;
          (f, w) = (if appTimer mod 10 = 0 then
             let f = (if f_setup f \<noteq> SETUP_DONE then setup_tick ready f else f)
             in if f_setup f = SETUP_DONE then
                  (if f_first_response_received f then (f\<lparr>f_state := TAG_PRESENCE_UNKNOWN\<rparr>, w)
                   else (f, gpio (led_On (n_LedRed (w_node w))) w))
                else (f, w)
           else (f, w))
      in if f_setup f = SETUP_DONE \<and> (appTimer div 1000) mod 5 \<noteq> 0 \<and> appTimer mod 1000 = 0
         then (send_to_reader ready in_list_passive_target (setup_state_machine f), w)
         else (f, w))"

end
