(* ===== verification/NfcProps.thy ===== *)
theory NfcProps
  imports Nfc
begin

text \<open>
  What the NFC module reads: the run over all the bytes of a card, the vote on it, and the ways in which the
  reading goes wrong.
\<close>

section \<open>The handler in each state\<close>

lemma handler_waits:
  "f_state f = SECOND_READ_ACK \<Longrightarrow> nfcEventHandler E ready b (f, w) = Some (if b = 65 then f\<lparr>f_state := EAT_FIRST_DATA_COMMAND\<rparr> else f, w)"
  "f_state f = THIRD_READ_ACK \<Longrightarrow> nfcEventHandler E ready b (f, w) = Some (if b = 65 then f\<lparr>f_state := EAT_SECOND_DATA_COMMAND\<rparr> else f, w)"
  "f_state f = FOURTH_READ_ACK \<Longrightarrow> nfcEventHandler E ready b (f, w) = Some (if b = 65 then f\<lparr>f_state := EAT_THIRD_DATA_COMMAND\<rparr> else f, w)"
  "f_state f = FIFTH_READ_ACK \<Longrightarrow> nfcEventHandler E ready b (f, w) = Some (if b = 65 then f\<lparr>f_state := GET_PAID_4\<rparr> else f, w)"
  "f_state f = EAT_FIRST_DATA_COMMAND \<Longrightarrow> nfcEventHandler E ready b (f, w) = Some (if b = 0 then f\<lparr>f_state := GET_PAID_1\<rparr> else f, w)"
  "f_state f = EAT_SECOND_DATA_COMMAND \<Longrightarrow> nfcEventHandler E ready b (f, w) = Some (if b = 0 then f\<lparr>f_state := GET_PAID_2\<rparr> else f, w)"
  "f_state f = EAT_THIRD_DATA_COMMAND \<Longrightarrow> nfcEventHandler E ready b (f, w) = Some (if b = 0 then f\<lparr>f_state := GET_PAID_3\<rparr> else f, w)"
  by (simp_all add: nfcEventHandler_def)

lemma handler_rests:
  "f_state f \<in> {NEEDS_RETRY, ERROR, ID_TAKEN} \<Longrightarrow> nfcEventHandler E ready b (f, w) = Some (f, w)"
  by (auto simp: nfcEventHandler_def)

lemma handler_rest_of_response:
  "f_state f = PROCESSING_REST_OF_RESPONSE \<Longrightarrow> nfcEventHandler E ready b (f, w) =
     (let (r, tags) = (if f_rest f \<noteq> REST_OF_RESPONSE_PROCESSED
            then process_rest_of_tag_exists_response b (f_rest f, f_number_of_tags f)
            else (f_rest f, f_number_of_tags f));
          f = f\<lparr>f_rest := r, f_number_of_tags := tags\<rparr>
      in Some (if r = NOT_EXPECTED_REST_OF_RESPONSE then f\<lparr>f_state := NEEDS_RETRY\<rparr>
               else if r = REST_OF_RESPONSE_PROCESSED
               then (send_to_reader ready (in_data_exchange 0x00 0xBB) f)\<lparr>f_state := SECOND_READ_ACK\<rparr>
               else f, w))"
  by (simp add: nfcEventHandler_def)

lemma handler_paid:
  "f_state f = GET_PAID_1 \<Longrightarrow> nfcEventHandler E ready b (f, w) =
     map_option (\<lambda>f. (f, w)) (get_paid ready b (in_data_exchange 0x04 0xB7) THIRD_READ_ACK f)"
  "f_state f = GET_PAID_2 \<Longrightarrow> nfcEventHandler E ready b (f, w) =
     map_option (\<lambda>f. (f, w)) (get_paid ready b (in_data_exchange 0x08 0xB3) FOURTH_READ_ACK f)"
  "f_state f = GET_PAID_3 \<Longrightarrow> nfcEventHandler E ready b (f, w) =
     map_option (\<lambda>f. (f, w)) (get_paid ready b (in_data_exchange 0x0C 0xAF) FIFTH_READ_ACK f)"
  by (simp_all add: nfcEventHandler_def)

section \<open>Runs\<close>

fun feed :: "env \<Rightarrow> transmitter \<Rightarrow> u8 list \<Rightarrow> nfc \<times> world \<Rightarrow> (nfc \<times> world) option" where
  "feed E ready [] s = Some s"
| "feed E ready (b # bs) s = Option.bind (nfcEventHandler E ready b s) (feed E ready bs)"

lemma feed_append: "feed E ready (xs @ ys) s = Option.bind (feed E ready xs s) (feed E ready ys)"
  by (induction xs arbitrary: s) (simp_all split: Option.bind_split)

lemma feed_then: "feed E ready xs s = Some s' \<Longrightarrow> feed E ready (xs @ ys) s = feed E ready ys s'"
  by (simp add: feed_append)

lemma feed_Nil: "feed E ready [] = Some" by (rule ext) simp

lemma feed_one: "feed E ready [b] s = nfcEventHandler E ready b s"
  by (cases "nfcEventHandler E ready b s") simp_all

text \<open>The statics while a card is read: \<open>dump\<close> has been stored, \<open>c\<close> bytes of it in the current frame.\<close>

definition reading :: "nfc \<Rightarrow> u8 list \<Rightarrow> nat \<Rightarrow> nfc_state \<Rightarrow> nfc" where
  "reading f dump c st = f\<lparr>f_data_dump1 := dump @ replicate (four_frame_data_dump_size - length dump) 0,
     f_dump_index := length dump, f_count := c, f_state := st, f_grab := start_grabbing\<rparr>"

definition paid_states :: "nfc_state set" where
  "paid_states = {GET_PAID_1, GET_PAID_2, GET_PAID_3, GET_PAID_4}"

lemma handler_grabs:
  assumes "st \<in> paid_states" "c < 15" "length dump < 60"
  shows "nfcEventHandler E ready b ((reading f dump c st)\<lparr>f_grab := g\<rparr>, w) =
    Some (reading f (dump @ [b]) (c + 1) st, w)"
proof -
  have k: "60 - length dump = Suc (59 - length dump)" using assms(3) by simp
  have "(dump @ replicate (60 - length dump) 0)[length dump := b] = (dump @ [b]) @ replicate (59 - length dump) 0"
    unfolding k by (simp add: list_update_append)
  then show ?thesis
    using assms by (auto simp: paid_states_def nfcEventHandler_def get_paid_def reading_def
        grab_frame_bytes_into_mass_dump_def max_remaining_byte_size_in_a_frame_def four_frame_data_dump_size_def)
qed

lemma feed_grabs:
  assumes "st \<in> paid_states" "c + length xs \<le> 15" "length dump + length xs \<le> 60"
  shows "feed E ready xs (reading f dump c st, w) = Some (reading f (dump @ xs) (c + length xs) st, w)"
  using assms(2,3)
proof (induction xs arbitrary: c dump)
  case (Cons b xs)
  have e: "reading f dump c st = (reading f dump c st)\<lparr>f_grab := start_grabbing\<rparr>" by (simp add: reading_def)
  have "nfcEventHandler E ready b (reading f dump c st, w) = Some (reading f (dump @ [b]) (c + 1) st, w)"
    by (subst e, rule handler_grabs [OF assms(1)]) (use Cons.prems in simp_all)
  then show ?case using Cons.IH [of "c + 1" "dump @ [b]"] Cons.prems by simp
qed simp

text \<open>A frame of 16 bytes: 15 of them are kept.\<close>

lemma feed_frame:
  assumes "st \<in> paid_states" "length p = 15" "length dump \<le> 45"
  shows "feed E ready (p @ [b]) ((reading f dump 0 st)\<lparr>f_grab := g\<rparr>, w) =
    nfcEventHandler E ready b (reading f (dump @ p) 15 st, w)"
proof -
  obtain x xs where p: "p = x # xs" "length xs = 14" using assms(2) by (cases p) auto
  show ?thesis
    using handler_grabs [OF assms(1), of 0 dump] feed_grabs [OF assms(1), of 1 xs "dump @ [x]"] assms(3) p(2)
    by (simp add: p(1) feed_append feed_Nil del: feed.simps(1))
qed

lemma skip_until_A:
  assumes "f_state f \<in> {SECOND_READ_ACK, THIRD_READ_ACK, FOURTH_READ_ACK, FIFTH_READ_ACK}" "65 \<notin> set gap"
  shows "feed E ready gap (f, w) = Some (f, w)"
  using assms(2)
proof (induction gap)
  case (Cons b gap)
  then have "nfcEventHandler E ready b (f, w) = Some (f, w)" using assms(1) by (auto simp: handler_waits)
  then show ?case using Cons by simp
qed simp

section \<open>The card is found\<close>

text \<open>The reader acknowledges the command and reports one card of 106 kbit/s type A; what it tells about the
  card, its checksum and the postamble are thirteen bytes below 255.\<close>

definition card_found :: "u8 list \<Rightarrow> u8 list" where
  "card_found tag = [0, 0, 255, 0, 255, 0] @ [0, 0, 255, 15] @ [241, 213, 75, 1, 1] @ tag"

lemma feed_ack:
  assumes "f_state f = TAG_PRESENCE_UNKNOWN" "f_ack f = ACK_START"
  shows "feed E ready [0, 0, 255, 0, 255, 0] (f, w) =
    Some (f\<lparr>f_ack := ack_processed, f_state := IN_LIST_ACK_PROCESSING\<rparr>, w)"
  using assms by (simp add: nfcEventHandler_def process_ack_def)

lemma feed_response:
  assumes "f_state f = IN_LIST_ACK_PROCESSING" "f_response f = RESPONSE_NEEDS_PROCESSING"
  shows "feed E ready [0, 0, 255, 15] (f, w) =
    Some (f\<lparr>f_response := TAG_EXISTS, f_state := PROCESSING_REST_OF_RESPONSE\<rparr>, w)"
  using assms by (simp add: nfcEventHandler_def process_response_def)

lemma feed_tag_header:
  assumes "f_state f = PROCESSING_REST_OF_RESPONSE" "f_rest f = START_PROCESSING_REST_OF_RESPONSE"
  shows "feed E ready [241, 213, 75, 1, 1] (f, w) = Some (f\<lparr>f_rest := DATA2, f_number_of_tags := 1\<rparr>, w)"
  using assms by (simp add: nfcEventHandler_def process_rest_of_tag_exists_response_def)

definition data_states :: "rest_of_response_state list" where
  "data_states = [DATA2, DATA3, DATA4, DATA5, DATA6, DATA7, DATA8, DATA9, DATA10, DATA11, DATA12, DATA13, POSTAMBLE,
     REST_OF_RESPONSE_PROCESSED]"

lemma handler_tag_byte:
  assumes "f_state f = PROCESSING_REST_OF_RESPONSE" "k < 12" "f_rest f = data_states ! k" "b < 255"
  shows "nfcEventHandler E ready b (f, w) = Some (f\<lparr>f_rest := data_states ! Suc k\<rparr>, w)"
proof -
  from assms(2) have "k \<in> set [0..<12]" by simp
  then show ?thesis
    using assms(1,3,4) by (simp add: upt_rec [of _ 12])
      (elim disjE; simp add: data_states_def nfcEventHandler_def process_rest_of_tag_exists_response_def numeral_eq_Suc)
qed

lemma feed_tag:
  assumes "f_state f = PROCESSING_REST_OF_RESPONSE" "k + length bs \<le> 12" "f_rest f = data_states ! k" "\<forall>b \<in> set bs. b < 255"
  shows "feed E ready bs (f, w) = Some (f\<lparr>f_rest := data_states ! (k + length bs)\<rparr>, w)"
  using assms
proof (induction bs arbitrary: k f)
  case Nil
  then show ?case by (cases f) simp
next
  case (Cons b bs)
  then show ?case
    using handler_tag_byte [OF Cons.prems(1), of k b] Cons.IH [of "f\<lparr>f_rest := data_states ! Suc k\<rparr>" "Suc k"] by simp
qed

definition tag_expected :: "nfc \<Rightarrow> nfc" where
  "tag_expected f = (setup_state_machine f)\<lparr>f_ack := ack_processed, f_response := TAG_EXISTS,
     f_state := PROCESSING_REST_OF_RESPONSE, f_rest := DATA2, f_number_of_tags := 1\<rparr>"

lemma feed_to_tag: "feed E ready (card_found tag) (setup_state_machine f, w) = feed E ready tag (tag_expected f, w)"
  unfolding card_found_def feed_append
  by (simp add: feed_ack feed_response feed_tag_header setup_state_machine_def tag_expected_def del: feed.simps)

lemma feed_card_found:
  assumes "length tag = 13" "\<forall>b \<in> set tag. b < 255"
  shows "feed E ready (card_found tag) (setup_state_machine f, w) =
    Some (reading (send_to_reader ready (in_data_exchange 0x00 0xBB) (f\<lparr>f_ack := ack_processed, f_response := TAG_EXISTS,
        f_rest := REST_OF_RESPONSE_PROCESSED, f_number_of_tags := 1\<rparr>)) [] (f_count f) SECOND_READ_ACK\<lparr>f_grab := f_grab f\<rparr>, w)"
proof -
  obtain bs b where tag: "tag = bs @ [b]" "length bs = 12" "b < 255" "\<forall>b \<in> set bs. b < 255"
    using assms by (cases tag rule: rev_cases) auto
  have "feed E ready bs (tag_expected f, w) = Some ((tag_expected f)\<lparr>f_rest := data_states ! (0 + length bs)\<rparr>, w)"
    by (rule feed_tag) (use tag in \<open>simp_all add: data_states_def tag_expected_def\<close>)
  then have "feed E ready tag (tag_expected f, w) = nfcEventHandler E ready b ((tag_expected f)\<lparr>f_rest := POSTAMBLE\<rparr>, w)"
    by (simp add: tag(1,2) feed_append feed_Nil data_states_def numeral_eq_Suc del: feed.simps(1))
  then show ?thesis
    unfolding feed_to_tag
    by (simp add: tag(3) handler_rest_of_response process_rest_of_tag_exists_response_def reading_def
        send_to_reader_def tag_expected_def setup_state_machine_def)
qed

section \<open>The parts of a card\<close>

text \<open>The states while a part is read, and what is sent when it is there.\<close>

definition parts :: "(nfc_state \<times> nfc_state \<times> nfc_state \<times> nfc_state \<times> u8 list) set" where
  "parts = {(SECOND_READ_ACK, EAT_FIRST_DATA_COMMAND, GET_PAID_1, THIRD_READ_ACK, in_data_exchange 0x04 0xB7),
     (THIRD_READ_ACK, EAT_SECOND_DATA_COMMAND, GET_PAID_2, FOURTH_READ_ACK, in_data_exchange 0x08 0xB3),
     (FOURTH_READ_ACK, EAT_THIRD_DATA_COMMAND, GET_PAID_3, FIFTH_READ_ACK, in_data_exchange 0x0C 0xAF)}"

lemma part_begins:
  assumes "(ack, eat, paid, next, command) \<in> parts" "f_state f = ack"
  shows "feed E ready [65, 0] (f, w) = Some (f\<lparr>f_state := paid\<rparr>, w)"
  using assms by (auto simp: parts_def handler_waits)

lemma part_ends:
  assumes "(ack, eat, paid, next, command) \<in> parts"
  shows "nfcEventHandler E ready b (reading f dump 15 paid, w) =
    Some ((reading (send_to_reader ready command f) dump 0 next)\<lparr>f_grab := end_grabbing\<rparr>, w)"
  using assms by (auto simp: parts_def handler_paid get_paid_def grab_frame_bytes_into_mass_dump_def
      max_remaining_byte_size_in_a_frame_def send_to_reader_def reading_def)

lemma feed_part:
  assumes "(ack, eat, paid, next, command) \<in> parts" "65 \<notin> set gap" "length p = 16" "length dump \<le> 45"
  shows "feed E ready (gap @ [65, 0] @ p) ((reading f dump 0 ack)\<lparr>f_grab := g\<rparr>, w) =
    Some ((reading (send_to_reader ready command f) (dump @ take 15 p) 0 next)\<lparr>f_grab := end_grabbing\<rparr>, w)"
proof -
  let ?f = "(reading f dump 0 ack)\<lparr>f_grab := g\<rparr>"
  have paid: "paid \<in> paid_states" and ack: "f_state ?f \<in> {SECOND_READ_ACK, THIRD_READ_ACK, FOURTH_READ_ACK, FIFTH_READ_ACK}"
    using assms(1) by (auto simp: parts_def paid_states_def reading_def)
  have e: "?f\<lparr>f_state := paid\<rparr> = (reading f dump 0 paid)\<lparr>f_grab := g\<rparr>" by (simp add: reading_def)
  have p: "p = take 15 p @ [p ! 15]"
    using take_Suc_conv_app_nth [of 15 p] assms(3) by simp
  have "feed E ready [65, 0] (?f, w) = Some (?f\<lparr>f_state := paid\<rparr>, w)"
    by (rule part_begins [OF assms(1)]) (simp add: reading_def)
  moreover have "feed E ready p ((reading f dump 0 paid)\<lparr>f_grab := g\<rparr>, w) =
      Some ((reading (send_to_reader ready command f) (dump @ take 15 p) 0 next)\<lparr>f_grab := end_grabbing\<rparr>, w)"
    using feed_frame [OF paid, of "take 15 p" dump E ready "p ! 15"] assms(3,4) part_ends [OF assms(1)]
    by (subst p) simp
  ultimately show ?thesis
    using skip_until_A [OF ack assms(2)] by (simp add: feed_append e del: feed.simps append_Cons append_Nil)
qed

text \<open>The last part begins with the byte of the answer that says how the command went: the step that leaves
  it out for the other parts is missing.\<close>

lemma feed_last_part:
  assumes "65 \<notin> set gap" "length p = 16" "length dump = 45"
  shows "feed E ready (gap @ [65, 0] @ p) ((reading f dump 0 FIFTH_READ_ACK)\<lparr>f_grab := g\<rparr>, w) =
    (let f = (reading f (dump @ 0 # take 14 p) 0 GET_PAID_4)\<lparr>f_grab := end_grabbing\<rparr>
     in if id_exists_in_response (dump @ 0 # take 14 p)
        then map_option (\<lambda>(w, _). (f\<lparr>f_state := ID_TAKEN\<rparr>, FlashWhite 6 w)) (PutInRetryStorage E (get_id (dump @ 0 # take 14 p)) w)
        else Some (f\<lparr>f_state := NEEDS_RETRY\<rparr>, w))"
proof -
  let ?f = "(reading f dump 0 FIFTH_READ_ACK)\<lparr>f_grab := g\<rparr>" and ?dump = "dump @ 0 # take 14 p"
  have p: "p = take 14 p @ [p ! 14, p ! 15]"
    using take_Suc_conv_app_nth [of 15 p] take_Suc_conv_app_nth [of 14 p] assms(2) by simp
  let ?r = "let f = (reading f ?dump 0 GET_PAID_4)\<lparr>f_grab := end_grabbing\<rparr>
      in if id_exists_in_response ?dump
         then map_option (\<lambda>(w, _). (f\<lparr>f_state := ID_TAKEN\<rparr>, FlashWhite 6 w)) (PutInRetryStorage E (get_id ?dump) w)
         else Some (f\<lparr>f_state := NEEDS_RETRY\<rparr>, w)"
  have gap: "feed E ready gap (?f, w) = Some (?f, w)"
    by (rule skip_until_A) (simp_all add: assms(1) reading_def)
  have A: "nfcEventHandler E ready 65 (?f, w) = Some ((reading f dump 0 GET_PAID_4)\<lparr>f_grab := g\<rparr>, w)"
    by (simp add: handler_waits reading_def)
  have "feed E ready ((0 # take 14 p) @ [p ! 14]) ((reading f dump 0 GET_PAID_4)\<lparr>f_grab := g\<rparr>, w) =
      nfcEventHandler E ready (p ! 14) (reading f ?dump 15 GET_PAID_4, w)"
    using feed_frame [of GET_PAID_4 "0 # take 14 p" dump E ready "p ! 14"] assms(2,3) by (simp add: paid_states_def)
  also have "\<dots> = ?r"
    using assms(2,3)
    by (auto simp: nfcEventHandler_def grab_frame_bytes_into_mass_dump_def max_remaining_byte_size_in_a_frame_def
        four_frame_data_dump_size_def reading_def Let_def split: Option.bind_split)
  finally have data: "feed E ready ((0 # take 14 p) @ [p ! 14]) ((reading f dump 0 GET_PAID_4)\<lparr>f_grab := g\<rparr>, w) = ?r" .
  have rest: "Option.bind ?r (feed E ready [p ! 15]) = ?r"
    by (auto simp: Let_def feed_one handler_rests split: Option.bind_split)
  have p: "gap @ [65, 0] @ p = gap @ 65 # ((0 # take 14 p) @ [p ! 14]) @ [p ! 15]" by (subst p) simp
  have "feed E ready (gap @ [65, 0] @ p) (?f, w) =
      feed E ready (((0 # take 14 p) @ [p ! 14]) @ [p ! 15]) ((reading f dump 0 GET_PAID_4)\<lparr>f_grab := g\<rparr>, w)"
    unfolding p by (subst feed_append) (simp only: gap A bind.bind_lunit feed.simps(2))
  also have "\<dots> = Option.bind ?r (feed E ready [p ! 15])"
    by (subst feed_append) (simp only: data)
  finally show ?thesis unfolding rest .
qed

section \<open>Reading a card\<close>

text \<open>What the reader sends while a card is read: the card is found, then each of the four parts of 16 bytes
  is announced by 65 and 0. Between them are the checksums and the headers of the frames.\<close>

definition card :: "u8 list \<Rightarrow> u8 list list \<Rightarrow> u8 list list \<Rightarrow> u8 list" where
  "card tag gaps pages = card_found tag @ concat (map (\<lambda>(gap, p). gap @ [65, 0] @ p) (zip gaps pages))"

definition dump_of :: "u8 list list \<Rightarrow> u8 list" where
  "dump_of pages = take 15 (pages ! 0) @ take 15 (pages ! 1) @ take 15 (pages ! 2) @ 0 # take 14 (pages ! 3)"

definition questions :: "u8 list" where
  "questions = in_data_exchange 0x00 0xBB @ in_data_exchange 0x04 0xB7 @ in_data_exchange 0x08 0xB3 @ in_data_exchange 0x0C 0xAF"

definition card_read :: "transmitter \<Rightarrow> nfc \<Rightarrow> u8 list \<Rightarrow> nfc_state \<Rightarrow> nfc" where
  "card_read ready f dump st = (reading (send_to_reader ready questions (f\<lparr>f_ack := ack_processed, f_response := TAG_EXISTS,
     f_rest := REST_OF_RESPONSE_PROCESSED, f_number_of_tags := 1\<rparr>)) dump 0 st)\<lparr>f_grab := end_grabbing\<rparr>"

lemma list_of_four: "length xs = 4 \<Longrightarrow> \<exists>a b c d. xs = [a, b, c, d]"
  by (auto simp: length_Suc_conv numeral_eq_Suc)

lemma feed_card:
  assumes "length tag = 13" "\<forall>b \<in> set tag. b < 255" "f_count f = 0"
    "length gaps = 4" "\<forall>gap \<in> set gaps. 65 \<notin> set gap" "length pages = 4" "\<forall>p \<in> set pages. length p = 16"
  shows "feed E ready (card tag gaps pages) (setup_state_machine f, w) =
    (if id_exists_in_response (dump_of pages)
     then map_option (\<lambda>(w, _). (card_read ready f (dump_of pages) ID_TAKEN, FlashWhite 6 w))
            (PutInRetryStorage E (get_id (dump_of pages)) w)
     else Some (card_read ready f (dump_of pages) NEEDS_RETRY, w))"
proof -
  obtain g0 g1 g2 g3 where g: "gaps = [g0, g1, g2, g3]" using list_of_four [OF assms(4)] by blast
  obtain p0 p1 p2 p3 where p: "pages = [p0, p1, p2, p3]" using list_of_four [OF assms(6)] by blast
  have gs: "65 \<notin> set g0" "65 \<notin> set g1" "65 \<notin> set g2" "65 \<notin> set g3" using assms(5) by (simp_all add: g)
  have ps: "length p0 = 16" "length p1 = 16" "length p2 = 16" "length p3 = 16" using assms(7) by (simp_all add: p)
  have part: "(SECOND_READ_ACK, EAT_FIRST_DATA_COMMAND, GET_PAID_1, THIRD_READ_ACK, in_data_exchange 0x04 0xB7) \<in> parts"
    "(THIRD_READ_ACK, EAT_SECOND_DATA_COMMAND, GET_PAID_2, FOURTH_READ_ACK, in_data_exchange 0x08 0xB3) \<in> parts"
    "(FOURTH_READ_ACK, EAT_THIRD_DATA_COMMAND, GET_PAID_3, FIFTH_READ_ACK, in_data_exchange 0x0C 0xAF) \<in> parts"
    by (simp_all add: parts_def)
  have c: "card tag gaps pages = card_found tag @ (g0 @ [65, 0] @ p0) @ (g1 @ [65, 0] @ p1) @ (g2 @ [65, 0] @ p2) @ (g3 @ [65, 0] @ p3)"
    by (simp add: card_def g p)
  define f0 where "f0 = f\<lparr>f_ack := ack_processed, f_response := TAG_EXISTS, f_rest := REST_OF_RESPONSE_PROCESSED,
      f_number_of_tags := 1\<rparr>"
  have dump: "dump_of pages = ((([] @ take 15 p0) @ take 15 p1) @ take 15 p2) @ 0 # take 14 p3"
    by (simp add: dump_of_def p)
  have s: "send_to_reader ready z (send_to_reader ready y (send_to_reader ready x f')) = send_to_reader ready (x @ y @ z) f'"
    for x y z f' by (simp add: send_to_reader_def puts_append)
  let ?f = "send_to_reader ready questions f0"
  have read: "card_read ready f D st = ((reading ?f D 0 GET_PAID_4)\<lparr>f_grab := end_grabbing\<rparr>)\<lparr>f_state := st\<rparr>" for D st
    by (simp add: card_read_def f0_def reading_def)
  let ?s = "\<lambda>f dump st g. ((reading f dump 0 st)\<lparr>f_grab := g\<rparr>, w)"
  let ?fa = "send_to_reader ready (in_data_exchange 0x00 0xBB) f0"
  let ?fb = "send_to_reader ready (in_data_exchange 0x04 0xB7) ?fa"
  let ?fc = "send_to_reader ready (in_data_exchange 0x08 0xB3) ?fb"
  let ?fd = "send_to_reader ready (in_data_exchange 0x0C 0xAF) ?fc"
  have "feed E ready (card_found tag) (setup_state_machine f, w) = Some (?s ?fa [] SECOND_READ_ACK (f_grab f))"
    using feed_card_found [OF assms(1,2), of E ready f w] by (simp add: assms(3) f0_def)
  note h = feed_then [OF this]
    feed_then [OF feed_part [OF part(1) gs(1) ps(1), of "[]" E ready "f_grab f" ?fa w]]
    feed_then [OF feed_part [OF part(2) gs(2) ps(2), of "[] @ take 15 p0" E ready end_grabbing ?fb w]]
    feed_then [OF feed_part [OF part(3) gs(3) ps(3), of "([] @ take 15 p0) @ take 15 p1" E ready end_grabbing ?fc w]]
  have f: "?fd = ?f" by (simp add: s questions_def send_to_reader_def puts_append)
  have "feed E ready (card tag gaps pages) (setup_state_machine f, w) =
      feed E ready (g3 @ [65, 0] @ p3) (?s ?fd ((([] @ take 15 p0) @ take 15 p1) @ take 15 p2) FIFTH_READ_ACK end_grabbing)"
    unfolding c by (subst h(1), subst h(2), simp, subst h(3), simp add: ps, subst h(4), simp add: ps, rule refl)
  also have "\<dots> = (if id_exists_in_response (dump_of pages)
     then map_option (\<lambda>(w, _). (card_read ready f (dump_of pages) ID_TAKEN, FlashWhite 6 w))
            (PutInRetryStorage E (get_id (dump_of pages)) w)
     else Some (card_read ready f (dump_of pages) NEEDS_RETRY, w))"
    unfolding f by (subst feed_last_part [OF gs(4) ps(4)]) (simp_all add: dump read ps Let_def)
  finally show ?thesis .
qed

section \<open>The vote on a card\<close>

lemma find_text_first: "c \<notin> set pre \<Longrightarrow> find_text [c] (pre @ c # rest) = Some (length pre)"
  by (induction pre) auto

lemma find_text_occurs: "find_text pat (pre @ pat @ rest) \<noteq> None"
proof (induction pre)
  case Nil
  have "take (length pat) (pat @ rest) = pat" by simp
  then show ?case by (cases "pat @ rest") (auto simp del: take_append)
qed simp

lemma char_of_byte: "char_of (unat (b :: u8)) = c \<longleftrightarrow> b = of_nat (of_char c)"
proof
  assume "char_of (unat b) = c"
  then have "of_char c = unat b" using unat_bound [of b] by (auto simp: of_char_of)
  then show "b = of_nat (of_char c)" by simp
next
  have "of_char c < (256 :: nat)" by (rule nat_of_char_less_256)
  then have "unat (of_nat (of_char c) :: u8) = of_char c" by (intro unat_of_nat_small) simp
  then show "b = of_nat (of_char c) \<Longrightarrow> char_of (unat b) = c" by simp
qed

lemma isprint_decimal: "b \<in> set (bytes_of (decimal n)) \<Longrightarrow> isprint b"
proof -
  assume "b \<in> set (bytes_of (decimal n))"
  then obtain c where c: "c \<in> set (decimal n)" "b = of_nat (of_char c)" by (auto simp: bytes_of_def)
  then have "48 \<le> (of_char c :: nat) \<and> of_char c \<le> (57 :: nat)"
    using decimal_digits [of n] by (force simp: digit_value_def Let_def split: if_splits)
  moreover from this have "unat b = of_char c" unfolding c(2) by (intro unat_of_nat_small) simp
  ultimately show ?thesis by (simp add: isprint_def word_le_nat_alt)
qed

lemma no_digit_byte:
  assumes "b \<notin> {48..57 :: u8}"
  shows "digit_value (char_of (unat b)) = None \<or> 10 \<le> the (digit_value (char_of (unat b)))"
proof -
  have "of_char (char_of (unat b) :: char) = unat b" using unat_bound [of b] by (simp add: of_char_of)
  moreover have "\<not> (48 \<le> unat b \<and> unat b \<le> 57)" using assms by (simp add: word_le_nat_alt)
  ultimately show ?thesis by (auto simp: digit_value_def Let_def)
qed

text \<open>\<open>=\<close> is the byte 61, the digits are the bytes from 48 to 57.\<close>

lemma id_read:
  assumes "dump = pre @ bytes_of (''id='' @ decimal n) @ rest" "61 \<notin> set pre" "n < 10000"
    "1000 \<le> n \<or> filter isprint rest = [] \<or> hd (filter isprint rest) \<notin> {48..57}"
  shows "id_exists_in_response dump \<and> get_id dump = of_nat n"
proof
  have b: "bytes_of (''id='' @ decimal n) = bytes_of ''id='' @ bytes_of (decimal n)" by (simp add: bytes_of_def)
  then show "id_exists_in_response dump"
    unfolding id_exists_in_response_def assms(1) using find_text_occurs [of "bytes_of ''id=''" pre] by simp
  let ?pre = "text_of (filter isprint pre) @ ''id''" and ?rest = "text_of (filter isprint rest)"
  have "filter isprint (bytes_of (decimal n)) = bytes_of (decimal n)" using isprint_decimal by (auto simp: filter_id_conv)
  moreover have "filter isprint (bytes_of ''id='') = bytes_of ''id=''" by (simp add: bytes_of_def isprint_def)
  ultimately have f: "text_of (filter isprint dump) = ?pre @ CHR ''='' # decimal n @ ?rest"
    unfolding assms(1) b by (simp add: text_of_bytes text_of_append)
  have "CHR ''='' \<notin> set ?pre" using assms(2) by (auto simp: text_of_def char_of_byte eq_commute [of "CHR ''=''"])
  note find = find_text_first [OF this, of "decimal n @ ?rest"]
  have len: "length (decimal n) \<le> 4" using decimal_length [of 4 n] assms(3) by simp
  have "1000 \<le> n \<Longrightarrow> length (decimal n) = 4" using decimal_length [of 3 n] len by auto
  then have "take (4 - length (decimal n)) ?rest = [] \<or>
      digit_value (hd (take (4 - length (decimal n)) ?rest)) = None \<or> 10 \<le> the (digit_value (hd (take (4 - length (decimal n)) ?rest)))"
    using assms(4) no_digit_byte by (cases "filter isprint rest") (auto simp: text_of_def take_Cons')
  from atoi_decimal [OF _ this, of n] assms(3) have "atoi (take 4 (decimal n @ ?rest)) = int n" using len by simp
  then show "get_id dump = of_nat n" unfolding get_id_def f Let_def using find by simp
qed

lemma FlashWhite_node [simp]: "w_node (FlashWhite k w) = w_node w"
  by (simp add: FlashWhite_def gpio_def Let_def)


text \<open>The card of the repository's unit test.\<close>

definition test_pages :: "u8 list list" where
  "test_pages = [[0x04, 0x5C, 0x35, 0xE5, 0xAA, 0xBC, 0x2B, 0x80, 0xBD, 0x48, 0x00, 0x00, 0xE1, 0x10, 0x12, 0x00],
     [0x01, 0x03, 0xA0, 0x10, 0x44, 0x03, 0x18, 0xD1, 0x02, 0x14, 0x55, 0x04, 0x71, 0x63, 0x6F, 0x6E],
     [0x73, 0x66, 0x2E, 0x63, 0x6F, 0x6D, 0x2F, 0x3F, 0x69, 0x64, 0x3D, 0x33, 0x35, 0x36, 0x35, 0xFE],
     [0, 0, 0, 0, 0, 0, 0, 0, 0, 0, 0, 0, 0, 0, 0, 0]]"

definition test_tag :: "u8 list" where
  "test_tag = [0x00, 0x44, 0x00, 0x07, 0x04, 0xA0, 0x35, 0xB2, 0xBC, 0x2B, 0x80, 0xA1, 0x00]"

definition test_gap :: "u8 list" where
  "test_gap = [0, 0, 255, 0, 255, 0, 0, 0, 255, 19, 237, 213]"

definition ready_nfc :: nfc where
  "ready_nfc = nfc_at_boot\<lparr>f_first_response_received := True, f_setup := SETUP_DONE\<rparr>"

lemma decimal_3565: "decimal 3565 = ''3565''"
  by (simp add: decimal.simps char_of_eq_iff)


section \<open>The bounds of the dump\<close>

text \<open>The part a state belongs to.\<close>

fun part_of :: "nfc_state \<Rightarrow> nat" where
  "part_of THIRD_READ_ACK = 1" | "part_of EAT_SECOND_DATA_COMMAND = 1" | "part_of GET_PAID_2 = 1"
| "part_of FOURTH_READ_ACK = 2" | "part_of EAT_THIRD_DATA_COMMAND = 2" | "part_of GET_PAID_3 = 2"
| "part_of FIFTH_READ_ACK = 3" | "part_of EAT_FOURTH_DATA_COMMAND = 3" | "part_of GET_PAID_4 = 3"
| "part_of ID_TAKEN = 4" | "part_of NEEDS_RETRY = 4" | "part_of _ = 0"

definition in_bounds :: "nfc \<Rightarrow> bool" where
  "in_bounds f \<longleftrightarrow> f_count f \<le> 15 \<and> f_dump_index f \<le> 60 \<and>
     (part_of (f_state f) < 4 \<longrightarrow> f_dump_index f \<le> 15 * part_of (f_state f) + f_count f)"

lemma grab_in_bounds:
  assumes "in_bounds f" "f_state f \<in> paid_states"
  shows "\<exists>f'. grab_frame_bytes_into_mass_dump b (f\<lparr>f_grab := start_grabbing\<rparr>) = Some f' \<and> f_state f' = f_state f \<and>
    (if f_grab f' = end_grabbing then f_count f' = 0 \<and> f_dump_index f' \<le> 15 * (part_of (f_state f) + 1) else in_bounds f')"
  using assms by (auto simp: grab_frame_bytes_into_mass_dump_def in_bounds_def max_remaining_byte_size_in_a_frame_def
      four_frame_data_dump_size_def paid_states_def)

lemma handler_other:
  assumes "f_state f \<notin> paid_states"
  shows "\<exists>f'. nfcEventHandler E ready b (f, w) = Some (f', w) \<and> f_count f' = f_count f \<and> f_dump_index f' = f_dump_index f \<and>
    part_of (f_state f') \<in> {part_of (f_state f), 4}"
proof (cases "f_state f = PROCESSING_REST_OF_RESPONSE")
  case True
  then show ?thesis
    by (cases "if f_rest f \<noteq> REST_OF_RESPONSE_PROCESSED then process_rest_of_tag_exists_response b (f_rest f, f_number_of_tags f)
          else (f_rest f, f_number_of_tags f)") (simp add: handler_rest_of_response send_to_reader_def Let_def)
next
  case False
  then show ?thesis
    using assms by (cases "f_state f") (simp_all add: paid_states_def handler_waits handler_rests, simp_all add: nfcEventHandler_def Let_def)
qed

lemma handler_in_bounds:
  assumes "in_bounds f" "f_state f \<noteq> ID_TAKEN \<Longrightarrow> \<forall>u. PutInRetryStorage E u w \<noteq> None"
  shows "\<exists>f' w'. nfcEventHandler E ready b (f, w) = Some (f', w') \<and> in_bounds f' \<and> (w' = w \<or> f_state f' = ID_TAKEN)"
proof (cases "f_state f \<in> paid_states")
  case True
  from grab_in_bounds [OF assms(1) this, of b] obtain f' where
    g: "grab_frame_bytes_into_mass_dump b (f\<lparr>f_grab := start_grabbing\<rparr>) = Some f'" "f_state f' = f_state f"
    "if f_grab f' = end_grabbing then f_count f' = 0 \<and> f_dump_index f' \<le> 15 * (part_of (f_state f) + 1) else in_bounds f'" by blast
  have "f_state f \<noteq> ID_TAKEN" using True by (auto simp: paid_states_def)
  then obtain v ok where v: "PutInRetryStorage E (get_id (f_data_dump1 f')) w = Some (v, ok)"
    using assms(2) by (metis not_None_eq surj_pair)
  show ?thesis
  proof (cases "f_state f = GET_PAID_4")
    case True
    then show ?thesis using g v by (auto simp: nfcEventHandler_def in_bounds_def)
  next
    case False
    then show ?thesis
      using True g by (auto simp: paid_states_def handler_paid get_paid_def send_to_reader_def in_bounds_def)
  qed
next
  case False
  from handler_other [OF this, of E ready b w] obtain f' where
    f': "nfcEventHandler E ready b (f, w) = Some (f', w)" "f_count f' = f_count f" "f_dump_index f' = f_dump_index f"
    "part_of (f_state f') \<in> {part_of (f_state f), 4}" by blast
  then show ?thesis using assms(1) by (auto simp: in_bounds_def)
qed

text \<open>C31: Whatever bytes the reader sends, and how ever many, from the time it was asked for a card until it is
  asked again the module neither writes outside the 60 bytes it keeps nor gets stuck, as long as no timer
  comes in between and the vote can be stored.\<close>

theorem reading_in_bounds:
  assumes "f_count f \<le> 15" "\<forall>u. PutInRetryStorage E u w \<noteq> None"
  shows "\<exists>f' w'. feed E ready bytes (setup_state_machine f, w) = Some (f', w') \<and> f_count f' \<le> 15 \<and> f_dump_index f' \<le> 60"
proof -
  have "\<exists>f' w'. feed E ready bytes (f, w) = Some (f', w') \<and> in_bounds f'"
    if "in_bounds f" "f_state f \<noteq> ID_TAKEN \<Longrightarrow> \<forall>u. PutInRetryStorage E u w \<noteq> None" for f w
    using that
  proof (induction bytes arbitrary: f w)
    case (Cons b bytes)
    from handler_in_bounds [OF Cons.prems, where b = b and ready = ready] obtain f' w' where
      h: "nfcEventHandler E ready b (f, w) = Some (f', w')" "in_bounds f'" "w' = w \<or> f_state f' = ID_TAKEN" by blast
    have "f_state f' \<noteq> ID_TAKEN \<Longrightarrow> \<forall>u. PutInRetryStorage E u w' \<noteq> None"
      using h(1,3) Cons.prems(2) handler_rests [where f = f and E = E and ready = ready and b = b and w = w] by (cases "f_state f = ID_TAKEN") auto
    from Cons.IH [OF h(2) this] show ?case using h(1) by simp
  qed simp
  from this [of "setup_state_machine f" w] assms show ?thesis
    by (auto simp: in_bounds_def setup_state_machine_def)
qed

text \<open>With a timer in between it does: when the module has read a card, the next timer that is not one of
  those that ask for a card makes it wait for the answer to the question for a card again, but leaves the automata
  and the place in the dump as they are. Any three bytes then make it ask for the data of a card at once, and
  the first byte it gets of them is written behind the end of the dump.\<close>

lemma timer_breaks_reading:
  assumes "f_setup f = SETUP_DONE" "f_first_response_received f" "appTimer mod 10 = 0" "appTimer mod 1000 \<noteq> 0"
    "f_state f = ID_TAKEN" "f_ack f = ack_processed" "f_response f = TAG_EXISTS" "f_rest f = REST_OF_RESPONSE_PROCESSED"
    "f_dump_index f = four_frame_data_dump_size" "f_count f < max_remaining_byte_size_in_a_frame"
  shows "feed E ready [a, b, c, 65, 0] (NFC_TimerEventHandler ready appTimer (f, w)) \<noteq> None \<and>
    feed E ready [a, b, c, 65, 0, d] (NFC_TimerEventHandler ready appTimer (f, w)) = None"
proof -
  have t: "NFC_TimerEventHandler ready appTimer (f, w) = (f\<lparr>f_UART_CONFIGURED := True, f_state := TAG_PRESENCE_UNKNOWN\<rparr>, w)"
    using assms(1-4) by (simp add: NFC_TimerEventHandler_def)
  have a: "feed E ready [a, b] (f\<lparr>f_UART_CONFIGURED := True, f_state := TAG_PRESENCE_UNKNOWN\<rparr>, w) =
      Some (f\<lparr>f_UART_CONFIGURED := True, f_state := PROCESSING_REST_OF_RESPONSE\<rparr>, w)"
    using assms(6-8) by (simp add: nfcEventHandler_def process_response_def)
  let ?f = "(send_to_reader ready (in_data_exchange 0x00 0xBB) (f\<lparr>f_UART_CONFIGURED := True\<rparr>))\<lparr>f_state := GET_PAID_1\<rparr>"
  have c: "feed E ready [c, 65, 0] (f\<lparr>f_UART_CONFIGURED := True, f_state := PROCESSING_REST_OF_RESPONSE\<rparr>, w) = Some (?f, w)"
    using assms(8) by (simp add: handler_rest_of_response handler_waits send_to_reader_def)
  have d: "nfcEventHandler E ready d (?f, w) = None"
    using assms(9,10) by (simp add: handler_paid get_paid_def grab_frame_bytes_into_mass_dump_def send_to_reader_def)
  have s: "[a, b, c, 65, 0] = [a, b] @ [c, 65, 0]" "[a, b, c, 65, 0, d] = [a, b] @ [c, 65, 0] @ [d]" by simp_all
  show ?thesis unfolding t s by (simp only: feed_then [OF a] feed_then [OF c] feed_one d c) simp
qed

lemma reading_in_bounds_witness:
  "\<exists>f' w'. feed quiet_env (\<lambda>_. True) (replicate 1000 65) (setup_state_machine ready_nfc, voted_world) = Some (f', w') \<and>
    f_count f' \<le> 15 \<and> f_dump_index f' \<le> 60"
  by (rule reading_in_bounds) (simp_all add: ready_nfc_def nfc_at_boot_def PutInRetryStorage_total [OF voted_world_tasks])

lemma timer_breaks_reading_witness:
  "feed quiet_env (\<lambda>_. True) [254, 0, 0, 65, 0, 4]
    (NFC_TimerEventHandler (\<lambda>_. True) 4100 (card_read (\<lambda>_. True) ready_nfc (replicate 60 0) ID_TAKEN, voted_world)) = None"
  using timer_breaks_reading [of "card_read (\<lambda>_. True) ready_nfc (replicate 60 0) ID_TAKEN" 4100 quiet_env "\<lambda>_. True" 254 0 0 voted_world 4]
  by (simp add: card_read_def reading_def ready_nfc_def send_to_reader_def four_frame_data_dump_size_def
      max_remaining_byte_size_in_a_frame_def)

section \<open>Cards that are not read\<close>

lemma card_with_255:
  assumes "length tag \<le> 13" "255 \<in> set tag"
  shows "\<exists>f'. feed E ready (card_found tag) (setup_state_machine f, w) = Some (f', w) \<and> f_state f' = NEEDS_RETRY"
proof -
  obtain bs cs where tag: "tag = bs @ 255 # cs" "255 \<notin> set bs" using split_list_first [OF assms(2)] by blast
  let ?f = "tag_expected f" and ?g = "(tag_expected f)\<lparr>f_rest := data_states ! length bs\<rparr>"
  have lt: "b < 255" if "b \<noteq> 255" for b :: u8
  proof -
    have "(255 :: u8) = - 1" by simp
    then show ?thesis using that word_order.not_eq_extremum [of b] by (simp only:)
  qed
  have lt_all: "\<forall>b \<in> set bs. b < 255" using tag(2) lt by metis
  have l: "length bs \<le> 12" using assms(1) by (simp add: tag(1))
  have "feed E ready bs (?f, w) = Some (?f\<lparr>f_rest := data_states ! (0 + length bs)\<rparr>, w)"
    by (rule feed_tag) (use lt_all l in \<open>auto simp: data_states_def tag_expected_def\<close>)
  moreover have "nfcEventHandler E ready 255 (?g, w) = Some (?g\<lparr>f_rest := NOT_EXPECTED_REST_OF_RESPONSE, f_state := NEEDS_RETRY\<rparr>, w)"
  proof -
    have "data_states ! length bs = take 13 data_states ! length bs" using l by simp
    also have "\<dots> \<in> set (take 13 data_states)" by (rule nth_mem) (use l in \<open>simp add: data_states_def\<close>)
    finally have "process_rest_of_tag_exists_response 255 (data_states ! length bs, n) = (NOT_EXPECTED_REST_OF_RESPONSE, n)"
      "data_states ! length bs \<noteq> REST_OF_RESPONSE_PROCESSED" for n
      by (auto simp: data_states_def process_rest_of_tag_exists_response_def)
    then show ?thesis by (simp add: handler_rest_of_response tag_expected_def)
  qed
  moreover have "feed E ready cs (g, w) = Some (g, w)" if "f_state g = NEEDS_RETRY" for g
    using that by (induction cs) (simp_all add: handler_rests)
  ultimately show ?thesis by (simp add: feed_to_tag tag(1) feed_append)
qed

text \<open>A \<open>=\<close> before the one of the \<open>id=\<close>, as a serial number can hold, hides the id.\<close>

lemma earlier_equals_sign:
  assumes "61 \<notin> set pre" "isprint b" "b \<notin> {48..57}" "b \<notin> {32, 43, 45}"
  shows "get_id (pre @ 61 # b # rest) = 0"
proof -
  let ?pre = "text_of (filter isprint pre)"
  have f: "text_of (filter isprint (pre @ 61 # b # rest)) = ?pre @ CHR ''='' # char_of (unat b) # text_of (filter isprint rest)"
    using assms(2) char_of_byte [of 61 "CHR ''=''"] by (simp add: text_of_append isprint_def) (simp add: text_of_def)
  have "CHR ''='' \<notin> set ?pre" using assms(1) by (auto simp: text_of_def char_of_byte eq_commute [of "CHR ''=''"])
  note find = find_text_first [OF this, of "char_of (unat b) # text_of (filter isprint rest)"]
  have c: "of_char (char_of (unat b) :: char) = unat b" using unat_bound [of b] by (simp add: of_char_of)
  have "32 \<le> unat b" using assms(2) by (simp add: isprint_def word_le_nat_alt)
  moreover have "unat b \<noteq> 32" using assms(4) by (auto dest: arg_cong [of _ _ "of_nat :: nat \<Rightarrow> u8"])
  ultimately have "\<not> isspace (char_of (unat b))" unfolding isspace_def c by simp
  moreover have "char_of (unat b) \<noteq> CHR ''-''" "char_of (unat b) \<noteq> CHR ''+''"
    using assms(4) by (simp_all add: char_of_byte)
  moreover have "digits 10 0 (char_of (unat b) # s) = 0" for s
    using no_digit_byte [OF assms(3)] by (cases "digit_value (char_of (unat b))") auto
  ultimately have "number 10 (char_of (unat b) # s) = (False, 0)" for s by (simp add: number_def del: digits.simps)
  then have "atoi (char_of (unat b) # s) = 0" for s by (simp add: atoi_def strtol_def)
  then show ?thesis unfolding get_id_def f Let_def using find by simp
qed

end
