(* ===== verification/Votes.thy ===== *)
theory Votes
  imports ModuleProps Agreement Commands
begin

text \<open>
  The voting module (\<^verbatim>\<open>src/modules/VotingModule.cpp\<close>) and the heartbeat module
  (\<^verbatim>\<open>src/modules/HeartbeatModule.cpp\<close>): votes are sent to the gateway, again and again, until it has
  confirmed them. The node of this build does not create the two modules; what a packet handler does before
  it looks at the packet, the configuration messages of the base class, is in the theory Modules.
\<close>

section \<open>Votes\<close>

definition VOTING_MODULE_ID :: u16 where "VOTING_MODULE_ID = 30020"
definition TRIGGER_MESSAGE :: u8 where "TRIGGER_MESSAGE = 0"
definition RESPONSE_MESSAGE :: u8 where "RESPONSE_MESSAGE = 0"

definition vote_message :: "u16 \<Rightarrow> u32 \<Rightarrow> nodeID \<Rightarrow> mem \<Rightarrow> mem" where
  "vote_message uID time sender stack =
     store_bytes (module_message MESSAGE_TYPE_MODULE_TRIGGER_ACTION sender 0 VOTING_MODULE_ID 0 stack) module_data
       [ucast uID, ucast (drop_bit 8 uID), ucast (drop_bit 24 time), ucast (drop_bit 16 time), ucast (drop_bit 8 time), ucast time]"

definition vote :: "delivery \<Rightarrow> env \<Rightarrow> u16 \<Rightarrow> world \<Rightarrow> world option" where
  "vote deliver E uID w = do {
     (w, success) \<leftarrow> PutInRetryStorage E uID w;
     if success
     then send_module_message deliver E (vote_message uID (GetTimeFor uID w) (nodeId w) (e_stack E (w_trace w))) 10 True w
     else Some w
   }"

definition retry_vote :: "delivery \<Rightarrow> env \<Rightarrow> nat \<Rightarrow> world \<Rightarrow> world option" where
  "retry_vote deliver E i w =
     (if GetVoteFromRetryStorage i w \<noteq> 0 then vote deliver E (GetVoteFromRetryStorage i w) w else Some w)"

definition retry_due :: "u32 \<Rightarrow> bool" where
  "retry_due appTimer \<longleftrightarrow> (appTimer div 1000) mod 30 = 0 \<and> (appTimer div 100) mod 100 = 0"

definition Voting_TimerEventHandler :: "delivery \<Rightarrow> env \<Rightarrow> u32 \<Rightarrow> world \<Rightarrow> world option" where
  "Voting_TimerEventHandler deliver E appTimer w =
     (if \<not> n_isGatewayDevice (w_node w) \<and> retry_due appTimer
      then each (retry_vote deliver E) [0..<MAX_RETRY_STORAGE_SIZE] w else Some w)"

definition Voting_packet :: "delivery \<Rightarrow> env \<Rightarrow> Module \<Rightarrow> mem \<Rightarrow> world \<Rightarrow> world option" where
  "Voting_packet deliver E m data w = do {
     w \<leftarrow> (if responds m data RESPONSE_MESSAGE then RemoveFromRetryStorage E (get16 module_data data) w else Some w);
     if n_isGatewayDevice (w_node w) \<and> triggers m data TRIGGER_MESSAGE then
       send_module_message deliver E
         ((module_message MESSAGE_TYPE_MODULE_ACTION_RESPONSE (nodeId w) (get_sender data) (m_moduleId m) RESPONSE_MESSAGE
            (e_stack E (w_trace w)))(module_data := data module_data, module_data + 1 := data (module_data + 1)))
         4 True w
     else Some w
   }"

definition Voting_default_config :: "u16 \<Rightarrow> mem \<Rightarrow> mem" where
  "Voting_default_config moduleId c = put16 4 (30 * 1000) (put16 6 0 (config_header moduleId True c))"

text \<open>The command that sets the clock and passes the time on.\<close>

definition Voting_set_time :: "delivery \<Rightarrow> env \<Rightarrow> string \<Rightarrow> world \<Rightarrow> world option" where
  "Voting_set_time deliver E seconds w =
     (let w = settime_command E seconds w
      in SendMessageToReceiver deliver E None
           (message_header MESSAGE_TYPE_UPDATE_TIMESTAMP (nodeId w) 0 (e_stack E (w_trace w)))
           (of_nat SIZEOF_CONN_PACKET_UPDATE_TIMESTAMP) True w)"

text \<open>\<open>None\<close> if the command is left to the superclass; \<open>voting\<close> is the module's name.\<close>

definition Voting_command ::
    "delivery \<Rightarrow> env \<Rightarrow> string \<Rightarrow> string \<Rightarrow> string list \<Rightarrow> world \<Rightarrow> (world option \<times> bool) option" where
  "Voting_command deliver E voting name args w =
     (if name = ''action'' \<and> length args = 4 \<and> args ! 1 = voting \<and> args ! 2 = ''set_time''
      then Some (Voting_set_time deliver E (args ! 3) w, True)
      else if name = ''dump'' then Some (Some w, True) else None)"

section \<open>Heartbeats\<close>

text \<open>The struct is not packed: the four ids are behind the header of seven bytes and one byte of padding.\<close>

definition SIZEOF_HEARTBEAT :: nat where "SIZEOF_HEARTBEAT = 16"

definition fillConnectionStruct :: "Connection \<Rightarrow> nodeID" where
  "fillConnectionStruct conn = (if c_handshakeDone conn then c_partnerId conn else 0)"

definition heartbeat_message :: "world \<Rightarrow> mem \<Rightarrow> mem" where
  "heartbeat_message w stack =
     put16 14 (fillConnectionStruct (conns w 3)) (put16 12 (fillConnectionStruct (conns w 2))
       (put16 10 (fillConnectionStruct (conns w 1)) (put16 8 (fillConnectionStruct (conns w 0))
         (message_header MESSAGE_TYPE_HEARTBEAT (nodeId w) NODE_ID_BROADCAST stack))))"

definition Heartbeat_TimerEventHandler :: "delivery \<Rightarrow> env \<Rightarrow> u32 \<Rightarrow> world \<Rightarrow> world option" where
  "Heartbeat_TimerEventHandler deliver E appTimer w =
     (if (appTimer div 1000) mod 5 = 0 \<and> (appTimer div 100) mod 10 = 0
      then SendMessageToReceiver deliver E None (heartbeat_message w (e_stack E (w_trace w))) (of_nat SIZEOF_HEARTBEAT) True w
      else Some w)"

text \<open>What the gateway prints of a heartbeat: the sender and its four partners.\<close>

definition Heartbeat_packet :: "mem \<Rightarrow> world \<Rightarrow> (nodeID \<times> nodeID list) option" where
  "Heartbeat_packet data w =
     (if n_isGatewayDevice (w_node w) \<and> get_messageType data = MESSAGE_TYPE_HEARTBEAT
      then Some (get_sender data, map (\<lambda>p. get16 p data) [8, 10, 12, 14]) else None)"

end
