(* ===== verification/VoteProps.thy ===== *)
theory VoteProps
  imports Votes
begin

text \<open>
  What becomes of a vote: it is sent with its time, the gateway confirms it, the confirmation takes it out of
  the retry storage, and as long as there is none it is sent again.
\<close>

section \<open>A vote and its confirmation\<close>

lemma vote_message_fields:
  "get_messageType (vote_message u t s stack) = MESSAGE_TYPE_MODULE_TRIGGER_ACTION"
  "get_sender (vote_message u t s stack) = s" "get_receiver (vote_message u t s stack) = 0"
  "get16 7 (vote_message u t s stack) = VOTING_MODULE_ID" "vote_message u t s stack 10 = 0"
  "get16 11 (vote_message u t s stack) = u"
proof -
  show "get16 11 (vote_message u t s stack) = u"
    by (rule bit_word_eqI) (auto simp: vote_message_def module_data_def get16_def bit_simps dest: bit_imp_le_length)
qed (simp_all add: vote_message_def module_message_def module_data_def message_header_def message_type_defs)

definition confirmation :: "nodeID \<Rightarrow> mem \<Rightarrow> mem \<Rightarrow> mem" where
  "confirmation sender data stack =
     (module_message MESSAGE_TYPE_MODULE_ACTION_RESPONSE sender (get_sender data) VOTING_MODULE_ID RESPONSE_MESSAGE
        stack)(module_data := data module_data, module_data + 1 := data (module_data + 1))"

lemma confirmation_fields:
  "get_messageType (confirmation s data stack) = MESSAGE_TYPE_MODULE_ACTION_RESPONSE"
  "get_receiver (confirmation s data stack) = get_sender data"
  "get16 7 (confirmation s data stack) = VOTING_MODULE_ID" "confirmation s data stack 10 = RESPONSE_MESSAGE"
  "get16 11 (confirmation s data stack) = get16 11 data"
proof -
  show "get16 11 (confirmation s data stack) = get16 11 data"
    by (rule get16_cong) (simp_all add: confirmation_def module_data_def)
qed (simp_all add: confirmation_def module_message_def module_data_def message_header_def message_type_defs)

text \<open>What the gateway does with a vote, and the node with the confirmation.\<close>

lemma gateway_confirms:
  assumes "n_isGatewayDevice (w_node g)" "m_moduleId m = VOTING_MODULE_ID"
    "get_messageType data = MESSAGE_TYPE_MODULE_TRIGGER_ACTION" "get16 7 data = VOTING_MODULE_ID" "data 10 = 0"
  shows "Voting_packet deliver E m data g =
    send_module_message deliver E (confirmation (nodeId g) data (e_stack E (w_trace g))) 4 True g"
  using assms by (simp add: Voting_packet_def responds_def triggers_def read_module_def message_type_defs
      TRIGGER_MESSAGE_def confirmation_def)

lemma confirmation_removes:
  assumes "m_moduleId m = VOTING_MODULE_ID"
    "get_messageType data = MESSAGE_TYPE_MODULE_ACTION_RESPONSE" "get16 7 data = VOTING_MODULE_ID" "data 10 = RESPONSE_MESSAGE"
  shows "Voting_packet deliver E m data w = RemoveFromRetryStorage E (get16 11 data) w"
proof -
  have "\<not> triggers m data TRIGGER_MESSAGE" using assms(2) by (simp add: triggers_def message_type_defs)
  then show ?thesis
    using assms by (simp add: Voting_packet_def responds_def read_module_def module_data_def)
qed

text \<open>C28: A vote that is cast and its way back: the node stores it and broadcasts it with the time of storing;
  the gateway, as it receives it, answers the node it came from; and the answer, as the node receives it, takes
  exactly this vote out of the retry storage, whatever other votes have come to it in the meantime.\<close>

theorem vote_confirmed:
  assumes "votes_rep (pconf w) vs" "u \<noteq> 0" "length vs < MAX_RETRY_STORAGE_SIZE" "PutInRetryStorage E u w \<noteq> None"
    "n_isGatewayDevice (w_node g)" "m_moduleId m = VOTING_MODULE_ID" "m_moduleId m' = VOTING_MODULE_ID"
  shows "\<exists>v sent. vote deliver E u w = send_module_message deliver E sent 10 True v \<and>
    (u, vote_time E w) \<in> set (if u \<in> fst ` set vs then refresh u (vote_time E w) vs else vs @ [(u, vote_time E w)]) \<and>
    votes_rep (pconf v) (if u \<in> fst ` set vs then refresh u (vote_time E w) vs else vs @ [(u, vote_time E w)]) \<and>
    get_receiver sent = NODE_ID_BROADCAST \<and>
    sent = vote_message u (vote_time E w) (nodeId v) (e_stack E (w_trace v)) \<and>
    (\<forall>rest. \<exists>answer. Voting_packet deliver' E' m' (received sent 20 rest) g = send_module_message deliver' E' answer 4 True g \<and>
       get_receiver answer = nodeId v \<and>
       (\<forall>rest' x. Voting_packet deliver E m (received answer 14 rest') x = RemoveFromRetryStorage E u x \<and>
          (\<forall>xs x'. votes_rep (pconf x) xs \<longrightarrow> RemoveFromRetryStorage E u x = Some x' \<longrightarrow>
             votes_rep (pconf x') (filter (\<lambda>p. fst p \<noteq> u) xs))))"
proof -
  let ?now = "vote_time E w" and ?vs = "if u \<in> fst ` set vs then refresh u (vote_time E w) vs else vs @ [(u, vote_time E w)]"
  obtain v ok where v: "PutInRetryStorage E u w = Some (v, ok)" using assms(4) by auto
  have rep: "ok" "votes_rep (pconf v) ?vs"
    using retry_storage_put [OF assms(1,2) v] assms(3) by (auto split: if_splits)
  have mem: "(u, ?now) \<in> set ?vs" by (force simp: refresh_def image_iff)
  obtain k where k: "k < length ?vs" "?vs ! k = (u, ?now)" using mem by (metis in_set_conv_nth)
  have time: "GetTimeFor u v = ?now"
  proof -
    have "fst (?vs ! i) = u \<longleftrightarrow> i = k" if "i < length ?vs" for i
    proof -
      have "distinct (map fst ?vs)" using rep(2) unfolding votes_rep_def by (rule conjunct1)
      from nth_eq_iff_index_eq [OF this, of i k] that k show ?thesis by (simp only: length_map nth_map fst_conv)
    qed
    from find_vote [OF rep(2) k(1) _ this] votes_rep_time [OF rep(2) k(1)] k(2)
    show ?thesis by (simp add: GetTimeFor_def)
  qed
  let ?sent = "vote_message u ?now (nodeId v) (e_stack E (w_trace v))"
  have sent: "vote deliver E u w = send_module_message deliver E ?sent 10 True v"
    by (simp add: vote_def v rep(1) time)
  have gone: "votes_rep (pconf x') (filter (\<lambda>p. fst p \<noteq> u) xs)"
    if "votes_rep (pconf x) xs" "RemoveFromRetryStorage E u x = Some x'" for x x' xs
    using retry_storage_remove [OF that(1) assms(2) that(2)] by simp
  have returns: "\<exists>answer. Voting_packet deliver' E' m' (received ?sent 20 rest) g = send_module_message deliver' E' answer 4 True g \<and>
       get_receiver answer = nodeId v \<and>
       (\<forall>rest' x. Voting_packet deliver E m (received answer 14 rest') x = RemoveFromRetryStorage E u x \<and>
          (\<forall>xs x'. votes_rep (pconf x) xs \<longrightarrow> RemoveFromRetryStorage E u x = Some x' \<longrightarrow>
             votes_rep (pconf x') (filter (\<lambda>p. fst p \<noteq> u) xs)))" for rest
  proof -
    let ?r = "received ?sent 20 rest"
    let ?answer = "confirmation (nodeId g) ?r (e_stack E' (w_trace g))"
    have "Voting_packet deliver' E' m' ?r g = send_module_message deliver' E' ?answer 4 True g"
      by (rule gateway_confirms [OF assms(5,7)]) (simp_all add: vote_message_fields)
    moreover have "Voting_packet deliver E m (received ?answer 14 rest') x = RemoveFromRetryStorage E u x" for rest' x
      by (subst confirmation_removes [OF assms(6)]) (simp_all add: confirmation_fields vote_message_fields)
    moreover have "get_receiver ?answer = nodeId v"
      using vote_message_fields(2) [of u ?now "nodeId v"] by (simp add: confirmation_fields)
    ultimately show ?thesis using gone by (intro exI [of _ ?answer]) blast
  qed
  have receiver: "get_receiver ?sent = NODE_ID_BROADCAST" by (simp add: vote_message_fields NODE_ID_BROADCAST_def)
  show ?thesis
    by (rule exI [of _ v], rule exI [of _ ?sent], intro conjI allI, (rule sent mem rep(2) receiver refl returns)+)
qed

definition gateway_world :: world where
  "gateway_world = upd_node (\<lambda>n. n\<lparr>n_isGatewayDevice := True\<rparr>) zero_world"

definition voting_module :: Module where
  "voting_module = \<lparr>m_kind = DebugModule, m_moduleId = VOTING_MODULE_ID, m_configuration = \<lambda>_. 0,
     m_configurationLength = 12, m_storageSlot = 6\<rparr>"

lemma vote_confirmed_witness:
  "\<exists>v sent. vote (\<lambda>_. Some) quiet_env 8 voted_world = send_module_message (\<lambda>_. Some) quiet_env sent 10 True v \<and>
    votes_rep (pconf v) [(7, 100), (9, 200), (8, vote_time quiet_env voted_world)] \<and>
    (\<exists>answer. Voting_packet (\<lambda>_. Some) quiet_env voting_module (received sent 20 (\<lambda>_. 1)) gateway_world =
        send_module_message (\<lambda>_. Some) quiet_env answer 4 True gateway_world \<and>
      (\<exists>x'. Voting_packet (\<lambda>_. Some) quiet_env voting_module (received answer 14 (\<lambda>_. 2))
          (upd_conf (\<lambda>p. p\<lparr>pc_retryStorage := [8, 9] @ replicate 94 0, pc_timeStorage := [100, 200] @ replicate 94 0\<rparr>) zero_world) =
         Some x' \<and> votes_rep (pconf x') [(9, 200)]))"
proof -
  let ?x = "upd_conf (\<lambda>p. p\<lparr>pc_retryStorage := [8, 9] @ replicate 94 0, pc_timeStorage := [100, 200] @ replicate 94 0\<rparr>) zero_world"
  have x: "votes_rep (pconf ?x) [(8, 100), (9, 200)]" "w_taskQueue ?x = w_taskQueue zero_world"
    by (simp_all add: votes_rep_def upd_conf_def MAX_RETRY_STORAGE_SIZE_def)
  obtain x' where x': "RemoveFromRetryStorage quiet_env 8 ?x = Some x'"
    using RemoveFromRetryStorage_total [OF x(2)] by auto
  have g: "n_isGatewayDevice (w_node gateway_world)" "m_moduleId voting_module = VOTING_MODULE_ID"
    by (simp_all add: gateway_world_def voting_module_def)
  have l: "length [(7, 100), (9 :: u16, 200 :: u32)] < MAX_RETRY_STORAGE_SIZE" by (simp add: MAX_RETRY_STORAGE_SIZE_def)
  have "(8 :: u16) \<noteq> 0" by simp
  from vote_confirmed [OF voted_world_rep this l PutInRetryStorage_total [OF voted_world_tasks] g g(2), of "\<lambda>_. Some" "\<lambda>_. Some" quiet_env]
  obtain v sent where v: "vote (\<lambda>_. Some) quiet_env 8 voted_world = send_module_message (\<lambda>_. Some) quiet_env sent 10 True v"
    "votes_rep (pconf v) [(7, 100), (9, 200), (8, vote_time quiet_env voted_world)]"
    "\<exists>answer. Voting_packet (\<lambda>_. Some) quiet_env voting_module (received sent 20 (\<lambda>_. 1)) gateway_world =
        send_module_message (\<lambda>_. Some) quiet_env answer 4 True gateway_world \<and>
      (\<forall>rest' x. Voting_packet (\<lambda>_. Some) quiet_env voting_module (received answer 14 rest') x = RemoveFromRetryStorage quiet_env 8 x \<and>
        (\<forall>xs x'. votes_rep (pconf x) xs \<longrightarrow> RemoveFromRetryStorage quiet_env 8 x = Some x' \<longrightarrow>
          votes_rep (pconf x') (filter (\<lambda>p. fst p \<noteq> 8) xs)))"
    by simp blast
  then obtain answer where "Voting_packet (\<lambda>_. Some) quiet_env voting_module (received sent 20 (\<lambda>_. 1)) gateway_world =
      send_module_message (\<lambda>_. Some) quiet_env answer 4 True gateway_world"
    "Voting_packet (\<lambda>_. Some) quiet_env voting_module (received answer 14 (\<lambda>_. 2)) ?x = Some x'"
    "votes_rep (pconf x') (filter (\<lambda>p. fst p \<noteq> 8) [(8, 100), (9, 200)])"
    using x(1) x' by metis
  then show ?thesis using v(1,2) by (simp del: fun_upd_apply) blast
qed

section \<open>Votes that are not confirmed\<close>

text \<open>No module of the node is a voting module, as none of those this build creates is: a vote the node hands to
  itself changes nothing.\<close>

definition no_voting_module :: "world \<Rightarrow> bool" where
  "no_voting_module w \<longleftrightarrow> (\<forall>k m. w_modules w k = Some m \<longrightarrow> m_moduleId m \<noteq> VOTING_MODULE_ID)"

lemma vote_to_self:
  assumes "no_voting_module v" "get_messageType (cp_data p) = MESSAGE_TYPE_MODULE_TRIGGER_ACTION"
    "get16 7 (cp_data p) = VOTING_MODULE_ID"
  shows "messageReceivedCallback (Suc fuel) E p v = Some v"
proof -
  have "module_packet deliver E k p v = Some v" for deliver k
  proof (cases "w_modules v k")
    case (Some m)
    then have "m_moduleId m \<noteq> VOTING_MODULE_ID" using assms(1) by (simp add: no_voting_module_def)
    then have "\<not> triggers m (cp_data p) a" for a using assms(3) by (auto simp: triggers_def read_module_def)
    then show ?thesis
      using Some assms(2) by (simp add: module_packet_def Module_ConnectionPacketReceivedEventHandler_def Let_def
          message_type_defs Status_packet_def Enrollment_packet_def Debug_packet_def LightToggle_packet_def split: moduleKind.split)
  qed (simp add: module_packet_def)
  then have "each (\<lambda>k. module_packet deliver E k p) ks v = Some v" for deliver ks by (induction ks) simp_all
  then show ?thesis using assms(2) by (simp add: Node_messageReceived_def Let_def message_type_defs)
qed

lemma SaveConfiguration_modules:
  "SaveConfiguration E w = Some w' \<Longrightarrow> w_modules w' = w_modules w"
  by (auto simp: SaveConfiguration_def QueuedWrite_def queue_task_def ProcessQueue_def BufferedRead_def
      BufferedWrite_def call_def checked_Some Let_def split: if_splits option.splits)

lemma PutInRetryStorage_modules:
  "PutInRetryStorage E u w = Some (w', ok) \<Longrightarrow> w_modules w' = w_modules w"
  by (auto simp: PutInRetryStorage_def RetryStorageContains_def PutInTimeStorage_def upd_conf_def Let_def
      dest!: SaveConfiguration_modules split: if_splits option.splits Option.bind_splits)

lemma vote_again:
  assumes "vote (delivering E) E u w = Some w'" "votes_rep (pconf w) vs" "u \<in> fst ` set vs" "no_voting_module w"
  shows "votes_rep (pconf w') (refresh u (vote_time E w) vs) \<and> no_voting_module w'"
proof -
  have u: "u \<noteq> 0" using assms(2,3) by (auto simp: votes_rep_def)
  obtain v ok where v: "PutInRetryStorage E u w = Some (v, ok)" using assms(1) by (auto simp: vote_def split: Option.bind_splits)
  have rep: "ok" "votes_rep (pconf v) (refresh u (vote_time E w) vs)"
    using retry_storage_put [OF assms(2) u v] assms(3) by simp_all
  have nv: "no_voting_module v" using assms(4) PutInRetryStorage_modules [OF v] by (simp add: no_voting_module_def)
  let ?sent = "vote_message u (GetTimeFor u v) (nodeId v) (e_stack E (w_trace v))"
  have "delivering E \<lparr>cp_connectionHandle = 0, cp_reliable = True, cp_data = ?sent, cp_dataLength = 20\<rparr> v = Some v"
    using vote_to_self [OF nv, of "\<lparr>cp_connectionHandle = 0, cp_reliable = True, cp_data = ?sent, cp_dataLength = 20\<rparr>" "Suc 0" E]
    by (simp add: delivering_def numeral_2_eq_2 vote_message_fields)
  then have "w' = v \<or> SendMessageOverConnections E None ?sent 20 True v = Some w'"
    using assms(1) v rep(1)
    by (auto simp: vote_def send_module_message_def SendMessageToReceiver_def sizeof_defs vote_message_fields
        NODE_ID_SHORTEST_SINK_def NODE_ID_BROADCAST_def split: if_splits)
  then have "w_node w' = w_node v \<and> w_modules w' = w_modules v"
    using sending_onlyD(1,2) [OF sending_only_SendMessageOverConnections] by auto
  then show ?thesis using rep(2) nv by (simp add: no_voting_module_def)
qed

lemma retries_stored_votes:
  assumes "votes_rep (pconf w) vs" "no_voting_module w" "i \<le> MAX_RETRY_STORAGE_SIZE"
  shows "each (retry_vote (delivering E) E) [i..<MAX_RETRY_STORAGE_SIZE] w = each (vote (delivering E) E) (drop i (map fst vs)) w \<and>
    (\<forall>w'. each (retry_vote (delivering E) E) [i..<MAX_RETRY_STORAGE_SIZE] w = Some w' \<longrightarrow>
      (\<exists>vs'. votes_rep (pconf w') vs' \<and> map fst vs' = map fst vs))"
  using assms(3,1,2)
proof (induction i arbitrary: w vs rule: inc_induct)
  case base
  then have "drop MAX_RETRY_STORAGE_SIZE (map fst vs) = []" by (simp add: votes_rep_def)
  then show ?case using base by auto
next
  case (step i)
  have e: "[i..<MAX_RETRY_STORAGE_SIZE] = i # [Suc i..<MAX_RETRY_STORAGE_SIZE]" using step.hyps(2) by (simp add: upt_conv_Cons)
  show ?case
  proof (cases "i < length vs")
    case True
    let ?u = "fst (vs ! i)"
    have d: "drop i (map fst vs) = ?u # drop (Suc i) (map fst vs)" using True by (simp add: Cons_nth_drop_Suc [symmetric])
    have u: "?u \<in> fst ` set vs" using True by simp
    then have u0: "?u \<noteq> 0" using step.prems(1) unfolding votes_rep_def by metis
    have "GetVoteFromRetryStorage i w = ?u"
      using votes_rep_nth [OF step.prems(1) step.hyps(2)] True by (simp add: GetVoteFromRetryStorage_def)
    then have r: "retry_vote (delivering E) E i w = vote (delivering E) E ?u w" using u0 by (simp add: retry_vote_def)
    show ?thesis
    proof (cases "vote (delivering E) E ?u w")
      case (Some v)
      note again = vote_again [OF Some step.prems(1) u step.prems(2)]
      from step.IH [OF again [THEN conjunct1] again [THEN conjunct2]] show ?thesis unfolding e d by (simp add: r Some)
    qed (simp add: e d r)
  next
    case False
    then have "GetVoteFromRetryStorage i w = 0"
      using votes_rep_nth [OF step.prems(1) step.hyps(2)] by (simp add: GetVoteFromRetryStorage_def)
    then show ?thesis using False step.IH [OF step.prems] unfolding e by (simp add: retry_vote_def)
  qed
qed

lemma retry_due_eq: "retry_due t \<longleftrightarrow> unat t mod 30000 < 100"
proof -
  let ?n = "unat t" and ?m = "unat t div 100"
  have "retry_due t \<longleftrightarrow> (?n div 1000) mod 30 = 0 \<and> ?m mod 100 = 0"
    by (simp add: retry_due_def word_unat_eq_iff unat_div_distrib unat_mod_distrib)
  also have "\<dots> \<longleftrightarrow> ?m mod 300 div 10 = 0 \<and> ?m mod 300 mod 100 = 0"
  proof -
    have "?n div 1000 = ?m div 10" by (simp add: div_mult2_eq [symmetric])
    moreover have "?m div 10 mod 30 = ?m mod 300 div 10" using mod_mult2_eq [of ?m 10 30] by simp
    moreover have "?m mod 300 mod 100 = ?m mod 100" by (simp add: mod_mod_cancel)
    ultimately show ?thesis by simp
  qed
  also have "\<dots> \<longleftrightarrow> ?m mod 300 = 0" by (auto simp: div_eq_0_iff)
  also have "\<dots> \<longleftrightarrow> ?n mod 30000 < 100" using mod_mult2_eq [of ?n 100 300] by auto
  finally show ?thesis .
qed



section \<open>Heartbeats\<close>

text \<open>A heartbeat is sent with its full size: the gateway reads the partners the sender has.\<close>

lemma heartbeat_arrives:
  assumes "n_isGatewayDevice (w_node g)"
  shows "Heartbeat_packet (received (heartbeat_message w stack) SIZEOF_HEARTBEAT rest) g =
    Some (nodeId w, map (\<lambda>i. fillConnectionStruct (conns w i)) [0, 1, 2, 3])"
proof -
  have "get_messageType (heartbeat_message w stack) = MESSAGE_TYPE_HEARTBEAT"
    by (simp add: heartbeat_message_def message_header_def MESSAGE_TYPE_HEARTBEAT_def put16_def)
  moreover have "get16 1 (heartbeat_message w stack) = nodeId w"
    by (simp add: heartbeat_message_def message_header_def)
  moreover have "get16 8 (heartbeat_message w stack) = fillConnectionStruct (conns w 0)"
    "get16 10 (heartbeat_message w stack) = fillConnectionStruct (conns w 1)"
    "get16 12 (heartbeat_message w stack) = fillConnectionStruct (conns w 2)"
    "get16 14 (heartbeat_message w stack) = fillConnectionStruct (conns w 3)"
    by (simp_all add: heartbeat_message_def)
  ultimately show ?thesis using assms by (simp add: Heartbeat_packet_def SIZEOF_HEARTBEAT_def)
qed

end
