(* ===== verification/Io.thy ===== *)
theory Io
  imports Commands
begin

text \<open>
  The module that sets pins (\<^verbatim>\<open>src/modules/IoModule.cpp\<close>): a command packs the settings of the pins into
  two bytes each, the node they are sent to unpacks and applies them. The node of this build does not create
  this module; the superclass is in the theory Modules.
\<close>

section \<open>Pin settings\<close>

record gpioPinConfig =
  gp_pinNumber :: u8
  gp_direction :: u8
  gp_inputBufferConnected :: u8
  gp_pull :: u8
  gp_driveStrength :: u8
  gp_sense :: u8
  gp_set :: u8

text \<open>The bit fields, as the compiler lays them out: the pull does not fit the first byte any more.\<close>

definition write_pin :: "gpioPinConfig \<Rightarrow> u8 list" where
  "write_pin c = [(gp_pinNumber c AND 31) OR push_bit 5 (gp_direction c AND 1) OR push_bit 6 (gp_inputBufferConnected c AND 1),
     (gp_pull c AND 3) OR push_bit 2 (gp_driveStrength c AND 7) OR push_bit 5 (gp_sense c AND 3) OR push_bit 7 (gp_set c AND 1)]"

definition read_pin :: "u8 \<Rightarrow> u8 \<Rightarrow> gpioPinConfig" where
  "read_pin a b = \<lparr>gp_pinNumber = a AND 31, gp_direction = drop_bit 5 a AND 1, gp_inputBufferConnected = drop_bit 6 a AND 1,
     gp_pull = b AND 3, gp_driveStrength = drop_bit 2 b AND 7, gp_sense = drop_bit 5 b AND 3, gp_set = drop_bit 7 b AND 1\<rparr>"

text \<open>The constants of the chip: the positions of the fields in a pin's configuration register, and the values
  of an output pin.\<close>

record gpio_constants =
  gk_dir_pos :: nat
  gk_input_pos :: nat
  gk_pull_pos :: nat
  gk_drive_pos :: nat
  gk_sense_pos :: nat
  gk_dir_output :: u8
  gk_input_disconnect :: u8
  gk_pull_disabled :: u8
  gk_drive_s0s1 :: u8
  gk_sense_disabled :: u8

definition pin_cnf :: "gpio_constants \<Rightarrow> gpioPinConfig \<Rightarrow> u32" where
  "pin_cnf G c = push_bit (gk_sense_pos G) (ucast (gp_sense c)) OR push_bit (gk_drive_pos G) (ucast (gp_driveStrength c)) OR
     push_bit (gk_pull_pos G) (ucast (gp_pull c)) OR push_bit (gk_input_pos G) (ucast (gp_inputBufferConnected c)) OR
     push_bit (gk_dir_pos G) (ucast (gp_direction c))"

type_synonym pin_registers = "u8 \<Rightarrow> u32"

definition apply_pin :: "gpio_constants \<Rightarrow> gpioPinConfig \<Rightarrow> pin_registers \<times> world \<Rightarrow> pin_registers \<times> world" where
  "apply_pin G c s =
     (case s of (cnf, w) \<Rightarrow>
        let bit = push_bit (unat (gp_pinNumber c)) (1 :: u32)
        in (cnf(gp_pinNumber c := pin_cnf G c),
            gpio (\<lambda>out. if gp_set c \<noteq> 0 then out OR bit else out AND NOT bit) w))"

section \<open>The module\<close>

definition SET_PIN_CONFIG :: u8 where "SET_PIN_CONFIG = 0"
definition GET_PIN_CONFIG :: u8 where "GET_PIN_CONFIG = 1"
definition SET_LED :: u8 where "SET_LED = 3"
definition SET_PIN_CONFIG_RESULT :: u8 where "SET_PIN_CONFIG_RESULT = 0"
definition SET_LED_RESPONSE :: u8 where "SET_LED_RESPONSE = 3"

definition Io_default_config :: "u16 \<Rightarrow> mem \<Rightarrow> mem" where
  "Io_default_config moduleId c = config_header moduleId False c"

definition output_pin :: "gpio_constants \<Rightarrow> string \<Rightarrow> string \<Rightarrow> gpioPinConfig" where
  "output_pin G pin level = \<lparr>gp_pinNumber = ucast (strtoul 10 pin) AND 31, gp_direction = gk_dir_output G,
     gp_inputBufferConnected = gk_input_disconnect G, gp_pull = gk_pull_disabled G, gp_driveStrength = gk_drive_s0s1 G,
     gp_sense = gk_sense_disabled G, gp_set = (if level = ''high'' then 1 else 0)\<rparr>"

text \<open>What a command does: \<^term>\<open>None\<close> if it is left to the superclass, else the message, if there is one.
  \<open>io\<close> is the name the module was created with.\<close>

definition Io_command ::
    "gpio_constants \<Rightarrow> delivery \<Rightarrow> env \<Rightarrow> string \<Rightarrow> Module \<Rightarrow> string \<Rightarrow> string list \<Rightarrow> world \<Rightarrow> (world option \<times> bool) option" where
  "Io_command G deliver E io m name args w =
     (if length args \<ge> 2 \<and> args ! 1 = io \<and> name = ''action'' then
        let destinationNode = node_argument (args ! 0) w;
            send = (\<lambda>action handle bs. (SendModuleActionMessage deliver E (m_moduleId m) MESSAGE_TYPE_MODULE_TRIGGER_ACTION
              destinationNode action handle bs False w, True))
        in Some (
          if length args \<ge> 5 \<and> args ! 2 = ''pinset'' then
            let numExtraParams = (of_nat (length args - 3) :: u8); numPorts = unat (numExtraParams div 2);
                requestHandle = (if numExtraParams mod 2 = 0 then 0 else of_int (atoi (last args)))
            in send SET_PIN_CONFIG requestHandle
                 (concat (map (\<lambda>i. write_pin (output_pin G (args ! (i * 2 + 3)) (args ! (i * 2 + 4)))) [0..<numPorts]))
          else if length args = 3 \<and> args ! 2 = ''get'' then send GET_PIN_CONFIG 0 []
          else if length args \<ge> 4 \<and> args ! 2 = ''led'' then
            send SET_LED (if length args \<ge> 5 then of_int (atoi (args ! 4)) else 0) [if args ! 3 = ''on'' then 1 else 0]
          else (Some w, False))
      else None)"

text \<open>The settings in a packet: as many as begin in the bytes that are counted.\<close>

definition pins_in :: "mem \<Rightarrow> u16 \<Rightarrow> gpioPinConfig list" where
  "pins_in data dataFieldLength =
     map (\<lambda>i. read_pin (data (module_data + 2 * i)) (data (module_data + 2 * i + 1))) [0..<(unat dataFieldLength + 1) div 2]"

definition confirm :: "delivery \<Rightarrow> env \<Rightarrow> Module \<Rightarrow> mem \<Rightarrow> u8 \<Rightarrow> world \<Rightarrow> world option" where
  "confirm deliver E m data actionType w =
     SendModuleActionMessage deliver E (m_moduleId m) MESSAGE_TYPE_MODULE_ACTION_RESPONSE (get_sender data) actionType
       (mp_requestHandle (read_module data)) [] False w"

definition Io_packet ::
    "gpio_constants \<Rightarrow> delivery \<Rightarrow> env \<Rightarrow> Module \<Rightarrow> mem \<Rightarrow> u16 \<Rightarrow> pin_registers \<times> world \<Rightarrow> (pin_registers \<times> world) option" where
  "Io_packet G deliver E m data dataLength s =
     (case s of (cnf, w) \<Rightarrow>
        if triggers m data SET_PIN_CONFIG then
          let (cnf, w) = fold (apply_pin G) (pins_in data (dataLength - of_nat SIZEOF_CONN_PACKET_MODULE))
                (cnf, upd_node (\<lambda>n. n\<lparr>n_currentLedMode := LED_MODE_OFF\<rparr>) w)
          in map_option (Pair cnf) (confirm deliver E m data SET_PIN_CONFIG_RESULT w)
        else if triggers m data SET_LED then
          let n = w_node w;
              w = (if data module_data \<noteq> 0
                   then gpio (led_On (n_LedBlue n) \<circ> led_On (n_LedGreen n) \<circ> led_On (n_LedRed n))
                          (upd_node (\<lambda>n. n\<lparr>n_currentLedMode := LED_MODE_OFF\<rparr>) w)
                   else upd_node (\<lambda>n. n\<lparr>n_currentLedMode := LED_MODE_CONNECTIONS\<rparr>) w)
          in map_option (Pair cnf) (confirm deliver E m data SET_LED_RESPONSE w)
        else Some (cnf, w))"

section \<open>Packing and unpacking\<close>

definition pin_in_range :: "gpioPinConfig \<Rightarrow> bool" where
  "pin_in_range c \<longleftrightarrow> gp_pinNumber c < 32 \<and> gp_direction c < 2 \<and> gp_inputBufferConnected c < 2 \<and> gp_pull c < 4 \<and>
     gp_driveStrength c < 8 \<and> gp_sense c < 4 \<and> gp_set c < 2"

lemma masks: "(31 :: u8) = mask 5" "(1 :: u8) = mask 1" "(3 :: u8) = mask 2" "(7 :: u8) = mask 3"
  by (simp_all add: mask_eq_exp_minus_1)

lemma low_field:
  fixes p d i :: u8
  shows "((p AND mask 5) OR push_bit 5 (d AND mask 1) OR push_bit 6 (i AND mask 1)) AND mask 5 = p AND mask 5"
    "drop_bit 5 ((p AND mask 5) OR push_bit 5 (d AND mask 1) OR push_bit 6 (i AND mask 1)) AND mask 1 = d AND mask 1"
    "drop_bit 6 ((p AND mask 5) OR push_bit 5 (d AND mask 1) OR push_bit 6 (i AND mask 1)) AND mask 1 = i AND mask 1"
  by (rule bit_word_eqI; auto simp: bit_simps)+

lemma high_field:
  fixes p d s h :: u8
  shows "((p AND mask 2) OR push_bit 2 (d AND mask 3) OR push_bit 5 (s AND mask 2) OR push_bit 7 (h AND mask 1)) AND mask 2 = p AND mask 2"
    "drop_bit 2 ((p AND mask 2) OR push_bit 2 (d AND mask 3) OR push_bit 5 (s AND mask 2) OR push_bit 7 (h AND mask 1)) AND mask 3 = d AND mask 3"
    "drop_bit 5 ((p AND mask 2) OR push_bit 2 (d AND mask 3) OR push_bit 5 (s AND mask 2) OR push_bit 7 (h AND mask 1)) AND mask 2 = s AND mask 2"
    "drop_bit 7 ((p AND mask 2) OR push_bit 2 (d AND mask 3) OR push_bit 5 (s AND mask 2) OR push_bit 7 (h AND mask 1)) AND mask 1 = h AND mask 1"
  by (rule bit_word_eqI; auto simp: bit_simps)+

text \<open>Settings that fit their fields are unpacked as they were packed.\<close>

lemma pin_roundtrip:
  assumes "pin_in_range c"
  shows "read_pin (write_pin c ! 0) (write_pin c ! 1) = c"
proof -
  have m: "x < 2 ^ n \<Longrightarrow> x AND mask n = x" for x :: u8 and n by (rule less_mask_eq)
  have c: "gp_pinNumber c AND mask 5 = gp_pinNumber c" "gp_direction c AND mask 1 = gp_direction c"
    "gp_inputBufferConnected c AND mask 1 = gp_inputBufferConnected c" "gp_pull c AND mask 2 = gp_pull c"
    "gp_driveStrength c AND mask 3 = gp_driveStrength c" "gp_sense c AND mask 2 = gp_sense c" "gp_set c AND mask 1 = gp_set c"
    by (rule m, use assms in \<open>simp add: pin_in_range_def\<close>)+
  have n: "[x, y] ! 0 = x" "[x, y] ! 1 = y" for x y :: u8 by simp_all
  show ?thesis unfolding read_pin_def write_pin_def masks n unfolding low_field high_field unfolding c by simp
qed

lemma length_write_pin [simp]: "length (write_pin c) = 2"
  by (simp add: write_pin_def)

lemma nth_pins:
  assumes "i < length cs"
  shows "concat (map write_pin cs) ! (2 * i) = write_pin (cs ! i) ! 0"
    "concat (map write_pin cs) ! Suc (2 * i) = write_pin (cs ! i) ! 1"
  using assms by (induction cs arbitrary: i) (auto simp: nth_append less_Suc_eq_0_disj)

text \<open>The settings of several pins, as they arrive: the second byte of the last one is missing, and with it the
  level the pin was to be set to.\<close>

lemma pins_arrive:
  assumes "\<forall>c \<in> set cs. pin_in_range c" "cs \<noteq> []" "length cs < 100"
    "bytes_at d module_data (2 * length cs) = concat (map write_pin cs)"
  shows "pins_in (received d (SIZEOF_CONN_PACKET_MODULE + 2 * length cs) rest) (of_nat (2 * length cs)) =
    butlast cs @ [read_pin (write_pin (last cs) ! 0) (rest (SIZEOF_CONN_PACKET_MODULE + 2 * length cs))]"
proof (rule nth_equalityI)
  have n: "unat (of_nat (2 * length cs) :: u16) = 2 * length cs" using assms(3) by (intro unat_of_nat_small) simp
  have k: "(2 * length cs + 1) div 2 = length cs" by simp
  show "length (pins_in (received d (SIZEOF_CONN_PACKET_MODULE + 2 * length cs) rest) (of_nat (2 * length cs))) =
      length (butlast cs @ [read_pin (write_pin (last cs) ! 0) (rest (SIZEOF_CONN_PACKET_MODULE + 2 * length cs))])"
    using assms(2) by (simp add: pins_in_def n k del: of_nat_mult)
  fix i
  let ?r = "received d (SIZEOF_CONN_PACKET_MODULE + 2 * length cs) rest"
  assume "i < length (pins_in ?r (of_nat (2 * length cs)))"
  then have i: "i < length cs" by (simp add: pins_in_def n k del: of_nat_mult)
  have at: "d (module_data + j) = concat (map write_pin cs) ! j" if "j < 2 * length cs" for j
    using arg_cong [OF assms(4), of "\<lambda>xs. xs ! j"] that by (simp add: bytes_at_def)
  have pin: "pins_in ?r (of_nat (2 * length cs)) ! i = read_pin (?r (module_data + 2 * i)) (?r (module_data + 2 * i + 1))"
    using i by (simp add: pins_in_def n k del: of_nat_mult received_apply)
  have a: "?r (module_data + 2 * i) = write_pin (cs ! i) ! 0"
    using i at [of "2 * i"] nth_pins(1) [OF i] by (simp add: module_data_def sizeof_defs)
  show "pins_in ?r (of_nat (2 * length cs)) ! i =
      (butlast cs @ [read_pin (write_pin (last cs) ! 0) (rest (SIZEOF_CONN_PACKET_MODULE + 2 * length cs))]) ! i"
  proof (cases "i = length cs - 1")
    case True
    then have e: "length cs = Suc i" using i by simp
    have "?r (module_data + 2 * i + 1) = rest (SIZEOF_CONN_PACKET_MODULE + 2 * length cs)"
      by (simp add: e module_data_def sizeof_defs)
    then show ?thesis unfolding pin a using True assms(2) by (simp add: nth_append last_conv_nth)
  next
    case False
    then have "?r (module_data + 2 * i + 1) = write_pin (cs ! i) ! 1"
      using i at [of "2 * i + 1"] nth_pins(2) [OF i] by (simp add: module_data_def sizeof_defs)
    then show ?thesis
      unfolding pin a using False i pin_roundtrip [of "cs ! i"] assms(1) by (simp add: nth_append nth_butlast)
  qed
qed

end
