(* ===== verification/Gateway.thy ===== *)
theory Gateway
  imports Commands
begin

text \<open>
  The gateway module (\<^verbatim>\<open>src/modules/GatewayModule.cpp\<close>): texts that are typed on the terminal of one node are
  sent to a gateway, with the node outside the mesh they are for, or from a gateway to a node. The node of this
  build does not create the module; the superclass is in the theory Modules.
\<close>

section \<open>The command\<close>

definition TRIGGER_GATEWAY :: u8 where "TRIGGER_GATEWAY = 0"

text \<open>What the file defines, whatever the configuration says.\<close>

definition IsGatewayDevice :: bool where "IsGatewayDevice \<longleftrightarrow> False"

text \<open>A message has place for ten characters; a longer text is written behind it. A message to a node from a
  gateway does not name a remote receiver.\<close>

definition gateway_message :: "env \<Rightarrow> Module \<Rightarrow> nodeID \<Rightarrow> nodeID option \<Rightarrow> string \<Rightarrow> world \<Rightarrow> mem" where
  "gateway_message E m receiver remote text w =
     store_bytes ((case remote of None \<Rightarrow> \<lambda>d. d | Some r \<Rightarrow> put_remoteReceiver r)
         (module_message MESSAGE_TYPE_MODULE_TRIGGER_ACTION (nodeId w) receiver (m_moduleId m) TRIGGER_GATEWAY
           (e_stack E (w_trace w))))
       module_data (bytes_of text)"

definition send_gateway_message ::
    "delivery \<Rightarrow> env \<Rightarrow> Module \<Rightarrow> nodeID \<Rightarrow> nodeID option \<Rightarrow> string \<Rightarrow> world \<Rightarrow> world option" where
  "send_gateway_message deliver E m receiver remote text w =
     (if length text > 10 then None
      else send_module_message deliver E (gateway_message E m receiver remote text w) (length text + 1) True w)"

text \<open>\<open>None\<close> if the command is left to the superclass; \<open>name\<close> is the module's name.\<close>

definition Gateway_command ::
    "delivery \<Rightarrow> env \<Rightarrow> string \<Rightarrow> Module \<Rightarrow> string \<Rightarrow> string list \<Rightarrow> world \<Rightarrow> (world option \<times> bool) option" where
  "Gateway_command deliver E gateway m name args w =
     (if name = ''uart_module_trigger_action'' \<or> name = ''action'' then
        if IsGatewayDevice \<and> length args = 3 \<and> args ! 1 = gateway then
          Some (send_gateway_message deliver E m (of_int (atoi (args ! 0))) None (args ! 2) w, True)
        else if length args = 4 \<and> args ! 1 = gateway then
          Some (send_gateway_message deliver E m (of_int (atoi (args ! 0))) (Some (of_int (atoi (args ! 2)))) (args ! 3) w, True)
        else None
      else None)"

section \<open>The packet\<close>

text \<open>What is logged of a packet: the sender, the receiver outside the mesh, and the ten bytes at the place of the
  text, up to the first that is zero. A node that is no gateway logs the text alone.\<close>

definition Gateway_packet :: "Module \<Rightarrow> mem \<Rightarrow> ((nodeID \<times> nodeID) option \<times> string) option" where
  "Gateway_packet m data =
     (if triggers m data TRIGGER_GATEWAY
      then Some (if IsGatewayDevice then Some (get_sender data, get_remoteReceiver data) else None,
                 text_of (takeWhile (\<lambda>b. b \<noteq> 0) (bytes_at data module_data 10)))
      else None)"

definition Gateway_default_config :: "u16 \<Rightarrow> mem \<Rightarrow> mem" where
  "Gateway_default_config moduleId c = config_header moduleId False c"

section \<open>A text arrives\<close>

text \<open>The length that is sent counts one byte more than the text has, which makes up for the header that is
  counted one byte short: unlike the messages of the other modules, this one loses nothing. What is logged of
  a text of less than ten characters goes on with what the buffer of the receiver holds.\<close>

lemma gateway_message_fields [simp]:
  "get_sender (gateway_message E m r o' text w) = nodeId w"
  "get_receiver (gateway_message E m r o' text w) = r"
  "get_messageType (gateway_message E m r o' text w) = MESSAGE_TYPE_MODULE_TRIGGER_ACTION"
  "get16 7 (gateway_message E m r o' text w) = m_moduleId m" "gateway_message E m r o' text w 10 = TRIGGER_GATEWAY"
  by (simp_all add: gateway_message_def module_data_def module_message_def message_header_def message_type_defs
      split: option.split)

lemma gateway_message_remote: "get_remoteReceiver (gateway_message E m r (Some q) text w) = q"
  by (simp add: gateway_message_def module_data_def)

lemma gateway_text_arrives:
  assumes "args = [gw, gateway, remote, text]" "length text \<le> 10" "m_moduleId m' = m_moduleId m"
    "0 \<notin> set (bytes_of text)"
  shows "\<exists>d. Gateway_command deliver E gateway m ''action'' args w =
      Some (send_module_message deliver E d (length text + 1) True w, True) \<and>
    get_receiver d = of_int (atoi gw) \<and> get_remoteReceiver d = of_int (atoi remote) \<and>
    (\<exists>more. Gateway_packet m' (received d (SIZEOF_CONN_PACKET_MODULE + (length text + 1)) rest) = Some (None, text @ more))"
proof -
  let ?d = "gateway_message E m (of_int (atoi gw)) (Some (of_int (atoi remote))) text w"
  let ?n = "SIZEOF_CONN_PACKET_MODULE + (length text + 1)"
  let ?r = "received ?d ?n rest"
  have c: "Gateway_command deliver E gateway m ''action'' args w = Some (send_module_message deliver E ?d (length text + 1) True w, True)"
    using assms(1,2) by (simp add: Gateway_command_def IsGatewayDevice_def send_gateway_message_def)
  have l: "length (bytes_of text) = length text" by (simp add: bytes_of_def)
  have "triggers m' ?r TRIGGER_GATEWAY"
    using assms(3) by (simp add: triggers_def read_module_def sizeof_defs)
  moreover have "bytes_at ?r module_data (length text) = bytes_of text"
    by (auto simp: bytes_at_eq_iff l module_data_def sizeof_defs gateway_message_def)
  then have "bytes_at ?r module_data 10 = bytes_of text @ bytes_at ?r (module_data + length text) (10 - length text)"
    using bytes_at_append [of ?r module_data "length text" "10 - length text"] assms(2) by simp
  moreover have "takeWhile (\<lambda>b. b \<noteq> 0) (bytes_of text @ ys) = bytes_of text @ takeWhile (\<lambda>b. b \<noteq> 0) ys" for ys
    using assms(4) by (intro takeWhile_append2) auto
  ultimately have "Gateway_packet m' ?r = Some (None, text @ text_of (takeWhile (\<lambda>b. b \<noteq> 0)
      (bytes_at ?r (module_data + length text) (10 - length text))))"
    by (simp add: Gateway_packet_def IsGatewayDevice_def text_of_append text_of_bytes)
  then show ?thesis using c gateway_message_remote gateway_message_fields(2) by blast
qed

end
