(* ===== verification/Mesh.thy ===== *)
theory Mesh
  imports Sending Handshake
begin

text \<open>
  Many nodes together: how a packet travels through a mesh. What a node does with a packet,
  \<open>route_packet\<close> (\<^verbatim>\<open>Connection.cpp\<close>) and \<open>SendMessageToReceiver\<close> (\<^verbatim>\<open>ConnectionManager.cpp\<close>), is put as the
  list of connections it queues the packet on. A mesh is a function from nodes to their states, with the
  wires between their connections; while a packet travels the states do not change their routing. How
  packets get from a queue over the radio to the other end of a wire is in the theory Sending.
\<close>

section \<open>One node\<close>

text \<open>The connections on which a packet for \<open>receiver\<close> is passed on that came from connection \<open>origin\<close>, or from
  the node itself.\<close>

definition relays :: "nodeID \<Rightarrow> nat option \<Rightarrow> world \<Rightarrow> nat list" where
  "relays receiver origin w =
     (if last_receiver receiver w then []
      else if receiver = NODE_ID_SHORTEST_SINK then (case GetConnectionToShortestSink None w of None \<Rightarrow> [] | Some j \<Rightarrow> [j])
      else filter (\<lambda>i. origin \<noteq> Some i \<and> c_handshakeDone (conns w i)) [0, 1, 2, 3])"

definition queue_on :: "mem \<Rightarrow> u16 \<Rightarrow> bool \<Rightarrow> nat list \<Rightarrow> world \<Rightarrow> world" where
  "queue_on data n reliable is w = fold (\<lambda>i. QueuePacket i data n reliable) is w"

lemma done_after_queueing: "c_handshakeDone (conns (QueuePacket i data n r w) j) \<longleftrightarrow> c_handshakeDone (conns w j)"
  by (simp add: QueuePacket_conns)

lemma fold_filter_done:
  "fold (\<lambda>i w. if origin \<noteq> Some i \<and> c_handshakeDone (conns w i) then QueuePacket i data n r w else w) is w =
   fold (\<lambda>i. QueuePacket i data n r) (filter (\<lambda>i. origin \<noteq> Some i \<and> c_handshakeDone (conns w i)) is) w"
proof (induction "is" arbitrary: w)
  case (Cons i js)
  show ?case by (simp add: Cons.IH done_after_queueing)
qed simp

lemma queue_over_relays:
  assumes "\<not> last_receiver (get_receiver data) w" "get_receiver data \<noteq> NODE_ID_SHORTEST_SINK"
  shows "QueueOverConnections origin data' n r w = queue_on data' n r (relays (get_receiver data) origin w) w"
  using assms by (simp add: QueueOverConnections_def queue_on_def relays_def fold_filter_done del: filter.simps fold.simps)

lemma sink_relays:
  assumes "\<not> last_receiver NODE_ID_SHORTEST_SINK w"
  shows "relays NODE_ID_SHORTEST_SINK origin w =
    (case GetConnectionToShortestSink None w of None \<Rightarrow> [] | Some j \<Rightarrow> [j])"
  using assms by (simp add: relays_def)

lemma queue_on_one: "queue_on data n r [i] w = QueuePacket i data n r w"
  by (simp add: queue_on_def)

text \<open>C7: What a node does with a packet of which it is not the last receiver: it is queued, as it is passed on,
  on exactly the connections of \<open>relays\<close>, and the transmit buffers are filled; without a way to the sink nothing
  happens. What the node sends itself, to another node or to the sink, goes out in the same way.\<close>

theorem routing_relays:
  assumes "\<not> last_receiver (get_receiver data) w"
  shows "route_packet E i data n r w =
      (if get_receiver data = NODE_ID_SHORTEST_SINK then
         if relays (get_receiver data) (Some i) w = [] then Some (w, data)
         else map_option (\<lambda>w. (w, data)) (fillTransmitBuffers E (queue_on data n r (relays (get_receiver data) (Some i) w) w))
       else map_option (\<lambda>w. (w, relay_packet data))
         (fillTransmitBuffers E (queue_on (relay_packet data) n r (relays (get_receiver data) (Some i) w) w))) \<and>
    (get_receiver data = NODE_ID_BROADCAST \<or> SendMessageToReceiver deliver E None data n r w =
      (if get_receiver data = NODE_ID_SHORTEST_SINK \<and> relays (get_receiver data) None w = [] then Some w
       else fillTransmitBuffers E (queue_on data n r (relays (get_receiver data) None w) w)))"
proof (cases "get_receiver data = NODE_ID_SHORTEST_SINK")
  case True
  moreover have "NODE_ID_SHORTEST_SINK \<noteq> nodeId w" using assms by (auto simp: True last_receiver_def)
  ultimately show ?thesis
    using assms by (cases "GetConnectionToShortestSink None w")
      (simp_all add: route_packet_def SendMessageToReceiver_def SendMessage_def sink_relays queue_on_one)
next
  case False
  note q = queue_over_relays [OF assms False]
  have "get_receiver data \<noteq> nodeId w" using assms by (auto simp: last_receiver_def)
  then show ?thesis
    using assms False by (simp add: route_packet_def Let_def SendMessageToReceiver_def SendMessageOverConnections_def q)
qed

section \<open>Wires\<close>

text \<open>A port is a connection of a node. A mesh has grown the way the handshake lets it grow if each wire joined
  two parts of it that were not connected before.\<close>

type_synonym 'n port = "'n \<times> nat"
type_synonym 'n wires = "('n port \<times> 'n port) set"

definition adjacent :: "'n wires \<Rightarrow> ('n \<times> 'n) set" where
  "adjacent L = {(a, b). \<exists>i j. ((a, i), (b, j)) \<in> L}"

inductive grown :: "'n wires \<Rightarrow> bool" where
  empty: "grown {}"
| join: "grown ({((a, i), (b, j)), ((b, j), (a, i))} \<union> L)"
    if "grown L" "(a, b) \<notin> (adjacent L)\<^sup>*" "(a, i) \<notin> Domain L" "(b, j) \<notin> Domain L"

text \<open>A packet goes on from a node over the wires of all its ports but the one it came from.\<close>

inductive flows :: "'n wires \<Rightarrow> 'n \<Rightarrow> 'n \<Rightarrow> nat option \<Rightarrow> bool" for L s where
  source: "flows L s s None"
| wire: "flows L s b (Some j)" if "flows L s a origin" "((a, k), (b, j)) \<in> L" "origin \<noteq> Some k"

inductive_simps flows_None: "flows L s x None"
inductive_cases flows_SomeE: "flows L s x (Some j)"

lemma adjacentI: "((a, i), (b, j)) \<in> L \<Longrightarrow> (a, b) \<in> adjacent L"
  by (auto simp: adjacent_def)

lemma grown_sym: "grown L \<Longrightarrow> (p, q) \<in> L \<Longrightarrow> (q, p) \<in> L"
  by (induction rule: grown.induct) auto

lemma grown_port: "grown L \<Longrightarrow> (p, q) \<in> L \<Longrightarrow> (p, q') \<in> L \<Longrightarrow> q = q'"
proof (induction arbitrary: p q q' rule: grown.induct)
  case (join L a b i j)
  have ab: "a \<noteq> b" using join.hyps(2) by auto
  have fresh: False if "((a, i), r) \<in> L \<or> ((b, j), r) \<in> L" for r using that join.hyps(3,4) by blast
  have "(p, q) \<in> L \<and> (p, q') \<in> L \<or> q = q'" using join.prems ab by (auto dest: fresh [OF disjI1] fresh [OF disjI2])
  then show ?case using join.IH by blast
qed simp

lemma connected_sym:
  assumes "grown L" "(a, b) \<in> (adjacent L)\<^sup>*" shows "(b, a) \<in> (adjacent L)\<^sup>*"
proof -
  have "sym (adjacent L)" using grown_sym [OF assms(1)] by (fastforce simp: sym_def adjacent_def)
  then show ?thesis using assms(2) by (metis sym_rtrancl symD)
qed

lemma flows_connected: "flows L s x origin \<Longrightarrow> (s, x) \<in> (adjacent L)\<^sup>*"
  by (induction rule: flows.induct) (auto intro: rtrancl_into_rtrancl adjacentI)

lemma flows_reaches:
  assumes "grown L" "(s, x) \<in> (adjacent L)\<^sup>*" shows "\<exists>origin. flows L s x origin"
  using assms(2)
proof (induction rule: rtrancl_induct)
  case (step x y)
  then obtain origin i j where f: "flows L s x origin" and w: "((x, i), (y, j)) \<in> L"
    by (auto simp: adjacent_def)
  show ?case
  proof (cases "origin = Some i")
    case True
    from f [unfolded True] obtain a o' k where a: "flows L s a o'" "((a, k), (x, i)) \<in> L" by (rule flows_SomeE)
    from grown_port [OF assms(1) grown_sym [OF assms(1) a(2)] w] a(1) show ?thesis by blast
  next
    case False
    from flows.wire [OF f w False] show ?thesis by blast
  qed
qed (auto intro: flows.source)

text \<open>A wire that joins the part of the source to another part is crossed once, and from its far end on
  the packet flows as from a source there.\<close>

lemma flows_across:
  assumes L: "grown L" and ab: "(a, b) \<notin> (adjacent L)\<^sup>*" and sa: "(s, a) \<in> (adjacent L)\<^sup>*"
    and once: "\<And>x origin origin'. flows L b x origin \<Longrightarrow> flows L b x origin' \<Longrightarrow> origin = origin'"
    and f: "flows ({((a, i), (b, j)), ((b, j), (a, i))} \<union> L) s x origin"
  shows "flows L s x origin \<or> x = b \<and> origin = Some j \<or> x \<noteq> b \<and> flows L b x origin"
  using f
proof (induction rule: flows.induct)
  case source
  show ?case by (simp add: flows.source)
next
  case (wire x origin k y l)
  have "a \<noteq> b" using ab by auto
  have sb: "(s, b) \<notin> (adjacent L)\<^sup>*" using ab connected_sym [OF L sa] by (meson rtrancl_trans)
  have ba: "(b, a) \<notin> (adjacent L)\<^sup>*" using ab connected_sym [OF L] by blast
  have far: "x \<noteq> a" if "flows L b x origin" using flows_connected [OF that] ba by auto
  have near: "x \<noteq> b" if "flows L s x origin" using flows_connected [OF that] sb by auto
  have away: "y \<noteq> b" if "flows L b y (Some l)" using once [OF that] flows.source [of L b] by auto
  consider "((x, k), (y, l)) \<in> L" | "x = a" "k = i" "y = b" "l = j" | "x = b" "k = j" "y = a" "l = i"
    using wire.hyps(2) by auto
  then show ?case
  proof cases
    case 1
    then show ?thesis using wire.IH wire.hyps(3) flows.source [of L b] away by (blast intro: flows.wire)
  next
    case 2
    then show ?thesis using wire.IH \<open>a \<noteq> b\<close> far by auto
  next
    case 3
    then show ?thesis using wire.IH wire.hyps(3) near by auto
  qed
qed

lemma flows_aside:
  assumes "(s, a) \<notin> (adjacent L)\<^sup>*" "(s, b) \<notin> (adjacent L)\<^sup>*"
    "flows ({((a, i), (b, j)), ((b, j), (a, i))} \<union> L) s x origin"
  shows "flows L s x origin"
  using assms(3)
proof (induction rule: flows.induct)
  case (wire x origin k y l)
  have "x \<noteq> a" "x \<noteq> b" using flows_connected [OF wire.IH] assms(1,2) by auto
  then show ?case using wire by (auto intro: flows.wire)
qed (rule flows.source)

lemma flows_once:
  assumes "grown L" "flows L s x origin" "flows L s x origin'" shows "origin = origin'"
  using assms
proof (induction arbitrary: s x origin origin' rule: grown.induct)
  case empty
  then show ?case by (auto elim: flows.cases)
next
  case (join L a b i j)
  have split: "origin = origin'"
    if "(a, b) \<notin> (adjacent L)\<^sup>*" "(s, a) \<in> (adjacent L)\<^sup>*"
      "flows ({((a, i), (b, j)), ((b, j), (a, i))} \<union> L) s x origin"
      "flows ({((a, i), (b, j)), ((b, j), (a, i))} \<union> L) s x origin'" for a b i j
  proof -
    have "(s, b) \<notin> (adjacent L)\<^sup>*" using that(1) connected_sym [OF join.hyps(1) that(2)] by (meson rtrancl_trans)
    then have apart: "\<not> ((s, x) \<in> (adjacent L)\<^sup>* \<and> (b, x) \<in> (adjacent L)\<^sup>*)"
      using connected_sym [OF join.hyps(1)] by (meson rtrancl_trans)
    have once: "p = q" if "flows L b y p" "flows L b y q" for y p q using that by (rule join.IH)
    have across: "flows L s x p \<or> x = b \<and> p = Some j \<or> x \<noteq> b \<and> flows L b x p"
      if "flows ({((a, i), (b, j)), ((b, j), (a, i))} \<union> L) s x p" for p
      using flows_across [OF join.hyps(1) \<open>(a, b) \<notin> _\<close> \<open>(s, a) \<in> _\<close> _ that] once by blast
    note across = across [OF that(3)] across [OF that(4)]
    show ?thesis
    proof (cases "(s, x) \<in> (adjacent L)\<^sup>*")
      case True
      then have "x \<noteq> b" "\<not> flows L b x p" for p using apart flows_connected [of L b x p] by auto
      then have "flows L s x origin" "flows L s x origin'" using across by blast+
      then show ?thesis by (rule join.IH)
    next
      case False
      then have "\<not> flows L s x p" for p using flows_connected [of L s x p] by blast
      then have "x = b \<and> origin = Some j \<or> x \<noteq> b \<and> flows L b x origin"
        "x = b \<and> origin' = Some j \<or> x \<noteq> b \<and> flows L b x origin'"
        using across by blast+
      then show ?thesis using once by blast
    qed
  qed
  have ba: "(b, a) \<notin> (adjacent L)\<^sup>*" using join.hyps(2) connected_sym [OF join.hyps(1)] by blast
  have swap: "{((a, i), (b, j)), ((b, j), (a, i))} \<union> L = {((b, j), (a, i)), ((a, i), (b, j))} \<union> L" by blast
  consider "(s, a) \<in> (adjacent L)\<^sup>*" | "(s, b) \<in> (adjacent L)\<^sup>*"
    | "(s, a) \<notin> (adjacent L)\<^sup>*" "(s, b) \<notin> (adjacent L)\<^sup>*" by blast
  then show ?case
  proof cases
    case 1
    from split [OF join.hyps(2) this join.prems] show ?thesis .
  next
    case 2
    from split [OF ba this join.prems [unfolded swap]] show ?thesis .
  next
    case 3
    from join.IH [OF flows_aside [OF this join.prems(1)] flows_aside [OF this join.prems(2)]] show ?thesis .
  qed
qed

section \<open>A packet in the mesh\<close>

text \<open>The wires are between the connections whose handshake is done.\<close>

definition wired :: "('n \<Rightarrow> world) \<Rightarrow> 'n wires \<Rightarrow> bool" where
  "wired W L \<longleftrightarrow> (\<forall>a i. (a, i) \<in> Domain L \<longleftrightarrow> i < 4 \<and> c_handshakeDone (conns (W a) i))"

text \<open>Where a packet from \<open>s\<close> arrives, after how many hops, and over which connection.\<close>

inductive arrives :: "('n \<Rightarrow> world) \<Rightarrow> 'n wires \<Rightarrow> nodeID \<Rightarrow> 'n \<Rightarrow> nat \<Rightarrow> 'n \<Rightarrow> nat option \<Rightarrow> bool" for W L receiver s where
  source: "arrives W L receiver s 0 s None"
| passed: "arrives W L receiver s (Suc n) b (Some j)"
    if "arrives W L receiver s n a origin" "k \<in> set (relays receiver origin (W a))" "((a, k), (b, j)) \<in> L"

lemma broadcast_relays:
  assumes "wired W L" "nodeId (W a) \<noteq> NODE_ID_BROADCAST" "((a, k), p) \<in> L"
  shows "k \<in> set (relays NODE_ID_BROADCAST origin (W a)) \<longleftrightarrow> origin \<noteq> Some k"
proof -
  have "k < 4" "c_handshakeDone (conns (W a) k)" using assms(1,3) by (auto simp: wired_def)
  moreover from this(1) have "k \<in> set [0, 1, 2, 3]" by (simp add: numeral_eq_Suc less_Suc_eq)
  moreover have "\<not> last_receiver NODE_ID_BROADCAST (W a)" "NODE_ID_BROADCAST \<noteq> NODE_ID_SHORTEST_SINK"
    using assms(2) by (auto simp: last_receiver_def NODE_ID_BROADCAST_def NODE_ID_HOPS_BASE_def NODE_ID_SHORTEST_SINK_def)
  ultimately show ?thesis unfolding relays_def by (simp only: if_False set_filter mem_Collect_eq simp_thms)
qed

lemma broadcast_flows:
  assumes "wired W L" "\<forall>a. nodeId (W a) \<noteq> NODE_ID_BROADCAST"
  shows "(\<exists>n. arrives W L NODE_ID_BROADCAST s n x origin) \<longleftrightarrow> flows L s x origin"
proof
  show "flows L s x origin" if "\<exists>n. arrives W L NODE_ID_BROADCAST s n x origin"
  proof -
    from that obtain n where "arrives W L NODE_ID_BROADCAST s n x origin" ..
    then show ?thesis
    proof (induction rule: arrives.induct)
      case (passed n a origin k b j)
      then show ?case using broadcast_relays [OF assms(1) _ passed.hyps(3)] assms(2) by (blast intro: flows.wire)
    qed (rule flows.source)
  qed
  show "\<exists>n. arrives W L NODE_ID_BROADCAST s n x origin" if "flows L s x origin"
    using that
  proof (induction rule: flows.induct)
    case (wire a origin k b j)
    then show ?case using broadcast_relays [OF assms(1) _ wire.hyps(2)] assms(2) by (blast intro: arrives.passed)
  qed (blast intro: arrives.source)
qed

text \<open>C8: A broadcast floods the mesh: in one that has grown by joining parts that were not connected, it
  arrives at every node that is connected with its source, and at no other; and it arrives there once, over
  one connection, never at its source again.\<close>

theorem broadcast_floods:
  assumes "grown L" "wired W L" "\<forall>a. nodeId (W a) \<noteq> NODE_ID_BROADCAST"
  shows "((\<exists>n origin. arrives W L NODE_ID_BROADCAST s n x origin) \<longleftrightarrow> (s, x) \<in> (adjacent L)\<^sup>*) \<and>
    (\<forall>n origin n' origin'. arrives W L NODE_ID_BROADCAST s n x origin \<longrightarrow> arrives W L NODE_ID_BROADCAST s n' x origin' \<longrightarrow>
       origin = origin' \<and> (x = s \<longrightarrow> origin = None))"
proof -
  note flows = broadcast_flows [OF assms(2,3), of s]
  have "(\<exists>n origin. arrives W L NODE_ID_BROADCAST s n x origin) \<longleftrightarrow> (\<exists>origin. flows L s x origin)"
    unfolding flows [symmetric] by blast
  also have "\<dots> \<longleftrightarrow> (s, x) \<in> (adjacent L)\<^sup>*"
    using flows_reaches [OF assms(1), of s x] flows_connected [of L s x] by blast
  finally have reaches: "(\<exists>n origin. arrives W L NODE_ID_BROADCAST s n x origin) \<longleftrightarrow> (s, x) \<in> (adjacent L)\<^sup>*" .
  have "origin = origin'" "x = s \<longrightarrow> origin = None"
    if "arrives W L NODE_ID_BROADCAST s n x origin" "arrives W L NODE_ID_BROADCAST s n' x origin'" for n n' origin origin'
  proof -
    have f: "flows L s x origin" "flows L s x origin'" unfolding flows [symmetric] using that by blast+
    then show "origin = origin'" by (rule flows_once [OF assms(1)])
    show "x = s \<longrightarrow> origin = None" using flows_once [OF assms(1) f(1)] flows.source [of L s] by auto
  qed
  then show ?thesis unfolding reaches by blast
qed

section \<open>The way to the sink\<close>

abbreviation sink :: "world \<Rightarrow> bool" where
  "sink w \<equiv> pc_deviceType (pconf w) = DEVICE_TYPE_SINK"

text \<open>What the handshake leaves: a connection knows the way that the node at its other end has over its other
  connections, one hop more; a connection without a handshake knows none.\<close>

definition hops_known :: "('n \<Rightarrow> world) \<Rightarrow> 'n wires \<Rightarrow> bool" where
  "hops_known W L \<longleftrightarrow>
     (\<forall>a i b j. ((a, i), (b, j)) \<in> L \<longrightarrow>
        c_hopsToSink (conns (W a) i) = hops_over (GetHopsToShortestSink (Some j) (W b))) \<and>
     (\<forall>a i. i < 4 \<longrightarrow> \<not> c_handshakeDone (conns (W a) i) \<longrightarrow> c_hopsToSink (conns (W a) i) = - 1)"

abbreviation hops :: "world \<Rightarrow> nat \<Rightarrow> int" where
  "hops w i \<equiv> sint (c_hopsToSink (conns w i))"

lemma hops_over_known:
  assumes "sint (hops_over g) > - 1" shows "0 \<le> sint g" "sint (hops_over g) = sint g + 1"
proof -
  show g: "0 \<le> sint g" using assms by (auto simp: hops_over_def split: if_splits)
  have "sint g < 32767"
  proof (rule ccontr)
    assume "\<not> sint g < 32767"
    then have "sint g = sint (0x7FFF :: i16)" using sint_lt [of g] by simp
    then have "g = 0x7FFF" by (rule signed_word_eqI)
    then show False using assms by (simp add: hops_over_def)
  qed
  then have "sint (g + 1) = sint g + 1"
    using g by (subst signed_take_bit_int_eq_self [of 15 "sint g + 1", symmetric]) (simp_all add: sint_word_ariths)
  then show "sint (hops_over g) = sint g + 1" using g by (simp add: hops_over_def)
qed

lemma below_four: "j \<in> set [0, 1, 2, 3] \<longleftrightarrow> j < (4 :: nat)"
  by (simp add: numeral_eq_Suc less_Suc_eq)

lemma search_four:
  assumes "snd (fold (sink_step el h) [0, 1, 2, 3] (0x7FFF, None)) = Some i"
  shows "i < 4" "el i" "sint (h i) > - 1" "j < 4 \<Longrightarrow> el j \<Longrightarrow> sint (h j) > - 1 \<Longrightarrow> sint (h i) \<le> sint (h j)"
  using sink_search_result [of "[0, 1, 2, 3]" el h] unfolding assms Ball_def below_four by auto

lemma no_search_four:
  assumes "snd (fold (sink_step el h) [0, 1, 2, 3] (0x7FFF, None)) = None" "j < 4" "el j"
  shows "sint (h j) \<le> - 1 \<or> h j = 0x7FFF"
  using sink_search_result [of "[0, 1, 2, 3]" el h] assms(2,3) unfolding assms(1) Ball_def below_four by auto

lemma sink_choice:
  assumes "GetConnectionToShortestSink None w = Some i"
  shows "i < 4" "c_handshakeDone (conns w i)" "hops w i > - 1"
    "j < 4 \<Longrightarrow> c_handshakeDone (conns w j) \<Longrightarrow> hops w j > - 1 \<Longrightarrow> hops w i \<le> hops w j"
  using search_four [OF assms [unfolded GetConnectionToShortestSink_def]] by auto

text \<open>The hops a node that is no sink tells over connection \<open>j\<close> are those of another connection, the least.\<close>

lemma told_hops:
  assumes "\<not> sink w" "0 \<le> sint (GetHopsToShortestSink (Some j) w)"
  obtains k where "k < 4" "k \<noteq> j" "c_hopsToSink (conns w k) = GetHopsToShortestSink (Some j) w"
    "\<And>l. l < 4 \<Longrightarrow> l \<noteq> j \<Longrightarrow> hops w l > - 1 \<Longrightarrow> hops w k \<le> hops w l"
proof -
  let ?search = "snd (fold (sink_step (\<lambda>i. Some j \<noteq> Some i) (\<lambda>i. c_hopsToSink (conns w i))) [0, 1, 2, 3] (0x7FFF, None))"
  have g: "GetHopsToShortestSink (Some j) w = (case ?search of None \<Rightarrow> - 1 | Some i \<Rightarrow> c_hopsToSink (conns w i))"
    using assms(1) by (simp only: GetHopsToShortestSink_def if_False)
  obtain k where k: "?search = Some k" using assms(2) unfolding g by (cases ?search) simp_all
  from search_four [OF k] that [of k] show ?thesis unfolding g k by auto
qed

lemma hops_done:
  assumes "hops_known W L" "i < 4" "hops (W a) i > - 1" shows "c_handshakeDone (conns (W a) i)"
proof (rule ccontr)
  assume "\<not> c_handshakeDone (conns (W a) i)"
  then have "c_hopsToSink (conns (W a) i) = - 1" using assms(1,2) unfolding hops_known_def by blast
  then show False using assms(3) by simp
qed

text \<open>One hop: the node at the other end is the sink, or its own way is one hop shorter. That way does not
  lead back, since what it was told over this connection is further.\<close>

lemma sink_hop:
  assumes L: "sym L" "wired W L" "hops_known W L" and a: "\<not> sink (W a)" "GetConnectionToShortestSink None (W a) = Some i"
    and link: "((a, i), (b, j)) \<in> L"
  shows "if sink (W b) then hops (W a) i = 1
    else \<exists>k. GetConnectionToShortestSink None (W b) = Some k \<and> hops (W a) i = hops (W b) k + 1"
proof (cases "sink (W b)")
  case True
  have "c_hopsToSink (conns (W a) i) = hops_over (GetHopsToShortestSink (Some j) (W b))"
    using L(3) link by (auto simp: hops_known_def)
  then show ?thesis using True by (simp add: GetHopsToShortestSink_def hops_over_def)
next
  case False
  let ?g = "GetHopsToShortestSink (Some j) (W b)"
  have known: "c_hopsToSink (conns (W x) l) = hops_over (GetHopsToShortestSink (Some m) (W y))"
    if "((x, l), (y, m)) \<in> L" for x l y m
    using L(3) that by (auto simp: hops_known_def)
  note choice = sink_choice [OF a(2)]
  have g: "0 \<le> sint ?g" "hops (W a) i = sint ?g + 1"
    using hops_over_known [of ?g] choice(3) unfolding known [OF link] by auto
  from told_hops [OF False g(1)] obtain k where k: "k < 4" "k \<noteq> j" "c_hopsToSink (conns (W b) k) = ?g"
    "\<And>l. l < 4 \<Longrightarrow> l \<noteq> j \<Longrightarrow> hops (W b) l > - 1 \<Longrightarrow> hops (W b) k \<le> hops (W b) l" by blast
  have behind: "hops (W b) j \<le> - 1 \<or> hops (W b) j > sint ?g"
  proof -
    let ?h = "GetHopsToShortestSink (Some i) (W a)"
    have b: "c_hopsToSink (conns (W b) j) = hops_over ?h" using known symD [OF L(1) link] by blast
    show ?thesis
    proof (cases "hops (W b) j > - 1")
      case True
      note h = hops_over_known [OF True [unfolded b]]
      from told_hops [OF a(1) h(1)] obtain l where l: "l < 4" "l \<noteq> i" "c_hopsToSink (conns (W a) l) = ?h" by blast
      have "c_handshakeDone (conns (W a) l)"
        using hops_done [OF L(3) l(1), of a] l(3) h(1) by simp
      from choice(4) [OF l(1) this] have "hops (W a) i \<le> hops (W a) l" using l(3) h(1) by simp
      then show ?thesis using g h l(3) b by simp
    qed simp
  qed
  have shaken: "c_handshakeDone (conns (W b) k)" using hops_done [OF L(3) k(1), of b] k(3) g(1) by simp
  have bk: "hops (W b) k > - 1" "\<not> c_hopsToSink (conns (W b) k) = 0x7FFF"
    using k(3) g choice(3) known [OF link] by (auto simp: hops_over_def)
  obtain m where m: "GetConnectionToShortestSink None (W b) = Some m"
    using no_search_four [of _ _ k] shaken k(1) bk unfolding GetConnectionToShortestSink_def by fastforce
  note cm = sink_choice [OF m]
  have "hops (W b) m \<le> hops (W b) k" using cm(4) k(1) shaken bk(1) by blast
  moreover have "m \<noteq> j" using behind cm(3) calculation k(3) by auto
  then have "hops (W b) k \<le> hops (W b) m" using k(4) cm(1,3) by blast
  ultimately show ?thesis using False m g(2) k(3) by simp
qed

lemma sink_last_receiver:
  assumes "nodeId w \<noteq> NODE_ID_SHORTEST_SINK" shows "last_receiver NODE_ID_SHORTEST_SINK w \<longleftrightarrow> sink w"
  using assms by (auto simp: last_receiver_def NODE_ID_HOPS_BASE_def NODE_ID_SHORTEST_SINK_def)

lemma relays_to_sink:
  assumes "nodeId w \<noteq> NODE_ID_SHORTEST_SINK"
  shows "relays NODE_ID_SHORTEST_SINK origin w =
    (if sink w then [] else case GetConnectionToShortestSink None w of None \<Rightarrow> [] | Some j \<Rightarrow> [j])"
  by (simp add: relays_def sink_last_receiver [OF assms])

lemma choice_wired:
  assumes "wired W L" "hops_known W L" "GetConnectionToShortestSink None (W a) = Some i"
  shows "\<exists>b j. ((a, i), (b, j)) \<in> L" "0 < hops (W a) i"
proof -
  have "(a, i) \<in> Domain L" using sink_choice(1,2) [OF assms(3)] assms(1) unfolding wired_def by blast
  then show "\<exists>b j. ((a, i), (b, j)) \<in> L" by auto
  then obtain b j where g: "c_hopsToSink (conns (W a) i) = hops_over (GetHopsToShortestSink (Some j) (W b))"
    using assms(2) unfolding hops_known_def by blast
  from hops_over_known [OF sink_choice(3) [OF assms(3), unfolded g]] show "0 < hops (W a) i" by (simp add: g)
qed

text \<open>How far a packet still has to go that has made \<open>n\<close> of \<open>h\<close> hops.\<close>

definition on_its_way :: "('n \<Rightarrow> world) \<Rightarrow> nat \<Rightarrow> nat \<Rightarrow> 'n \<Rightarrow> bool" where
  "on_its_way W h n a \<longleftrightarrow> (if sink (W a) then n = h
     else n < h \<and> (\<exists>i. GetConnectionToShortestSink None (W a) = Some i \<and> hops (W a) i = int (h - n)))"

lemma on_its_way_hop:
  assumes "sym L" "wired W L" "hops_known W L" "on_its_way W h n a" "\<not> sink (W a)"
    "GetConnectionToShortestSink None (W a) = Some i" "((a, i), (b, j)) \<in> L"
  shows "on_its_way W h (Suc n) b"
  using sink_hop [OF assms(1-3,5-7)] assms(4-6) choice_wired(2) [OF assms(2,3), of b]
  by (fastforce simp: on_its_way_def of_nat_diff split: if_splits)


section \<open>Three nodes in a row\<close>

text \<open>Node 2 is the sink, the others are connected as 0 -- 1 -- 2.\<close>

definition row_wires :: "nat wires" where
  "row_wires = {((1, 1), (2, 0)), ((2, 0), (1, 1))} \<union> ({((0, 1), (1, 0)), ((1, 0), (0, 1))} \<union> {})"

definition row :: "nat \<Rightarrow> world" where
  "row a = upd_node (n_persistentConfig_update (\<lambda>p. p\<lparr>pc_nodeId := 7,
       pc_deviceType := if a = 2 then DEVICE_TYPE_SINK else DEVICE_TYPE_STATIC\<rparr>))
     (w_cm_update (\<lambda>m. m\<lparr>cm_connections := (\<lambda>i. zero_connection
        \<lparr>c_handshakeDone := (a, i) \<in> Domain row_wires, c_hopsToSink := if a < 2 \<and> i = 1 then of_nat (2 - a) else - 1\<rparr>)\<rparr>)
      zero_world)"

lemma row_connections [simp]:
  "c_handshakeDone (conns (row a) i) \<longleftrightarrow> (a, i) \<in> {(0, 1), (1, 0), (1, 1), (2, 0)}"
  "c_hopsToSink (conns (row a) i) = (if a < 2 \<and> i = 1 then of_nat (2 - a) else - 1)"
  "nodeId (row a) = 7" "sink (row a) \<longleftrightarrow> a = 2"
  by (auto simp: row_def row_wires_def zero_world_def zero_node_def zero_connection_def)

lemma row_grown: "grown row_wires"
proof -
  have first: "grown ({((0, 1), (1, 0)), ((1, 0), (0, 1))} \<union> {} :: nat wires)"
    by (rule grown.join) (auto intro: grown.empty simp: adjacent_def)
  have "(1, 2) \<notin> (adjacent ({((0, 1), (1, 0)), ((1, 0), (0, 1))} \<union> {} :: nat wires))\<^sup>*"
  proof
    assume "(1, 2) \<in> (adjacent ({((0, 1), (1, 0)), ((1, 0), (0, 1))} \<union> {} :: nat wires))\<^sup>*"
    then show False by (cases rule: rtranclE) (auto simp: adjacent_def)
  qed
  then show ?thesis unfolding row_wires_def by (rule grown.join [OF first]) auto
qed

lemma row_wired: "wired row row_wires"
  by (auto simp: wired_def row_wires_def)

lemma row_hops: "hops_known row row_wires"
proof -
  have "GetHopsToShortestSink (Some 0) (row 1) = 1" "GetHopsToShortestSink (Some 0) (row 2) = 0"
    "GetHopsToShortestSink (Some 1) (row 0) = - 1" "GetHopsToShortestSink (Some 1) (row 1) = - 1"
    by (simp_all add: GetHopsToShortestSink_def sink_step_def)
  then show ?thesis by (auto simp: hops_known_def row_wires_def hops_over_def)
qed

lemma broadcast_floods_witness:
  "(\<exists>n origin. arrives row row_wires NODE_ID_BROADCAST 0 n 2 origin) \<and>
   \<not> (\<exists>n i. arrives row row_wires NODE_ID_BROADCAST 0 n 0 (Some i))"
proof -
  have "(0, 1) \<in> adjacent row_wires" "(1, 2) \<in> adjacent row_wires" by (auto simp: adjacent_def row_wires_def)
  then have r: "(0, 2) \<in> (adjacent row_wires)\<^sup>*" by (meson rtrancl.rtrancl_refl rtrancl.rtrancl_into_rtrancl)
  have n: "\<forall>a. nodeId (row a) \<noteq> NODE_ID_BROADCAST" by (simp add: NODE_ID_BROADCAST_def)
  from broadcast_floods [OF row_grown row_wired n, of 0 2] broadcast_floods [OF row_grown row_wired n, of 0 0] r
  show ?thesis by blast
qed


lemma routing_relays_witness:
  "route_packet quiet_env 0 (put_receiver NODE_ID_SHORTEST_SINK (\<lambda>_. 0)) 20 True (row (Suc 0)) =
     map_option (\<lambda>w. (w, put_receiver NODE_ID_SHORTEST_SINK (\<lambda>_. 0)))
       (fillTransmitBuffers quiet_env (queue_on (put_receiver NODE_ID_SHORTEST_SINK (\<lambda>_. 0)) 20 True [Suc 0] (row (Suc 0))))"
proof -
  have l: "\<not> last_receiver (get_receiver (put_receiver NODE_ID_SHORTEST_SINK (\<lambda>_. 0))) (row (Suc 0))"
    by (simp add: last_receiver_def NODE_ID_SHORTEST_SINK_def NODE_ID_HOPS_BASE_def)
  have r: "relays NODE_ID_SHORTEST_SINK (Some 0) (row (Suc 0)) = [Suc 0]"
    by (simp add: relays_def last_receiver_def GetConnectionToShortestSink_def sink_step_def
        NODE_ID_SHORTEST_SINK_def NODE_ID_HOPS_BASE_def)
  from routing_relays [OF l, of quiet_env 0 20 True] show ?thesis by (simp add: r)
qed

end
