(* ===== verification/Logging.thy ===== *)
theory Logging
  imports Commands
begin

text \<open>
  What is printed (\<^verbatim>\<open>src/utility/Logger.cpp\<close>, with the macros of \<^verbatim>\<open>inc/Logger.h\<close>), in a build with
  \<open>ENABLE_LOGGING\<close> and \<open>ENABLE_UART\<close>: whether a message is logged and as what line, and the texts for the codes
  of the SoftDevice. A message is the text the format gives; the result is what is sent over the UART.

  The numbers of the codes are the SDK's; \<open>code\<close> gives the number of a name.
\<close>

section \<open>Log lines\<close>

definition TRACE_BUFFER_SIZE :: nat where "TRACE_BUFFER_SIZE = 500"

text \<open>\<open>EOL\<close> and \<open>SEP\<close>, the end of a line and of an answer\<close>

definition EOL :: string where "EOL = [CHR 0x0D, CHR 0x0A]"

text \<open>\<open>snprintf\<close> to one of the two buffers: what does not fit is cut off.\<close>

definition trace_buffer :: "string \<Rightarrow> string" where
  "trace_buffer s = take (TRACE_BUFFER_SIZE - 1) s"

text \<open>\<open>%d\<close>\<close>

definition signed_decimal :: "int \<Rightarrow> string" where
  "signed_decimal i = (if i < 0 then ''-'' @ decimal (nat (- i)) else decimal (nat i))"

text \<open>\<open>log_f\<close> prints a line with the place it comes from, or the message alone, as the macros \<open>uart\<close> and
  \<open>trace\<close> do, whatever their tag.\<close>

definition log_f :: "bool \<Rightarrow> string \<Rightarrow> i32 \<Rightarrow> string \<Rightarrow> string" where
  "log_f printLine file line message =
     (if printLine then trace_buffer (''['' @ file @ ''@'' @ signed_decimal (sint line) @ '']: '' @ trace_buffer message @ EOL)
      else trace_buffer message)"

abbreviation "uart \<equiv> log_f False [] 0"

datatype LogType = UART_COMMUNICATION | LOG_LINE | LOG_MESSAGE_ONLY

text \<open>The comparison of the tag with \<open>"ERROR"\<close> is one of addresses, so it depends on how the compiler places
  the texts: \<open>error_literal\<close>.\<close>

definition logged :: "bool \<Rightarrow> console \<Rightarrow> LogType \<Rightarrow> string \<Rightarrow> bool" where
  "logged error_literal c logType tag \<longleftrightarrow>
     logType = UART_COMMUNICATION \<or> k_logEverything c \<or> error_literal \<or> tag \<in> set (k_logFilter c)"

definition logTag_f :: "bool \<Rightarrow> console \<Rightarrow> LogType \<Rightarrow> string \<Rightarrow> i32 \<Rightarrow> string \<Rightarrow> string \<Rightarrow> string" where
  "logTag_f error_literal c logType file line tag message =
     (if logged error_literal c logType tag then
        case logType of
          LOG_LINE \<Rightarrow> trace_buffer (''['' @ file @ ''@'' @ signed_decimal (sint line) @ '' '' @ tag @ '']: '' @ trace_buffer message @ EOL)
        | LOG_MESSAGE_ONLY \<Rightarrow> trace_buffer message
        | UART_COMMUNICATION \<Rightarrow> trace_buffer (''<'' @ tag @ ''|'' @ trace_buffer message @ ''>'')
      else [])"

datatype UartErrorType = NO_ERROR | COMMAND_NOT_FOUND | ARGUMENTS_WRONG

text \<open>The macro \<open>uart\<close> has a tag as its first argument, but does not use it. The text for other numbers than those of
  the type is never printed.\<close>

definition uart_error_text :: "nat \<Rightarrow> string \<Rightarrow> string" where
  "uart_error_text code text =
     ''{\"module\":0, \"type\":\"error\", \"code\":'' @ decimal code @ '', \"text\":\"'' @ text @ ''\"}'' @ EOL"

definition uart_error_f :: "UartErrorType \<Rightarrow> string" where
  "uart_error_f type = uart (case type of
       NO_ERROR \<Rightarrow> uart_error_text 0 ''OK''
     | COMMAND_NOT_FOUND \<Rightarrow> uart_error_text 1 ''Command not found''
     | ARGUMENTS_WRONG \<Rightarrow> uart_error_text 2 ''Wrong Arguments'')"

definition printEnabledTags :: "console \<Rightarrow> string" where
  "printEnabledTags c = (if k_logEverything c then log_f False [] 0 (''LOG ALL IS ACTIVE'' @ EOL) else []) @
     concat (map (\<lambda>tag. log_f False [] 0 (tag @ EOL)) (k_logFilter c))"

text \<open>A tag is logged from the time it is enabled until it is disabled, if it is written in upper case.\<close>

lemma tag_logged_when_enabled:
  assumes "map toupper tag = tag" "distinct (k_logFilter c)" "\<not> k_logEverything c" "logType \<noteq> UART_COMMUNICATION"
  shows "logged False (enableTag tag c) logType tag" "\<not> logged False (disableTag tag c) logType tag"
    "logged False (toggleTag tag c) logType tag \<longleftrightarrow> \<not> logged False c logType tag"
  using assms by (auto simp: logged_def enableTag_def disableTag_def toggleTag_def Let_def)

section \<open>Texts for codes\<close>

text \<open>The labels of a switch are different, so the first that matches is the one that does.\<close>

definition text_for :: "(string \<Rightarrow> 'a) \<Rightarrow> (string \<times> string) list \<Rightarrow> string \<Rightarrow> 'a \<Rightarrow> string" where
  "text_for code table other c = (case find (\<lambda>l. code (fst l) = c) table of None \<Rightarrow> other | Some l \<Rightarrow> snd l)"

lemma text_for_code:
  assumes "(name, text) \<in> set table" "inj_on code (fst ` set table)" "distinct (map fst table)"
  shows "text_for code table other (code name) = text"
proof -
  obtain l where l: "find (\<lambda>l. code (fst l) = code name) table = Some l"
    using assms(1) by (cases "find (\<lambda>l. code (fst l) = code name) table") (auto simp: find_None_iff)
  then have "l \<in> set table" "code (fst l) = code name" by (auto simp: find_Some_iff)
  then have "fst l = name" using assms(1,2) by (metis fst_conv imageI inj_onD)
  then show ?thesis using l \<open>l \<in> set table\<close> assms(1,3) by (cases l) (auto simp: text_for_def dest: eq_key_imp_eq_value)
qed

definition nrf_errors :: "string list" where
  "nrf_errors = [
     ''NRF_SUCCESS'', ''NRF_ERROR_SVC_HANDLER_MISSING'', ''NRF_ERROR_SOFTDEVICE_NOT_ENABLED'',
     ''NRF_ERROR_INTERNAL'', ''NRF_ERROR_NO_MEM'', ''NRF_ERROR_NOT_FOUND'', ''NRF_ERROR_NOT_SUPPORTED'',
     ''NRF_ERROR_INVALID_PARAM'', ''NRF_ERROR_INVALID_STATE'', ''NRF_ERROR_INVALID_LENGTH'',
     ''NRF_ERROR_INVALID_FLAGS'', ''NRF_ERROR_INVALID_DATA'', ''NRF_ERROR_DATA_SIZE'', ''NRF_ERROR_TIMEOUT'',
     ''NRF_ERROR_NULL'', ''NRF_ERROR_FORBIDDEN'', ''NRF_ERROR_INVALID_ADDR'', ''NRF_ERROR_BUSY'',
     ''BLE_ERROR_INVALID_CONN_HANDLE'', ''BLE_ERROR_INVALID_ATTR_HANDLE'', ''BLE_ERROR_NO_TX_BUFFERS'']"

definition ble_events :: "string list" where
  "ble_events = [
     ''BLE_EVT_TX_COMPLETE'', ''BLE_EVT_USER_MEM_REQUEST'', ''BLE_EVT_USER_MEM_RELEASE'',
     ''BLE_GAP_EVT_CONNECTED'', ''BLE_GAP_EVT_DISCONNECTED'', ''BLE_GAP_EVT_CONN_PARAM_UPDATE'',
     ''BLE_GAP_EVT_SEC_PARAMS_REQUEST'', ''BLE_GAP_EVT_SEC_INFO_REQUEST'', ''BLE_GAP_EVT_PASSKEY_DISPLAY'',
     ''BLE_GAP_EVT_AUTH_KEY_REQUEST'', ''BLE_GAP_EVT_AUTH_STATUS'', ''BLE_GAP_EVT_CONN_SEC_UPDATE'',
     ''BLE_GAP_EVT_TIMEOUT'', ''BLE_GAP_EVT_RSSI_CHANGED'', ''BLE_GAP_EVT_ADV_REPORT'',
     ''BLE_GAP_EVT_SEC_REQUEST'', ''BLE_GAP_EVT_CONN_PARAM_UPDATE_REQUEST'',
     ''BLE_GATTC_EVT_PRIM_SRVC_DISC_RSP'', ''BLE_GATTC_EVT_REL_DISC_RSP'', ''BLE_GATTC_EVT_CHAR_DISC_RSP'',
     ''BLE_GATTC_EVT_DESC_DISC_RSP'', ''BLE_GATTC_EVT_CHAR_VAL_BY_UUID_READ_RSP'', ''BLE_GATTC_EVT_READ_RSP'',
     ''BLE_GATTC_EVT_CHAR_VALS_READ_RSP'', ''BLE_GATTC_EVT_WRITE_RSP'', ''BLE_GATTC_EVT_HVX'',
     ''BLE_GATTC_EVT_TIMEOUT'', ''BLE_GATTS_EVT_WRITE'', ''BLE_GATTS_EVT_RW_AUTHORIZE_REQUEST'',
     ''BLE_GATTS_EVT_SYS_ATTR_MISSING'', ''BLE_GATTS_EVT_HVC'', ''BLE_GATTS_EVT_SC_CONFIRM'',
     ''BLE_GATTS_EVT_TIMEOUT'']"

definition hci_errors :: "(string \<times> string) list" where
  "hci_errors = [
     (''BLE_HCI_STATUS_CODE_SUCCESS'', ''Success''),
     (''BLE_HCI_STATUS_CODE_UNKNOWN_BTLE_COMMAND'', ''Unknown BLE Command''),
     (''BLE_HCI_STATUS_CODE_UNKNOWN_CONNECTION_IDENTIFIER'', ''Unknown Connection Identifier''),
     (''BLE_HCI_AUTHENTICATION_FAILURE'', ''Authentication Failure''),
     (''BLE_HCI_CONN_FAILED_TO_BE_ESTABLISHED'', ''Connection Failed to be Established''),
     (''BLE_HCI_CONN_INTERVAL_UNACCEPTABLE'', ''Connection Interval Unacceptable''),
     (''BLE_HCI_CONN_TERMINATED_DUE_TO_MIC_FAILURE'', ''Connection Terminated due to MIC Failure''),
     (''BLE_HCI_CONNECTION_TIMEOUT'', ''Connection Timeout''),
     (''BLE_HCI_CONTROLLER_BUSY'', ''Controller Busy''),
     (''BLE_HCI_DIFFERENT_TRANSACTION_COLLISION'', ''Different Transaction Collision''),
     (''BLE_HCI_DIRECTED_ADVERTISER_TIMEOUT'', ''Directed Adverisement Timeout''),
     (''BLE_HCI_INSTANT_PASSED'', ''Instant Passed''),
     (''BLE_HCI_LOCAL_HOST_TERMINATED_CONNECTION'', ''Local Host Terminated Connection''),
     (''BLE_HCI_MEMORY_CAPACITY_EXCEEDED'', ''Memory Capacity Exceeded''),
     (''BLE_HCI_PAIRING_WITH_UNIT_KEY_UNSUPPORTED'', ''Pairing with Unit Key Unsupported''),
     (''BLE_HCI_REMOTE_DEV_TERMINATION_DUE_TO_LOW_RESOURCES'',
        ''Remote Device Terminated Connection due to low resources''),
     (''BLE_HCI_REMOTE_DEV_TERMINATION_DUE_TO_POWER_OFF'',
        ''Remote Device Terminated Connection due to power off''),
     (''BLE_HCI_REMOTE_USER_TERMINATED_CONNECTION'', ''Remote User Terminated Connection''),
     (''BLE_HCI_STATUS_CODE_COMMAND_DISALLOWED'', ''Command Disallowed''),
     (''BLE_HCI_STATUS_CODE_INVALID_BTLE_COMMAND_PARAMETERS'', ''Invalid BLE Command Parameters''),
     (''BLE_HCI_STATUS_CODE_INVALID_LMP_PARAMETERS'', ''Invalid LMP Parameters''),
     (''BLE_HCI_STATUS_CODE_LMP_PDU_NOT_ALLOWED'', ''LMP PDU Not Allowed''),
     (''BLE_HCI_STATUS_CODE_LMP_RESPONSE_TIMEOUT'', ''LMP Response Timeout''),
     (''BLE_HCI_STATUS_CODE_PIN_OR_KEY_MISSING'', ''Pin or Key missing''),
     (''BLE_HCI_STATUS_CODE_UNSPECIFIED_ERROR'', ''Unspecified Error''),
     (''BLE_HCI_UNSUPPORTED_REMOTE_FEATURE'', ''Unsupported Remote Feature'')]"

definition gatt_status :: "(string \<times> string) list" where
  "gatt_status = [
     (''BLE_GATT_STATUS_SUCCESS'', ''Success''),
     (''BLE_GATT_STATUS_UNKNOWN'', ''Unknown or not applicable status''),
     (''BLE_GATT_STATUS_ATTERR_INVALID'', ''ATT Error: Invalid Error Code''),
     (''BLE_GATT_STATUS_ATTERR_INVALID_HANDLE'', ''ATT Error: Invalid Attribute Handle''),
     (''BLE_GATT_STATUS_ATTERR_READ_NOT_PERMITTED'', ''ATT Error: Read not permitted''),
     (''BLE_GATT_STATUS_ATTERR_WRITE_NOT_PERMITTED'', ''ATT Error: Write not permitted''),
     (''BLE_GATT_STATUS_ATTERR_INVALID_PDU'', ''ATT Error: Used in ATT as Invalid PDU''),
     (''BLE_GATT_STATUS_ATTERR_INSUF_AUTHENTICATION'', ''ATT Error: Authenticated link required''),
     (''BLE_GATT_STATUS_ATTERR_REQUEST_NOT_SUPPORTED'',
        ''ATT Error: Used in ATT as Request Not Supported''),
     (''BLE_GATT_STATUS_ATTERR_INVALID_OFFSET'',
        ''ATT Error: Offset specified was past the end of the attribute''),
     (''BLE_GATT_STATUS_ATTERR_INSUF_AUTHORIZATION'',
        ''ATT Error: Used in ATT as Insufficient Authorisation''),
     (''BLE_GATT_STATUS_ATTERR_PREPARE_QUEUE_FULL'', ''ATT Error: Used in ATT as Prepare Queue Full''),
     (''BLE_GATT_STATUS_ATTERR_ATTRIBUTE_NOT_FOUND'', ''ATT Error: Used in ATT as Attribute not found''),
     (''BLE_GATT_STATUS_ATTERR_ATTRIBUTE_NOT_LONG'',
        ''ATT Error: Attribute cannot be read or written using read/write blob requests''),
     (''BLE_GATT_STATUS_ATTERR_INSUF_ENC_KEY_SIZE'',
        ''ATT Error: Encryption key size used is insufficient''),
     (''BLE_GATT_STATUS_ATTERR_INVALID_ATT_VAL_LENGTH'', ''ATT Error: Invalid value size''),
     (''BLE_GATT_STATUS_ATTERR_UNLIKELY_ERROR'', ''ATT Error: Very unlikely error''),
     (''BLE_GATT_STATUS_ATTERR_INSUF_ENCRYPTION'', ''ATT Error: Encrypted link required''),
     (''BLE_GATT_STATUS_ATTERR_UNSUPPORTED_GROUP_TYPE'',
        ''ATT Error: Attribute type is not a supported grouping attribute''),
     (''BLE_GATT_STATUS_ATTERR_INSUF_RESOURCES'', ''ATT Error: Encrypted link required''),
     (''BLE_GATT_STATUS_ATTERR_RFU_RANGE1_BEGIN'', ''ATT Error: Reserved for Future Use range #1 begin''),
     (''BLE_GATT_STATUS_ATTERR_RFU_RANGE1_END'', ''ATT Error: Reserved for Future Use range #1 end''),
     (''BLE_GATT_STATUS_ATTERR_APP_BEGIN'', ''ATT Error: Application range begin''),
     (''BLE_GATT_STATUS_ATTERR_APP_END'', ''ATT Error: Application range end''),
     (''BLE_GATT_STATUS_ATTERR_RFU_RANGE2_BEGIN'', ''ATT Error: Reserved for Future Use range #2 begin''),
     (''BLE_GATT_STATUS_ATTERR_RFU_RANGE2_END'', ''ATT Error: Reserved for Future Use range #2 end''),
     (''BLE_GATT_STATUS_ATTERR_RFU_RANGE3_BEGIN'', ''ATT Error: Reserved for Future Use range #3 begin''),
     (''BLE_GATT_STATUS_ATTERR_RFU_RANGE3_END'', ''ATT Error: Reserved for Future Use range #3 end''),
     (''BLE_GATT_STATUS_ATTERR_CPS_CCCD_CONFIG_ERROR'',
        ''ATT Common Profile and Service Error: Client Characteristic Configuration Descriptor improperly configured''),
     (''BLE_GATT_STATUS_ATTERR_CPS_PROC_ALR_IN_PROG'',
        ''ATT Common Profile and Service Error: Procedure Already in Progress''),
     (''BLE_GATT_STATUS_ATTERR_CPS_OUT_OF_RANGE'', ''ATT Common Profile and Service Error: Out Of Range'')]"

definition pstorage_operations :: "(string \<times> string) list" where
  "pstorage_operations = [
     (''PSTORAGE_CLEAR_OP_CODE'', ''Error when Clear Operation was requested''),
     (''PSTORAGE_LOAD_OP_CODE'', ''Error when Load Operation was requested''),
     (''PSTORAGE_STORE_OP_CODE'', ''Error when Store Operation was requested''),
     (''PSTORAGE_UPDATE_OP_CODE'', ''Update an already touched storage block'')]"


definition getNrfErrorString :: "(string \<Rightarrow> u32) \<Rightarrow> u32 \<Rightarrow> string" where
  "getNrfErrorString code nrfErrorCode = text_for (\<lambda>n. if n = ''DEADBEEF'' then 0xDEADBEEF else code n)
     (map (\<lambda>n. (n, n)) nrf_errors @ [(''DEADBEEF'', ''DEADBEEF'')]) ''UNKNOWN_ERROR'' nrfErrorCode"

definition getBleEventNameString :: "(string \<Rightarrow> u16) \<Rightarrow> u16 \<Rightarrow> string" where
  "getBleEventNameString code bleEventId =
     text_for code (map (\<lambda>n. (n, n)) ble_events) ''Unknown Error'' bleEventId"

definition getHciErrorString :: "(string \<Rightarrow> u8) \<Rightarrow> u8 \<Rightarrow> string" where
  "getHciErrorString code hciErrorCode = text_for code hci_errors ''Unknown HCI error'' hciErrorCode"

definition getGattStatusErrorString :: "(string \<Rightarrow> u16) \<Rightarrow> u16 \<Rightarrow> string" where
  "getGattStatusErrorString code gattStatusCode = text_for code gatt_status ''Unknown GATT status'' gattStatusCode"

definition getPstorageStatusErrorString :: "(string \<Rightarrow> u16) \<Rightarrow> u16 \<Rightarrow> string" where
  "getPstorageStatusErrorString code operationCode =
     text_for code pstorage_operations ''Unknown operation code'' operationCode"

text \<open>The name of an event is its text, if the SDK gives different numbers to different events.\<close>

lemma event_name:
  assumes "name \<in> set ble_events" "inj_on code (set ble_events)"
  shows "getBleEventNameString code (code name) = name"
proof -
  have "fst ` set (map (\<lambda>n. (n, n)) ble_events) = set ble_events" by force
  moreover have "distinct ble_events" by (simp add: ble_events_def)
  ultimately show ?thesis
    unfolding getBleEventNameString_def using assms
    by (intro text_for_code) (auto simp: comp_def)
qed

text \<open>Two states of the attribute protocol have the same text.\<close>

lemma insufficient_resources_text:
  assumes "inj_on code (fst ` set gatt_status)"
  shows "getGattStatusErrorString code (code ''BLE_GATT_STATUS_ATTERR_INSUF_RESOURCES'') =
    getGattStatusErrorString code (code ''BLE_GATT_STATUS_ATTERR_INSUF_ENCRYPTION'')"
proof -
  have d: "distinct (map fst gatt_status)" by (simp add: gatt_status_def)
  have "(''BLE_GATT_STATUS_ATTERR_INSUF_RESOURCES'', ''ATT Error: Encrypted link required'') \<in> set gatt_status"
    "(''BLE_GATT_STATUS_ATTERR_INSUF_ENCRYPTION'', ''ATT Error: Encrypted link required'') \<in> set gatt_status"
    by (simp_all add: gatt_status_def)
  from this [THEN text_for_code [OF _ assms d]] show ?thesis by (simp add: getGattStatusErrorString_def)
qed

end
