(* ===== verification/Reports.thy ===== *)
theory Reports
  imports Logging CommandProps
begin

text \<open>
  What a node prints: the answers and reports of other nodes it receives (\<open>messageReceivedCallback\<close> in
  \<^verbatim>\<open>src/mesh/Node.cpp\<close> and \<open>ConnectionPacketReceivedEventHandler\<close> in \<^verbatim>\<open>src/modules/*.cpp\<close>), and what it tells
  about itself on a command. Offsets in a packet count from its header; the data of a module begin at 11.
\<close>

section \<open>Formats\<close>

text \<open>\<open>%u\<close> of an unsigned and \<open>%d\<close> of a signed number, \<open>%x\<close>, and \<open>%s\<close> of bytes that end with a zero.\<close>

definition u_text :: "'a::len word \<Rightarrow> string" where "u_text x = decimal (unat x)"

definition d_text :: "'a::len word \<Rightarrow> string" where "d_text x = signed_decimal (sint x)"

definition lower_digit :: "nat \<Rightarrow> char" where "lower_digit d = ''0123456789abcdef'' ! d"

fun hexadecimal :: "nat \<Rightarrow> string" where
  "hexadecimal n = (if n < 16 then [lower_digit n] else hexadecimal (n div 16) @ [lower_digit (n mod 16)])"

declare hexadecimal.simps [simp del]

definition s_text :: "u8 list \<Rightarrow> string" where "s_text bs = text_of (takeWhile (\<lambda>b. b \<noteq> 0) bs)"

definition listed :: "string \<Rightarrow> string list \<Rightarrow> string" where
  "listed separator ss = concat (map (\<lambda>i. (if i = 0 then [] else separator) @ ss ! i) [0..<length ss])"

definition bool_text :: "bool \<Rightarrow> string" where "bool_text b = u_text (bool_to_u8 b)"

section \<open>Reports of the StatusReporterModule\<close>

definition connections_report :: "u16 \<Rightarrow> mem \<Rightarrow> string" where
  "connections_report moduleId d =
     uart (''{\"type\":\"connections\",\"nodeId\":'' @ u_text (get_sender d) @ '',\"module\":'' @ u_text moduleId @
       '',\"partners\":['' @ listed '','' (map (\<lambda>i. u_text (get16 (11 + 2 * i) d)) [0, 1, 2, 3]) @
       ''],\"rssiValues\":['' @ listed '','' (map (\<lambda>i. d_text (d (19 + i))) [0, 1, 2, 3]) @ '']}'' @ EOL)"

definition device_info_report :: "u16 \<Rightarrow> mem \<Rightarrow> string" where
  "device_info_report moduleId d =
     uart (''{\"nodeId\":'' @ u_text (get_sender d) @ '',\"type\":\"device_info\",\"module\":'' @ u_text moduleId @ '','') @
     uart (''\"dBmRX\":'' @ u_text (d 39) @ '',\"dBmTX\":'' @ u_text (d 40) @ '','') @
     uart (''\"deviceType\":'' @ u_text (d 41) @ '',\"manufacturerId\":'' @ u_text (get16 11 d) @ '','') @
     uart (''\"networkId\":'' @ u_text (get16 33 d) @ '',\"nodeVersion\":'' @ u_text (get32 35 d) @ '','') @
     uart (''\"chipId\":\"'' @ listed '':'' (map hex_byte (bytes_at d 18 8)) @ ''\",'') @
     uart (''\"serialNumber\":\"'' @ s_text (bytes_at d 13 SERIAL_NUMBER_LENGTH) @ ''\",\"accessAddress\":\"'' @
       listed '':'' (map hex_byte (rev (bytes_at d 27 6))) @ ''\"'') @
     uart (''}'' @ EOL)"

definition status_report :: "u16 \<Rightarrow> mem \<Rightarrow> string" where
  "status_report moduleId d =
     uart (''{\"nodeId\":'' @ u_text (get_sender d) @ '',\"type\":\"status\",\"module\":'' @ u_text moduleId @ '','') @
     uart (''\"batteryInfo\":'' @ u_text (d 17) @ '',\"clusterSize\":'' @ u_text (scast (get16 11 d) :: u32) @ '','') @
     uart (''\"connectionLossCounter\":'' @ u_text (d 18) @ '',\"freeIn\":'' @ u_text (d 16 AND 3) @ '','') @
     uart (''\"freeOut\":'' @ u_text (drop_bit 2 (d 16)) @ '',\"inConnectionPartner\":'' @ u_text (get16 13 d) @ '','') @
     uart (''\"inConnectionRSSI\":'' @ d_text (d 15)) @
     uart (''}'' @ EOL)"

text \<open>How many entries of \<open>k\<close> bytes follow the header, computed as a signed number and kept in 16 bits.\<close>

definition entries :: "u16 \<Rightarrow> int \<Rightarrow> nat" where
  "entries dataLength k = (let n = int (unat dataLength) - int SIZEOF_CONN_PACKET_MODULE
     in unat (of_int (if n < 0 then - (- n div k) else n div k) :: u16))"

definition nearby_nodes_report :: "u16 \<Rightarrow> mem \<Rightarrow> u16 \<Rightarrow> string" where
  "nearby_nodes_report moduleId d dataLength =
     uart (''{\"nodeId\":'' @ u_text (get_sender d) @ '',\"type\":\"nearby_nodes\",\"module\":'' @ u_text moduleId @ '',\"nodes\":['') @
     listed (uart '','') (map (\<lambda>i. uart (''{\"nodeId\":'' @ u_text (get16 (module_data + i * 3) d) @ '',\"rssi\":'' @
         d_text (d (module_data + i * 3 + 2)) @ ''}''))
       [0..<entries dataLength 3]) @
     uart ('']}'' @ EOL)"

definition Status_prints :: "Module \<Rightarrow> mem \<Rightarrow> u16 \<Rightarrow> string" where
  "Status_prints m data dataLength =
     (if responds m data ALL_CONNECTIONS then connections_report (m_moduleId m) data
      else if responds m data DEVICE_INFO then device_info_report (m_moduleId m) data
      else if responds m data STATUS then status_report (m_moduleId m) data
      else if responds m data NEARBY_NODES then nearby_nodes_report (m_moduleId m) data dataLength
      else [])"

section \<open>Reports of the other modules\<close>

definition result_report :: "string \<Rightarrow> mem \<Rightarrow> u8 \<Rightarrow> string" where
  "result_report type d code =
     uart (''{\"nodeId\":'' @ u_text (get_sender d) @ '',\"type\":\"'' @ type @ ''\",\"module\":'' @
       u_text (mp_moduleId (read_module d)) @ '','') @
     uart (''\"requestHandle\":'' @ u_text (mp_requestHandle (read_module d)) @ '',\"code\":'' @ u_text code @ ''}'' @ EOL)"

definition config_error :: "Module \<Rightarrow> mem \<Rightarrow> string" where
  "config_error m data =
     (if data (module_data + 2) \<noteq> m_configuration m 2
      then uart (''{\"type\":\"error\",\"module\":'' @ u_text (m_moduleId m) @ '',\"code\":1,\"text\":\"wrong config version.\"}'' @ EOL)
      else uart (''{\"type\":\"error\",\"module\":'' @ u_text (m_moduleId m) @ '',\"code\":2,\"text\":\"wrong configuration length. \"}'' @ EOL))"

text \<open>The base class. A configuration that is empty leaves the text to be printed as it was, so it has no value
  then.\<close>

definition Module_prints :: "Module \<Rightarrow> mem \<Rightarrow> u16 \<Rightarrow> string option" where
  "Module_prints m data dataLength =
     (let actionType = mp_actionType (read_module data); n = unat (dataLength - of_nat SIZEOF_CONN_PACKET_MODULE)
      in if get_messageType data = MESSAGE_TYPE_MODULE_CONFIG \<and> mp_moduleId (read_module data) = m_moduleId m then
           if actionType = SET_CONFIG then Some (if accepts_config m data dataLength then [] else config_error m data)
           else if actionType = SET_CONFIG_RESULT then Some (result_report ''set_config_result'' data (data module_data))
           else if actionType = SET_ACTIVE_RESULT then Some (result_report ''set_active_result'' data (data module_data))
           else if actionType = CONFIG then
             (if n = 0 then None
              else Some (uart (''{\"nodeId\":'' @ u_text (get_sender data) @ '',\"type\":\"config\",\"module\":'' @
                u_text (m_moduleId m) @ '',\"config\":\"'' @ convertBufferToHexString (bytes_at data module_data n) @ ''\"}'' @ EOL)))
           else Some []
         else Some [])"

definition enrollmentMethodString :: "u8 \<Rightarrow> string" where
  "enrollmentMethodString method =
     (if method = 0 then ''node_id'' else if method = 1 then ''chip_id'' else if method = 2 then ''serial'' else [])"

definition Enrollment_prints :: "Module \<Rightarrow> mem \<Rightarrow> string" where
  "Enrollment_prints m data =
     (if responds m data ENROLLMENT_SUCCESSFUL then
        uart (''{\"type\":\"enroll_response\",\"module\":'' @ u_text (m_moduleId m) @ '',\"method\":\"'' @
          enrollmentMethodString (data module_data) @ ''\",'') @
        uart (''\"requestId\":'' @ u_text (mp_requestHandle (read_module data)) @ '',\"newNodeId\":'' @ u_text (get_sender data) @
          '',\"serial\":\"'' @ s_text (bytes_at data (module_data + 2) SERIAL_NUMBER_LENGTH) @ ''\"}'' @ EOL)
      else [])"

definition Scanning_prints :: "Module \<Rightarrow> mem \<Rightarrow> string" where
  "Scanning_prints m data =
     (if triggers m data TOTAL_SCANNED_PACKETS then
        uart (''{\"module\":'' @ u_text (m_moduleId m) @ '', \"type\":\"general\", \"msgType\":\"totalpackets\", \"sender\":'' @
          u_text (get_sender data) @ '', \"messageSum\":'' @ u_text (get32 module_data data) @ '', \"rssiSum\":'' @
          d_text (get32 (module_data + 4) data) @ ''}'' @ EOL)
      else [])"

definition Io_prints :: "Module \<Rightarrow> mem \<Rightarrow> string" where
  "Io_prints m data =
     (if responds m data 0 then result_report ''set_pin_config_result'' data 0
      else if responds m data 3 then result_report ''set_led_result'' data 0
      else [])"

section \<open>Reports the node prints itself\<close>

definition hex_of :: "u8 list \<Rightarrow> string" where "hex_of bs = listed '':'' (map (\<lambda>b. hexadecimal (unat b)) bs)"

definition adv_info_report :: "mem \<Rightarrow> string" where
  "adv_info_report d =
     uart (''{\"sender\":\"'' @ u_text (get_sender d) @ ''\",\"addr\":\"'' @ hex_of (bytes_at d 7 6) @ ''\",\"count\":'' @
       u_text (d 15) @ '',\"rssiSum\":'' @ u_text (get16 13 d) @ ''}'' @ EOL)"

definition module_list_report :: "mem \<Rightarrow> u16 \<Rightarrow> string" where
  "module_list_report d dataLength =
     (let at = (\<lambda>i. module_data + i * 4)
      in uart (''{\"nodeId\":'' @ u_text (get_sender d) @ '',\"type\":\"module_list\",\"modules\":['') @
         listed (uart '','') (map (\<lambda>i. uart (''{\"id\":'' @ u_text (get16 (at i) d) @ '',\"version\":'' @ u_text (d (at i + 2)) @
             '',\"active\":'' @ u_text (d (at i + 3)) @ ''}''))
           (filter (\<lambda>i. get16 (at i) d \<noteq> 0) [0..<entries dataLength 4])) @
         uart ('']}'' @ EOL))"

definition Node_prints :: "mem \<Rightarrow> u16 \<Rightarrow> string" where
  "Node_prints data dataLength =
     (if get_messageType data = MESSAGE_TYPE_ADVINFO \<and> unat dataLength = SIZEOF_CONN_PACKET_ADV_INFO
      then adv_info_report data else []) @
     (if get_messageType data = MESSAGE_TYPE_MODULE_CONFIG \<and> mp_actionType (read_module data) = MODULE_LIST
      then module_list_report data dataLength else [])"

section \<open>What a node tells about itself\<close>

definition connection_status :: "Connection \<Rightarrow> string" where
  "connection_status c =
     uart ((if c_direction c = CONNECTION_DIRECTION_IN then ''< IN '' else ''> OUT'') @ '' '' @ u_text (c_partnerId c) @
       '', handshake:'' @ bool_text (c_handshakeDone c) @ '', clusterId:'' @ hexadecimal (unat (c_connectedClusterId c)) @
       '', clusterSize:'' @ u_text (scast (c_connectedClusterSize c) :: u32) @ '', toSink:'' @ d_text (c_hopsToSink c) @
       '', Queue:'' @ decimal (pq_readPointer (c_packetSendQueue c)) @ ''-'' @ decimal (pq_writePointer (c_packetSendQueue c)) @
       ''('' @ u_text (pq_numElements (c_packetSendQueue c)) @ ''), relBuf:'' @ u_text (c_reliableBuffersFree c) @
       '', unrelBuf:'' @ u_text (c_unreliableBuffersFree c) @ EOL)"

definition PrintStatus :: "env \<Rightarrow> world \<Rightarrow> string" where
  "PrintStatus E w =
     (let n = w_node w; c = pconf w; m = w_cm w
      in uart (''**************'' @ EOL) @
         uart (''This is Node '' @ u_text (pc_nodeId c) @ '' in clusterId:'' @ hexadecimal (unat (n_clusterId n)) @
           '' with clusterSize:'' @ d_text (n_clusterSize n) @ '', networkId:'' @ u_text (pc_networkId c) @ EOL) @
         uart (''Ack Field:'' @ u_text (n_ackFieldDebugCopy n) @ '', ChipIdA:'' @ u_text (fst (e_chipId E)) @ '', ChipIdB:'' @
           u_text (snd (e_chipId E)) @ '', ConnectionLossCounter:'' @ u_text (pc_connectionLossCounter c) @ '', nodeType:'' @
           u_text (device_type_byte (pc_deviceType c)) @ EOL) @
         (if n_isGatewayDevice n
          then uart ([CHR 0x0A] @ ''This is a GATEWAY device.'' @ [CHR 0x0A] @ ''========================='' @ [CHR 0x0A] @ EOL)
          else uart ([CHR 0x0A] @ ''This is not a gateway device.'' @ [CHR 0x0A] @ EOL)) @
         uart (''GAP Addr is '' @ listed '':'' (map hex_byte (rev (addr (e_address E (w_trace w))))) @ '', serial:'' @
           s_text (pc_serialNumber c) @ EOL @ EOL) @
         uart (''CONNECTIONS (freeIn:'' @ u_text (cm_freeInConnections m) @ '', freeOut:'' @ u_text (cm_freeOutConnections m) @
           '', pendingPackets:'' @ u_text (cm_pendingPackets m) @ EOL) @
         concat (map (\<lambda>i. connection_status (conns w i)) [0..<1 + unat (meshMaxOutConnections Config)]))"

text \<open>\<open>adv_ind\<close> and \<open>nonconn_ind\<close> are the SDK's numbers for these types of advertising.\<close>

definition PrintBufferStatus :: "u8 \<Rightarrow> u8 \<Rightarrow> world \<Rightarrow> string" where
  "PrintBufferStatus adv_ind nonconn_ind w =
     uart (''JOIN_ME Buffer:'' @ EOL) @
     concat (map (\<lambda>b. let p = jb_payload b
       in uart (''=> '' @ u_text (jm_sender p) @ '', clusterId:'' @ hexadecimal (unat (jm_clusterId p)) @ '', clusterSize:'' @
            d_text (jm_clusterSize p) @ '', freeIn:'' @ u_text (jm_freeInConnections p) @ '', freeOut:'' @
            u_text (jm_freeOutConnections p) @ '', writeHandle:'' @ u_text (jm_meshWriteHandle p) @ '', ack:'' @
            u_text (jm_ackField p) @ '', rssi:'' @ d_text (jb_rssi b)) @
          uart ((if jb_connectable b = adv_ind then '' ADV_IND'' else if jb_connectable b = nonconn_ind then '' NON_CONN''
            else '' OTHER'') @ EOL)) (joinMe_packets w)) @
     uart (''**************'' @ EOL)"

definition PrintSingleLineStatus :: "world \<Rightarrow> string" where
  "PrintSingleLineStatus w =
     uart (''NodeId: '' @ u_text (nodeId w) @ '', clusterId:'' @ hexadecimal (unat (n_clusterId (w_node w))) @ '', clusterSize:'' @
       d_text (n_clusterSize (w_node w)) @ '' ('' @
       listed '', '' (map (\<lambda>i. u_text (c_partnerId (conns w i)) @ '':'' @ d_text (c_connectedClusterSize (conns w i))) [0, 1, 2, 3]) @
       '')'' @ EOL)"

definition PrintRetryStorage :: "bool \<Rightarrow> console \<Rightarrow> world \<Rightarrow> string" where
  "PrintRetryStorage error_literal c w =
     concat (map (\<lambda>i. logTag_f error_literal c LOG_LINE ''Node.cpp'' 894 ''RETRY''
         (''Vote: '' @ u_text (pc_retryStorage (pconf w) ! i) @ '' Time: '' @ d_text (pc_timeStorage (pconf w) ! i) @ '' '' @ [CHR 0x0A]))
       [0..<MAX_RETRY_STORAGE_SIZE])"

text \<open>\<open>used\<close> is what the library reports as used.\<close>

definition CheckFreeHeap :: "u32 \<Rightarrow> string" where
  "CheckFreeHeap used = uart (''{\"heap\":'' @ u_text used @ ''}'' @ EOL)"

definition plugged_in :: "world \<Rightarrow> string" where
  "plugged_in w = uart (''{\"type\":\"plugged_in\",\"nodeId\":'' @ u_text (nodeId w) @ '',\"serialNumber\":\"'' @
     s_text (pc_serialNumber (pconf w)) @ ''\"}'' @ EOL)"

text \<open>What a command of the node prints.\<close>

definition Node_command_prints :: "u8 \<Rightarrow> u8 \<Rightarrow> u32 \<Rightarrow> env \<Rightarrow> string \<Rightarrow> string list \<Rightarrow> world \<Rightarrow> string" where
  "Node_command_prints adv_ind nonconn_ind heap E name args w =
     (if name = ''status'' then PrintStatus E w
      else if name = ''bufferstat'' then PrintBufferStatus adv_ind nonconn_ind w
      else if name = ''stat'' then PrintSingleLineStatus w
      else if name = ''heap'' then CheckFreeHeap heap
      else if name = ''get_plugged_in'' then plugged_in w
      else if name = ''uart_scan_response'' then
        uart_error_f (if args = [] \<or> args ! 0 = [] \<or> length (args ! 0) > 20 then ARGUMENTS_WRONG else NO_ERROR)
      else [])"

section \<open>The terminal\<close>

text \<open>When it starts, and after a line; \<open>date\<close> and \<open>time\<close> are those of the compilation.\<close>

definition clear_screen :: string where
  "clear_screen = CHR 0x1B # ''[2J'' @ CHR 0x1B # ''[H''"

definition Terminal_Init :: "string \<Rightarrow> string \<Rightarrow> string \<Rightarrow> bool \<Rightarrow> string" where
  "Terminal_Init chip date time promptAndEchoMode =
     (if promptAndEchoMode then
        let line = replicate 50 (CHR ''-''); (major, minor, patch) = GetVersionStringFromInt (firmwareVersion Config)
        in clear_screen @ line @ EOL @ ''Terminal started, compile date: '' @ date @ ''  '' @ time @ '', version: '' @
           u_text major @ ''.'' @ u_text minor @ ''.'' @ u_text patch @ '', '' @ chip @ EOL @ line @ EOL
      else [])"

definition outcome_prints :: "bool \<Rightarrow> string \<Rightarrow> outcome \<Rightarrow> string" where
  "outcome_prints promptAndEchoMode line r =
     (case r of
        Cleared \<Rightarrow> clear_screen
      | Handled \<Rightarrow> []
      | Not_found \<Rightarrow> (if promptAndEchoMode then ''Command not found'' @ EOL else uart_error_f COMMAND_NOT_FOUND) @
          uart (''{\"user_input\":\"'' @ line @ ''\"}'' @ EOL))"

section \<open>A status that was asked for\<close>

lemma uart_short: "length s < TRACE_BUFFER_SIZE \<Longrightarrow> uart s = s"
  by (simp add: log_f_def trace_buffer_def)

lemma length_u_text: "LENGTH('a::len) \<le> 32 \<Longrightarrow> length (u_text (x :: 'a word)) \<le> 10"
proof -
  assume "LENGTH('a) \<le> 32"
  then have "(2 :: nat) ^ LENGTH('a) \<le> 2 ^ 32" by (rule power_increasing) simp
  with unat_bound [of x] have "unat x < 2 ^ 32" by (rule order.strict_trans2)
  then have "unat x < 10 ^ 10" by simp
  then show ?thesis unfolding u_text_def by (subst decimal_length) simp_all
qed

lemma length_d_text: "LENGTH('a::len) \<le> 32 \<Longrightarrow> length (d_text (x :: 'a word)) \<le> 11"
proof -
  assume "LENGTH('a) \<le> 32"
  then have "(2 :: int) ^ (LENGTH('a) - 1) \<le> 2 ^ 31" by (intro power_increasing) simp_all
  then have "- (2 ^ 31) \<le> sint x" "sint x < 2 ^ 31" using sint_ge [of x] sint_lt [of x] by linarith+
  then have "nat (- sint x) < 10 ^ 10 \<and> nat (sint x) < 10 ^ 10" by simp linarith
  then have "length (decimal (nat (- sint x))) \<le> 10" "length (decimal (nat (sint x))) \<le> 10" by (simp_all only: decimal_length)
  then show ?thesis by (simp add: d_text_def signed_decimal_def)
qed

lemma lengths:
  "length (u_text (a :: u8)) \<le> 10" "length (u_text (b :: u16)) \<le> 10" "length (u_text (c :: u32)) \<le> 10" "length (d_text (e :: i8)) \<le> 11"
  by (rule length_u_text length_d_text; simp)+

lemma u_text_zero: "u_text 0 = ''0''"
  by (simp add: u_text_def decimal.simps char_of_eq_iff)

lemma packed_bits:
  fixes a b :: u8
  assumes "a < 4" "b < 64"
  shows "((a AND 3) OR push_bit 2 b) AND 3 = a" "drop_bit 2 ((a AND 3) OR push_bit 2 b) = b"
proof -
  have a: "a AND mask 2 = a" and b: "b AND mask 6 = b" using assms by (simp_all add: less_mask_eq)
  have m: "3 = (mask 2 :: u8)" by (simp add: mask_eq_exp_minus_1)
  have "((a AND mask 2) OR push_bit 2 b) AND mask 2 = a AND mask 2"
    by (rule bit_eqI) (auto simp: bit_simps)
  then show "((a AND 3) OR push_bit 2 b) AND 3 = a" unfolding m a .
  have "drop_bit 2 ((a AND mask 2) OR push_bit 2 b) = b AND mask 6"
    by (rule bit_eqI) (auto simp: bit_simps)
  then show "drop_bit 2 ((a AND 3) OR push_bit 2 b) = b" unfolding m b .
qed

text \<open>C35: A node that asks another for its status prints that node's status: its answer is printed with the number of
  the node, the size of its cluster, its free connections, the partner and the signal strength of its incoming
  connection, and the last eight bits of the number of connections it lost.\<close>

theorem status_answer_printed:
  assumes "m_moduleId m' = m_moduleId m" "cm_freeInConnections (w_cm w) < 4" "cm_freeOutConnections (w_cm w) < 64"
  shows "\<exists>d. SendStatus deliver E m toNode MESSAGE_TYPE_MODULE_ACTION_RESPONSE w = SendMessageToReceiver deliver E None d 19 False w \<and>
    get_receiver d = toNode \<and> Status_prints m' (received d 19 rest) 19 =
      ''{\"nodeId\":'' @ u_text (nodeId w) @ '',\"type\":\"status\",\"module\":'' @ u_text (m_moduleId m) @
      '',\"batteryInfo\":0,\"clusterSize\":'' @ u_text (scast (n_clusterSize (w_node w)) :: u32) @
      '',\"connectionLossCounter\":'' @ u_text (ucast (pc_connectionLossCounter (pconf w)) :: u8) @
      '',\"freeIn\":'' @ u_text (cm_freeInConnections (w_cm w)) @ '',\"freeOut\":'' @ u_text (cm_freeOutConnections (w_cm w)) @
      '',\"inConnectionPartner\":'' @ u_text (c_partnerId (conns w 0)) @
      '',\"inConnectionRSSI\":'' @ d_text (c_rssiAverage (conns w 0)) @ ''}'' @ EOL"
    (is "\<exists>d. _ \<and> _ \<and> _ = ?text")
proof -
  let ?c = "conns w 0"
  let ?d = "(put16 13 (c_partnerId ?c) (put16 11 (n_clusterSize (w_node w))
        (module_message MESSAGE_TYPE_MODULE_ACTION_RESPONSE (nodeId w) toNode (m_moduleId m) STATUS (e_stack E (w_trace w)))))
      (15 := c_rssiAverage ?c, 16 := (cm_freeInConnections (w_cm w) AND 3) OR push_bit 2 (cm_freeOutConnections (w_cm w)),
       17 := 0, 18 := ucast (pc_connectionLossCounter (pconf w)))"
  have "SendStatus deliver E m toNode MESSAGE_TYPE_MODULE_ACTION_RESPONSE w = SendMessageToReceiver deliver E None ?d 19 False w"
    by (simp add: SendStatus_def send_module_message_def sizeof_defs Let_def)
  moreover have "get_receiver ?d = toNode" by simp
  moreover define r where "r = received ?d 19 rest"
  then have r: "get_messageType r = MESSAGE_TYPE_MODULE_ACTION_RESPONSE" "get16 7 r = m_moduleId m" "r 10 = STATUS"
    "get_sender r = nodeId w" "get16 11 r = n_clusterSize (w_node w)" "get16 13 r = c_partnerId ?c" "r 15 = c_rssiAverage ?c"
    "r 17 = 0" "r 18 = ucast (pc_connectionLossCounter (pconf w))"
    by (simp_all add: module_message_def message_header_def message_type_defs)
  from r_def have packed: "r 16 AND 3 = cm_freeInConnections (w_cm w)" "drop_bit 2 (r 16) = cm_freeOutConnections (w_cm w)"
    using packed_bits [OF assms(2,3)] by simp_all
  have "Status_prints m' r 19 = status_report (m_moduleId m) r"
    using assms(1) by (simp add: Status_prints_def responds_def read_module_def r ALL_CONNECTIONS_def DEVICE_INFO_def STATUS_def)
  moreover have "status_report (m_moduleId m) r = ?text"
    using lengths(2) [of "nodeId w"] lengths(2) [of "m_moduleId m"] lengths(2) [of "c_partnerId ?c"] lengths(4) [of "c_rssiAverage ?c"]
      lengths(3) [of "scast (n_clusterSize (w_node w))"] lengths(1) [of "cm_freeInConnections (w_cm w)"]
      lengths(1) [of "cm_freeOutConnections (w_cm w)"] lengths(1) [of "ucast (pc_connectionLossCounter (pconf w))"]
    by (simp add: status_report_def r r(4) [simplified] uart_short TRACE_BUFFER_SIZE_def EOL_def packed u_text_zero)
  ultimately show ?thesis unfolding r_def by (intro exI [of _ ?d]) simp
qed

definition status_module_example :: Module where
  "status_module_example = \<lparr>m_kind = StatusReporterModule, m_moduleId = 2, m_configuration = \<lambda>_. 0,
     m_configurationLength = 12, m_storageSlot = 2\<rparr>"

lemma status_answer_printed_witness:
  "\<exists>d. SendStatus (\<lambda>_. Some) quiet_env status_module_example 5 MESSAGE_TYPE_MODULE_ACTION_RESPONSE zero_world =
       SendMessageToReceiver (\<lambda>_. Some) quiet_env None d 19 False zero_world \<and> get_receiver d = 5 \<and>
     Status_prints status_module_example (received d 19 (\<lambda>_. 0)) 19 =
       ''{\"nodeId\":1,\"type\":\"status\",\"module\":2,\"batteryInfo\":0,\"clusterSize\":1,\"connectionLossCounter\":0,\"freeIn\":1,\"freeOut\":3,'' @
       ''\"inConnectionPartner\":0,\"inConnectionRSSI\":0}'' @ EOL"
proof -
  have z: "nodeId zero_world = 1" "n_clusterSize (w_node zero_world) = 1" "pc_connectionLossCounter (pconf zero_world) = 0"
    "cm_freeInConnections (w_cm zero_world) = 1" "cm_freeOutConnections (w_cm zero_world) = 3"
    "c_partnerId (conns zero_world 0) = 0" "c_rssiAverage (conns zero_world 0) = 0" "m_moduleId status_module_example = 2"
    by (simp_all add: zero_world_def zero_node_def zero_nodeConfiguration_def new_ConnectionManager_def new_Connection_def
      Connection_Init_def Config_def status_module_example_def)
  have t: "u_text (1 :: u16) = ''1''" "u_text (2 :: u16) = ''2''" "u_text (1 :: u8) = ''1''" "u_text (3 :: u8) = ''3''"
    "u_text (1 :: u32) = ''1''" "d_text (0 :: i8) = ''0''"
    by (simp_all add: u_text_def d_text_def signed_decimal_def decimal.simps char_of_eq_iff)
  from status_answer_printed [of status_module_example status_module_example zero_world "\<lambda>_. Some" quiet_env 5 "\<lambda>_. 0"]
  show ?thesis by (simp add: z t u_text_zero)
qed

section \<open>A device info that was asked for\<close>

text \<open>The declared size of the answer is one byte short, and so is that of the header, so that the node that asked prints
  whatever it has behind the message as the transmission power and the type of the device.\<close>

lemma device_info_cut:
  assumes "length (e_deviceAddr E) = 8" "length (addr (e_address E (w_trace w))) = 6"
  shows "\<exists>d. SendDeviceInfo deliver E m toNode t w = SendMessageToReceiver deliver E None d 40 False (fst (call E Gap_address_get w)) \<and>
     d 40 = pc_dBmTX (pconf w) \<and> d 41 = device_type_byte (pc_deviceType (pconf w)) \<and>
     device_info_report i (received d 40 rest) = device_info_report i ((received d 40 rest)(40 := rest 40, 41 := rest 41))"
proof -
  have r: "(received d 40 rest)(40 := rest 40, 41 := rest 41) = received d 40 rest" for d by (rule ext) simp
  obtain w' err where c: "call E Gap_address_get w = (w', err)" by fastforce
  then have p: "pconf w' = pconf w" by (auto simp: call_def)
  have n: "of_nat (SIZEOF_CONN_PACKET_MODULE + (25 + SERIAL_NUMBER_LENGTH)) = (40 :: u16)" by (simp add: sizeof_defs SERIAL_NUMBER_LENGTH_def)
  show ?thesis
    unfolding SendDeviceInfo_def Let_def r c prod.case send_module_message_def fst_conv p n
    by (intro exI conjI, rule refl) (use assms in \<open>simp_all add: SERIAL_NUMBER_LENGTH_def\<close>)
qed

end
