(* ===== verification/Startup.thy ===== *)
theory Startup
  imports Reports StoredTasks
begin

text \<open>
  From reset to the main loop: the start of \<open>main\<close> (\<^verbatim>\<open>src/Main.cpp\<close>), with the SoftDevice, the storage, the
  services of GAP and GATT, the node, the timer and the buttons. The calls that set the device up are made once
  and only here, so they are kept in a list of their own. \<open>status\<close> says what they return, after those made
  before; a call that is refused ends in a reset, \<^term>\<open>None\<close>.
\<close>

section \<open>Calls\<close>

datatype conn_sec_mode = SEC_MODE_OPEN | SEC_MODE_ENC_NO_MITM

record characteristic =
  ch_uuid :: u16
  ch_uuidType :: u8
  ch_read :: bool
  ch_write :: bool
  ch_write_wo_resp :: bool
  ch_auth_signed_wr :: bool
  ch_notify :: bool
  ch_indicate :: bool
  ch_read_perm :: conn_sec_mode
  ch_write_perm :: conn_sec_mode
  ch_cccd_read_perm :: conn_sec_mode
  ch_cccd_write_perm :: conn_sec_mode
  ch_variable_length :: bool
  ch_max_len :: u16
  ch_init_len :: u16
  ch_description :: string

datatype setup_call =
  Softdevice_handler_init
| Softdevice_sys_evt_handler_set
| Ble_enable bool
| Power_dcdc_enable
| Power_mode_lowpwr
| Pstorage_init
| Pstorage_register u32 u8
| Device_name_set conn_sec_mode string
| Appearance_set_generic_computer
| Ppcp_set interval interval u16 interval
| Uuid_vs_add "u8 list"
| Service_add u16 u8
| Characteristic_add u16 characteristic
| Tx_buffer_count_get
| Timer_create_repeated
| Timer_start u32
| Button_init u8 bool
| Button_enable

type_synonym setup_status = "setup_call list \<Rightarrow> setup_call \<Rightarrow> u32"

text \<open>A call with \<open>APP_ERROR_CHECK\<close>.\<close>

definition set_up :: "setup_status \<Rightarrow> setup_call \<Rightarrow> setup_call list \<Rightarrow> setup_call list option" where
  "set_up status c log = (if status log c = 0 then Some (log @ [c]) else None)"

section \<open>The parts\<close>

definition bleInit :: "setup_status \<Rightarrow> setup_call list \<Rightarrow> setup_call list option" where
  "bleInit status = each (set_up status)
     [Softdevice_handler_init, Softdevice_sys_evt_handler_set, Ble_enable True, Power_dcdc_enable, Power_mode_lowpwr]"

text \<open>That the storage could not be registered is only logged.\<close>

definition Storage_setup :: "setup_status \<Rightarrow> setup_call list \<Rightarrow> setup_call list option" where
  "Storage_setup status log = map_option (\<lambda>log. log @ [Pstorage_register STORAGE_BLOCK_SIZE 1]) (set_up status Pstorage_init log)"

definition DEVICE_NAME :: string where "DEVICE_NAME = ''FRUITY''"

definition bleConfigureGAP :: "setup_status \<Rightarrow> setup_call list \<Rightarrow> setup_call list option" where
  "bleConfigureGAP status = each (set_up status)
     [Device_name_set SEC_MODE_OPEN DEVICE_NAME, Appearance_set_generic_computer,
      Ppcp_set (meshMinConnectionInterval Config) (meshMaxConnectionInterval Config) (meshPeripheralSlaveLatency Config)
        (meshConnectionSupervisionTimeout Config)]"

definition MESH_SERVICE_BASE_UUID128 :: "u8 list" where
  "MESH_SERVICE_BASE_UUID128 = [0x23, 0xD1, 0xBC, 0xEA, 0x5F, 0x78, 0x23, 0x15, 0xDE, 0xEF, 0x12, 0x12, 0, 0, 0, 0]"

definition MESH_CHARACTERISTIC_MAX_LENGTH :: u16 where "MESH_CHARACTERISTIC_MAX_LENGTH = 100"

definition mesh_characteristic :: "bool \<Rightarrow> u8 \<Rightarrow> characteristic" where
  "mesh_characteristic encrypted uuidType =
     (let perm = (if encrypted then SEC_MODE_ENC_NO_MITM else SEC_MODE_OPEN)
      in \<lparr>ch_uuid = MESH_SERVICE_CHARACTERISTIC_UUID, ch_uuidType = uuidType,
          ch_read = True, ch_write = True, ch_write_wo_resp = True, ch_auth_signed_wr = False, ch_notify = True,
          ch_indicate = False, ch_read_perm = perm, ch_write_perm = perm, ch_cccd_read_perm = SEC_MODE_OPEN,
          ch_cccd_write_perm = SEC_MODE_OPEN, ch_variable_length = True, ch_max_len = MESH_CHARACTERISTIC_MAX_LENGTH,
          ch_init_len = 0, ch_description = ''meshWrite''\<rparr>)"

text \<open>The number of the service within the base is never set, so it is 0, the value of a static variable. What the
  SoftDevice answers is the type of the service's number, its handle, and that of the characteristic.\<close>

record gatt_answers =
  ga_uuidType :: u8
  ga_serviceHandle :: u16
  ga_characteristicHandle :: u16

definition bleMeshServiceInit ::
    "setup_status \<Rightarrow> env \<Rightarrow> gatt_answers \<Rightarrow> setup_call list \<times> world \<Rightarrow> (setup_call list \<times> world) option" where
  "bleMeshServiceInit status E a s =
     (case s of (log, w) \<Rightarrow>
        map_option (\<lambda>log. (log, w\<lparr>w_meshService := (w_meshService w)\<lparr>ms_connectionHandle := e_conn_handle_invalid E,
            ms_serviceUuidType := ga_uuidType a, ms_sendMessageCharacteristicHandle := ga_characteristicHandle a\<rparr>\<rparr>))
          (each (set_up status) [Uuid_vs_add MESH_SERVICE_BASE_UUID128, Service_add 0 (ga_uuidType a),
             Characteristic_add (ga_serviceHandle a) (mesh_characteristic (encryptionEnabled Config) (ga_uuidType a))] log))"

text \<open>\<open>ticks\<close> is the SDK's conversion of milliseconds to ticks.\<close>

definition initTimers :: "setup_status \<Rightarrow> (u32 \<Rightarrow> u32) \<Rightarrow> setup_call list \<Rightarrow> setup_call list option" where
  "initTimers status ticks = each (set_up status) [Timer_create_repeated, Timer_start (ticks (mainTimerTickMs Config))]"

text \<open>The pin of the button is one of the board.\<close>

definition ButtonInit :: "setup_status \<Rightarrow> u8 \<Rightarrow> setup_call list \<Rightarrow> setup_call list option" where
  "ButtonInit status button1 = each (set_up status) [Button_init button1 False, Button_enable]"

section \<open>The start\<close>

text \<open>The tags that are enabled: by \<open>main\<close>, the node, its modules and the tests.\<close>

definition start_tags :: "string list" where
  "start_tags = [''NODE'', ''DATA'', ''HANDSHAKE'', ''CONN'', ''CONN_DATA''] @
     [''RETRY'', ''TC'', ''C'', ''CONN_DATA'', ''HANDSHAKE''] @
     [''MODULE'', ''DEBUGMOD'', ''MODULE'', ''STATUSMOD'', ''MODULE'', ''MODULE'', ''SCANMOD'', ''MODULE'', ''ENROLLMOD'',
      ''MODULE'', ''LIGHT_TOGGLE''] @
     [''STATES'', ''HANDSHAKE'', ''CONN'', ''ADV'', ''DISCONNECT'', ''JOIN'', ''CONN'', ''MODULE'', ''SCAN'']"

text \<open>The connection manager, which the node's constructor creates, sets up GAP and GATT and asks for the number of
  buffers; no other of these calls is made by it.\<close>

definition main_start ::
    "setup_status \<Rightarrow> env \<Rightarrow> board \<Rightarrow> u8 \<Rightarrow> (u32 \<Rightarrow> u32) \<Rightarrow> gatt_answers \<Rightarrow> u8 \<Rightarrow> mem \<Rightarrow> (nat \<Rightarrow> mem) \<Rightarrow> u8 \<Rightarrow>
       world \<times> console \<Rightarrow> (setup_call list \<times> world \<times> console) option" where
  "main_start status E bd button1 ticks a tx taskBuffer raw static s =
     (case s of (w, c) \<Rightarrow> do {
        log \<leftarrow> bleInit status [];
        log \<leftarrow> Storage_setup status log;
        log \<leftarrow> bleConfigureGAP status log;
        (log, w) \<leftarrow> bleMeshServiceInit status E a (log, new_Storage taskBuffer w);
        log \<leftarrow> set_up status Tx_buffer_count_get log;
        w \<leftarrow> new_Node E bd tx raw static w;
        log \<leftarrow> initTimers status ticks log;
        log \<leftarrow> ButtonInit status button1 log;
        Some (log, w, fold enableTag start_tags c)
      })"

section \<open>What the start comes to\<close>

definition start_calls :: "u8 \<Rightarrow> (u32 \<Rightarrow> u32) \<Rightarrow> gatt_answers \<Rightarrow> setup_call list" where
  "start_calls button1 ticks a =
     [Softdevice_handler_init, Softdevice_sys_evt_handler_set, Ble_enable True, Power_dcdc_enable, Power_mode_lowpwr,
      Pstorage_init, Pstorage_register STORAGE_BLOCK_SIZE 1,
      Device_name_set SEC_MODE_OPEN ''FRUITY'', Appearance_set_generic_computer,
      Ppcp_set (meshMinConnectionInterval Config) (meshMaxConnectionInterval Config) 0 (meshConnectionSupervisionTimeout Config),
      Uuid_vs_add MESH_SERVICE_BASE_UUID128, Service_add 0 (ga_uuidType a),
      Characteristic_add (ga_serviceHandle a) (mesh_characteristic False (ga_uuidType a)), Tx_buffer_count_get,
      Timer_create_repeated, Timer_start (ticks 200), Button_init button1 False, Button_enable]"

text \<open>No call is refused, but for the registration of the storage, whose result does not matter.\<close>

fun accepted :: "setup_status \<Rightarrow> setup_call list \<Rightarrow> setup_call list \<Rightarrow> bool" where
  "accepted status log [] \<longleftrightarrow> True"
| "accepted status log (c # cs) \<longleftrightarrow>
     ((case c of Pstorage_register _ _ \<Rightarrow> True | _ \<Rightarrow> status log c = 0) \<and> accepted status (log @ [c]) cs)"

text \<open>The node as the storage and the services leave it to its constructor.\<close>

definition before_node :: "env \<Rightarrow> gatt_answers \<Rightarrow> world \<Rightarrow> world" where
  "before_node E a w = w\<lparr>w_meshService := (w_meshService w)\<lparr>ms_connectionHandle := e_conn_handle_invalid E,
     ms_serviceUuidType := ga_uuidType a, ms_sendMessageCharacteristicHandle := ga_characteristicHandle a\<rparr>\<rparr>"

text \<open>The device starts if and only if no call is refused and the node is created; then the calls were made in exactly
  this order, and the node is the one its constructor makes of the empty storage.\<close>

lemma start_up:
  "main_start status E bd button1 ticks a tx taskBuffer raw static (w, c) =
     (if accepted status [] (start_calls button1 ticks a)
      then map_option (\<lambda>w. (start_calls button1 ticks a, w, fold enableTag start_tags c))
        (new_Node E bd tx raw static (new_Storage taskBuffer (before_node E a w)))
      else None)"
proof -
  have "bleMeshServiceInit status E a (log, new_Storage taskBuffer w) =
      map_option (\<lambda>log. (log, new_Storage taskBuffer (before_node E a w)))
        (each (set_up status) [Uuid_vs_add MESH_SERVICE_BASE_UUID128, Service_add 0 (ga_uuidType a),
           Characteristic_add (ga_serviceHandle a) (mesh_characteristic False (ga_uuidType a))] log)" for log
    by (cases w) (simp add: bleMeshServiceInit_def before_node_def new_Storage_def Config_def del: each.simps)
  then show ?thesis
    by (cases "new_Node E bd tx raw static (new_Storage taskBuffer (before_node E a w))")
      (simp_all add: main_start_def start_calls_def bleInit_def Storage_setup_def bleConfigureGAP_def initTimers_def
        ButtonInit_def set_up_def DEVICE_NAME_def Config_def)
qed

end
