(* ===== verification/Ping.thy ===== *)
theory Ping
  imports Reports
begin

text \<open>
  The module of the examples that pings a node (\<^verbatim>\<open>src_examples/PingModule.cpp\<close>). The node of this build does not
  create it; the superclass is in the theory Modules.
\<close>

definition TRIGGER_PING :: u8 where "TRIGGER_PING = 0"
definition PING_RESPONSE :: u8 where "PING_RESPONSE = 0"

definition Ping_default_config :: "u16 \<Rightarrow> mem \<Rightarrow> mem" where
  "Ping_default_config moduleId c = config_header moduleId False c"

definition ping_message :: "env \<Rightarrow> Module \<Rightarrow> nodeID \<Rightarrow> world \<Rightarrow> mem" where
  "ping_message E m targetNodeId w =
     (module_message MESSAGE_TYPE_MODULE_TRIGGER_ACTION (nodeId w) targetNodeId (m_moduleId m) TRIGGER_PING
       (e_stack E (w_trace w)))(module_data := 123)"

text \<open>\<open>None\<close> if the command is left to the superclass; \<open>ping\<close> is the module's name.\<close>

definition Ping_command :: "delivery \<Rightarrow> env \<Rightarrow> string \<Rightarrow> Module \<Rightarrow> string \<Rightarrow> string list \<Rightarrow> world \<Rightarrow> (world option \<times> bool) option" where
  "Ping_command deliver E ping m name args w =
     (if length args \<ge> 2 \<and> args ! 1 = ping \<and> name = ''pingmod''
      then Some (send_module_message deliver E (ping_message E m (of_int (atoi (args ! 0))) w) 1 True w, True)
      else None)"

definition ping_response :: "env \<Rightarrow> Module \<Rightarrow> mem \<Rightarrow> world \<Rightarrow> mem" where
  "ping_response E m data w =
     (module_message MESSAGE_TYPE_MODULE_ACTION_RESPONSE (nodeId w) (get_sender data) (m_moduleId m) PING_RESPONSE
       (e_stack E (w_trace w)))(module_data := data module_data, module_data + 1 := 111)"

definition Ping_packet :: "delivery \<Rightarrow> env \<Rightarrow> Module \<Rightarrow> mem \<Rightarrow> world \<Rightarrow> world option" where
  "Ping_packet deliver E m data w =
     (if triggers m data TRIGGER_PING then send_module_message deliver E (ping_response E m data w) 2 True w else Some w)"

text \<open>The two messages that are logged, with the tag PINGMOD.\<close>

definition Ping_logs :: "Module \<Rightarrow> mem \<Rightarrow> string" where
  "Ping_logs m data =
     (if triggers m data TRIGGER_PING then ''Ping request received with data: '' @ u_text (data module_data)
      else if responds m data PING_RESPONSE then
        ''Ping came back from '' @ u_text (get_sender data) @ '' with data '' @ u_text (data module_data) @ '', '' @
          u_text (data (module_data + 1))
      else [])"

text \<open>A ping comes back: the node that was named recognises the request and sends its answer to the node that asked,
  which recognises it. But of both the last byte is not sent: the 123 of the request and the 111 of the
  answer are what the receivers have behind the message.\<close>

lemma ping_comes_back:
  assumes "m_moduleId m' = m_moduleId m"
  shows "Ping_command deliver E ping m ''pingmod'' [node, ping] w =
      Some (SendMessageToReceiver deliver E None (ping_message E m (of_int (atoi node)) w) 11 True w, True)"
    "Ping_packet deliver' E' m' (received (ping_message E m node' w) 11 rest) w' =
      SendMessageToReceiver deliver' E' None (ping_response E' m' (received (ping_message E m node' w) 11 rest) w') 12 True w'"
    "get_receiver (ping_message E m node' w) = node'"
    "get_receiver (ping_response E' m' (received (ping_message E m node' w) 11 rest) w') = nodeId w"
    "Ping_logs m (received (ping_response E' m' (received (ping_message E m node' w) 11 rest) w') 12 rest') =
      ''Ping came back from '' @ u_text (nodeId w') @ '' with data '' @ u_text (rest 11) @ '', '' @ u_text (rest' 12)"
proof -
  let ?q = "received (ping_message E m node' w) 11 rest"
  have q: "get_messageType ?q = MESSAGE_TYPE_MODULE_TRIGGER_ACTION" "get16 7 ?q = m_moduleId m" "?q 10 = TRIGGER_PING"
    "get_sender ?q = nodeId w" "?q 11 = rest 11"
    by (simp_all add: ping_message_def module_message_def message_header_def message_type_defs module_data_def)
  show "Ping_command deliver E ping m ''pingmod'' [node, ping] w =
      Some (SendMessageToReceiver deliver E None (ping_message E m (of_int (atoi node)) w) 11 True w, True)"
    by (simp add: Ping_command_def send_module_message_def sizeof_defs)
  show "Ping_packet deliver' E' m' ?q w' = SendMessageToReceiver deliver' E' None (ping_response E' m' ?q w') 12 True w'"
    using assms by (simp add: Ping_packet_def triggers_def read_module_def q send_module_message_def sizeof_defs del: received_apply)
  show "get_receiver (ping_message E m node' w) = node'" by (simp add: ping_message_def module_data_def)
  show "get_receiver (ping_response E' m' ?q w') = nodeId w"
    using q(4) by (simp add: ping_response_def module_data_def del: received_apply get_received)
  let ?r = "received (ping_response E' m' ?q w') 12 rest'"
  have "get_messageType ?r = MESSAGE_TYPE_MODULE_ACTION_RESPONSE" "get16 7 ?r = m_moduleId m" "?r 10 = PING_RESPONSE"
    "get_sender ?r = nodeId w'" "?r 11 = rest 11" "?r 12 = rest' 12"
    using q(5) assms by (simp_all add: ping_response_def module_message_def message_header_def message_type_defs module_data_def)
  then show "Ping_logs m ?r = ''Ping came back from '' @ u_text (nodeId w') @ '' with data '' @ u_text (rest 11) @ '', '' @ u_text (rest' 12)"
    by (simp add: Ping_logs_def triggers_def responds_def read_module_def message_type_defs module_data_def del: received_apply)
qed

end
