(* ===== verification/Uart.thy ===== *)
theory Uart
  imports Terminal
begin

text \<open>
  The UART below the terminal and the NFC reader (\<^verbatim>\<open>src/nrf/simple_uart.c\<close>, the end of \<^verbatim>\<open>src/nrf/pn532.c\<close>): the
  loops that poll its events, its configuration, its interrupt. And what polling means for the terminal.
\<close>

section \<open>Receiving with a time limit\<close>

text \<open>\<open>ready n\<close> says whether \<open>EVENTS_RXDRDY\<close> is set when it is polled for the \<open>n\<close>th time, counted from 0, a
  millisecond after the time before. The result is \<open>ret\<close> and what is left in \<open>timeout_ms\<close>.\<close>

function await :: "(nat \<Rightarrow> bool) \<Rightarrow> nat \<Rightarrow> int \<Rightarrow> bool \<times> int" where
  "await ready n timeout_ms =
     (if ready n then (True, timeout_ms)
      else if timeout_ms \<ge> 0 then await ready (Suc n) (timeout_ms - 1) else (False, timeout_ms - 1))"
  by pat_completeness auto
termination by (relation "measure (\<lambda>(_, _, t). nat (t + 1))") auto

declare await.simps [simp del]

text \<open>The result, what is at \<open>rx_data\<close> after it, and whether the byte was taken from the UART.\<close>

definition simple_uart_get_with_timeout :: "(nat \<Rightarrow> bool) \<Rightarrow> int \<Rightarrow> u8 \<Rightarrow> u8 \<Rightarrow> bool \<times> u8 \<times> bool" where
  "simple_uart_get_with_timeout ready timeout_ms RXD rx_data =
     (case await ready 0 timeout_ms of (ret, t) \<Rightarrow> if t \<ge> 0 then (ret, RXD, True) else (ret, rx_data, False))"

lemma await_ready:
  assumes "ready (n + k)" "\<forall>i<k. \<not> ready (n + i)" "int k \<le> t + 1"
  shows "await ready n t = (True, t - int k)"
  using assms
proof (induction k arbitrary: n t)
  case 0
  then show ?case by (simp add: await.simps)
next
  case (Suc k)
  then have "\<not> ready n" by force
  moreover have "await ready (Suc n) (t - 1) = (True, t - 1 - int k)"
    using Suc.prems by (intro Suc.IH) auto
  ultimately show ?case using Suc.prems(3) by (subst await.simps) auto
qed

lemma await_timeout:
  assumes "\<forall>i \<le> nat (t + 1). \<not> ready (n + i)" "- 1 \<le> t"
  shows "await ready n t = (False, - 2)"
  using assms
proof (induction "nat (t + 1)" arbitrary: n t)
  case 0
  then show ?case by (subst await.simps) auto
next
  case (Suc k)
  have "await ready (Suc n) (t - 1) = (False, - 2)"
  proof (rule Suc.hyps(1))
    show "\<forall>i \<le> nat (t - 1 + 1). \<not> ready (Suc n + i)"
    proof (intro allI impI)
      fix i assume "i \<le> nat (t - 1 + 1)"
      then show "\<not> ready (Suc n + i)" using Suc.prems(1) [rule_format, of "Suc i"] Suc.hyps(2) by simp
    qed
  qed (use Suc.hyps(2) in auto)
  moreover have "\<not> ready n" using Suc.prems(1) by force
  ultimately show ?case using Suc.hyps(2) by (subst await.simps) auto
qed

text \<open>A byte that is there in time is received. If there is none in all the time, that is reported. But a byte that
  arrives in the last millisecond is reported as received, while it is neither stored nor taken.\<close>

lemma get_with_timeout:
  assumes "0 \<le> t"
  shows "ready k \<Longrightarrow> \<forall>i<k. \<not> ready i \<Longrightarrow> int k \<le> t \<Longrightarrow> simple_uart_get_with_timeout ready t b rx = (True, b, True)"
    "\<forall>i \<le> nat (t + 1). \<not> ready i \<Longrightarrow> simple_uart_get_with_timeout ready t b rx = (False, rx, False)"
    "ready (nat (t + 1)) \<Longrightarrow> \<forall>i < nat (t + 1). \<not> ready i \<Longrightarrow> simple_uart_get_with_timeout ready t b rx = (True, rx, False)"
  using await_ready [of ready 0 k t] await_timeout [of t ready 0] await_ready [of ready 0 "nat (t + 1)" t] assms
  by (simp_all add: simple_uart_get_with_timeout_def)

text \<open>The routine without a limit; a UART that was given up answers with zeros.\<close>

definition simple_uart_get :: "bool \<Rightarrow> u8 list \<Rightarrow> (u8 \<times> u8 list) option" where
  "simple_uart_get disableUART input =
     (if disableUART then Some (0, input) else case input of [] \<Rightarrow> None | b # input \<Rightarrow> Some (b, input))"

section \<open>Sending\<close>

text \<open>The transmitter is polled until it is ready or has been polled too often; then the UART is disabled.\<close>

definition MAX_POLLS :: nat where "MAX_POLLS = 1600000 * 2"

function put_wait :: "(nat \<Rightarrow> bool) \<Rightarrow> nat \<Rightarrow> bool" where
  "put_wait ready counter =
     (if ready counter then True else if counter + 1 > MAX_POLLS then False else put_wait ready (counter + 1))"
  by pat_completeness auto
termination by (relation "measure (\<lambda>(_, c). MAX_POLLS - c)") auto

declare put_wait.simps [simp del]

lemma put_wait_iff:
  "put_wait ready c \<longleftrightarrow> (\<exists>k. c \<le> k \<and> k \<le> max c MAX_POLLS \<and> ready k)"
proof (induction ready c rule: put_wait.induct)
  case (1 ready c)
  show ?case
  proof (cases "ready c \<or> c + 1 > MAX_POLLS")
    case True
    then show ?thesis by (subst put_wait.simps) (auto intro: exI [of _ c] dest: le_antisym)
  next
    case False
    then have "put_wait ready c \<longleftrightarrow> put_wait ready (c + 1)" by (subst put_wait.simps) simp
    also have "\<dots> \<longleftrightarrow> (\<exists>k. c + 1 \<le> k \<and> k \<le> max (c + 1) MAX_POLLS \<and> ready k)" using 1 False by simp
    also have "\<dots> \<longleftrightarrow> (\<exists>k. c \<le> k \<and> k \<le> max c MAX_POLLS \<and> ready k)"
    proof -
      have "max (c + 1) MAX_POLLS = MAX_POLLS" "max c MAX_POLLS = MAX_POLLS" using False by simp_all
      moreover have "c + 1 \<le> k \<longleftrightarrow> c \<le> k" if "ready k" for k using that False le_eq_less_or_eq [of c k] by auto
      ultimately show ?thesis by metis
    qed
    finally show ?thesis .
  qed
qed

section \<open>The configuration\<close>

datatype uart_register = PSELTXD | PSELRXD | PSELCTS | PSELRTS | REG_CONFIG | BAUDRATE | ENABLE | EVENTS_RXDRDY | EVENTS_TXDRDY
  | TASKS_STARTTX | TASKS_STARTRX | INTENCLR | INTENSET

datatype uart_action = Cfg_output u8 | Cfg_input_nopull u8 | Cfg_input_pullup u8 | Set uart_register u32
  | NVIC_ClearPending | NVIC_SetPriority_low | NVIC_Enable

text \<open>The constants of the chip.\<close>

record uart_constants =
  uk_hwfc_enabled :: u32
  uk_hwfc_pos :: nat
  uk_parity_excluded :: u32
  uk_parity_pos :: nat
  uk_enable_enabled :: u32
  uk_enable_pos :: nat
  uk_baud38400 :: u32
  uk_baud115200 :: u32
  uk_rxdrdy_set :: u32
  uk_rxdrdy_pos :: nat
  uk_rxdrdy_msk :: u32
  uk_txdrdy_msk :: u32

definition simple_uart_config :: "uart_constants \<Rightarrow> u8 \<Rightarrow> u8 \<Rightarrow> u8 \<Rightarrow> u8 \<Rightarrow> bool \<Rightarrow> uart_action list" where
  "simple_uart_config K rts_pin_number txd_pin_number cts_pin_number rxd_pin_number hwfc =
     [Cfg_output txd_pin_number, Cfg_input_nopull rxd_pin_number, Set PSELTXD (ucast txd_pin_number),
      Set PSELRXD (ucast rxd_pin_number)] @
     (if hwfc then [Cfg_output rts_pin_number, Cfg_input_nopull cts_pin_number, Set PSELCTS (ucast cts_pin_number),
        Set PSELRTS (ucast rts_pin_number), Set REG_CONFIG (push_bit (uk_hwfc_pos K) (uk_hwfc_enabled K))] else []) @
     [Set BAUDRATE (uk_baud38400 K), Set ENABLE (push_bit (uk_enable_pos K) (uk_enable_enabled K)),
      Set TASKS_STARTTX 1, Set TASKS_STARTRX 1, Set EVENTS_RXDRDY 0]"

text \<open>The flow control is cleared in the value that was written to the register before.\<close>

definition uart_115200_config :: "uart_constants \<Rightarrow> u8 \<Rightarrow> u8 \<Rightarrow> uart_action list" where
  "uart_115200_config K txd_pin_number rxd_pin_number =
     (let parity = push_bit (uk_parity_pos K) (uk_parity_excluded K)
      in [Cfg_output txd_pin_number, Cfg_input_pullup rxd_pin_number, Set PSELTXD (ucast txd_pin_number),
          Set PSELRXD (ucast rxd_pin_number), Set BAUDRATE (uk_baud115200 K), Set REG_CONFIG parity,
          Set ENABLE (push_bit (uk_enable_pos K) (uk_enable_enabled K)), Set EVENTS_RXDRDY 0, Set EVENTS_TXDRDY 0,
          Set REG_CONFIG (parity AND NOT (push_bit (uk_hwfc_pos K) (uk_hwfc_enabled K))), Set TASKS_STARTTX 1, Set TASKS_STARTRX 1,
          Set INTENCLR 0xFFFFFFFF, Set INTENSET (push_bit (uk_rxdrdy_pos K) (uk_rxdrdy_set K)),
          NVIC_ClearPending, NVIC_SetPriority_low, NVIC_Enable])"

section \<open>The interrupt\<close>

record uart_events =
  ue_rxdrdy :: bool
  ue_txdrdy :: bool
  ue_intenset :: u32
  ue_rxd :: u8

text \<open>\<open>m_event_handler\<close> is the handler that was given to the configuration; errors are not handled.\<close>

definition UART0_IRQHandler :: "uart_constants \<Rightarrow> (u8 \<Rightarrow> 's \<Rightarrow> 's) \<Rightarrow> uart_events \<times> 's \<Rightarrow> uart_events \<times> 's" where
  "UART0_IRQHandler K m_event_handler us =
     (let (u, s) = us;
          (u, s) = (if ue_rxdrdy u \<and> ue_intenset u AND uk_rxdrdy_msk K \<noteq> 0
                    then (u\<lparr>ue_rxdrdy := False\<rparr>, m_event_handler (ue_rxd u) s) else (u, s))
      in (if ue_txdrdy u \<and> ue_intenset u AND uk_txdrdy_msk K \<noteq> 0 then u\<lparr>ue_txdrdy := False\<rparr> else u, s))"

text \<open>A byte that arrived is handed over once, also if the interrupt comes again before the next byte.\<close>

lemma byte_handed_over_once:
  assumes "ue_rxdrdy u" "ue_intenset u AND uk_rxdrdy_msk K \<noteq> 0"
  shows "snd (UART0_IRQHandler K h (UART0_IRQHandler K h (u, s))) = h (ue_rxd u) s"
  using assms by (simp add: UART0_IRQHandler_def Let_def)

section \<open>The terminal polls\<close>

text \<open>\<open>PollUART\<close> with the time at which the first key arrives: \<open>ready\<close> at its two polls. If the key was not taken it is
  read again, as the first that follows.\<close>

definition PollUART_timed ::
    "(nat \<Rightarrow> bool) \<Rightarrow> 's listener list \<Rightarrow> bool \<Rightarrow> u8 list \<Rightarrow> mem \<Rightarrow> 's \<Rightarrow> (mem \<times> u8 list \<times> 's \<times> outcome option) option" where
  "PollUART_timed ready listeners echo input readBuffer s =
     (case simple_uart_get_with_timeout ready 0 (hd input) 0 of
        (False, b, taken) \<Rightarrow> Some (readBuffer(0 := b), input, s, None)
      | (True, b, taken) \<Rightarrow> do {
          (readBuffer, input, _) \<leftarrow>
            ReadlineUART echo (if taken then tl input else input) (readBuffer(0 := b)) READ_BUFFER_LENGTH 1;
          line \<leftarrow> c_string readBuffer 250;
          (s, r) \<leftarrow> run_line listeners line s;
          Some (readBuffer, input, s, Some r)
        })"

lemma key_on_time:
  assumes "ready 0" "input \<noteq> []"
  shows "PollUART_timed ready listeners echo input readBuffer s = PollUART listeners echo input readBuffer s"
  using assms get_with_timeout(1) [of 0 ready 0 "hd input" 0]
  by (cases input) (simp_all add: PollUART_timed_def PollUART_def)

text \<open>A key that arrives while the terminal waits loses the line that begins with it: the line in the buffer begins with a
  zero, so an empty command is run.\<close>

lemma late_key_loses_line:
  assumes "\<not> ready 0" "ready 1" "CR \<notin> set cs" "BACKSPACE \<notin> set cs" "length cs < 249"
  shows "\<exists>m. PollUART_timed ready listeners echo (cs @ CR # rest) readBuffer s =
    map_option (\<lambda>(s, r). (m, rest, s, Some r)) (run_line listeners [] s)"
proof -
  have e: "foldl edit line cs' = line @ cs'" if "BACKSPACE \<notin> set cs'" for line cs'
    using that by (induction cs' arbitrary: line) (auto simp: edit_def)
  have b: "BACKSPACE \<notin> set (take k cs)" for k using assms(4) by (auto dest: in_set_takeD)
  have "\<exists>m' out'. read_line echo READ_BUFFER_LENGTH (cs @ CR # rest) (readBuffer(0 := 0)) (of_nat (length [0 :: u8])) [] =
      Some (m', rest, out') \<and> bytes_at m' 0 (length (foldl edit [0] cs)) = foldl edit [0] cs \<and> m' (length (foldl edit [0] cs)) = 0"
    using assms(5) by (intro read_line_edits assms(3)) (simp_all add: e [OF b] bytes_at_def)
  then obtain m out where m: "ReadlineUART echo (cs @ CR # rest) (readBuffer(0 := 0)) READ_BUFFER_LENGTH 1 = Some (m, rest, out)"
    and z: "bytes_at m 0 (length (foldl edit [0] cs)) = foldl edit [0] cs"
    by (auto simp: ReadlineUART_def)
  from z have "m 0 = 0" by (auto simp: e [OF assms(4)] bytes_at_eq_iff)
  then have "bytes_at m 0 250 = 0 # bytes_at m 1 249" using bytes_at_append [of m 0 1 249] by (simp add: bytes_at_def)
  then have "c_string m 250 = Some []" by (simp add: c_string_def)
  then show ?thesis
    using get_with_timeout(3) [of 0 ready] assms(1,2) m
    by (intro exI [of _ m], cases "run_line listeners [] s") (auto simp: PollUART_timed_def)
qed

end
